(* ===== verification/KA_Prelude.thy ===== *)
theory KA_Prelude
  imports Complex_Main "HOL-Library.Word" "HOL-Library.AList" "HOL-Library.Char_ord"
    "HOL-Library.List_Lexorder"
begin

text \<open>
  Shared vocabulary of the development: the types that stand for the machine-level types of the
  Go sources, decimal formatting (\<open>strconv.FormatInt\<close>, \<open>fmt\<close>'s \<open>%d\<close>), and generic lemmas on
  association lists and maps.

  A Go \<open>string\<close> and a \<open>[]byte\<close> are both a list of bytes, modelled as HOL's \<^typ>\<open>string\<close>; the order
  on \<^typ>\<open>string\<close> that \<open>List_Lexorder\<close> and \<open>Char_ord\<close> declare is the byte-wise lexicographic order
  that \<open>sort.Strings\<close> uses. A \<open>time.Time\<close> is the instant it denotes, counted in nanoseconds from Go's
  zero time (so \<open>IsZero\<close> is equality with 0, and \<open>Equal\<close>, \<open>Before\<close>, \<open>After\<close> are \<open>=\<close>, \<open><\<close>, \<open>>\<close>); a
  \<open>time.Duration\<close> is a number of nanoseconds. An \<open>int64\<close> whose wrap-around matters is a
  \<^typ>\<open>64 word\<close> read with \<^const>\<open>sint\<close>.

  A Go map that is ranged over is an association list with distinct keys: its order is the order in
  which this run happens to range over the map, and every theorem is stated for all such lists.
\<close>

type_synonym gtime = int
type_synonym duration = int
type_synonym int64 = "64 word"

named_theorems crud_intros \<open>introduction rules for the storage contracts\<close>
named_theorems ctl_defs \<open>definitions of the controller steps\<close>

abbreviation (input) second :: duration where "second \<equiv> 1000000000"
abbreviation (input) millisecond :: duration where "millisecond \<equiv> 1000000"

section \<open>Decimal formatting\<close>

definition digit_char :: "nat \<Rightarrow> char" where
  "digit_char n = char_of (48 + n)"

fun show_nat :: "nat \<Rightarrow> string" where
  "show_nat n = (if n < 10 then [digit_char n] else show_nat (n div 10) @ [digit_char (n mod 10)])"

declare show_nat.simps [simp del]

definition show_int :: "int \<Rightarrow> string" where
  "show_int i = (if i < 0 then CHR ''-'' # show_nat (nat (- i)) else show_nat (nat i))"

definition read_digits :: "string \<Rightarrow> nat" where
  "read_digits s = foldl (\<lambda>a c. 10 * a + (of_char c - 48)) 0 s"

lemma of_digit_char: "n < 10 \<Longrightarrow> of_char (digit_char n) = 48 + n"
  by (simp add: digit_char_def of_char_of)

lemma read_show_nat: "read_digits (show_nat n) = n"
proof (induction n rule: show_nat.induct)
  case (1 n)
  show ?case
  proof (cases "n < 10")
    case True
    then show ?thesis
      by (simp add: show_nat.simps [of n] read_digits_def of_digit_char)
  next
    case False
    with 1 have "read_digits (show_nat (n div 10)) = n div 10" by simp
    with False show ?thesis
      by (simp add: show_nat.simps [of n] read_digits_def of_digit_char)
  qed
qed

lemma show_nat_inject [simp]: "show_nat m = show_nat n \<longleftrightarrow> m = n"
  by (metis read_show_nat)

lemma show_nat_digits: "c \<in> set (show_nat n) \<Longrightarrow> 48 \<le> (of_char c :: nat) \<and> (of_char c :: nat) < 58"
proof (induction n rule: show_nat.induct)
  case (1 n)
  then show ?case
    by (cases "n < 10") (auto simp: show_nat.simps [of n] of_digit_char)
qed

lemma show_nat_not_minus: "CHR ''-'' \<notin> set (show_nat n)"
  using show_nat_digits by fastforce

lemma show_nat_nonempty [simp]: "show_nat n \<noteq> []"
  by (subst show_nat.simps) simp

lemma show_int_inject [simp]: "show_int i = show_int j \<longleftrightarrow> i = j"
proof
  assume eq: "show_int i = show_int j"
  have "hd (show_nat n) \<noteq> CHR ''-''" for n
    using show_nat_not_minus [of n] hd_in_set [OF show_nat_nonempty, of n] by metis
  then have "CHR ''-'' # xs \<noteq> show_nat n" for xs n
    by (metis list.sel(1))
  moreover from this have "show_nat n \<noteq> CHR ''-'' # xs" for xs n
    by metis
  ultimately show "i = j"
    using eq by (auto simp: show_int_def split: if_splits)
qed simp

lemma sint_inject64 [simp]: "sint (v :: int64) = sint w \<longleftrightarrow> v = w"
  by (auto intro: signed_word_eqI)

lemma card_image_set_le: "card (f ` set xs) \<le> length xs"
  by (metis card_length length_map set_map)

section \<open>Association lists\<close>

lemma distinct_fst_update [simp, intro]:
  "distinct (map fst xs) \<Longrightarrow> distinct (map fst (AList.update k v xs))"
  by (rule distinct_update)

lemma distinct_fst_delete [simp, intro]:
  "distinct (map fst xs) \<Longrightarrow> distinct (map fst (AList.delete k xs))"
  by (rule distinct_delete)

lemma map_of_update [simp]: "map_of (AList.update k v xs) = (map_of xs)(k \<mapsto> v)"
  by (rule update_conv')

lemma map_of_delete [simp]: "map_of (AList.delete k xs) = (map_of xs)(k := None)"
  by (rule delete_conv')

lemma map_of_None_iff: "map_of xs k = None \<longleftrightarrow> k \<notin> fst ` set xs"
  by (rule map_of_eq_None_iff)

lemma map_of_Some_iff_mem:
  "distinct (map fst xs) \<Longrightarrow> map_of xs k = Some v \<longleftrightarrow> (k, v) \<in> set xs"
  by (rule map_of_eq_Some_iff)

section \<open>Options and fallible results\<close>

text \<open>
  A Go call that returns \<open>(T, error)\<close> and acts on the outside world is a function from a world
  to a pair of a sum (\<open>Inl\<close> the error, \<open>Inr\<close> the value) and the next world; a call that returns only
  an \<open>error\<close> gives an \<open>option\<close> (\<open>None\<close> is nil).
\<close>

fun first_some :: "'a option list \<Rightarrow> 'a option" where
  "first_some [] = None"
| "first_some (Some x # _) = Some x"
| "first_some (None # xs) = first_some xs"

lemma first_some_None: "first_some xs = None \<longleftrightarrow> (\<forall>x \<in> set xs. x = None)"
  by (induction xs rule: first_some.induct) auto

lemma first_some_Some: "first_some xs = Some x \<Longrightarrow> Some x \<in> set xs"
  by (induction xs rule: first_some.induct) auto

end
