(* ===== verification/GoErrors.thy ===== *)
theory GoErrors
  imports KA_Prelude
begin

text \<open>
  Go's error values: the sentinels of \<open>internal/database/errors.go\<close>, \<open>http.ErrServerClosed\<close>, the wrapping done with
  \<open>fmt.Errorf("... %w")\<close>, \<open>errors.Join\<close>, and the walk over the wrapped errors that \<open>errors.Is\<close> and
  \<open>errors.As\<close> make. The two error types of libraries that the code inspects, apimachinery's
  \<open>StatusError\<close> and the SDK's \<open>ConditionalCheckFailedException\<close>, are constructors that carry the
  fields the code reads and the text their \<open>Error\<close> method returns.
\<close>

datatype go_error =
    ErrNotFound
  | ErrPreconditionFailed
  | ErrAlreadyExists
  | ErrServerClosed
  | ErrorString string
  | WrapError string go_error
  | JoinError "go_error list"
  | PreCheckError go_error
  | StatusError int string
  | ConditionalCheckFailedException string

text \<open>\<open>Error()\<close>: \<open>fmt.Errorf\<close> puts the prefix before the wrapped text, \<open>errors.Join\<close> separates the
  texts with newlines, a \<open>PreCheckError\<close> shows the error it holds.\<close>

fun join_lines :: "string list \<Rightarrow> string" where
  "join_lines [] = []"
| "join_lines [s] = s"
| "join_lines (s # t # ss) = s @ CHR 0x0A # join_lines (t # ss)"

primrec error_text :: "go_error \<Rightarrow> string" where
  "error_text ErrNotFound = ''not found''"
| "error_text ErrPreconditionFailed = ''precondition failed''"
| "error_text ErrAlreadyExists = ''already exists''"
| "error_text ErrServerClosed = ''http: Server closed''"
| "error_text (ErrorString s) = s"
| "error_text (WrapError p e) = p @ error_text e"
| "error_text (JoinError es) = join_lines (map error_text es)"
| "error_text (PreCheckError e) = error_text e"
| "error_text (StatusError c m) = m"
| "error_text (ConditionalCheckFailedException m) = m"

text \<open>\<open>errors.As\<close> (and \<open>errors.Is\<close>) look at the error itself, then at what it unwraps to, the
  members of a join from left to right.\<close>

primrec errors_as :: "(go_error \<Rightarrow> 'a option) \<Rightarrow> go_error \<Rightarrow> 'a option" where
  "errors_as f ErrNotFound = f ErrNotFound"
| "errors_as f ErrPreconditionFailed = f ErrPreconditionFailed"
| "errors_as f ErrAlreadyExists = f ErrAlreadyExists"
| "errors_as f ErrServerClosed = f ErrServerClosed"
| "errors_as f (ErrorString s) = f (ErrorString s)"
| "errors_as f (WrapError p e) =
     (case f (WrapError p e) of Some x \<Rightarrow> Some x | None \<Rightarrow> errors_as f e)"
| "errors_as f (JoinError es) =
     (case f (JoinError es) of Some x \<Rightarrow> Some x | None \<Rightarrow> first_some (map (errors_as f) es))"
| "errors_as f (PreCheckError e) =
     (case f (PreCheckError e) of Some x \<Rightarrow> Some x | None \<Rightarrow> errors_as f e)"
| "errors_as f (StatusError c m) = f (StatusError c m)"
| "errors_as f (ConditionalCheckFailedException m) = f (ConditionalCheckFailedException m)"

definition errors_is :: "go_error \<Rightarrow> go_error \<Rightarrow> bool" where
  "errors_is err target = (errors_as (\<lambda>e. if e = target then Some () else None) err \<noteq> None)"

definition errors_join :: "go_error option list \<Rightarrow> go_error option" where
  "errors_join es =
     (case concat (map (\<lambda>e. case e of None \<Rightarrow> [] | Some x \<Rightarrow> [x]) es) of
        [] \<Rightarrow> None
      | x # xs \<Rightarrow> Some (JoinError (x # xs)))"

definition IsNotFoundError :: "go_error \<Rightarrow> bool" where
  "IsNotFoundError err = errors_is err ErrNotFound"

definition IsPreconditionFailedError :: "go_error \<Rightarrow> bool" where
  "IsPreconditionFailedError err = errors_is err ErrPreconditionFailed"

definition IsAlreadyExistsError :: "go_error \<Rightarrow> bool" where
  "IsAlreadyExistsError err = errors_is err ErrAlreadyExists"

definition isConditionalCheckFailed :: "go_error \<Rightarrow> bool" where
  "isConditionalCheckFailed err =
     (errors_as (\<lambda>e. case e of ConditionalCheckFailedException m \<Rightarrow> Some m | _ \<Rightarrow> None) err \<noteq> None)"

lemmas db_error_defs = IsNotFoundError_def IsPreconditionFailedError_def IsAlreadyExistsError_def

lemma errors_is_wrap [simp]:
  "errors_is (WrapError p e) ErrNotFound = errors_is e ErrNotFound"
  "errors_is (WrapError p e) ErrPreconditionFailed = errors_is e ErrPreconditionFailed"
  "errors_is (WrapError p e) ErrAlreadyExists = errors_is e ErrAlreadyExists"
  by (simp_all add: errors_is_def)

lemma db_error_wrap [simp]:
  "IsNotFoundError (WrapError p e) = IsNotFoundError e"
  "IsPreconditionFailedError (WrapError p e) = IsPreconditionFailedError e"
  "IsAlreadyExistsError (WrapError p e) = IsAlreadyExistsError e"
  by (simp_all add: db_error_defs)

lemma errors_is_atom [simp]:
  "errors_is ErrNotFound t = (t = ErrNotFound)"
  "errors_is ErrPreconditionFailed t = (t = ErrPreconditionFailed)"
  "errors_is ErrAlreadyExists t = (t = ErrAlreadyExists)"
  "errors_is ErrServerClosed t = (t = ErrServerClosed)"
  "errors_is (ErrorString s) t = (t = ErrorString s)"
  "errors_is (StatusError c m) t = (t = StatusError c m)"
  "errors_is (ConditionalCheckFailedException m) t = (t = ConditionalCheckFailedException m)"
  by (auto simp: errors_is_def)

lemma db_error_sentinels [simp]:
  "IsNotFoundError ErrNotFound" "\<not> IsNotFoundError ErrPreconditionFailed"
  "\<not> IsNotFoundError ErrAlreadyExists" "\<not> IsNotFoundError (ErrorString s)"
  "IsPreconditionFailedError ErrPreconditionFailed" "\<not> IsPreconditionFailedError ErrNotFound"
  "\<not> IsPreconditionFailedError ErrAlreadyExists" "\<not> IsPreconditionFailedError (ErrorString s)"
  "IsAlreadyExistsError ErrAlreadyExists" "\<not> IsAlreadyExistsError ErrNotFound"
  "\<not> IsAlreadyExistsError ErrPreconditionFailed" "\<not> IsAlreadyExistsError (ErrorString s)"
  by (simp_all add: db_error_defs)

text \<open>An error that a library made wraps none of this repository's sentinels.\<close>

definition library_error :: "go_error \<Rightarrow> bool" where
  "library_error e \<longleftrightarrow>
     \<not> IsNotFoundError e \<and> \<not> IsPreconditionFailedError e \<and> \<not> IsAlreadyExistsError e"

lemma library_error_wrap [simp]: "library_error (WrapError p e) = library_error e"
  by (simp add: library_error_def)

lemma library_error_string [simp]: "library_error (ErrorString s)"
  by (simp add: library_error_def)

lemma errors_join_None [simp]: "errors_join [a, b] = None \<longleftrightarrow> a = None \<and> b = None"
  by (auto simp: errors_join_def split: option.splits)

lemma errors_as_join_member:
  assumes "e \<in> set es" and "errors_as f e \<noteq> None"
  shows "errors_as f (JoinError es) \<noteq> None"
proof -
  have "first_some (map (errors_as f) es) \<noteq> None"
    using assms by (auto simp: first_some_None simp del: not_None_eq)
  then show ?thesis by (simp split: option.split)
qed

text \<open>A joined error is every sentinel that one of its members is.\<close>

lemma errors_is_joined:
  assumes "errors_join es = Some j" and "Some e \<in> set es" and "errors_is e t"
  shows "errors_is j t"
proof -
  define xs where "xs = concat (map (\<lambda>e. case e of None \<Rightarrow> [] | Some x \<Rightarrow> [x]) es)"
  from assms(1) have j: "j = JoinError xs"
    by (auto simp: errors_join_def xs_def split: list.splits)
  have "e \<in> set xs" using assms(2) by (force simp: xs_def)
  then show ?thesis
    using assms(3) unfolding errors_is_def j by (rule errors_as_join_member)
qed

end
