(* ===== verification/DesireTypes.thy ===== *)
theory DesireTypes
  imports GoErrors
begin

text \<open>
  The data model of \<open>api/kubeapplier\<close> and the work-queue keys of \<open>pkg/controllers/keys\<close>.

  The embedded struct \<open>DynamoDBMetadata\<close> is the parent record of \<open>ApplyDesire\<close> and \<open>ReadDesire\<close>, so
  the generic Go code that reaches it through \<open>DynamoDBMetadataAccessor\<close> works on
  \<open>'a DynamoDBMetadata_scheme\<close>. A pointer that may be nil is an \<open>option\<close>; a slice that may be nil
  is a list, nil and empty being the same value to every reader. The dictionary of the four
  KubeContent accessors that the generic CRUD code needs is the record \<open>KubeContentAccessor\<close>,
  and its contract is the locale \<open>desire_accessors\<close>, interpreted on both desire types.
\<close>

section \<open>Metadata, references, conditions\<close>

record DynamoDBMetadata =
  DocumentID :: string
  Version :: int64
  UpdateTime :: gtime
  CreateTime :: gtime

record ResourceReference =
  rrGroup :: string
  rrVersion :: string
  rrResource :: string
  rrNamespace :: string
  rrName :: string

record RawExtension =
  Raw :: string

record Condition =
  cType :: string
  cStatus :: string
  cReason :: string
  cMessage :: string
  cLastTransitionTime :: gtime

definition ConditionTypeSuccessful :: string where "ConditionTypeSuccessful = ''Successful''"
definition ConditionTypeDegraded :: string where "ConditionTypeDegraded = ''Degraded''"

definition ConditionReasonKubeAPIError :: string where
  "ConditionReasonKubeAPIError = ''KubeAPIError''"
definition ConditionReasonPreCheckFailed :: string where
  "ConditionReasonPreCheckFailed = ''PreCheckFailed''"
definition ConditionReasonWaitingForDeletion :: string where
  "ConditionReasonWaitingForDeletion = ''WaitingForDeletion''"
definition ConditionReasonNoErrors :: string where "ConditionReasonNoErrors = ''NoErrors''"
definition ConditionReasonFailed :: string where "ConditionReasonFailed = ''Failed''"

abbreviation ConditionTrue :: string where "ConditionTrue \<equiv> ''True''"
abbreviation ConditionFalse :: string where "ConditionFalse \<equiv> ''False''"

lemmas condition_consts = ConditionTypeSuccessful_def ConditionTypeDegraded_def
  ConditionReasonKubeAPIError_def ConditionReasonPreCheckFailed_def
  ConditionReasonWaitingForDeletion_def ConditionReasonNoErrors_def ConditionReasonFailed_def

lemma condition_types_distinct [simp]:
  "ConditionTypeSuccessful \<noteq> ConditionTypeDegraded"
  "ConditionTypeDegraded \<noteq> ConditionTypeSuccessful"
  by (simp_all add: condition_consts)

lemma condition_reasons_distinct [simp]:
  "ConditionReasonKubeAPIError \<noteq> ConditionReasonPreCheckFailed"
  "ConditionReasonPreCheckFailed \<noteq> ConditionReasonKubeAPIError"
  "ConditionReasonWaitingForDeletion \<noteq> ConditionReasonKubeAPIError"
  "ConditionReasonWaitingForDeletion \<noteq> ConditionReasonPreCheckFailed"
  "ConditionReasonNoErrors \<noteq> ConditionReasonWaitingForDeletion"
  "ConditionReasonWaitingForDeletion \<noteq> ConditionReasonNoErrors"
  by (simp_all add: condition_consts)

section \<open>The two desire types\<close>

type_synonym ApplyDesireType = string

definition ApplyDesireTypeServerSideApply :: ApplyDesireType where
  "ApplyDesireTypeServerSideApply = ''ServerSideApply''"

definition ApplyDesireTypeDelete :: ApplyDesireType where
  "ApplyDesireTypeDelete = ''Delete''"

lemmas apply_type_consts = ApplyDesireTypeServerSideApply_def ApplyDesireTypeDelete_def

record ServerSideApplyConfig =
  ssaKubeContent :: "RawExtension option"

record ApplyDesireSpec =
  asManagementCluster :: string
  asClusterID :: string
  asNodePoolName :: string
  asType :: ApplyDesireType
  asTargetItem :: ResourceReference
  asServerSideApply :: "ServerSideApplyConfig option"

record ApplyDesireStatus =
  asConditions :: "Condition list"
  asObservedDesireUpdateTime :: gtime
  asAppliedResourceGeneration :: int64

record ApplyDesire = DynamoDBMetadata +
  adSpec :: ApplyDesireSpec
  adStatus :: ApplyDesireStatus

record ReadDesireSpec =
  rsManagementCluster :: string
  rsClusterID :: string
  rsNodePoolName :: string
  rsTargetItem :: ResourceReference

record ReadDesireStatus =
  rsConditions :: "Condition list"
  rsObservedDesireUpdateTime :: gtime
  rsKubeContent :: "RawExtension option"

record ReadDesire = DynamoDBMetadata +
  rdSpec :: ReadDesireSpec
  rdStatus :: ReadDesireStatus

text \<open>The zero values that \<open>var obj T\<close> gives.\<close>

definition zero_ResourceReference :: ResourceReference where
  "zero_ResourceReference = \<lparr>rrGroup = '''', rrVersion = '''', rrResource = '''',
     rrNamespace = '''', rrName = ''''\<rparr>"

definition zero_ApplyDesireSpec :: ApplyDesireSpec where
  "zero_ApplyDesireSpec = \<lparr>asManagementCluster = '''', asClusterID = '''', asNodePoolName = '''',
     asType = '''', asTargetItem = zero_ResourceReference, asServerSideApply = None\<rparr>"

definition zero_ApplyDesire :: ApplyDesire where
  "zero_ApplyDesire = \<lparr>DocumentID = '''', Version = 0, UpdateTime = 0, CreateTime = 0,
     adSpec = zero_ApplyDesireSpec,
     adStatus = \<lparr>asConditions = [], asObservedDesireUpdateTime = 0,
       asAppliedResourceGeneration = 0\<rparr>\<rparr>"

definition zero_ReadDesireSpec :: ReadDesireSpec where
  "zero_ReadDesireSpec = \<lparr>rsManagementCluster = '''', rsClusterID = '''', rsNodePoolName = '''',
     rsTargetItem = zero_ResourceReference\<rparr>"

definition zero_ReadDesire :: ReadDesire where
  "zero_ReadDesire = \<lparr>DocumentID = '''', Version = 0, UpdateTime = 0, CreateTime = 0,
     rdSpec = zero_ReadDesireSpec,
     rdStatus = \<lparr>rsConditions = [], rsObservedDesireUpdateTime = 0, rsKubeContent = None\<rparr>\<rparr>"

lemmas zero_defs = zero_ResourceReference_def zero_ApplyDesireSpec_def zero_ApplyDesire_def
  zero_ReadDesireSpec_def zero_ReadDesire_def

section \<open>KubeContent accessors\<close>

definition ApplyDesire_GetSpecKubeContent :: "ApplyDesire \<Rightarrow> RawExtension option" where
  "ApplyDesire_GetSpecKubeContent d =
     (case asServerSideApply (adSpec d) of None \<Rightarrow> None | Some c \<Rightarrow> ssaKubeContent c)"

definition ApplyDesire_SetSpecKubeContent :: "RawExtension option \<Rightarrow> ApplyDesire \<Rightarrow> ApplyDesire" where
  "ApplyDesire_SetSpecKubeContent ext d =
     (let c = (case asServerSideApply (adSpec d) of
                 None \<Rightarrow> \<lparr>ssaKubeContent = None\<rparr> | Some c \<Rightarrow> c)
      in d\<lparr>adSpec := (adSpec d)\<lparr>asServerSideApply := Some (c\<lparr>ssaKubeContent := ext\<rparr>)\<rparr>\<rparr>)"

definition ApplyDesire_GetStatusKubeContent :: "ApplyDesire \<Rightarrow> RawExtension option" where
  "ApplyDesire_GetStatusKubeContent d = None"

definition ApplyDesire_SetStatusKubeContent :: "RawExtension option \<Rightarrow> ApplyDesire \<Rightarrow> ApplyDesire" where
  "ApplyDesire_SetStatusKubeContent ext d = d"

definition ReadDesire_GetSpecKubeContent :: "ReadDesire \<Rightarrow> RawExtension option" where
  "ReadDesire_GetSpecKubeContent d = None"

definition ReadDesire_SetSpecKubeContent :: "RawExtension option \<Rightarrow> ReadDesire \<Rightarrow> ReadDesire" where
  "ReadDesire_SetSpecKubeContent ext d = d"

definition ReadDesire_GetStatusKubeContent :: "ReadDesire \<Rightarrow> RawExtension option" where
  "ReadDesire_GetStatusKubeContent d = rsKubeContent (rdStatus d)"

definition ReadDesire_SetStatusKubeContent :: "RawExtension option \<Rightarrow> ReadDesire \<Rightarrow> ReadDesire" where
  "ReadDesire_SetStatusKubeContent ext d = d\<lparr>rdStatus := (rdStatus d)\<lparr>rsKubeContent := ext\<rparr>\<rparr>"

lemmas accessor_defs =
  ApplyDesire_GetSpecKubeContent_def ApplyDesire_SetSpecKubeContent_def
  ApplyDesire_GetStatusKubeContent_def ApplyDesire_SetStatusKubeContent_def
  ReadDesire_GetSpecKubeContent_def ReadDesire_SetSpecKubeContent_def
  ReadDesire_GetStatusKubeContent_def ReadDesire_SetStatusKubeContent_def

record 'd KubeContentAccessor =
  GetSpecKubeContent :: "'d \<Rightarrow> RawExtension option"
  SetSpecKubeContent :: "RawExtension option \<Rightarrow> 'd \<Rightarrow> 'd"
  GetStatusKubeContent :: "'d \<Rightarrow> RawExtension option"
  SetStatusKubeContent :: "RawExtension option \<Rightarrow> 'd \<Rightarrow> 'd"

definition ApplyDesire_accessor :: "ApplyDesire KubeContentAccessor" where
  "ApplyDesire_accessor = \<lparr>GetSpecKubeContent = ApplyDesire_GetSpecKubeContent,
     SetSpecKubeContent = ApplyDesire_SetSpecKubeContent,
     GetStatusKubeContent = ApplyDesire_GetStatusKubeContent,
     SetStatusKubeContent = ApplyDesire_SetStatusKubeContent\<rparr>"

definition ReadDesire_accessor :: "ReadDesire KubeContentAccessor" where
  "ReadDesire_accessor = \<lparr>GetSpecKubeContent = ReadDesire_GetSpecKubeContent,
     SetSpecKubeContent = ReadDesire_SetSpecKubeContent,
     GetStatusKubeContent = ReadDesire_GetStatusKubeContent,
     SetStatusKubeContent = ReadDesire_SetStatusKubeContent\<rparr>"

text \<open>
  What the attributevalue marshaller leaves out: the fields tagged \<open>dynamodbav:"-"\<close>, that is the
  document ID of the metadata and the KubeContent of each type. \<open>untagged\<close> is the value with those
  fields at their zero.
\<close>

definition ApplyDesire_untagged :: "ApplyDesire \<Rightarrow> ApplyDesire" where
  "ApplyDesire_untagged d = d\<lparr>DocumentID := '''',
     adSpec := (adSpec d)\<lparr>asServerSideApply :=
       map_option (\<lambda>c. c\<lparr>ssaKubeContent := None\<rparr>) (asServerSideApply (adSpec d))\<rparr>\<rparr>"

definition ReadDesire_untagged :: "ReadDesire \<Rightarrow> ReadDesire" where
  "ReadDesire_untagged d = d\<lparr>DocumentID := '''',
     rdStatus := (rdStatus d)\<lparr>rsKubeContent := None\<rparr>\<rparr>"

text \<open>
  Putting the two contents back the way \<open>kubeContentReadFromItem\<close> does: the spec content first, and
  a setter is called only where there is a content.
\<close>

definition restore_contents ::
  "'d KubeContentAccessor \<Rightarrow> RawExtension option \<Rightarrow> RawExtension option \<Rightarrow> 'd \<Rightarrow> 'd" where
  "restore_contents acc sc st d =
     (let d = (case sc of None \<Rightarrow> d | Some e \<Rightarrow> SetSpecKubeContent acc (Some e) d)
      in (case st of None \<Rightarrow> d | Some e \<Rightarrow> SetStatusKubeContent acc (Some e) d))"

text \<open>
  The contract of the type constraint \<open>desire\<close> in \<open>internal/database/crud.go\<close>: the KubeContent setters
  keep the metadata, and together with the document ID they rebuild everything the marshaller
  leaves out.
\<close>

locale desire_accessors =
  fixes acc :: "'a DynamoDBMetadata_scheme KubeContentAccessor"
    and untagged :: "'a DynamoDBMetadata_scheme \<Rightarrow> 'a DynamoDBMetadata_scheme"
  assumes setSpec_meta:
      "DocumentID (SetSpecKubeContent acc x d) = DocumentID d"
      "Version (SetSpecKubeContent acc x d) = Version d"
      "UpdateTime (SetSpecKubeContent acc x d) = UpdateTime d"
      "CreateTime (SetSpecKubeContent acc x d) = CreateTime d"
    and setStatus_meta:
      "DocumentID (SetStatusKubeContent acc x d) = DocumentID d"
      "Version (SetStatusKubeContent acc x d) = Version d"
      "UpdateTime (SetStatusKubeContent acc x d) = UpdateTime d"
      "CreateTime (SetStatusKubeContent acc x d) = CreateTime d"
    and untagged_meta:
      "Version (untagged d) = Version d"
      "UpdateTime (untagged d) = UpdateTime d"
      "CreateTime (untagged d) = CreateTime d"
    and rebuild:
      "restore_contents acc (GetSpecKubeContent acc d) (GetStatusKubeContent acc d)
         ((untagged d)\<lparr>DocumentID := DocumentID d\<rparr>) = d"
begin

lemma restore_meta [simp]:
  "DocumentID (restore_contents acc x y d) = DocumentID d"
  "Version (restore_contents acc x y d) = Version d"
  "UpdateTime (restore_contents acc x y d) = UpdateTime d"
  "CreateTime (restore_contents acc x y d) = CreateTime d"
  by (simp_all add: restore_contents_def setSpec_meta setStatus_meta split: option.splits)

text \<open>What a store keeps of a document when \<open>f\<close> is what it does to the content bytes.\<close>

definition stored_view ::
  "(RawExtension option \<Rightarrow> RawExtension option) \<Rightarrow> 'a DynamoDBMetadata_scheme \<Rightarrow> 'a DynamoDBMetadata_scheme" where
  "stored_view f d = restore_contents acc (f (GetSpecKubeContent acc d))
     (f (GetStatusKubeContent acc d)) ((untagged d)\<lparr>DocumentID := DocumentID d\<rparr>)"

lemma stored_view_meta [simp]:
  "DocumentID (stored_view f d) = DocumentID d"
  "Version (stored_view f d) = Version d"
  "UpdateTime (stored_view f d) = UpdateTime d"
  "CreateTime (stored_view f d) = CreateTime d"
  by (simp_all add: stored_view_def untagged_meta)

lemma stored_view_id:
  assumes "f (GetSpecKubeContent acc d) = GetSpecKubeContent acc d"
    and "f (GetStatusKubeContent acc d) = GetStatusKubeContent acc d"
  shows "stored_view f d = d"
  using assms rebuild [of d] by (simp add: stored_view_def)

end

interpretation ad: desire_accessors ApplyDesire_accessor ApplyDesire_untagged
  by unfold_locales
    (auto simp: ApplyDesire_accessor_def accessor_defs ApplyDesire_untagged_def
       restore_contents_def Let_def split: option.splits)

interpretation rd: desire_accessors ReadDesire_accessor ReadDesire_untagged
  by unfold_locales
    (auto simp: ReadDesire_accessor_def accessor_defs ReadDesire_untagged_def
       restore_contents_def Let_def split: option.splits)

section \<open>Work-queue keys\<close>

record ApplyDesireKey =
  akClusterID :: string
  akNodePoolName :: string
  akName :: string

record ReadDesireKey =
  rkClusterID :: string
  rkNodePoolName :: string
  rkName :: string

definition ApplyDesireKeyFromDesire :: "ApplyDesire \<Rightarrow> go_error + ApplyDesireKey" where
  "ApplyDesireKeyFromDesire d =
     (if DocumentID d = '''' then Inl (ErrorString ''ApplyDesire has empty DocumentID'')
      else Inr \<lparr>akClusterID = asClusterID (adSpec d), akNodePoolName = asNodePoolName (adSpec d),
             akName = DocumentID d\<rparr>)"

definition ReadDesireKeyFromDesire :: "ReadDesire \<Rightarrow> go_error + ReadDesireKey" where
  "ReadDesireKeyFromDesire d =
     (if DocumentID d = '''' then Inl (ErrorString ''ReadDesire has empty DocumentID'')
      else Inr \<lparr>rkClusterID = rsClusterID (rdSpec d), rkNodePoolName = rsNodePoolName (rdSpec d),
             rkName = DocumentID d\<rparr>)"

definition ApplyDesireKey_IsNodePoolScoped :: "ApplyDesireKey \<Rightarrow> bool" where
  "ApplyDesireKey_IsNodePoolScoped k = (akNodePoolName k \<noteq> '''')"

definition ReadDesireKey_IsNodePoolScoped :: "ReadDesireKey \<Rightarrow> bool" where
  "ReadDesireKey_IsNodePoolScoped k = (rkNodePoolName k \<noteq> '''')"

text \<open>\<open>%v\<close> of a key.\<close>

definition show_ApplyDesireKey :: "ApplyDesireKey \<Rightarrow> string" where
  "show_ApplyDesireKey k = ''{'' @ akClusterID k @ '' '' @ akNodePoolName k @ '' '' @ akName k @ ''}''"

definition show_ReadDesireKey :: "ReadDesireKey \<Rightarrow> string" where
  "show_ReadDesireKey k = ''{'' @ rkClusterID k @ '' '' @ rkNodePoolName k @ '' '' @ rkName k @ ''}''"

end
