(* ===== verification/ShardId.thy ===== *)
theory ShardId
  imports KA_Prelude
begin

text \<open>
  The two functions of a document identifier: \<open>internal/desireid/desireid.go\<close>, which derives it from
  the target of a desire, and \<open>seaplane-dynamo/dynamodb/shard.go\<close> with \<open>constants.go\<close>, which assigns
  it to a shard bucket of the \<open>updateTime-index\<close> GSI.
\<close>

section \<open>Document identifiers\<close>

definition NamespaceUUID :: string where
  "NamespaceUUID = ''a3f1b2c4-d5e6-4f7a-8b9c-0d1e2f3a4b5c''"

text \<open>\<open>fmt.Sprintf("%s/%s/%s/%s/%s/%s", ...)\<close>.\<close>

definition documentIDInput :: "string \<Rightarrow> string \<Rightarrow> string \<Rightarrow> string \<Rightarrow> string \<Rightarrow> string \<Rightarrow> string" where
  "documentIDInput taskKey apiGroup version resource namespace name =
     taskKey @ ''/'' @ apiGroup @ ''/'' @ version @ ''/'' @ resource @ ''/'' @ namespace @ ''/'' @ name"

text \<open>\<open>uuidNewSHA1 ns data\<close> stands for \<open>uuid.NewSHA1(ns, data).String()\<close> of google/uuid.\<close>

definition NewDocumentID ::
  "(string \<Rightarrow> string \<Rightarrow> string) \<Rightarrow> string \<Rightarrow> string \<Rightarrow> string \<Rightarrow> string \<Rightarrow> string \<Rightarrow> string \<Rightarrow> string" where
  "NewDocumentID uuidNewSHA1 taskKey apiGroup version resource namespace name =
     uuidNewSHA1 NamespaceUUID (documentIDInput taskKey apiGroup version resource namespace name)"

definition slash_free :: "string \<Rightarrow> bool" where
  "slash_free s \<longleftrightarrow> CHR ''/'' \<notin> set s"

lemma slash_split:
  assumes "slash_free a" and "slash_free b"
    and "a @ CHR ''/'' # s = b @ CHR ''/'' # t"
  shows "a = b \<and> s = t"
  using assms
proof (induction a arbitrary: b)
  case Nil
  then show ?case by (cases b) (auto simp: slash_free_def)
next
  case (Cons x xs)
  from Cons.prems obtain y ys where b: "b = y # ys"
    by (cases b) (auto simp: slash_free_def)
  with Cons.prems have "xs = ys \<and> s = t"
    by (intro Cons.IH) (auto simp: slash_free_def)
  with Cons.prems b show ?case by simp
qed

text \<open>
  The string that is hashed determines all six components when the first five hold no slash, which
  is so for task keys, API groups, versions, resources and namespaces.
\<close>

lemma documentIDInput_inject:
  assumes "\<forall>s \<in> {k, g, v, r, n, k', g', v', r', n'}. slash_free s"
    and "documentIDInput k g v r n m = documentIDInput k' g' v' r' n' m'"
  shows "k = k' \<and> g = g' \<and> v = v' \<and> r = r' \<and> n = n' \<and> m = m'"
  using assms by (auto simp: documentIDInput_def dest!: slash_split [rotated 2])

lemma documentIDInput_taskKey:
  "documentIDInput k g v r n m = documentIDInput k' g v r n m \<longleftrightarrow> k = k'"
  by (simp add: documentIDInput_def)

section \<open>Shard buckets\<close>

definition GSIShardCount :: nat where "GSIShardCount = 4"

text \<open>\<open>strconv.ParseUint(s, 16, 64)\<close> on a non-empty string: every byte a hexadecimal digit of either
  case, no sign and no underscore; eight digits never exceed 64 bits.\<close>

definition hex_digit :: "char \<Rightarrow> nat option" where
  "hex_digit c =
     (let n = (of_char c :: nat) in
      if 48 \<le> n \<and> n \<le> 57 then Some (n - 48)
      else if 97 \<le> n \<and> n \<le> 102 then Some (n - 87)
      else if 65 \<le> n \<and> n \<le> 70 then Some (n - 55)
      else None)"

fun parse_hex :: "nat \<Rightarrow> string \<Rightarrow> nat option" where
  "parse_hex a [] = Some a"
| "parse_hex a (c # cs) =
     (case hex_digit c of None \<Rightarrow> None | Some d \<Rightarrow> parse_hex (16 * a + d) cs)"

definition ComputeShard :: "string \<Rightarrow> int \<Rightarrow> string" where
  "ComputeShard documentID shardCount =
     (let shardCount = (if shardCount \<le> 0 then int GSIShardCount else shardCount);
          stripped = filter (\<lambda>c. c \<noteq> CHR ''-'') documentID
      in if length stripped < 8 then ''0''
         else (case parse_hex 0 (take 8 stripped) of
                 None \<Rightarrow> ''0''
               | Some v \<Rightarrow> show_nat (v mod nat shardCount)))"

definition ComputeShardDefault :: "string \<Rightarrow> string" where
  "ComputeShardDefault documentID = ComputeShard documentID (int GSIShardCount)"

lemma hex_digit_bound: "hex_digit c = Some d \<Longrightarrow> d < 16"
  by (auto simp: hex_digit_def Let_def split: if_splits)

lemma parse_hex_bound:
  "parse_hex a s = Some v \<Longrightarrow> v < (a + 1) * 16 ^ length s"
proof (induction s arbitrary: a)
  case (Cons c cs)
  then obtain d where d: "hex_digit c = Some d" and v: "parse_hex (16 * a + d) cs = Some v"
    by (auto split: option.splits)
  have "v < (16 * a + d + 1) * 16 ^ length cs" using Cons.IH [OF v] .
  also have "\<dots> \<le> (16 * (a + 1)) * 16 ^ length cs"
    using hex_digit_bound [OF d] by (intro mult_le_mono1) simp
  finally show ?case by (simp add: algebra_simps)
qed simp

lemma parse_hex_fits_uint64:
  "parse_hex 0 (take 8 s) = Some v \<Longrightarrow> v < 2 ^ 32"
proof -
  assume "parse_hex 0 (take 8 s) = Some v"
  then have "v < 16 ^ length (take 8 s)" using parse_hex_bound [of 0 "take 8 s" v] by simp
  also have "(16 :: nat) ^ length (take 8 s) \<le> 16 ^ 8" by (intro power_increasing) auto
  finally show ?thesis by simp
qed

lemma show_nat_0: "show_nat 0 = ''0''"
  by code_simp

lemma ComputeShard_bucket:
  assumes "0 < n"
  shows "ComputeShard d (int n) \<in> show_nat ` {0..<n}"
proof -
  have z: "''0'' \<in> show_nat ` {0..<n}"
    using assms by (intro image_eqI [of _ _ 0]) (simp_all add: show_nat_0)
  moreover have "show_nat (v mod n) \<in> show_nat ` {0..<n}" for v
    using assms by simp
  ultimately show ?thesis
    using assms by (simp add: ComputeShard_def Let_def split: option.split)
qed

lemma ComputeShard_default_count: "c \<le> 0 \<Longrightarrow> ComputeShard d c = ComputeShardDefault d"
  by (simp add: ComputeShard_def ComputeShardDefault_def GSIShardCount_def)

end
