(* ===== verification/RawExtCodec.thy ===== *)
theory RawExtCodec
  imports DesireTypes ShardId
begin

text \<open>
  How a desire becomes a DynamoDB item and back: \<open>internal/database/rawext_codec.go\<close> and the
  conversions \<open>itemToDesire\<close> and \<open>desireToItem\<close> of \<open>internal/database/crud.go\<close>.

  The SDK's attributevalue marshaller and \<open>encoding/json\<close> are parameters, the records
  \<open>attributevalue_codec\<close> and \<open>json_lib\<close>; \<open>codec_ok\<close> and \<open>json_ok\<close> state the documented behaviour that
  the round trip relies on.
\<close>

datatype AttributeValue =
    AV_S string
  | AV_N string
  | AV_B string
  | AV_BOOL bool
  | AV_NULL
  | AV_M "(string \<times> AttributeValue) list"
  | AV_L "AttributeValue list"
  | AV_SS "string list"
  | AV_NS "string list"
  | AV_BS "string list"

type_synonym item = "string \<Rightarrow> AttributeValue option"

datatype json =
    JNull
  | JBool bool
  | JNumber rat
  | JString string
  | JArray "json list"
  | JObject "(string \<times> json) list"

record json_lib =
  json_Unmarshal :: "string \<Rightarrow> go_error + json"
  json_Marshal :: "json \<Rightarrow> go_error + string"
  json_Valid :: "string \<Rightarrow> bool"

record 'd attributevalue_codec =
  MarshalMap :: "'d \<Rightarrow> go_error + item"
  UnmarshalMap :: "item \<Rightarrow> go_error + 'd"

definition attributeDocumentID :: string where "attributeDocumentID = ''documentID''"
definition rawExtFieldSpecKubeContent :: string where
  "rawExtFieldSpecKubeContent = ''spec_kubeContent''"
definition rawExtFieldStatusKubeContent :: string where
  "rawExtFieldStatusKubeContent = ''status_kubeContent''"

lemmas attribute_names = attributeDocumentID_def rawExtFieldSpecKubeContent_def
  rawExtFieldStatusKubeContent_def

section \<open>RawExtension and strings\<close>

definition rawExtToString :: "json_lib \<Rightarrow> RawExtension option \<Rightarrow> go_error + string" where
  "rawExtToString J ext =
     (case ext of
        None \<Rightarrow> Inr ''''
      | Some e \<Rightarrow>
          (if Raw e = '''' then Inr ''''
           else (case json_Unmarshal J (Raw e) of
                   Inl err \<Rightarrow> Inl (WrapError ''unmarshal RawExtension: '' err)
                 | Inr m \<Rightarrow>
                     (case json_Marshal J m of
                        Inl err \<Rightarrow> Inl (WrapError ''marshal RawExtension: '' err)
                      | Inr b \<Rightarrow> Inr b))))"

definition stringToRawExt :: "json_lib \<Rightarrow> string \<Rightarrow> go_error + RawExtension option" where
  "stringToRawExt J s =
     (if s = '''' then Inr None
      else if \<not> json_Valid J s then Inl (ErrorString ''stored kubeContent is not valid JSON'')
      else Inr (Some \<lparr>Raw = s\<rparr>))"

definition kubeContentAttributeValues ::
  "json_lib \<Rightarrow> 'd KubeContentAccessor \<Rightarrow> 'd \<Rightarrow> go_error + item" where
  "kubeContentAttributeValues J acc d =
     (case (case GetSpecKubeContent acc d of
              None \<Rightarrow> Inr Map.empty
            | Some ext \<Rightarrow>
                (case rawExtToString J (Some ext) of
                   Inl err \<Rightarrow> Inl err
                 | Inr s \<Rightarrow> Inr (if s \<noteq> '''' then Map.empty(rawExtFieldSpecKubeContent \<mapsto> AV_S s)
                                 else Map.empty))) of
        Inl err \<Rightarrow> Inl err
      | Inr result \<Rightarrow>
          (case GetStatusKubeContent acc d of
             None \<Rightarrow> Inr result
           | Some ext \<Rightarrow>
               (case rawExtToString J (Some ext) of
                  Inl err \<Rightarrow> Inl err
                | Inr s \<Rightarrow> Inr (if s \<noteq> '''' then result(rawExtFieldStatusKubeContent \<mapsto> AV_S s)
                                else result))))"

definition kubeContentReadFromItem ::
  "json_lib \<Rightarrow> 'd KubeContentAccessor \<Rightarrow> 'd \<Rightarrow> item \<Rightarrow> go_error + 'd" where
  "kubeContentReadFromItem J acc d item =
     (case (case item rawExtFieldSpecKubeContent of
              Some (AV_S v) \<Rightarrow>
                (case stringToRawExt J v of
                   Inl err \<Rightarrow> Inl (WrapError (''read '' @ rawExtFieldSpecKubeContent @ '': '') err)
                 | Inr ext \<Rightarrow> Inr (SetSpecKubeContent acc ext d))
            | _ \<Rightarrow> Inr d) of
        Inl err \<Rightarrow> Inl err
      | Inr d \<Rightarrow>
          (case item rawExtFieldStatusKubeContent of
             Some (AV_S v) \<Rightarrow>
               (case stringToRawExt J v of
                  Inl err \<Rightarrow> Inl (WrapError (''read '' @ rawExtFieldStatusKubeContent @ '': '') err)
                | Inr ext \<Rightarrow> Inr (SetStatusKubeContent acc ext d))
           | _ \<Rightarrow> Inr d))"

section \<open>Items and desires\<close>

definition itemToDesire ::
  "'a DynamoDBMetadata_scheme attributevalue_codec \<Rightarrow> json_lib
     \<Rightarrow> 'a DynamoDBMetadata_scheme KubeContentAccessor \<Rightarrow> item
     \<Rightarrow> go_error + 'a DynamoDBMetadata_scheme" where
  "itemToDesire lib J acc item =
     (case UnmarshalMap lib item of
        Inl err \<Rightarrow> Inl (WrapError ''unmarshal item: '' err)
      | Inr obj \<Rightarrow>
          (let obj = (case item attributeDocumentID of
                        Some (AV_S v) \<Rightarrow> obj\<lparr>DocumentID := v\<rparr>
                      | _ \<Rightarrow> obj)
           in kubeContentReadFromItem J acc obj item))"

definition desireToItem ::
  "'a DynamoDBMetadata_scheme attributevalue_codec \<Rightarrow> json_lib
     \<Rightarrow> 'a DynamoDBMetadata_scheme KubeContentAccessor \<Rightarrow> 'a DynamoDBMetadata_scheme
     \<Rightarrow> go_error + item" where
  "desireToItem lib J acc pt =
     (case MarshalMap lib pt of
        Inl err \<Rightarrow> Inl (WrapError ''marshal item: '' err)
      | Inr item \<Rightarrow>
          (let item = item(attributeDocumentID \<mapsto> AV_S (DocumentID pt));
               item = item(''shard'' \<mapsto> AV_S (ComputeShardDefault (DocumentID pt)))
           in (case kubeContentAttributeValues J acc pt of
                 Inl err \<Rightarrow> Inl err
               | Inr kubeAttrs \<Rightarrow> Inr (item ++ kubeAttrs))))"

section \<open>What the libraries promise\<close>

text \<open>
  \<open>encoding/json\<close>: the text that \<open>Marshal\<close> gives for a value that \<open>Unmarshal\<close> produced is valid JSON,
  is not empty and decodes to the same value; and a text that decodes is valid.
\<close>

definition json_ok :: "json_lib \<Rightarrow> bool" where
  "json_ok J \<longleftrightarrow>
     (\<forall>s v. json_Unmarshal J s = Inr v \<longrightarrow> json_Valid J s) \<and>
     (\<forall>s v t. json_Unmarshal J s = Inr v \<longrightarrow> json_Marshal J v = Inr t \<longrightarrow>
        t \<noteq> '''' \<and> json_Unmarshal J t = Inr v) \<and>
     (\<forall>s e. json_Unmarshal J s = Inl e \<longrightarrow> library_error e) \<and>
     (\<forall>v e. json_Marshal J v = Inl e \<longrightarrow> library_error e)"

text \<open>
  The attributevalue marshaller: it writes no attribute for a field tagged \<open>-\<close>, an \<open>int64\<close> field
  becomes a number attribute in decimal, and unmarshalling ignores attributes that no field is
  tagged with, so the struct without its \<open>-\<close> fields comes back whatever the four attributes are
  that the code adds itself.
\<close>

definition added_attributes :: "string set" where
  "added_attributes = {attributeDocumentID, ''shard'', rawExtFieldSpecKubeContent,
     rawExtFieldStatusKubeContent}"

definition codec_ok ::
  "('a DynamoDBMetadata_scheme \<Rightarrow> 'a DynamoDBMetadata_scheme)
     \<Rightarrow> 'a DynamoDBMetadata_scheme attributevalue_codec \<Rightarrow> bool" where
  "codec_ok untagged lib \<longleftrightarrow>
     (\<forall>d it. MarshalMap lib d = Inr it \<longrightarrow>
        dom it \<inter> added_attributes = {} \<and>
        it ''version'' = Some (AV_N (show_int (sint (Version d)))) \<and>
        (\<forall>extra. dom extra \<subseteq> added_attributes \<longrightarrow> UnmarshalMap lib (it ++ extra) = Inr (untagged d))) \<and>
     (\<forall>d e. MarshalMap lib d = Inl e \<longrightarrow> library_error e)"

lemma added_attributes_distinct [simp]:
  "attributeDocumentID \<noteq> ''shard''" "''shard'' \<noteq> attributeDocumentID"
  "attributeDocumentID \<noteq> rawExtFieldSpecKubeContent"
  "rawExtFieldSpecKubeContent \<noteq> attributeDocumentID"
  "attributeDocumentID \<noteq> rawExtFieldStatusKubeContent"
  "rawExtFieldStatusKubeContent \<noteq> attributeDocumentID"
  "rawExtFieldSpecKubeContent \<noteq> rawExtFieldStatusKubeContent"
  "rawExtFieldStatusKubeContent \<noteq> rawExtFieldSpecKubeContent"
  "''shard'' \<noteq> rawExtFieldSpecKubeContent" "rawExtFieldSpecKubeContent \<noteq> ''shard''"
  "''shard'' \<noteq> rawExtFieldStatusKubeContent" "rawExtFieldStatusKubeContent \<noteq> ''shard''"
  "''version'' \<noteq> attributeDocumentID" "''version'' \<noteq> rawExtFieldSpecKubeContent"
  "''version'' \<noteq> rawExtFieldStatusKubeContent"
  by (simp_all add: attribute_names)

section \<open>The round trip\<close>

text \<open>What storing does to a content: an empty one is dropped, any other is re-encoded.\<close>

definition norm_content :: "json_lib \<Rightarrow> RawExtension option \<Rightarrow> RawExtension option" where
  "norm_content J ext =
     (case rawExtToString J ext of
        Inl _ \<Rightarrow> None
      | Inr s \<Rightarrow> (if s = '''' then None else Some \<lparr>Raw = s\<rparr>))"

lemma rawExtToString_None [simp]: "rawExtToString J None = Inr ''''"
  by (simp add: rawExtToString_def)

lemma norm_content_None [simp]: "norm_content J None = None"
  by (simp add: norm_content_def)

lemma rawExtToString_valid:
  assumes "json_ok J" and "rawExtToString J ext = Inr s" and "s \<noteq> ''''"
  shows "json_Valid J s" and "rawExtToString J (Some \<lparr>Raw = s\<rparr>) = Inr s"
proof -
  from assms(2,3) obtain e v where e: "ext = Some e" "Raw e \<noteq> ''''"
    "json_Unmarshal J (Raw e) = Inr v" "json_Marshal J v = Inr s"
    by (auto simp: rawExtToString_def split: option.splits if_splits sum.splits)
  with assms(1) have t: "s \<noteq> ''''" "json_Unmarshal J s = Inr v"
    unfolding json_ok_def by blast+
  with assms(1) show "json_Valid J s" unfolding json_ok_def by blast
  from t e show "rawExtToString J (Some \<lparr>Raw = s\<rparr>) = Inr s"
    by (simp add: rawExtToString_def)
qed

lemma norm_content_idem: "json_ok J \<Longrightarrow> norm_content J (norm_content J ext) = norm_content J ext"
  by (auto simp: norm_content_def [of J ext] rawExtToString_valid(2) norm_content_def
      split: sum.splits if_splits)

lemma stringToRawExt_norm:
  assumes "json_ok J" and "rawExtToString J ext = Inr s" and "s \<noteq> ''''"
  shows "stringToRawExt J s = Inr (norm_content J ext)"
  using assms rawExtToString_valid(1) [OF assms]
  by (simp add: stringToRawExt_def norm_content_def)

lemma kubeContentAttributeValues_Inr:
  assumes "kubeContentAttributeValues J acc d = Inr m"
  obtains s t where "rawExtToString J (GetSpecKubeContent acc d) = Inr s"
    and "rawExtToString J (GetStatusKubeContent acc d) = Inr t"
    and "m rawExtFieldSpecKubeContent = (if s = '''' then None else Some (AV_S s))"
    and "m rawExtFieldStatusKubeContent = (if t = '''' then None else Some (AV_S t))"
    and "dom m \<subseteq> {rawExtFieldSpecKubeContent, rawExtFieldStatusKubeContent}"
proof -
  from assms show ?thesis
    by (intro that [of "case rawExtToString J (GetSpecKubeContent acc d) of Inr s \<Rightarrow> s | _ \<Rightarrow> ''''"
          "case rawExtToString J (GetStatusKubeContent acc d) of Inr s \<Rightarrow> s | _ \<Rightarrow> ''''"])
      (auto simp: kubeContentAttributeValues_def split: option.splits sum.splits if_splits)
qed

lemma desireToItem_Inr:
  assumes "codec_ok untagged lib" and "desireToItem lib J acc d = Inr it"
  obtains base m where "MarshalMap lib d = Inr base"
    and "kubeContentAttributeValues J acc d = Inr m"
    and "it = base(attributeDocumentID \<mapsto> AV_S (DocumentID d),
                   ''shard'' \<mapsto> AV_S (ComputeShardDefault (DocumentID d))) ++ m"
    and "it attributeDocumentID = Some (AV_S (DocumentID d))"
    and "it ''shard'' = Some (AV_S (ComputeShardDefault (DocumentID d)))"
    and "it ''version'' = Some (AV_N (show_int (sint (Version d))))"
    and "it rawExtFieldSpecKubeContent = m rawExtFieldSpecKubeContent"
    and "it rawExtFieldStatusKubeContent = m rawExtFieldStatusKubeContent"
    and "UnmarshalMap lib it = Inr (untagged d)"
proof -
  from assms(2) obtain base m where base: "MarshalMap lib d = Inr base"
    and m: "kubeContentAttributeValues J acc d = Inr m"
    and it: "it = base(attributeDocumentID \<mapsto> AV_S (DocumentID d),
                   ''shard'' \<mapsto> AV_S (ComputeShardDefault (DocumentID d))) ++ m"
    by (auto simp: desireToItem_def Let_def split: sum.splits)
  from m have dom_m: "dom m \<subseteq> {rawExtFieldSpecKubeContent, rawExtFieldStatusKubeContent}"
    by (rule kubeContentAttributeValues_Inr)
  from base assms(1) have b: "dom base \<inter> added_attributes = {}"
    "base ''version'' = Some (AV_N (show_int (sint (Version d))))"
    "\<And>extra. dom extra \<subseteq> added_attributes \<Longrightarrow> UnmarshalMap lib (base ++ extra) = Inr (untagged d)"
    unfolding codec_ok_def by blast+
  have none: "k \<notin> {rawExtFieldSpecKubeContent, rawExtFieldStatusKubeContent} \<Longrightarrow> m k = None" for k
    using dom_m by blast
  have bnone: "k \<in> added_attributes \<Longrightarrow> base k = None" for k
    using b(1) by blast
  define extra where "extra = [attributeDocumentID \<mapsto> AV_S (DocumentID d),
      ''shard'' \<mapsto> AV_S (ComputeShardDefault (DocumentID d))] ++ m"
  have "it = base ++ extra" by (simp add: it extra_def)
  moreover have "dom extra \<subseteq> added_attributes"
    using dom_m by (auto simp: extra_def added_attributes_def)
  ultimately have um: "UnmarshalMap lib it = Inr (untagged d)" using b(3) by simp
  show ?thesis
    by (rule that [OF base m it])
      (use um none b(2) bnone in \<open>simp_all add: it map_add_def added_attributes_def split: option.split\<close>)
qed

context desire_accessors begin

lemma item_roundtrip:
  assumes "codec_ok untagged lib" and "json_ok J" and "desireToItem lib J acc d = Inr it"
  shows "itemToDesire lib J acc it = Inr (stored_view (norm_content J) d)"
proof -
  obtain m where um: "UnmarshalMap lib it = Inr (untagged d)"
    and m: "kubeContentAttributeValues J acc d = Inr m"
    and itm: "it attributeDocumentID = Some (AV_S (DocumentID d))"
      "it rawExtFieldSpecKubeContent = m rawExtFieldSpecKubeContent"
      "it rawExtFieldStatusKubeContent = m rawExtFieldStatusKubeContent"
    using desireToItem_Inr [OF assms(1,3)] by metis
  obtain s t where st: "rawExtToString J (GetSpecKubeContent acc d) = Inr s"
      "rawExtToString J (GetStatusKubeContent acc d) = Inr t"
    and ms: "m rawExtFieldSpecKubeContent = (if s = '''' then None else Some (AV_S s))"
      "m rawExtFieldStatusKubeContent = (if t = '''' then None else Some (AV_S t))"
    using kubeContentAttributeValues_Inr [OF m] by metis
  have ns: "s = '''' \<Longrightarrow> norm_content J (GetSpecKubeContent acc d) = None"
    "t = '''' \<Longrightarrow> norm_content J (GetStatusKubeContent acc d) = None"
    "s \<noteq> '''' \<Longrightarrow> norm_content J (GetSpecKubeContent acc d) = Some \<lparr>Raw = s\<rparr>"
    "t \<noteq> '''' \<Longrightarrow> norm_content J (GetStatusKubeContent acc d) = Some \<lparr>Raw = t\<rparr>"
    by (simp_all add: norm_content_def st)
  note sr = stringToRawExt_norm [OF assms(2) st(1)] stringToRawExt_norm [OF assms(2) st(2)]
  show ?thesis
    by (cases "s = ''''"; cases "t = ''''")
      (simp_all add: itemToDesire_def um itm ms ns sr kubeContentReadFromItem_def stored_view_def
        restore_contents_def)
qed

end

lemma desireToItem_error:
  assumes "codec_ok untagged lib" and "json_ok J" and "desireToItem lib J acc d = Inl e"
  shows "library_error e"
proof -
  have J: "json_Unmarshal J s = Inl e' \<Longrightarrow> library_error e'"
    "json_Marshal J v = Inl e' \<Longrightarrow> library_error e'" for s v e'
    using assms(2) unfolding json_ok_def by blast+
  have ext: "rawExtToString J x = Inl e' \<Longrightarrow> library_error e'" for x e'
    by (auto simp: rawExtToString_def split: option.splits if_splits sum.splits dest: J)
  have kc: "kubeContentAttributeValues J acc d = Inl e' \<Longrightarrow> library_error e'" for e'
    by (auto simp: kubeContentAttributeValues_def split: option.splits sum.splits dest: ext)
  have M: "MarshalMap lib d = Inl e' \<Longrightarrow> library_error e'" for e'
    using assms(1) unfolding codec_ok_def by blast
  from assms(3) show ?thesis
    by (auto simp: desireToItem_def Let_def split: sum.splits dest: kc M)
qed

text \<open>Every item the code writes carries the attributes that the watcher queries and the conditional
  writes compare.\<close>

lemma desireToItem_attributes:
  assumes "codec_ok untagged lib" and "desireToItem lib J acc d = Inr it"
  shows "it attributeDocumentID = Some (AV_S (DocumentID d))"
    and "it ''shard'' = Some (AV_S (ComputeShardDefault (DocumentID d)))"
    and "it ''version'' = Some (AV_N (show_int (sint (Version d))))"
  by (rule desireToItem_Inr [OF assms], simp)+

end
