(* ===== verification/ResourceCrud.thy ===== *)
theory ResourceCrud
  imports RawExtCodec
begin

text \<open>
  The interface \<open>ResourceCRUD[T]\<close> of \<open>internal/database/types.go\<close> as the locale \<open>resource_crud\<close>: its
  operations on a world, and what its comment promises of them over the ghost view \<open>docs\<close>, the
  documents the table holds. \<open>norm\<close> is what storing does to a document (nothing in the in-memory
  implementation, the re-encoding of contents in DynamoDB). An operation that fails for a reason
  outside the table (the network, throttling) may or may not have taken effect, which is how the
  laws for errors are stated.

  The clients' lemmas are proved once here: the write that loses a race, and the writes of
  \<open>desirestatuswriter\<close> in theory \<open>StatusWriter\<close>.
\<close>

definition created :: "'a DynamoDBMetadata_scheme \<Rightarrow> 'a DynamoDBMetadata_scheme \<Rightarrow> bool" where
  "created d d' \<longleftrightarrow> (\<exists>t. d' = d\<lparr>Version := 1, UpdateTime := t, CreateTime := t\<rparr>)"

definition replaced :: "'a DynamoDBMetadata_scheme \<Rightarrow> 'a DynamoDBMetadata_scheme \<Rightarrow> bool" where
  "replaced d d' \<longleftrightarrow> (\<exists>t c. d' = d\<lparr>Version := Version d + 1, UpdateTime := t, CreateTime := c\<rparr>)"

lemma created_meta [simp]:
  "created d d' \<Longrightarrow> DocumentID d' = DocumentID d" "created d d' \<Longrightarrow> Version d' = 1"
  by (auto simp: created_def)

lemma replaced_meta [simp]:
  "replaced d d' \<Longrightarrow> DocumentID d' = DocumentID d" "replaced d d' \<Longrightarrow> Version d' = Version d + 1"
  by (auto simp: replaced_def)

definition holds_version :: "'a DynamoDBMetadata_scheme option \<Rightarrow> int64 \<Rightarrow> bool" where
  "holds_version od v \<longleftrightarrow> (\<exists>old. od = Some old \<and> Version old = v)"

locale resource_crud =
  fixes inv :: "'w \<Rightarrow> bool"
    and docs :: "'w \<Rightarrow> string \<Rightarrow> 'a DynamoDBMetadata_scheme option"
    and norm :: "'a DynamoDBMetadata_scheme \<Rightarrow> 'a DynamoDBMetadata_scheme"
    and crudGet :: "string \<Rightarrow> 'w \<Rightarrow> (go_error + 'a DynamoDBMetadata_scheme) \<times> 'w"
    and crudCreate :: "'a DynamoDBMetadata_scheme \<Rightarrow> 'w \<Rightarrow> (go_error + 'a DynamoDBMetadata_scheme) \<times> 'w"
    and crudReplace :: "'a DynamoDBMetadata_scheme \<Rightarrow> 'w \<Rightarrow> (go_error + 'a DynamoDBMetadata_scheme) \<times> 'w"
    and crudDelete :: "string \<Rightarrow> 'w \<Rightarrow> go_error option \<times> 'w"
  assumes norm_meta: "DocumentID (norm d) = DocumentID d" "Version (norm d) = Version d"
      "UpdateTime (norm d) = UpdateTime d"
    and docs_key: "inv w \<Longrightarrow> docs w k = Some d \<Longrightarrow> DocumentID d = k"
    and inv_ops: "inv w \<Longrightarrow> inv (snd (crudGet k w))" "inv w \<Longrightarrow> inv (snd (crudCreate d w))"
      "inv w \<Longrightarrow> inv (snd (crudReplace d w))" "inv w \<Longrightarrow> inv (snd (crudDelete k w))"
    and get_docs: "inv w \<Longrightarrow> docs (snd (crudGet k w)) = docs w"
    and get_ok: "inv w \<Longrightarrow> crudGet k w = (Inr d, w') \<Longrightarrow> docs w k = Some d"
    and get_not_found: "inv w \<Longrightarrow> crudGet k w = (Inl e, w') \<Longrightarrow> IsNotFoundError e \<Longrightarrow> docs w k = None"
    and create_ok: "inv w \<Longrightarrow> crudCreate d w = (Inr d', w') \<Longrightarrow>
      DocumentID d \<noteq> '''' \<and> docs w (DocumentID d) = None \<and> created d d' \<and>
      docs w' = (docs w)(DocumentID d \<mapsto> norm d')"
    and create_exists: "inv w \<Longrightarrow> crudCreate d w = (Inl e, w') \<Longrightarrow> IsAlreadyExistsError e \<Longrightarrow>
      docs w (DocumentID d) \<noteq> None \<and> docs w' = docs w"
    and create_err: "inv w \<Longrightarrow> crudCreate d w = (Inl e, w') \<Longrightarrow>
      docs w' = docs w \<or>
      (docs w (DocumentID d) = None \<and>
       (\<exists>d'. created d d' \<and> docs w' = (docs w)(DocumentID d \<mapsto> norm d')))"
    and replace_ok: "inv w \<Longrightarrow> crudReplace d w = (Inr d', w') \<Longrightarrow>
      holds_version (docs w (DocumentID d)) (Version d) \<and> replaced d d' \<and>
      docs w' = (docs w)(DocumentID d \<mapsto> norm d')"
    and replace_conflict: "inv w \<Longrightarrow> crudReplace d w = (Inl e, w') \<Longrightarrow>
      IsPreconditionFailedError e \<Longrightarrow>
      \<not> holds_version (docs w (DocumentID d)) (Version d) \<and> docs w' = docs w"
    and replace_err: "inv w \<Longrightarrow> crudReplace d w = (Inl e, w') \<Longrightarrow>
      docs w' = docs w \<or>
      (holds_version (docs w (DocumentID d)) (Version d) \<and>
       (\<exists>d'. replaced d d' \<and> docs w' = (docs w)(DocumentID d \<mapsto> norm d')))"
    and delete_ok: "inv w \<Longrightarrow> crudDelete k w = (None, w') \<Longrightarrow> docs w' = (docs w)(k := None)"
    and delete_err: "inv w \<Longrightarrow> crudDelete k w = (Some e, w') \<Longrightarrow>
      docs w' = docs w \<or> docs w' = (docs w)(k := None)"
    and delete_not_found: "inv w \<Longrightarrow> crudDelete k w = (Some e, w') \<Longrightarrow> IsNotFoundError e \<Longrightarrow>
      docs w k = None \<and> docs w' = docs w"
begin

lemma get_ok_inv: "inv w \<Longrightarrow> crudGet k w = (r, w') \<Longrightarrow> inv w' \<and> docs w' = docs w"
  using inv_ops(1) [of w k] get_docs [of w k] by auto

lemma create_frame: "inv w \<Longrightarrow> k \<noteq> DocumentID d \<Longrightarrow> docs (snd (crudCreate d w)) k = docs w k"
  by (cases "crudCreate d w"; cases "fst (crudCreate d w)") (auto dest: create_ok create_err)

lemma replace_frame: "inv w \<Longrightarrow> k \<noteq> DocumentID d \<Longrightarrow> docs (snd (crudReplace d w)) k = docs w k"
  by (cases "crudReplace d w"; cases "fst (crudReplace d w)") (auto dest: replace_ok replace_err)

lemma delete_frame: "inv w \<Longrightarrow> k \<noteq> k' \<Longrightarrow> docs (snd (crudDelete k' w)) k = docs w k"
  by (cases "crudDelete k' w"; cases "fst (crudDelete k' w)") (auto dest: delete_ok delete_err)

text \<open>A document that \<open>Create\<close> or \<open>Replace\<close> wrote reads back with the version the call returned.\<close>

lemma create_then_get:
  assumes "inv w" and "crudCreate d w = (Inr d', w')" and "crudGet (DocumentID d) w' = (Inr d'', w'')"
  shows "d'' = norm d' \<and> Version d'' = 1"
proof -
  have "inv w'" using inv_ops(2) [OF assms(1), of d] assms(2) by simp
  from get_ok [OF this assms(3)] create_ok [OF assms(1,2)] show ?thesis
    by (auto simp: norm_meta)
qed

lemma replace_then_get:
  assumes "inv w" and "crudReplace d w = (Inr d', w')" and "crudGet (DocumentID d) w' = (Inr d'', w'')"
  shows "d'' = norm d' \<and> Version d'' = Version d + 1"
proof -
  have "inv w'" using inv_ops(3) [OF assms(1), of d] assms(2) by simp
  from get_ok [OF this assms(3)] replace_ok [OF assms(1,2)] show ?thesis
    by (auto simp: norm_meta)
qed

lemma create_twice:
  assumes "inv w" and "crudCreate d w = (Inr d', w1)" and "DocumentID e = DocumentID d"
  shows "\<exists>err. fst (crudCreate e w1) = Inl err"
proof (cases "fst (crudCreate e w1)")
  case (Inr e')
  have "inv w1" using inv_ops(2) [OF assms(1), of d] assms(2) by simp
  moreover have "crudCreate e w1 = (Inr e', snd (crudCreate e w1))"
    using Inr by (metis prod.collapse)
  ultimately have "docs w1 (DocumentID e) = None" by (rule create_ok [THEN conjunct2, THEN conjunct1])
  with create_ok [OF assms(1,2)] assms(3) show ?thesis by simp
qed blast

text \<open>
  Two writers that read the same version: once one of them has replaced the document, the other's
  write does not succeed and leaves the document as it is, whatever the kind of its error; this
  holds at every value of the counter, because \<open>v + 1 \<noteq> v\<close> in 64-bit arithmetic.
\<close>

lemma version_succ_neq: "(v :: int64) + 1 \<noteq> v"
  by simp

lemma replace_race:
  assumes "inv w" and "crudReplace d1 w = (Inr d1', w1)"
    and "DocumentID d2 = DocumentID d1" and "Version d2 = Version d1"
    and "crudReplace d2 w1 = (r, w2)"
  shows "(\<exists>e. r = Inl e) \<and> docs w2 = docs w1"
proof -
  have w1: "inv w1" using inv_ops(3) [OF assms(1), of d1] assms(2) by simp
  from replace_ok [OF assms(1,2)] have "docs w1 (DocumentID d2) = Some (norm d1')"
    and "Version (norm d1') = Version d2 + 1"
    using assms(3,4) by (auto simp: norm_meta)
  then have "\<not> holds_version (docs w1 (DocumentID d2)) (Version d2)"
    by (auto simp: holds_version_def)
  with assms(5) w1 show ?thesis
    by (cases r) (auto dest: replace_ok replace_err)
qed

end

end
