(* ===== verification/FakeCrud.thy ===== *)
theory FakeCrud
  imports ResourceCrud
begin

text \<open>
  The in-memory implementation of \<open>ResourceCRUD[T]\<close>,
  \<open>internal/database/listertesting/fake_crud.go\<close>, and its interpretation of the contract. The mutex
  makes every operation one step, so a state is the pair of the two fields it guards. A stored
  pointer is only ever cloned in and out, so the store holds values.
\<close>

definition time_Unix :: "int \<Rightarrow> int \<Rightarrow> gtime" where
  "time_Unix sec nsec = (62135596800 + sec) * 1000000000 + nsec"

record 'd FakeCRUD =
  fkStore :: "(string \<times> 'd) list"
  fkSeq :: int64

definition NewFakeCRUD :: "'d FakeCRUD" where
  "NewFakeCRUD = \<lparr>fkStore = [], fkSeq = 0\<rparr>"

definition fake_nextSeq :: "'d FakeCRUD \<Rightarrow> int64 \<times> 'd FakeCRUD" where
  "fake_nextSeq f = (let f = f\<lparr>fkSeq := fkSeq f + 1\<rparr> in (fkSeq f, f))"

definition fake_Get :: "string \<Rightarrow> 'd FakeCRUD \<Rightarrow> (go_error + 'd) \<times> 'd FakeCRUD" where
  "fake_Get documentID f =
     (case map_of (fkStore f) documentID of
        None \<Rightarrow> (Inl ErrNotFound, f)
      | Some stored \<Rightarrow> (Inr stored, f))"

definition fake_List :: "'d FakeCRUD \<Rightarrow> (go_error + 'd list) \<times> 'd FakeCRUD" where
  "fake_List f =
     (let keys = sort (map fst (fkStore f))
      in (Inr (map (\<lambda>k. the (map_of (fkStore f) k)) keys), f))"

definition fake_Create ::
  "'a DynamoDBMetadata_scheme \<Rightarrow> 'a DynamoDBMetadata_scheme FakeCRUD
     \<Rightarrow> (go_error + 'a DynamoDBMetadata_scheme) \<times> 'a DynamoDBMetadata_scheme FakeCRUD" where
  "fake_Create obj f =
     (let docID = DocumentID obj in
      if docID = '''' then (Inl (ErrorString ''FakeCRUD.Create: DocumentID is empty''), f)
      else (case map_of (fkStore f) docID of
              Some _ \<Rightarrow> (Inl ErrAlreadyExists, f)
            | None \<Rightarrow>
                (let (s, f) = fake_nextSeq f;
                     now = time_Unix 0 (sint s);
                     stored = obj\<lparr>Version := 1, UpdateTime := now, CreateTime := now\<rparr>
                 in (Inr stored, f\<lparr>fkStore := AList.update docID stored (fkStore f)\<rparr>))))"

definition fake_Replace ::
  "'a DynamoDBMetadata_scheme \<Rightarrow> 'a DynamoDBMetadata_scheme FakeCRUD
     \<Rightarrow> (go_error + 'a DynamoDBMetadata_scheme) \<times> 'a DynamoDBMetadata_scheme FakeCRUD" where
  "fake_Replace obj f =
     (let docID = DocumentID obj in
      case map_of (fkStore f) docID of
        None \<Rightarrow> (Inl ErrNotFound, f)
      | Some stored \<Rightarrow>
          (if Version obj \<noteq> Version stored then (Inl ErrPreconditionFailed, f)
           else (let (s, f) = fake_nextSeq f;
                     replacement = obj\<lparr>Version := Version stored + 1,
                       UpdateTime := time_Unix 0 (sint s), CreateTime := CreateTime stored\<rparr>
                 in (Inr replacement, f\<lparr>fkStore := AList.update docID replacement (fkStore f)\<rparr>))))"

definition fake_Delete :: "string \<Rightarrow> 'd FakeCRUD \<Rightarrow> go_error option \<times> 'd FakeCRUD" where
  "fake_Delete documentID f =
     (case map_of (fkStore f) documentID of
        None \<Rightarrow> (Some ErrNotFound, f)
      | Some _ \<Rightarrow> (None, f\<lparr>fkStore := AList.delete documentID (fkStore f)\<rparr>))"

lemmas fake_defs = fake_Get_def fake_Create_def fake_Replace_def fake_Delete_def fake_nextSeq_def

text \<open>The store is a Go map keyed by the document's own identifier.\<close>

definition fake_inv :: "'a DynamoDBMetadata_scheme FakeCRUD \<Rightarrow> bool" where
  "fake_inv f \<longleftrightarrow> distinct (map fst (fkStore f)) \<and>
     (\<forall>k d. map_of (fkStore f) k = Some d \<longrightarrow> DocumentID d = k \<and> k \<noteq> '''')"

definition fake_docs :: "'d FakeCRUD \<Rightarrow> string \<Rightarrow> 'd option" where
  "fake_docs f = map_of (fkStore f)"

lemma fake_inv_new: "fake_inv NewFakeCRUD"
  by (simp add: fake_inv_def NewFakeCRUD_def)

lemma fake_Get_frame: "snd (fake_Get k f) = f"
  by (simp add: fake_Get_def split: option.split)

lemma fake_Create_cases:
  assumes "fake_Create d f = (r, f')"
  obtains e where "r = Inl e" and "f' = f"
      and "IsAlreadyExistsError e \<Longrightarrow> fake_docs f (DocumentID d) \<noteq> None"
  | d' n where "r = Inr d'" and "DocumentID d \<noteq> ''''" and "fake_docs f (DocumentID d) = None"
      and "created d d'"
      and "f' = f\<lparr>fkSeq := n, fkStore := AList.update (DocumentID d) d' (fkStore f)\<rparr>"
proof (cases "DocumentID d = ''''")
  case True
  with assms that(1) show ?thesis by (auto simp: fake_Create_def)
next
  case id: False
  show ?thesis
  proof (cases "fake_docs f (DocumentID d)")
    case None
    define t where "t = time_Unix 0 (sint (fkSeq f + 1))"
    define d' where "d' = d\<lparr>Version := 1, UpdateTime := t, CreateTime := t\<rparr>"
    have "fake_Create d f =
        (Inr d', f\<lparr>fkSeq := fkSeq f + 1, fkStore := AList.update (DocumentID d) d' (fkStore f)\<rparr>)"
      using None id
      by (simp add: fake_Create_def fake_docs_def fake_nextSeq_def d'_def t_def Let_def)
    from trans [OF assms [symmetric] this] have "r = Inr d'"
      "f' = f\<lparr>fkSeq := fkSeq f + 1, fkStore := AList.update (DocumentID d) d' (fkStore f)\<rparr>"
      unfolding prod.inject by blast+
    moreover have "created d d'" unfolding created_def d'_def by (intro exI) (rule refl)
    ultimately show ?thesis using id None that(2) by blast
  next
    case (Some old)
    with assms id show ?thesis
      by (intro that(1) [of ErrAlreadyExists]) (simp_all add: fake_Create_def fake_docs_def)
  qed
qed

lemma fake_Replace_cases:
  assumes "fake_Replace d f = (r, f')"
  obtains e where "r = Inl e" and "f' = f"
      and "\<not> holds_version (fake_docs f (DocumentID d)) (Version d)"
  | d' n where "r = Inr d'" and "holds_version (fake_docs f (DocumentID d)) (Version d)"
      and "replaced d d'"
      and "f' = f\<lparr>fkSeq := n, fkStore := AList.update (DocumentID d) d' (fkStore f)\<rparr>"
proof (cases "fake_docs f (DocumentID d)")
  case None
  with assms that(1) show ?thesis
    by (auto simp: fake_Replace_def fake_docs_def holds_version_def)
next
  case (Some old)
  show ?thesis
  proof (cases "Version d = Version old")
    case True
    define d' where "d' = d\<lparr>Version := Version old + 1,
      UpdateTime := time_Unix 0 (sint (fkSeq f + 1)), CreateTime := CreateTime old\<rparr>"
    have "fake_Replace d f =
        (Inr d', f\<lparr>fkSeq := fkSeq f + 1, fkStore := AList.update (DocumentID d) d' (fkStore f)\<rparr>)"
      using Some True by (simp add: fake_Replace_def fake_docs_def fake_nextSeq_def d'_def Let_def)
    from trans [OF assms [symmetric] this] have "r = Inr d'"
      "f' = f\<lparr>fkSeq := fkSeq f + 1, fkStore := AList.update (DocumentID d) d' (fkStore f)\<rparr>"
      unfolding prod.inject by blast+
    moreover have "replaced d d'" unfolding replaced_def d'_def True by (intro exI) (rule refl)
    moreover have "holds_version (fake_docs f (DocumentID d)) (Version d)"
      using Some True by (simp add: holds_version_def)
    ultimately show ?thesis using that(2) by blast
  next
    case False
    with Some assms that(1) [of ErrPreconditionFailed] show ?thesis
      by (auto simp: fake_Replace_def fake_docs_def holds_version_def)
  qed
qed

lemma fake_Delete_cases:
  "fake_Delete k f = (r, f') \<Longrightarrow>
   (r = Some ErrNotFound \<and> f' = f \<and> fake_docs f k = None) \<or>
   (r = None \<and> f' = f\<lparr>fkStore := AList.delete k (fkStore f)\<rparr>)"
  by (auto simp: fake_Delete_def fake_docs_def split: option.splits)

lemma fake_docs_simps [simp]:
  "fake_docs (f\<lparr>fkSeq := n, fkStore := AList.update k d (fkStore f)\<rparr>) = (fake_docs f)(k \<mapsto> d)"
  "fake_docs (f\<lparr>fkStore := AList.delete k (fkStore f)\<rparr>) = (fake_docs f)(k := None)"
  by (simp_all add: fake_docs_def)

lemma fake_inv_update:
  "fake_inv f \<Longrightarrow> DocumentID d = k \<Longrightarrow> k \<noteq> '''' \<Longrightarrow>
   fake_inv (f\<lparr>fkSeq := n, fkStore := AList.update k d (fkStore f)\<rparr>)"
  by (simp add: fake_inv_def distinct_update)

lemma fake_inv_delete: "fake_inv f \<Longrightarrow> fake_inv (f\<lparr>fkStore := AList.delete k (fkStore f)\<rparr>)"
  by (simp add: fake_inv_def distinct_delete)

lemma fake_inv_key: "fake_inv f \<Longrightarrow> fake_docs f k = Some d \<Longrightarrow> DocumentID d = k \<and> k \<noteq> ''''"
  by (simp add: fake_inv_def fake_docs_def)

lemma fake_inv_Create: "fake_inv f \<Longrightarrow> fake_inv (snd (fake_Create d f))"
  by (cases "fake_Create d f") (auto elim!: fake_Create_cases intro: fake_inv_update)

lemma fake_inv_Replace: "fake_inv f \<Longrightarrow> fake_inv (snd (fake_Replace d f))"
  by (cases "fake_Replace d f")
    (auto elim!: fake_Replace_cases intro!: fake_inv_update dest: fake_inv_key
      simp: holds_version_def)

lemma fake_inv_Delete: "fake_inv f \<Longrightarrow> fake_inv (snd (fake_Delete k f))"
  by (cases "fake_Delete k f") (auto dest!: fake_Delete_cases intro: fake_inv_delete)

lemma fake_Get_Inr: "fake_Get k f = (Inr d, f') \<Longrightarrow> fake_docs f k = Some d"
  by (auto simp: fake_Get_def fake_docs_def split: option.splits)

lemma fake_Get_Inl: "fake_Get k f = (Inl e, f') \<Longrightarrow> fake_docs f k = None"
  by (auto simp: fake_Get_def fake_docs_def split: option.splits)

interpretation fake: resource_crud fake_inv fake_docs "\<lambda>d. d" fake_Get fake_Create fake_Replace
  fake_Delete
  by unfold_locales
    (simp_all add: fake_Get_frame fake_inv_Create fake_inv_Replace fake_inv_Delete,
     (blast dest: fake_inv_key fake_Get_Inr fake_Get_Inl |
      (erule fake_Create_cases fake_Replace_cases; force) | (drule fake_Delete_cases; force))+)

text \<open>\<open>List\<close> returns every document once, in the order of the keys, and changes nothing.\<close>

lemma fake_List_sorted:
  assumes "fake_inv f"
  shows "\<exists>ds. fake_List f = (Inr ds, f) \<and> map DocumentID ds = sort (map fst (fkStore f)) \<and>
     (\<forall>d. d \<in> set ds \<longleftrightarrow> fake_docs f (DocumentID d) = Some d)"
proof -
  define ks where "ks = sort (map fst (fkStore f))"
  define ds where "ds = map (\<lambda>k. the (fake_docs f k)) ks"
  have dom: "k \<in> set ks \<longleftrightarrow> fake_docs f k \<noteq> None" for k
    by (simp add: map_of_None_iff fake_docs_def ks_def del: not_None_eq)
  have key: "k \<in> set ks \<Longrightarrow> DocumentID (the (fake_docs f k)) = k" for k
    using dom [of k] fake_inv_key [OF assms, of k] by auto
  have "map DocumentID ds = ks"
    unfolding ds_def map_map by (rule map_idI) (use key in simp)
  moreover have "d \<in> set ds \<longleftrightarrow> fake_docs f (DocumentID d) = Some d" for d
  proof
    assume "d \<in> set ds"
    then obtain k where "k \<in> set ks" "d = the (fake_docs f k)" by (auto simp: ds_def)
    with dom [of k] key [of k] show "fake_docs f (DocumentID d) = Some d" by auto
  next
    assume d: "fake_docs f (DocumentID d) = Some d"
    then have "DocumentID d \<in> set ks" by (simp add: dom)
    with d show "d \<in> set ds" by (force simp: ds_def)
  qed
  moreover have "fake_List f = (Inr ds, f)"
    by (simp add: fake_List_def ds_def ks_def fake_docs_def Let_def)
  ultimately show ?thesis
    by (intro exI [of _ ds]) (simp add: ks_def)
qed

end
