(* ===== verification/DynamoCrud.thy ===== *)
theory DynamoCrud
  imports ResourceCrud
begin

text \<open>
  The DynamoDB implementations of \<open>SpecReader[T]\<close> and \<open>ResourceCRUD[T]\<close>,
  \<open>internal/database/crud.go\<close> and \<open>client.go\<close>. The SDK client and the clock are the record
  \<open>dynamo_client\<close>, a parameter; \<open>dynamo_table\<close> states what DynamoDB documents of one
  \<open>GetItem\<close>, \<open>PutItem\<close> or \<open>DeleteItem\<close> request over the ghost view \<open>rows\<close> of the table, and
  \<open>scan_ok\<close> what it documents of the pages of a \<open>Scan\<close>. A request that fails for another reason than
  its condition (a timeout, say) may have been applied.
\<close>

section \<open>The client\<close>

datatype put_condition =
    AttributeNotExists string
  | AttributeEquals string AttributeValue

record 'w dynamo_client =
  dc_GetItem :: "string \<Rightarrow> string \<Rightarrow> 'w \<Rightarrow> (go_error + item option) \<times> 'w"
  dc_PutItem :: "string \<Rightarrow> item \<Rightarrow> put_condition \<Rightarrow> 'w \<Rightarrow> go_error option \<times> 'w"
  dc_DeleteItem :: "string \<Rightarrow> string \<Rightarrow> 'w \<Rightarrow> go_error option \<times> 'w"
  dc_Scan :: "string \<Rightarrow> item option \<Rightarrow> 'w \<Rightarrow> (go_error + item list \<times> item option) \<times> 'w"
  time_Now :: "'w \<Rightarrow> gtime \<times> 'w"

record ('w, 'd) dynamoDBDesireCRUD =
  crClient :: "'w dynamo_client"
  crTable :: string
  crCodec :: "'d attributevalue_codec"
  crJson :: json_lib
  crAcc :: "'d KubeContentAccessor"

section \<open>The operations\<close>

definition dyn_error :: "string \<Rightarrow> string \<Rightarrow> string \<Rightarrow> go_error \<Rightarrow> go_error" where
  "dyn_error operation table docID err =
     WrapError (''dynamodb '' @ operation @ '' '' @ table @ ''/'' @ docID @ '': '') err"

definition dyn_Get ::
  "('w, 'a DynamoDBMetadata_scheme) dynamoDBDesireCRUD \<Rightarrow> string \<Rightarrow> 'w
     \<Rightarrow> (go_error + 'a DynamoDBMetadata_scheme) \<times> 'w" where
  "dyn_Get c documentID w =
     (case dc_GetItem (crClient c) (crTable c) documentID w of
        (Inl err, w) \<Rightarrow> (Inl (dyn_error ''Get'' (crTable c) documentID err), w)
      | (Inr None, w) \<Rightarrow> (Inl ErrNotFound, w)
      | (Inr (Some item), w) \<Rightarrow> (itemToDesire (crCodec c) (crJson c) (crAcc c) item, w))"

fun convertPage ::
  "('w, 'a DynamoDBMetadata_scheme) dynamoDBDesireCRUD \<Rightarrow> item list
     \<Rightarrow> 'a DynamoDBMetadata_scheme list \<Rightarrow> go_error + 'a DynamoDBMetadata_scheme list" where
  "convertPage c [] result = Inr result"
| "convertPage c (item # items) result =
     (case itemToDesire (crCodec c) (crJson c) (crAcc c) item of
        Inl err \<Rightarrow> Inl (WrapError (''dynamodb Scan '' @ crTable c @ '' convert: '') err)
      | Inr obj \<Rightarrow> convertPage c items (result @ [obj]))"

text \<open>The paginator: a first request without a start key, then one for each page that comes with a
  last evaluated key.\<close>

partial_function (option) scanPages ::
  "('w, 'a DynamoDBMetadata_scheme) dynamoDBDesireCRUD \<Rightarrow> item option
     \<Rightarrow> 'a DynamoDBMetadata_scheme list \<Rightarrow> 'w
     \<Rightarrow> ((go_error + 'a DynamoDBMetadata_scheme list) \<times> 'w) option" where
  "scanPages c start result w =
     (case dc_Scan (crClient c) (crTable c) start w of (page, w) \<Rightarrow>
       (case page of
          Inl err \<Rightarrow> Some (Inl (WrapError (''dynamodb Scan '' @ crTable c @ '': '') err), w)
        | Inr pg \<Rightarrow>
            (case convertPage c (fst pg) result of
               Inl err \<Rightarrow> Some (Inl err, w)
             | Inr result \<Rightarrow>
                 (case snd pg of
                    None \<Rightarrow> Some (Inr result, w)
                  | Some lastKey \<Rightarrow> scanPages c (Some lastKey) result w))))"

definition dyn_List ::
  "('w, 'a DynamoDBMetadata_scheme) dynamoDBDesireCRUD \<Rightarrow> 'w
     \<Rightarrow> ((go_error + 'a DynamoDBMetadata_scheme list) \<times> 'w) option" where
  "dyn_List c w = scanPages c None [] w"

definition dyn_Create ::
  "('w, 'a DynamoDBMetadata_scheme) dynamoDBDesireCRUD \<Rightarrow> 'a DynamoDBMetadata_scheme \<Rightarrow> 'w
     \<Rightarrow> (go_error + 'a DynamoDBMetadata_scheme) \<times> 'w" where
  "dyn_Create c obj w =
     (let docID = DocumentID obj in
      if docID = ''''
      then (Inl (ErrorString (''dynamodb Create '' @ crTable c @ '': DocumentID is empty'')), w)
      else
        (let (now, w) = time_Now (crClient c) w;
             out = obj\<lparr>Version := 1, UpdateTime := now, CreateTime := now\<rparr>
         in (case desireToItem (crCodec c) (crJson c) (crAcc c) out of
               Inl err \<Rightarrow> (Inl (dyn_error ''Create'' (crTable c) docID err), w)
             | Inr item \<Rightarrow>
                 (case dc_PutItem (crClient c) (crTable c) item
                         (AttributeNotExists attributeDocumentID) w of
                    (Some err, w) \<Rightarrow>
                      (if isConditionalCheckFailed err then (Inl ErrAlreadyExists, w)
                       else (Inl (dyn_error ''Create'' (crTable c) docID err), w))
                  | (None, w) \<Rightarrow> (Inr out, w)))))"

definition dyn_Replace ::
  "('w, 'a DynamoDBMetadata_scheme) dynamoDBDesireCRUD \<Rightarrow> 'a DynamoDBMetadata_scheme \<Rightarrow> 'w
     \<Rightarrow> (go_error + 'a DynamoDBMetadata_scheme) \<times> 'w" where
  "dyn_Replace c obj w =
     (let docID = DocumentID obj;
          expectedVersion = Version obj;
          (now, w) = time_Now (crClient c) w;
          out = obj\<lparr>Version := expectedVersion + 1, UpdateTime := now\<rparr>
      in (case desireToItem (crCodec c) (crJson c) (crAcc c) out of
            Inl err \<Rightarrow> (Inl (dyn_error ''Replace'' (crTable c) docID err), w)
          | Inr item \<Rightarrow>
              (case dc_PutItem (crClient c) (crTable c) item
                      (AttributeEquals ''version'' (AV_N (show_int (sint expectedVersion)))) w of
                 (Some err, w) \<Rightarrow>
                   (if isConditionalCheckFailed err then (Inl ErrPreconditionFailed, w)
                    else (Inl (dyn_error ''Replace'' (crTable c) docID err), w))
               | (None, w) \<Rightarrow> (Inr out, w))))"

definition dyn_Delete ::
  "('w, 'a DynamoDBMetadata_scheme) dynamoDBDesireCRUD \<Rightarrow> string \<Rightarrow> 'w \<Rightarrow> go_error option \<times> 'w" where
  "dyn_Delete c documentID w =
     (case dc_DeleteItem (crClient c) (crTable c) documentID w of
        (Some err, w) \<Rightarrow> (Some (dyn_error ''Delete'' (crTable c) documentID err), w)
      | (None, w) \<Rightarrow> (None, w))"

text \<open>The read-only view \<open>dynamoDBSpecReader\<close>: a table and a client, and the same two reads.\<close>

definition specReader_Get ::
  "('w, 'a DynamoDBMetadata_scheme) dynamoDBDesireCRUD \<Rightarrow> string \<Rightarrow> 'w
     \<Rightarrow> (go_error + 'a DynamoDBMetadata_scheme) \<times> 'w" where
  "specReader_Get r documentID w =
     (case dc_GetItem (crClient r) (crTable r) documentID w of
        (Inl err, w) \<Rightarrow> (Inl (dyn_error ''Get'' (crTable r) documentID err), w)
      | (Inr None, w) \<Rightarrow> (Inl ErrNotFound, w)
      | (Inr (Some item), w) \<Rightarrow> (itemToDesire (crCodec r) (crJson r) (crAcc r) item, w))"

definition specReader_List ::
  "('w, 'a DynamoDBMetadata_scheme) dynamoDBDesireCRUD \<Rightarrow> 'w
     \<Rightarrow> ((go_error + 'a DynamoDBMetadata_scheme list) \<times> 'w) option" where
  "specReader_List r w = scanPages r None [] w"

lemma specReader_is_crud: "specReader_Get = dyn_Get" "specReader_List = dyn_List"
  by (intro ext, simp add: specReader_Get_def dyn_Get_def specReader_List_def dyn_List_def)+

section \<open>The handle on the two sets of tables\<close>

definition TableSuffixApplyDesires :: string where
  "TableSuffixApplyDesires = ''-applydesires''"
definition TableSuffixReadDesires :: string where
  "TableSuffixReadDesires = ''-readdesires''"

record 'w dynamoDBKubeApplierDBClient =
  specsClient :: "'w dynamo_client"
  statusClient :: "'w dynamo_client"
  specsPrefix :: string
  statusPrefix :: string
  applyCodec :: "ApplyDesire attributevalue_codec"
  readCodec :: "ReadDesire attributevalue_codec"
  dbJson :: json_lib

definition ApplyDesireSpecs ::
  "'w dynamoDBKubeApplierDBClient \<Rightarrow> ('w, ApplyDesire) dynamoDBDesireCRUD" where
  "ApplyDesireSpecs c = \<lparr>crClient = specsClient c, crTable = specsPrefix c @ TableSuffixApplyDesires,
     crCodec = applyCodec c, crJson = dbJson c, crAcc = ApplyDesire_accessor\<rparr>"

definition ReadDesireSpecs ::
  "'w dynamoDBKubeApplierDBClient \<Rightarrow> ('w, ReadDesire) dynamoDBDesireCRUD" where
  "ReadDesireSpecs c = \<lparr>crClient = specsClient c, crTable = specsPrefix c @ TableSuffixReadDesires,
     crCodec = readCodec c, crJson = dbJson c, crAcc = ReadDesire_accessor\<rparr>"

definition ApplyDesireStatusTable ::
  "'w dynamoDBKubeApplierDBClient \<Rightarrow> ('w, ApplyDesire) dynamoDBDesireCRUD" where
  "ApplyDesireStatusTable c = \<lparr>crClient = statusClient c,
     crTable = statusPrefix c @ TableSuffixApplyDesires,
     crCodec = applyCodec c, crJson = dbJson c, crAcc = ApplyDesire_accessor\<rparr>"

definition ReadDesireStatusTable ::
  "'w dynamoDBKubeApplierDBClient \<Rightarrow> ('w, ReadDesire) dynamoDBDesireCRUD" where
  "ReadDesireStatusTable c = \<lparr>crClient = statusClient c,
     crTable = statusPrefix c @ TableSuffixReadDesires,
     crCodec = readCodec c, crJson = dbJson c, crAcc = ReadDesire_accessor\<rparr>"

lemmas db_client_defs = ApplyDesireSpecs_def ReadDesireSpecs_def ApplyDesireStatusTable_def
  ReadDesireStatusTable_def TableSuffixApplyDesires_def TableSuffixReadDesires_def

text \<open>Within one prefix the two tables are different.\<close>

lemma db_tables_distinct:
  "crTable (ApplyDesireSpecs c) \<noteq> crTable (ReadDesireSpecs c)"
  "crTable (ApplyDesireStatusTable c) \<noteq> crTable (ReadDesireStatusTable c)"
  by (simp_all add: db_client_defs)

section \<open>What DynamoDB promises\<close>

fun put_allowed :: "put_condition \<Rightarrow> item option \<Rightarrow> bool" where
  "put_allowed (AttributeNotExists a) None \<longleftrightarrow> True"
| "put_allowed (AttributeNotExists a) (Some it) \<longleftrightarrow> it a = None"
| "put_allowed (AttributeEquals a v) None \<longleftrightarrow> False"
| "put_allowed (AttributeEquals a v) (Some it) \<longleftrightarrow> it a = Some v"

definition dynamo_table ::
  "'w dynamo_client \<Rightarrow> string \<Rightarrow> ('w \<Rightarrow> string \<Rightarrow> item option) \<Rightarrow> bool" where
  "dynamo_table cl tbl rows \<longleftrightarrow>
     (\<forall>w. rows (snd (time_Now cl w)) = rows w) \<and>
     (\<forall>k w r w'. dc_GetItem cl tbl k w = (r, w') \<longrightarrow> rows w' = rows w \<and>
        (case r of Inr it \<Rightarrow> it = rows w k | Inl e \<Rightarrow> library_error e)) \<and>
     (\<forall>it c k w r w'. dc_PutItem cl tbl it c w = (r, w') \<longrightarrow>
        it attributeDocumentID = Some (AV_S k) \<longrightarrow>
        (case r of
           None \<Rightarrow> put_allowed c (rows w k) \<and> rows w' = (rows w)(k \<mapsto> it)
         | Some e \<Rightarrow> library_error e \<and>
             (if isConditionalCheckFailed e then \<not> put_allowed c (rows w k) \<and> rows w' = rows w
              else rows w' = rows w \<or>
                put_allowed c (rows w k) \<and> rows w' = (rows w)(k \<mapsto> it)))) \<and>
     (\<forall>k w r w'. dc_DeleteItem cl tbl k w = (r, w') \<longrightarrow>
        (case r of None \<Rightarrow> rows w' = (rows w)(k := None)
         | Some e \<Rightarrow> library_error e \<and> (rows w' = rows w \<or> rows w' = (rows w)(k := None))))"

lemma dynamo_now: "dynamo_table cl tbl rows \<Longrightarrow> time_Now cl w = (t, w') \<Longrightarrow> rows w' = rows w"
  unfolding dynamo_table_def by (metis snd_conv)

lemma dynamo_get:
  "dynamo_table cl tbl rows \<Longrightarrow> dc_GetItem cl tbl k w = (r, w') \<Longrightarrow>
   rows w' = rows w \<and> (case r of Inr it \<Rightarrow> it = rows w k | Inl e \<Rightarrow> library_error e)"
  unfolding dynamo_table_def by blast

lemma dynamo_put:
  "dynamo_table cl tbl rows \<Longrightarrow> dc_PutItem cl tbl it c w = (r, w') \<Longrightarrow>
   it attributeDocumentID = Some (AV_S k) \<Longrightarrow>
   (case r of
      None \<Rightarrow> put_allowed c (rows w k) \<and> rows w' = (rows w)(k \<mapsto> it)
    | Some e \<Rightarrow> library_error e \<and>
        (if isConditionalCheckFailed e then \<not> put_allowed c (rows w k) \<and> rows w' = rows w
         else rows w' = rows w \<or> put_allowed c (rows w k) \<and> rows w' = (rows w)(k \<mapsto> it)))"
  unfolding dynamo_table_def by blast

lemma dynamo_delete:
  "dynamo_table cl tbl rows \<Longrightarrow> dc_DeleteItem cl tbl k w = (r, w') \<Longrightarrow>
   (case r of None \<Rightarrow> rows w' = (rows w)(k := None)
    | Some e \<Rightarrow> library_error e \<and> (rows w' = rows w \<or> rows w' = (rows w)(k := None)))"
  unfolding dynamo_table_def by blast

section \<open>The contract\<close>

text \<open>
  The documents of a table are its decoded rows; the invariant is that every row was written by
  \<open>desireToItem\<close>, under the key it is stored at.
\<close>

definition dyn_docs ::
  "('w, 'a DynamoDBMetadata_scheme) dynamoDBDesireCRUD \<Rightarrow> ('w \<Rightarrow> string \<Rightarrow> item option)
     \<Rightarrow> 'w \<Rightarrow> string \<Rightarrow> 'a DynamoDBMetadata_scheme option" where
  "dyn_docs c rows w k =
     (case rows w k of
        None \<Rightarrow> None
      | Some it \<Rightarrow> (case itemToDesire (crCodec c) (crJson c) (crAcc c) it of
                       Inl _ \<Rightarrow> None | Inr d \<Rightarrow> Some d))"

definition dyn_inv ::
  "('w, 'a DynamoDBMetadata_scheme) dynamoDBDesireCRUD \<Rightarrow> ('w \<Rightarrow> string \<Rightarrow> item option)
     \<Rightarrow> 'w \<Rightarrow> bool" where
  "dyn_inv c rows w \<longleftrightarrow>
     (\<forall>k it. rows w k = Some it \<longrightarrow>
        (\<exists>d. desireToItem (crCodec c) (crJson c) (crAcc c) d = Inr it \<and> DocumentID d = k))"

definition table_ok ::
  "('a DynamoDBMetadata_scheme \<Rightarrow> 'a DynamoDBMetadata_scheme)
     \<Rightarrow> ('w, 'a DynamoDBMetadata_scheme) dynamoDBDesireCRUD \<Rightarrow> ('w \<Rightarrow> string \<Rightarrow> item option) \<Rightarrow> bool" where
  "table_ok untagged c rows \<longleftrightarrow>
     codec_ok untagged (crCodec c) \<and> json_ok (crJson c) \<and> dynamo_table (crClient c) (crTable c) rows"

lemma table_okD:
  assumes "table_ok untagged c rows"
  shows "codec_ok untagged (crCodec c)" "json_ok (crJson c)"
    "dynamo_table (crClient c) (crTable c) rows"
  using assms by (simp_all add: table_ok_def)

lemma dyn_inv_same: "rows w' = rows w \<Longrightarrow> dyn_inv c rows w' = dyn_inv c rows w"
  by (simp add: dyn_inv_def)

lemma dyn_docs_same: "rows w' = rows w \<Longrightarrow> dyn_docs c rows w' = dyn_docs c rows w"
  by (simp add: dyn_docs_def fun_eq_iff)

lemma dyn_inv_put:
  assumes "dyn_inv c rows w" and "desireToItem (crCodec c) (crJson c) (crAcc c) d = Inr it"
    and "rows w' = (rows w)(DocumentID d \<mapsto> it)"
  shows "dyn_inv c rows w'"
  unfolding dyn_inv_def
proof (intro allI impI)
  fix k it' assume "rows w' k = Some it'"
  with assms(3) have "k = DocumentID d \<and> it' = it \<or> rows w k = Some it'"
    by (auto split: if_splits)
  with assms(1,2) show "\<exists>d. desireToItem (crCodec c) (crJson c) (crAcc c) d = Inr it' \<and> DocumentID d = k"
    unfolding dyn_inv_def by blast
qed

lemma dyn_inv_delete:
  "dyn_inv c rows w \<Longrightarrow> rows w' = (rows w)(k := None) \<Longrightarrow> dyn_inv c rows w'"
  by (simp add: dyn_inv_def)

lemma dyn_docs_delete:
  "rows w' = (rows w)(k := None) \<Longrightarrow> dyn_docs c rows w' = (dyn_docs c rows w)(k := None)"
  by (auto simp: dyn_docs_def fun_eq_iff)

text \<open>
  The two writes, by what they did to the table: nothing, or the conditional put of the document they
  built (then they return it, or an error of the library when the answer was lost).
\<close>

lemma dyn_Create_cases:
  assumes "table_ok untagged c rows" and "dyn_Create c d w = (r, w')"
  obtains (unwritten) e where "r = Inl e" and "rows w' = rows w"
      and "IsAlreadyExistsError e \<Longrightarrow>
        \<not> put_allowed (AttributeNotExists attributeDocumentID) (rows w (DocumentID d))"
  | (written) d' it where "r = Inr d' \<or> (\<exists>e. r = Inl e \<and> library_error e)" and "DocumentID d \<noteq> ''''"
      and "created d d'" and "desireToItem (crCodec c) (crJson c) (crAcc c) d' = Inr it"
      and "put_allowed (AttributeNotExists attributeDocumentID) (rows w (DocumentID d))"
      and "rows w' = (rows w)(DocumentID d \<mapsto> it)"
proof (cases "DocumentID d = ''''")
  case True
  with assms(2) have "r = Inl (ErrorString (''dynamodb Create '' @ crTable c @ '': DocumentID is empty''))"
    and "rows w' = rows w" by (simp_all add: dyn_Create_def)
  then show ?thesis by (rule unwritten) simp_all
next
  case id: False
  obtain now w1 where now: "time_Now (crClient c) w = (now, w1)" by fastforce
  note rows1 = dynamo_now [OF table_okD(3) [OF assms(1)] now]
  define d' where "d' = d\<lparr>Version := 1, UpdateTime := now, CreateTime := now\<rparr>"
  have cr: "created d d'" unfolding created_def d'_def by (intro exI) (rule refl)
  show ?thesis
  proof (cases "desireToItem (crCodec c) (crJson c) (crAcc c) d'")
    case (Inl e)
    note lib = desireToItem_error [OF table_okD(1,2) [OF assms(1)] Inl]
    from Inl id now assms(2) rows1
    have "r = Inl (dyn_error ''Create'' (crTable c) (DocumentID d) e)" and "rows w' = rows w"
      by (simp_all add: dyn_Create_def d'_def)
    then show ?thesis
      by (rule unwritten) (use lib in \<open>simp_all add: dyn_error_def library_error_def\<close>)
  next
    case (Inr it)
    obtain pr w2 where put: "dc_PutItem (crClient c) (crTable c) it
        (AttributeNotExists attributeDocumentID) w1 = (pr, w2)" by fastforce
    have "it attributeDocumentID = Some (AV_S (DocumentID d))"
      using desireToItem_attributes(1) [OF table_okD(1) [OF assms(1)] Inr] by (simp add: d'_def)
    note res = dynamo_put [OF table_okD(3) [OF assms(1)] put this]
    from id now Inr put assms(2) have out: "w' = w2"
      "r = (case pr of None \<Rightarrow> Inr d' | Some e \<Rightarrow>
         if isConditionalCheckFailed e then Inl ErrAlreadyExists
         else Inl (dyn_error ''Create'' (crTable c) (DocumentID d) e))"
      by (cases pr; auto simp: dyn_Create_def d'_def split: if_splits)+
    show ?thesis
    proof (cases pr)
      case None
      with res out rows1 show ?thesis by (intro written [of d' it] id cr Inr) simp_all
    next
      case (Some e)
      with res out rows1 show ?thesis
        by (cases "isConditionalCheckFailed e"; cases "rows w2 = rows w1")
          (auto intro: unwritten written [OF _ id cr Inr] simp: dyn_error_def library_error_def)
    qed
  qed
qed

lemma dyn_Replace_cases:
  assumes "table_ok untagged c rows" and "dyn_Replace c d w = (r, w')"
  defines "cond \<equiv> AttributeEquals ''version'' (AV_N (show_int (sint (Version d))))"
  obtains (unwritten) e where "r = Inl e" and "rows w' = rows w"
      and "IsPreconditionFailedError e \<Longrightarrow> \<not> put_allowed cond (rows w (DocumentID d))"
  | (written) d' it where "r = Inr d' \<or> (\<exists>e. r = Inl e \<and> library_error e)"
      and "replaced d d'" and "desireToItem (crCodec c) (crJson c) (crAcc c) d' = Inr it"
      and "put_allowed cond (rows w (DocumentID d))"
      and "rows w' = (rows w)(DocumentID d \<mapsto> it)"
proof -
  obtain now w1 where now: "time_Now (crClient c) w = (now, w1)" by fastforce
  note rows1 = dynamo_now [OF table_okD(3) [OF assms(1)] now]
  define d' where "d' = d\<lparr>Version := Version d + 1, UpdateTime := now\<rparr>"
  have "d' = d\<lparr>Version := Version d + 1, UpdateTime := now, CreateTime := CreateTime d\<rparr>"
    by (simp add: d'_def)
  then have cr: "replaced d d'" unfolding replaced_def by blast
  show ?thesis
  proof (cases "desireToItem (crCodec c) (crJson c) (crAcc c) d'")
    case (Inl e)
    note lib = desireToItem_error [OF table_okD(1,2) [OF assms(1)] Inl]
    from Inl now assms(2) rows1
    have "r = Inl (dyn_error ''Replace'' (crTable c) (DocumentID d) e)" and "rows w' = rows w"
      by (auto simp: dyn_Replace_def d'_def)
    then show ?thesis
      by (rule unwritten) (use lib in \<open>simp_all add: dyn_error_def library_error_def\<close>)
  next
    case (Inr it)
    obtain pr w2 where put: "dc_PutItem (crClient c) (crTable c) it cond w1 = (pr, w2)" by fastforce
    have "it attributeDocumentID = Some (AV_S (DocumentID d))"
      using desireToItem_attributes(1) [OF table_okD(1) [OF assms(1)] Inr] by (simp add: d'_def)
    note res = dynamo_put [OF table_okD(3) [OF assms(1)] put this]
    from now Inr put assms(2) have out: "w' = w2"
      "r = (case pr of None \<Rightarrow> Inr d' | Some e \<Rightarrow>
         if isConditionalCheckFailed e then Inl ErrPreconditionFailed
         else Inl (dyn_error ''Replace'' (crTable c) (DocumentID d) e))"
      by (cases pr; auto simp: dyn_Replace_def d'_def cond_def split: if_splits)+
    show ?thesis
    proof (cases pr)
      case None
      with res out rows1 show ?thesis by (intro written [of d' it] cr Inr) simp_all
    next
      case (Some e)
      with res out rows1 show ?thesis
        by (cases "isConditionalCheckFailed e"; cases "rows w2 = rows w1")
          (auto intro: unwritten written [OF _ cr Inr] simp: dyn_error_def library_error_def)
    qed
  qed
qed

text \<open>No error of the two operations is a not-found error.\<close>

lemma dyn_Replace_not_found:
  assumes "table_ok untagged c rows" and "dyn_Replace c d w = (Inl e, w')"
  shows "\<not> IsNotFoundError e"
proof -
  obtain now w1 where now: "time_Now (crClient c) w = (now, w1)" by fastforce
  define d' where "d' = d\<lparr>Version := Version d + 1, UpdateTime := now\<rparr>"
  show ?thesis
  proof (cases "desireToItem (crCodec c) (crJson c) (crAcc c) d'")
    case (Inl e')
    with desireToItem_error [OF table_okD(1,2) [OF assms(1)] Inl] now assms(2) show ?thesis
      by (auto simp: dyn_Replace_def d'_def dyn_error_def library_error_def)
  next
    case (Inr it)
    obtain pr w2 where put: "dc_PutItem (crClient c) (crTable c) it
        (AttributeEquals ''version'' (AV_N (show_int (sint (Version d))))) w1 = (pr, w2)" by fastforce
    have "it attributeDocumentID = Some (AV_S (DocumentID d))"
      using desireToItem_attributes(1) [OF table_okD(1) [OF assms(1)] Inr] by (simp add: d'_def)
    from dynamo_put [OF table_okD(3) [OF assms(1)] put this] now Inr put assms(2) show ?thesis
      by (auto simp: dyn_Replace_def d'_def dyn_error_def library_error_def split: option.splits if_splits)
  qed
qed

lemma dyn_Delete_not_found:
  assumes "table_ok untagged c rows" and "dyn_Delete c k w = (Some e, w')"
  shows "\<not> IsNotFoundError e"
proof -
  obtain g w1 where g: "dc_DeleteItem (crClient c) (crTable c) k w = (g, w1)" by fastforce
  from dynamo_delete [OF table_okD(3) [OF assms(1)] g] g assms(2) show ?thesis
    by (auto simp: dyn_Delete_def dyn_error_def library_error_def split: option.splits)
qed

context desire_accessors begin

abbreviation dyn_norm :: "('w, 'a DynamoDBMetadata_scheme) dynamoDBDesireCRUD
    \<Rightarrow> 'a DynamoDBMetadata_scheme \<Rightarrow> 'a DynamoDBMetadata_scheme" where
  "dyn_norm c \<equiv> stored_view (norm_content (crJson c))"

lemma dyn_docs_decode:
  assumes "table_ok untagged c rows" and "crAcc c = acc"
    and "desireToItem (crCodec c) (crJson c) (crAcc c) d = Inr it"
  shows "itemToDesire (crCodec c) (crJson c) (crAcc c) it = Inr (dyn_norm c d)"
  using item_roundtrip [OF table_okD(1,2) [OF assms(1)], of d it] assms(2,3) by simp

lemma dyn_docs_row:
  assumes "table_ok untagged c rows" and "crAcc c = acc" and "dyn_inv c rows w"
    and "rows w k = Some it"
  obtains d where "DocumentID d = k" and "dyn_docs c rows w k = Some (dyn_norm c d)"
    and "itemToDesire (crCodec c) (crJson c) (crAcc c) it = Inr (dyn_norm c d)"
    and "it attributeDocumentID = Some (AV_S k)"
    and "it ''version'' = Some (AV_N (show_int (sint (Version d))))"
proof -
  from assms(3,4) obtain d where d: "desireToItem (crCodec c) (crJson c) (crAcc c) d = Inr it"
    and k: "DocumentID d = k" unfolding dyn_inv_def by blast
  note dec = dyn_docs_decode [OF assms(1,2) d]
  then have "dyn_docs c rows w k = Some (dyn_norm c d)"
    using assms(4) by (simp add: dyn_docs_def)
  with that k dec desireToItem_attributes [OF table_okD(1) [OF assms(1)] d] show ?thesis by blast
qed

lemma dyn_docs_put:
  assumes "table_ok untagged c rows" and "crAcc c = acc"
    and "desireToItem (crCodec c) (crJson c) (crAcc c) d = Inr it"
    and "rows w' = (rows w)(DocumentID d \<mapsto> it)"
  shows "dyn_docs c rows w' = (dyn_docs c rows w)(DocumentID d \<mapsto> dyn_norm c d)"
  using dyn_docs_decode [OF assms(1-3)] assms(4) by (auto simp: dyn_docs_def fun_eq_iff)

lemma put_allowed_absent:
  assumes "table_ok untagged c rows" and "crAcc c = acc" and "dyn_inv c rows w"
  shows "put_allowed (AttributeNotExists attributeDocumentID) (rows w k) \<longleftrightarrow>
           dyn_docs c rows w k = None"
proof (cases "rows w k")
  case None
  then show ?thesis by (simp add: dyn_docs_def)
next
  case (Some it)
  from dyn_docs_row [OF assms Some] show ?thesis by (metis Some option.distinct(1) put_allowed.simps(2))
qed

lemma put_allowed_version:
  assumes "table_ok untagged c rows" and "crAcc c = acc" and "dyn_inv c rows w"
  shows "put_allowed (AttributeEquals ''version'' (AV_N (show_int (sint v)))) (rows w k) \<longleftrightarrow>
           holds_version (dyn_docs c rows w k) v"
proof (cases "rows w k")
  case None
  then show ?thesis by (simp add: dyn_docs_def holds_version_def)
next
  case (Some it)
  from dyn_docs_row [OF assms Some] obtain d where "dyn_docs c rows w k = Some (dyn_norm c d)"
    and "it ''version'' = Some (AV_N (show_int (sint (Version d))))" .
  then show ?thesis by (simp add: Some holds_version_def)
qed

lemma dyn_Get_result:
  assumes "table_ok untagged c rows" and "crAcc c = acc" and "dyn_inv c rows w"
    and "dyn_Get c k w = (r, w')"
  shows "rows w' = rows w \<and>
    (case r of Inr d \<Rightarrow> dyn_docs c rows w k = Some d
     | Inl e \<Rightarrow> IsNotFoundError e \<longrightarrow> dyn_docs c rows w k = None)"
proof -
  obtain g w1 where g: "dc_GetItem (crClient c) (crTable c) k w = (g, w1)" by fastforce
  note res = dynamo_get [OF table_okD(3) [OF assms(1)] g]
  show ?thesis
  proof (cases g)
    case (Inl e)
    with g assms(4) res show ?thesis
      by (auto simp: dyn_Get_def dyn_error_def library_error_def)
  next
    case (Inr row)
    with res have row: "rows w k = row" by simp
    show ?thesis
    proof (cases row)
      case None
      with g Inr assms(4) res row show ?thesis by (auto simp: dyn_Get_def dyn_docs_def)
    next
      case (Some it)
      with row obtain d where "dyn_docs c rows w k = Some (dyn_norm c d)"
        and "itemToDesire (crCodec c) (crJson c) (crAcc c) it = Inr (dyn_norm c d)"
        using dyn_docs_row [OF assms(1-3), of k it] by blast
      moreover from this g Inr Some assms(4) have "r = Inr (dyn_norm c d)" and "w' = w1"
        by (simp_all add: dyn_Get_def)
      ultimately show ?thesis using res by simp
    qed
  qed
qed

lemma dyn_Delete_result:
  assumes "table_ok untagged c rows" and "dyn_Delete c k w = (r, w')"
  shows "case r of None \<Rightarrow> rows w' = (rows w)(k := None)
    | Some e \<Rightarrow> library_error e \<and> (rows w' = rows w \<or> rows w' = (rows w)(k := None))"
proof -
  obtain g w1 where g: "dc_DeleteItem (crClient c) (crTable c) k w = (g, w1)" by fastforce
  from dynamo_delete [OF table_okD(3) [OF assms(1)] g] g assms(2) show ?thesis
    by (auto simp: dyn_Delete_def dyn_error_def split: option.splits)
qed

end

text \<open>
  The DynamoDB implementation satisfies the contract of \<open>ResourceCRUD[T]\<close>, at every desire type and
  for every client and library that behave as documented.
\<close>

context desire_accessors begin

lemma dyn_Create_ok:
  assumes "table_ok untagged c rows" and "crAcc c = acc" and "dyn_inv c rows w"
    and "dyn_Create c d w = (r, w')"
  shows "dyn_inv c rows w' \<and>
    (case r of
       Inr d' \<Rightarrow> DocumentID d \<noteq> '''' \<and> dyn_docs c rows w (DocumentID d) = None \<and>
         created d d' \<and> dyn_docs c rows w' = (dyn_docs c rows w)(DocumentID d \<mapsto> dyn_norm c d')
     | Inl e \<Rightarrow>
         (IsAlreadyExistsError e \<longrightarrow>
            dyn_docs c rows w (DocumentID d) \<noteq> None \<and> dyn_docs c rows w' = dyn_docs c rows w) \<and>
         (dyn_docs c rows w' = dyn_docs c rows w \<or>
          (dyn_docs c rows w (DocumentID d) = None \<and>
           (\<exists>d'. created d d' \<and>
              dyn_docs c rows w' = (dyn_docs c rows w)(DocumentID d \<mapsto> dyn_norm c d')))))"
proof -
  note absent = put_allowed_absent [OF assms(1-3), of "DocumentID d"]
  show ?thesis
  proof (rule dyn_Create_cases [OF assms(1,4)])
    fix e assume "r = Inl e" and same: "rows w' = rows w"
      and "IsAlreadyExistsError e \<Longrightarrow>
        \<not> put_allowed (AttributeNotExists attributeDocumentID) (rows w (DocumentID d))"
    with absent assms(3) show ?thesis
      by (auto simp: dyn_inv_same [OF same] dyn_docs_same [OF same])
  next
    fix d' it
    assume res: "r = Inr d' \<or> (\<exists>e. r = Inl e \<and> library_error e)" "DocumentID d \<noteq> ''''"
      and cr: "created d d'" and it: "desireToItem (crCodec c) (crJson c) (crAcc c) d' = Inr it"
      and "put_allowed (AttributeNotExists attributeDocumentID) (rows w (DocumentID d))"
      and rows: "rows w' = (rows w)(DocumentID d \<mapsto> it)"
    from rows cr have rows': "rows w' = (rows w)(DocumentID d' \<mapsto> it)" by simp
    from res cr absent \<open>put_allowed _ _\<close> dyn_inv_put [OF assms(3) it rows']
      dyn_docs_put [OF assms(1,2) it rows']
    show ?thesis by (auto simp: library_error_def)
  qed
qed

lemma dyn_Replace_ok:
  assumes "table_ok untagged c rows" and "crAcc c = acc" and "dyn_inv c rows w"
    and "dyn_Replace c d w = (r, w')"
  shows "dyn_inv c rows w' \<and>
    (case r of
       Inr d' \<Rightarrow> holds_version (dyn_docs c rows w (DocumentID d)) (Version d) \<and> replaced d d' \<and>
         dyn_docs c rows w' = (dyn_docs c rows w)(DocumentID d \<mapsto> dyn_norm c d')
     | Inl e \<Rightarrow>
         (IsPreconditionFailedError e \<longrightarrow>
            \<not> holds_version (dyn_docs c rows w (DocumentID d)) (Version d) \<and>
            dyn_docs c rows w' = dyn_docs c rows w) \<and>
         (dyn_docs c rows w' = dyn_docs c rows w \<or>
          (holds_version (dyn_docs c rows w (DocumentID d)) (Version d) \<and>
           (\<exists>d'. replaced d d' \<and>
              dyn_docs c rows w' = (dyn_docs c rows w)(DocumentID d \<mapsto> dyn_norm c d')))))"
proof -
  note version = put_allowed_version [OF assms(1-3), of "Version d" "DocumentID d"]
  show ?thesis
  proof (rule dyn_Replace_cases [OF assms(1,4)])
    fix e assume "r = Inl e" and same: "rows w' = rows w"
      and "IsPreconditionFailedError e \<Longrightarrow>
        \<not> put_allowed (AttributeEquals ''version'' (AV_N (show_int (sint (Version d)))))
            (rows w (DocumentID d))"
    with version assms(3) show ?thesis
      by (auto simp: dyn_inv_same [OF same] dyn_docs_same [OF same])
  next
    fix d' it
    assume res: "r = Inr d' \<or> (\<exists>e. r = Inl e \<and> library_error e)"
      and cr: "replaced d d'" and it: "desireToItem (crCodec c) (crJson c) (crAcc c) d' = Inr it"
      and "put_allowed (AttributeEquals ''version'' (AV_N (show_int (sint (Version d)))))
             (rows w (DocumentID d))"
      and rows: "rows w' = (rows w)(DocumentID d \<mapsto> it)"
    from rows cr have rows': "rows w' = (rows w)(DocumentID d' \<mapsto> it)" by simp
    from res cr version \<open>put_allowed _ _\<close> dyn_inv_put [OF assms(3) it rows']
      dyn_docs_put [OF assms(1,2) it rows']
    show ?thesis by (auto simp: library_error_def)
  qed
qed

lemma dyn_resource_crud:
  assumes "table_ok untagged c rows" and "crAcc c = acc"
  shows "resource_crud (dyn_inv c rows) (dyn_docs c rows) (dyn_norm c)
           (dyn_Get c) (dyn_Create c) (dyn_Replace c) (dyn_Delete c)"
proof -
  note cr = dyn_Create_ok [OF assms] and rp = dyn_Replace_ok [OF assms]
    and gt = dyn_Get_result [OF assms] and dl = dyn_Delete_result [OF assms(1)]
  have key: "dyn_inv c rows w \<Longrightarrow> dyn_docs c rows w k = Some d \<Longrightarrow> DocumentID d = k" for w k d
  proof (cases "rows w k")
    case (Some it)
    assume "dyn_inv c rows w" and "dyn_docs c rows w k = Some d"
    then obtain d0 where "DocumentID d0 = k" "dyn_docs c rows w k = Some (dyn_norm c d0)"
      using dyn_docs_row [OF assms _ Some] by blast
    with \<open>dyn_docs c rows w k = Some d\<close> show ?thesis by auto
  qed (simp add: dyn_docs_def)
  have inv_get: "dyn_inv c rows w \<Longrightarrow> dyn_inv c rows (snd (dyn_Get c k w))"
    and docs_get: "dyn_inv c rows w \<Longrightarrow> dyn_docs c rows (snd (dyn_Get c k w)) = dyn_docs c rows w" for w k
    using gt [of w k "fst (dyn_Get c k w)" "snd (dyn_Get c k w)"]
      dyn_inv_same [of rows] dyn_docs_same [of rows] by auto
  have inv_del: "dyn_inv c rows w \<Longrightarrow> dyn_inv c rows (snd (dyn_Delete c k w))" for w k
    using dl [of k w "fst (dyn_Delete c k w)" "snd (dyn_Delete c k w)"]
      dyn_inv_same [of rows] dyn_inv_delete [of c rows w _ k] by (auto split: option.splits)
  have inv_rep: "dyn_inv c rows w \<Longrightarrow> dyn_inv c rows (snd (dyn_Replace c d w))" for w d
    using rp [of w d "fst (dyn_Replace c d w)" "snd (dyn_Replace c d w)"] by simp
  have inv_cre: "dyn_inv c rows w \<Longrightarrow> dyn_inv c rows (snd (dyn_Create c d w))" for w d
    using cr [of w d "fst (dyn_Create c d w)" "snd (dyn_Create c d w)"] by simp
  have get1: "dyn_docs c rows w k = Some d"
    if "dyn_inv c rows w" "dyn_Get c k w = (Inr d, w')" for w k d w'
    using gt [OF that] by simp
  have get2: "dyn_docs c rows w k = None"
    if "dyn_inv c rows w" "dyn_Get c k w = (Inl e, w')" "IsNotFoundError e" for w k e w'
    using gt [OF that(1,2)] that(3) by simp
  have del1: "dyn_docs c rows w' = (dyn_docs c rows w)(k := None)"
    if "dyn_Delete c k w = (None, w')" for w k w'
    by (rule dyn_docs_delete) (use dl [OF that] in simp)
  have del2: "dyn_docs c rows w' = dyn_docs c rows w \<or> dyn_docs c rows w' = (dyn_docs c rows w)(k := None)"
    if "dyn_Delete c k w = (Some e, w')" for w k w' e
    using dl [OF that] dyn_docs_delete [of rows w' w k c] dyn_docs_same [of rows w' w c] by auto
  have del3: "dyn_docs c rows w k = None \<and> dyn_docs c rows w' = dyn_docs c rows w"
    if "dyn_Delete c k w = (Some e, w')" "IsNotFoundError e" for w k w' e
    using dl [OF that(1)] that(2) by (simp add: library_error_def)
  note cr_ok = cr [where r = "Inr _", simplified] and cr_err = cr [where r = "Inl _", simplified]
    and rp_ok = rp [where r = "Inr _", simplified] and rp_err = rp [where r = "Inl _", simplified]
  show ?thesis
    by unfold_locales
      (simp add: stored_view_meta, simp, simp, rule key, assumption+,
       rule inv_get, assumption, rule inv_cre, assumption, rule inv_rep, assumption,
       rule inv_del, assumption, rule docs_get, assumption, rule get1, assumption+,
       rule get2, assumption+,
       use cr_ok in blast, use cr_err in blast, use cr_err in blast,
       use rp_ok in blast, use rp_err in blast, use rp_err in blast,
       rule del1, assumption+, rule del2, assumption+, rule del3, assumption+)
qed

end

section \<open>Listing\<close>

text \<open>
  The pages of a scan: \<open>remaining w start\<close> is what a scan that starts after \<open>start\<close> has still to
  return. A page with a last evaluated key is not empty (no filter is used), and goes on there.
\<close>

definition scan_ok ::
  "'w dynamo_client \<Rightarrow> string \<Rightarrow> ('w \<Rightarrow> item option \<Rightarrow> item list) \<Rightarrow> bool" where
  "scan_ok cl tbl remaining \<longleftrightarrow>
     (\<forall>start w r w'. dc_Scan cl tbl start w = (r, w') \<longrightarrow> remaining w' = remaining w \<and>
        (case r of
           Inl e \<Rightarrow> library_error e
         | Inr (page, lastKey) \<Rightarrow>
             remaining w start = page @ (case lastKey of None \<Rightarrow> [] | Some k \<Rightarrow> remaining w (Some k)) \<and>
             (lastKey \<noteq> None \<longrightarrow> page \<noteq> [])))"

lemma scan_okD:
  "scan_ok cl tbl remaining \<Longrightarrow> dc_Scan cl tbl start w = (r, w') \<Longrightarrow> remaining w' = remaining w \<and>
     (case r of
        Inl e \<Rightarrow> library_error e
      | Inr (page, lastKey) \<Rightarrow>
          remaining w start = page @ (case lastKey of None \<Rightarrow> [] | Some k \<Rightarrow> remaining w (Some k)) \<and>
          (lastKey \<noteq> None \<longrightarrow> page \<noteq> []))"
  unfolding scan_ok_def by blast

abbreviation decode_row ::
  "('w, 'a DynamoDBMetadata_scheme) dynamoDBDesireCRUD \<Rightarrow> item
     \<Rightarrow> go_error + 'a DynamoDBMetadata_scheme" where
  "decode_row c \<equiv> itemToDesire (crCodec c) (crJson c) (crAcc c)"

lemma convertPage_Inr:
  "convertPage c items result = Inr out \<longleftrightarrow>
     (\<exists>new. out = result @ new \<and> map (decode_row c) items = map Inr new)"
proof (induction items arbitrary: result)
  case Nil
  show ?case by auto
next
  case (Cons it items)
  show ?case
  proof (cases "decode_row c it")
    case (Inl e)
    then show ?thesis by (simp add: Cons_eq_map_conv)
  next
    case (Inr d)
    then show ?thesis by (auto simp: Cons.IH Cons_eq_map_conv)
  qed
qed

text \<open>The paging loop returns, and what it returns without an error is every row, decoded.\<close>

lemma scanPages_returns:
  assumes "scan_ok (crClient c) (crTable c) remaining"
  shows "\<exists>r w'. scanPages c start result w = Some (r, w') \<and>
     (\<forall>ds. r = Inr ds \<longrightarrow>
        (\<exists>new. ds = result @ new \<and> map (decode_row c) (remaining w start) = map Inr new))"
proof (induction "length (remaining w start)" arbitrary: start result w rule: less_induct)
  case less
  obtain pr w1 where s: "dc_Scan (crClient c) (crTable c) start w = (pr, w1)" by fastforce
  note ok = scan_okD [OF assms s]
  show ?case
  proof (cases pr)
    case (Inl e)
    with s show ?thesis by (subst scanPages.simps) simp
  next
    case (Inr pg)
    obtain page lastKey where pg: "pg = (page, lastKey)" by fastforce
    show ?thesis
    proof (cases "convertPage c page result")
      case (Inl e)
      with s Inr pg show ?thesis by (subst scanPages.simps) simp
    next
      case conv: (Inr out)
      then obtain new where new: "out = result @ new" "map (decode_row c) page = map Inr new"
        by (auto simp: convertPage_Inr)
      show ?thesis
      proof (cases lastKey)
        case None
        with s Inr pg conv ok new show ?thesis by (subst scanPages.simps) simp
      next
        case (Some k)
        with ok Inr pg have rest: "remaining w start = page @ remaining w1 (Some k)" "page \<noteq> []"
          by simp_all
        then have "length (remaining w1 (Some k)) < length (remaining w start)" by simp
        from less [OF this, of out] obtain r w' where r: "scanPages c (Some k) out w1 = Some (r, w')"
          and ds: "\<forall>ds. r = Inr ds \<longrightarrow> (\<exists>new. ds = out @ new \<and>
            map (decode_row c) (remaining w1 (Some k)) = map Inr new)" by blast
        from s Inr pg conv Some r have "scanPages c start result w = Some (r, w')"
          by (subst scanPages.simps) simp
        moreover have "\<exists>new. ds = result @ new \<and>
            map (decode_row c) (remaining w start) = map Inr new" if "r = Inr ds" for ds
        proof -
          from ds that obtain more where "ds = out @ more"
            "map (decode_row c) (remaining w1 (Some k)) = map Inr more" by blast
          with new rest show ?thesis by (intro exI [of _ "new @ more"]) simp
        qed
        ultimately show ?thesis by blast
      qed
    qed
  qed
qed

context desire_accessors begin

lemma dyn_List_documents:
  assumes "table_ok untagged c rows" and "crAcc c = acc" and "dyn_inv c rows w"
    and "scan_ok (crClient c) (crTable c) remaining"
    and "distinct ks" "set ks = dom (rows w)" "remaining w None = map (\<lambda>k. the (rows w k)) ks"
  shows "\<exists>r w'. dyn_List c w = Some (r, w') \<and>
     (\<forall>ds. r = Inr ds \<longrightarrow> map DocumentID ds = ks \<and>
        (\<forall>d. d \<in> set ds \<longleftrightarrow> dyn_docs c rows w (DocumentID d) = Some d))"
proof -
  from scanPages_returns [OF assms(4), of None "[]" w] obtain r w'
    where r: "dyn_List c w = Some (r, w')"
      and all: "\<And>ds. r = Inr ds \<Longrightarrow> map (decode_row c) (remaining w None) = map Inr ds"
    by (auto simp: dyn_List_def)
  have "map DocumentID ds = ks \<and> (\<forall>d. d \<in> set ds \<longleftrightarrow> dyn_docs c rows w (DocumentID d) = Some d)"
    if "r = Inr ds" for ds
  proof -
    from all [OF that] assms(7) have eq: "map (\<lambda>k. decode_row c (the (rows w k))) ks = map Inr ds"
      by (simp add: comp_def)
    have len: "length ds = length ks" using arg_cong [OF eq, of length] by simp
    have elem: "DocumentID (ds ! i) = ks ! i \<and> dyn_docs c rows w (ks ! i) = Some (ds ! i)"
      if i: "i < length ks" for i
    proof -
      from i assms(6) obtain it where it: "rows w (ks ! i) = Some it" by (metis domD nth_mem)
      from arg_cong [OF eq, of "\<lambda>l. l ! i"] i len it have "decode_row c it = Inr (ds ! i)" by simp
      with dyn_docs_row [OF assms(1-3) it] show ?thesis
        by (metis Inr_inject stored_view_meta(1))
    qed
    have ids: "map DocumentID ds = ks" by (rule nth_equalityI) (simp_all add: len elem)
    have "d \<in> set ds \<longleftrightarrow> dyn_docs c rows w (DocumentID d) = Some d" for d
    proof
      assume "d \<in> set ds"
      with len elem show "dyn_docs c rows w (DocumentID d) = Some d"
        by (metis in_set_conv_nth)
    next
      assume d: "dyn_docs c rows w (DocumentID d) = Some d"
      then have "DocumentID d \<in> set ks"
        unfolding assms(6) by (auto simp: dyn_docs_def split: option.splits)
      then obtain i where "i < length ks" "ks ! i = DocumentID d" by (auto simp: in_set_conv_nth)
      with elem [of i] d len show "d \<in> set ds" by (metis nth_mem option.inject)
    qed
    with ids show ?thesis by blast
  qed
  with r show ?thesis by blast
qed

end

end
