(* ===== verification/StatusWriter.thy ===== *)
theory StatusWriter
  imports FakeCrud DynamoCrud
begin

text \<open>
  \<open>pkg/controllers/desirestatuswriter\<close>: fetch a status document, mutate a copy, create or replace it.
  A writer is built, as in the two controllers, from the operations of a \<open>ResourceCRUD[T]\<close>; its lemmas
  are proved in the locale \<open>resource_crud\<close>, so they hold of the in-memory and of the DynamoDB tables.
\<close>

record ('w, 'd) crud_ops =
  opGet :: "string \<Rightarrow> 'w \<Rightarrow> (go_error + 'd) \<times> 'w"
  opCreate :: "'d \<Rightarrow> 'w \<Rightarrow> (go_error + 'd) \<times> 'w"
  opReplace :: "'d \<Rightarrow> 'w \<Rightarrow> (go_error + 'd) \<times> 'w"
  opDelete :: "string \<Rightarrow> 'w \<Rightarrow> go_error option \<times> 'w"

definition fake_ops :: "('a DynamoDBMetadata_scheme FakeCRUD, 'a DynamoDBMetadata_scheme) crud_ops" where
  "fake_ops = \<lparr>opGet = fake_Get, opCreate = fake_Create, opReplace = fake_Replace,
     opDelete = fake_Delete\<rparr>"

definition dyn_ops ::
  "('w, 'a DynamoDBMetadata_scheme) dynamoDBDesireCRUD \<Rightarrow> ('w, 'a DynamoDBMetadata_scheme) crud_ops" where
  "dyn_ops c = \<lparr>opGet = dyn_Get c, opCreate = dyn_Create c, opReplace = dyn_Replace c,
     opDelete = dyn_Delete c\<rparr>"

text \<open>The writer: \<open>wrShow\<close> is \<open>%v\<close> of a key, \<open>wrZero\<close> the zero value of \<open>var initial T\<close>.\<close>

record ('w, 'd, 'k) writer =
  wrShow :: "'k \<Rightarrow> string"
  wrZero :: 'd
  wrFetch :: "'k \<Rightarrow> 'w \<Rightarrow> (go_error + 'd option) \<times> 'w"
  wrReplace :: "'d \<Rightarrow> 'w \<Rightarrow> go_error option \<times> 'w"
  wrCreate :: "'d \<Rightarrow> 'w \<Rightarrow> go_error option \<times> 'w"

definition createInitialStatus ::
  "('w, 'd, 'k) writer \<Rightarrow> 'k \<Rightarrow> ('d \<Rightarrow> 'd) \<Rightarrow> 'w \<Rightarrow> go_error option \<times> 'w" where
  "createInitialStatus wr key mutate w =
     (case wrCreate wr (mutate (wrZero wr)) w of
        (Some err, w) \<Rightarrow>
          (Some (WrapError (''create initial status for '' @ wrShow wr key @ '': '') err), w)
      | (None, w) \<Rightarrow> (None, w))"

definition UpdateStatus ::
  "('w, 'd, 'k) writer \<Rightarrow> 'k \<Rightarrow> ('d \<Rightarrow> 'd) \<Rightarrow> 'w \<Rightarrow> go_error option \<times> 'w" where
  "UpdateStatus wr key mutate w =
     (case wrFetch wr key w of
        (Inl err, w) \<Rightarrow>
          (if IsNotFoundError err then createInitialStatus wr key mutate w
           else (Some (WrapError (''fetch '' @ wrShow wr key @ '': '') err), w))
      | (Inr None, w) \<Rightarrow> createInitialStatus wr key mutate w
      | (Inr (Some existing), w) \<Rightarrow>
          (let desired = mutate existing in
           if existing = desired then (None, w)
           else (case wrReplace wr desired w of
                   (Some err, w) \<Rightarrow>
                     (Some (WrapError (''replace status for '' @ wrShow wr key @ '': '') err), w)
                 | (None, w) \<Rightarrow> (None, w))))"

text \<open>The fetcher, replacer and creator of the controllers: thin calls of the status CRUD.\<close>

definition drop_result :: "(go_error + 'd) \<times> 'w \<Rightarrow> go_error option \<times> 'w" where
  "drop_result rw = (case fst rw of Inl err \<Rightarrow> Some err | Inr _ \<Rightarrow> None, snd rw)"

definition statusFetcher ::
  "('w, 'd) crud_ops \<Rightarrow> ('k \<Rightarrow> string) \<Rightarrow> 'k \<Rightarrow> 'w \<Rightarrow> (go_error + 'd option) \<times> 'w" where
  "statusFetcher ops keyName key w =
     (case opGet ops (keyName key) w of
        (Inl err, w) \<Rightarrow> (Inl err, w)
      | (Inr d, w) \<Rightarrow> (Inr (Some d), w))"

definition statusReplacer :: "('w, 'd) crud_ops \<Rightarrow> 'd \<Rightarrow> 'w \<Rightarrow> go_error option \<times> 'w" where
  "statusReplacer ops d w = drop_result (opReplace ops d w)"

definition statusCreator :: "('w, 'd) crud_ops \<Rightarrow> 'd \<Rightarrow> 'w \<Rightarrow> go_error option \<times> 'w" where
  "statusCreator ops d w = drop_result (opCreate ops d w)"

definition statusWriter ::
  "('w, 'd) crud_ops \<Rightarrow> ('k \<Rightarrow> string) \<Rightarrow> ('k \<Rightarrow> string) \<Rightarrow> 'd \<Rightarrow> ('w, 'd, 'k) writer" where
  "statusWriter ops keyShow keyName zero =
     \<lparr>wrShow = keyShow, wrZero = zero, wrFetch = statusFetcher ops keyName,
      wrReplace = statusReplacer ops, wrCreate = statusCreator ops\<rparr>"

lemmas status_writer_defs = statusWriter_def statusFetcher_def statusReplacer_def statusCreator_def
  drop_result_def

section \<open>What an update does to the table\<close>

text \<open>
  What the controllers' mutate functions have in common: they name the document after the key and
  leave its version alone.
\<close>

definition names_document :: "string \<Rightarrow> ('a DynamoDBMetadata_scheme \<Rightarrow> 'a DynamoDBMetadata_scheme) \<Rightarrow> bool" where
  "names_document k mutate \<longleftrightarrow> (\<forall>d. DocumentID (mutate d) = k \<and> Version (mutate d) = Version d)"

text \<open>
  No lost update: \<open>env\<close> is what other writers do between the fetch and the write. When they
  changed the document's version, the update returns an error and writes nothing.
\<close>

definition interfered :: "('w \<Rightarrow> 'w) \<Rightarrow> ('w, 'd, 'k) writer \<Rightarrow> ('w, 'd, 'k) writer" where
  "interfered env wr = wr\<lparr>wrFetch := (\<lambda>k w. case wrFetch wr k w of (r, w) \<Rightarrow> (r, env w))\<rparr>"

context resource_crud begin

abbreviation crud :: "('w, 'a DynamoDBMetadata_scheme) crud_ops" where
  "crud \<equiv> \<lparr>opGet = crudGet, opCreate = crudCreate, opReplace = crudReplace, opDelete = crudDelete\<rparr>"

abbreviation table_writer ::
  "('k \<Rightarrow> string) \<Rightarrow> ('k \<Rightarrow> string) \<Rightarrow> 'a DynamoDBMetadata_scheme
     \<Rightarrow> ('w, 'a DynamoDBMetadata_scheme, 'k) writer" where
  "table_writer \<equiv> statusWriter crud"

text \<open>The result of one write to key \<open>k\<close> of the table.\<close>

definition wrote :: "string \<Rightarrow> ('a DynamoDBMetadata_scheme \<Rightarrow> 'a DynamoDBMetadata_scheme)
    \<Rightarrow> 'a DynamoDBMetadata_scheme \<Rightarrow> 'w \<Rightarrow> 'w \<Rightarrow> bool" where
  "wrote k mutate zero w w' \<longleftrightarrow>
     (case docs w k of
        None \<Rightarrow> \<exists>d'. created (mutate zero) d' \<and> docs w' = (docs w)(k \<mapsto> norm d')
      | Some old \<Rightarrow> mutate old \<noteq> old \<and>
          (\<exists>d'. replaced (mutate old) d' \<and> docs w' = (docs w)(k \<mapsto> norm d')))"

lemma create_initial_cases:
  assumes "inv w" and "DocumentID (mutate zero) = k" and "docs w k = None"
    and "createInitialStatus (table_writer sh nm zero) key mutate w = (r, w')"
  shows "inv w' \<and> (r = None \<longrightarrow> wrote k mutate zero w w') \<and>
    (docs w' = docs w \<or> wrote k mutate zero w w')"
proof -
  obtain cr w1 where c: "crudCreate (mutate zero) w = (cr, w1)" by fastforce
  have "inv w1" using inv_ops(2) [OF assms(1), of "mutate zero"] c by simp
  moreover have "r = (case cr of Inl e \<Rightarrow> Some (WrapError
      (''create initial status for '' @ sh key @ '': '') e) | Inr _ \<Rightarrow> None)" "w' = w1"
    using assms(4) c by (auto simp: createInitialStatus_def status_writer_defs split: sum.splits)
  moreover have "docs w1 = docs w \<or> wrote k mutate zero w w1" if "cr = Inl e" for e
    using create_err [OF assms(1), of "mutate zero" e w1] c that assms(2,3) by (auto simp: wrote_def)
  moreover have "wrote k mutate zero w w1" if "cr = Inr d" for d
    using create_ok [OF assms(1), of "mutate zero" d w1] c that assms(2,3) by (auto simp: wrote_def)
  ultimately show ?thesis by (cases cr) auto
qed

text \<open>
  Success means that the document at the key now is the mutated one (with a fresh version), or
  that it was already; an error leaves the table as it was, or wrote that document (its answer was
  lost). No other document changes either way.
\<close>

lemma update_status_cases:
  assumes "inv w" and "names_document (nm key) mutate"
    and "UpdateStatus (table_writer sh nm zero) key mutate w = (r, w')"
  shows "inv w' \<and>
    (docs w' = docs w \<and> (r = None \<longrightarrow> (\<exists>old. docs w (nm key) = Some old \<and> mutate old = old)) \<or>
     wrote (nm key) mutate zero w w')"
proof -
  obtain g w1 where g: "crudGet (nm key) w = (g, w1)" by fastforce
  note w1 = get_ok_inv [OF assms(1) g]
  have id: "DocumentID (mutate d) = nm key" for d using assms(2) by (simp add: names_document_def)
  have same: "wrote (nm key) mutate zero w1 = wrote (nm key) mutate zero w"
  proof -
    from w1 have "docs w1 = docs w" by blast
    then show ?thesis unfolding wrote_def by (simp only:)
  qed
  show ?thesis
  proof (cases g)
    case (Inl e)
    show ?thesis
    proof (cases "IsNotFoundError e")
      case True
      with get_not_found [OF assms(1)] g Inl w1 have none: "docs w1 (nm key) = None" by simp
      from assms(3) g Inl True have "createInitialStatus (table_writer sh nm zero) key mutate w1 = (r, w')"
        by (simp add: UpdateStatus_def statusWriter_def statusFetcher_def)
      from create_initial_cases [OF _ id none this] w1 same show ?thesis by auto
    next
      case False
      with assms(3) g Inl w1 show ?thesis
        by (auto simp: UpdateStatus_def statusWriter_def statusFetcher_def)
    qed
  next
    case (Inr old)
    with get_ok [OF assms(1)] g have old: "docs w (nm key) = Some old" by simp
    show ?thesis
    proof (cases "mutate old = old")
      case True
      with assms(3) g Inr w1 old show ?thesis
        by (auto simp: UpdateStatus_def statusWriter_def statusFetcher_def)
    next
      case False
      obtain rr w2 where rr: "crudReplace (mutate old) w1 = (rr, w2)" by fastforce
      have w2: "inv w2" using inv_ops(3) [of w1 "mutate old"] w1 rr by simp
      from assms(3) g Inr False rr have w': "w' = w2" and r: "r = None \<longleftrightarrow> (\<exists>d. rr = Inr d)"
        by (auto simp: UpdateStatus_def status_writer_defs Let_def split: sum.splits)
      show ?thesis
      proof (cases rr)
        case (Inl e)
        with replace_err [of w1 "mutate old" e w2] rr w1 id old False w2 w' r show ?thesis
          by (auto simp: wrote_def)
      next
        case (Inr d')
        with replace_ok [of w1 "mutate old" d' w2] rr w1 id old False w2 w' show ?thesis
          by (auto simp: wrote_def)
      qed
    qed
  qed
qed

lemma wrote_at: "wrote k mutate zero w w' \<Longrightarrow> k' \<noteq> k \<Longrightarrow> docs w' k' = docs w k'"
  by (auto simp: wrote_def split: option.splits)

lemma update_status_frame:
  assumes "inv w" and "names_document (nm key) mutate" and "k \<noteq> nm key"
  shows "docs (snd (UpdateStatus (table_writer sh nm zero) key mutate w)) k = docs w k"
proof -
  define u where "u = UpdateStatus (table_writer sh nm zero) key mutate w"
  have "u = (fst u, snd u)" by simp
  from update_status_cases [where nm = nm and key = key, OF assms(1,2) this [unfolded u_def]]
    wrote_at [OF _ assms(3)]
  show ?thesis by auto
qed

lemma update_status_ok:
  assumes "inv w" and "names_document (nm key) mutate"
    and "UpdateStatus (table_writer sh nm zero) key mutate w = (None, w')"
  shows "inv w'"
    and "docs w' = docs w \<and> (\<exists>old. docs w (nm key) = Some old \<and> mutate old = old) \<or>
     wrote (nm key) mutate zero w w'"
  using update_status_cases [where nm = nm and key = key, OF assms] by auto

text \<open>
  A mutation that reads back as done settles: an update that succeeded makes the next one with the
  same mutation a no-op.
\<close>

definition settles :: "('a DynamoDBMetadata_scheme \<Rightarrow> 'a DynamoDBMetadata_scheme) \<Rightarrow> bool" where
  "settles mutate \<longleftrightarrow>
     (\<forall>x d'. created (mutate x) d' \<or> replaced (mutate x) d' \<longrightarrow> mutate (norm d') = norm d')"

lemma update_status_settles:
  assumes "inv w" and "names_document (nm key) mutate" and "settles mutate"
    and "UpdateStatus (table_writer sh nm zero) key mutate w = (None, w')"
  shows "\<exists>d. docs w' (nm key) = Some d \<and> mutate d = d"
proof -
  have at: "docs w' k = Some (norm d')" if "docs w' = (docs w)(k \<mapsto> norm d')" for k d'
    using that by simp
  from update_status_ok(2) [where nm = nm and key = key, OF assms(1,2,4)]
  consider (same) old where "docs w' = docs w" "docs w (nm key) = Some old" "mutate old = old"
    | (wrote) x d' where "created (mutate x) d' \<or> replaced (mutate x) d'"
        "docs w' = (docs w)(nm key \<mapsto> norm d')"
    by (auto simp: wrote_def split: option.splits)
  then show ?thesis
  proof cases
    case same
    then show ?thesis by auto
  next
    case wrote
    with assms(3) at show ?thesis unfolding settles_def by blast
  qed
qed

lemma update_status_again:
  assumes "inv w" and "names_document (nm key) mutate" and "settles mutate"
    and "UpdateStatus (table_writer sh nm zero) key mutate w = (None, w')"
  shows "docs (snd (UpdateStatus (table_writer sh nm zero) key mutate w')) = docs w'"
proof -
  from update_status_settles [where nm = nm and key = key, OF assms]
  obtain d where d: "docs w' (nm key) = Some d" "mutate d = d" by blast
  define u where "u = UpdateStatus (table_writer sh nm zero) key mutate w'"
  have u: "UpdateStatus (table_writer sh nm zero) key mutate w' = (fst u, snd u)"
    by (simp add: u_def)
  note inv' = update_status_ok(1) [where nm = nm and key = key, OF assms(1,2,4)]
  from update_status_cases [where nm = nm and key = key, OF inv' assms(2) u] d
  show ?thesis by (auto simp: u_def wrote_def)
qed

lemma update_status_conflict:
  assumes "inv w" and "names_document (nm key) mutate"
    and env: "\<And>w. inv w \<Longrightarrow> inv (env w)"
    and get: "crudGet (nm key) w = (Inr old, w1)" and change: "mutate old \<noteq> old"
    and moved: "\<not> holds_version (docs (env w1) (nm key)) (Version old)"
    and upd: "UpdateStatus (interfered env (table_writer sh nm zero)) key mutate w = (r, w')"
  shows "(\<exists>e. r = Some e) \<and> docs w' = docs (env w1)"
proof -
  have w1: "inv (env w1)" using get_ok_inv [OF assms(1) get] env by blast
  obtain rr w2 where rr: "crudReplace (mutate old) (env w1) = (rr, w2)" by fastforce
  have id: "DocumentID (mutate old) = nm key" "Version (mutate old) = Version old"
    using assms(2) by (simp_all add: names_document_def)
  have err: "\<exists>e. rr = Inl e"
    using replace_ok [OF w1, of "mutate old" _ w2] rr moved id by (cases rr) auto
  then obtain e where e: "rr = Inl e" by blast
  with replace_err [OF w1, of "mutate old" e w2] rr moved id have "docs w2 = docs (env w1)" by simp
  moreover have "r = Some (WrapError (''replace status for '' @ sh key @ '': '') e) \<and> w' = w2"
    using upd get change rr e
    by (auto simp: interfered_def UpdateStatus_def status_writer_defs Let_def)
  ultimately show ?thesis by simp
qed

end

section \<open>Zooming\<close>

text \<open>
  A table that is one component of a larger world, reached by \<open>get\<close> and \<open>put\<close>, satisfies the contract
  there.
\<close>

definition zoom :: "('v \<Rightarrow> 'w) \<Rightarrow> ('w \<Rightarrow> 'v \<Rightarrow> 'v) \<Rightarrow> ('w \<Rightarrow> 'r \<times> 'w) \<Rightarrow> 'v \<Rightarrow> 'r \<times> 'v" where
  "zoom get put f v = (case f (get v) of (r, w) \<Rightarrow> (r, put w v))"

definition zoom_ops ::
  "('v \<Rightarrow> 'w) \<Rightarrow> ('w \<Rightarrow> 'v \<Rightarrow> 'v) \<Rightarrow> ('w, 'd) crud_ops \<Rightarrow> ('v, 'd) crud_ops" where
  "zoom_ops get put ops = \<lparr>opGet = (\<lambda>k. zoom get put (opGet ops k)),
     opCreate = (\<lambda>d. zoom get put (opCreate ops d)),
     opReplace = (\<lambda>d. zoom get put (opReplace ops d)),
     opDelete = (\<lambda>k. zoom get put (opDelete ops k))\<rparr>"

definition crud_contract ::
  "('w \<Rightarrow> bool) \<Rightarrow> ('w \<Rightarrow> string \<Rightarrow> 'a DynamoDBMetadata_scheme option)
     \<Rightarrow> ('a DynamoDBMetadata_scheme \<Rightarrow> 'a DynamoDBMetadata_scheme)
     \<Rightarrow> ('w, 'a DynamoDBMetadata_scheme) crud_ops \<Rightarrow> bool" where
  "crud_contract I docs N ops \<longleftrightarrow>
     resource_crud I docs N (opGet ops) (opCreate ops) (opReplace ops) (opDelete ops)"

lemma fake_contract: "crud_contract fake_inv fake_docs (\<lambda>d. d) fake_ops"
  by (simp add: crud_contract_def fake_ops_def fake.resource_crud_axioms)

context desire_accessors begin

lemma dyn_contract:
  "table_ok untagged c rows \<Longrightarrow> crAcc c = acc \<Longrightarrow>
   crud_contract (dyn_inv c rows) (dyn_docs c rows) (dyn_norm c) (dyn_ops c)"
  by (simp add: crud_contract_def dyn_ops_def dyn_resource_crud)

end

lemma zoom_eq: "zoom get put f v = (r, v') \<longleftrightarrow> (\<exists>w'. f (get v) = (r, w') \<and> v' = put w' v)"
  by (auto simp: zoom_def split: prod.splits)

lemma zoom_snd: "snd (zoom get put f v) = put (snd (f (get v))) v"
  by (simp add: zoom_def split: prod.split)

lemma zoom_contract:
  assumes "crud_contract I docs N ops" and gp: "\<And>w v. get (put w v) = w"
  shows "crud_contract (I \<circ> get) (docs \<circ> get) N (zoom_ops get put ops)"
proof -
  note C = assms(1) [unfolded crud_contract_def]
  note meta = resource_crud.norm_meta [OF C] and key = resource_crud.docs_key [OF C]
    and ops = resource_crud.inv_ops [OF C] and docs = resource_crud.get_docs [OF C]
    and get1 = resource_crud.get_ok [OF C] and get2 = resource_crud.get_not_found [OF C]
    and cr1 = resource_crud.create_ok [OF C] and cr2 = resource_crud.create_exists [OF C]
    and cr3 = resource_crud.create_err [OF C] and rp1 = resource_crud.replace_ok [OF C]
    and rp2 = resource_crud.replace_conflict [OF C] and rp3 = resource_crud.replace_err [OF C]
    and dl1 = resource_crud.delete_ok [OF C] and dl2 = resource_crud.delete_err [OF C]
    and dl3 = resource_crud.delete_not_found [OF C]
  show ?thesis
    unfolding crud_contract_def zoom_ops_def crud_ops.simps comp_def
    by unfold_locales
      (simp_all add: meta key ops docs zoom_snd gp zoom_eq,
       (elim exE conjE, hypsubst, (unfold gp)?,
        (erule (1) get1 | erule (2) get2 | (drule (1) cr1; simp) | (drule (2) cr2; simp) |
         erule (1) cr3 | (drule (1) rp1; simp) | (drule (2) rp2; simp) | erule (1) rp3 |
         erule (1) dl1 | erule (1) dl2 | (drule (2) dl3; simp)))+)
qed

end
