(* ===== verification/Conditions.thy ===== *)
theory Conditions
  imports DesireTypes
begin

text \<open>
  \<open>pkg/controllers/conditions/conditions.go\<close>. The setters go through apimachinery's
  \<open>meta.SetStatusCondition\<close>, which is not part of the repository: it is the parameter \<open>ssc\<close>, and
  \<open>status_condition_setter\<close> states its documented behaviour on the list of conditions.
\<close>

definition find_condition :: "Condition list \<Rightarrow> string \<Rightarrow> Condition option" where
  "find_condition cs t = find (\<lambda>c. cType c = t) cs"

definition condition_agrees :: "Condition option \<Rightarrow> Condition \<Rightarrow> bool" where
  "condition_agrees old c = (case old of None \<Rightarrow> False
     | Some o' \<Rightarrow> cStatus o' = cStatus c \<and> cReason o' = cReason c \<and> cMessage o' = cMessage c)"

text \<open>
  \<open>SetStatusCondition\<close>: all fields of an existing condition of the type are updated to the new one,
  a missing one is added, the conditions of other types are kept, and nothing changes when the
  existing condition already agrees.
\<close>

definition status_condition_setter :: "(Condition list \<Rightarrow> Condition \<Rightarrow> Condition list) \<Rightarrow> bool" where
  "status_condition_setter ssc \<longleftrightarrow>
     (\<forall>cs c. condition_agrees (find_condition (ssc cs c) (cType c)) c) \<and>
     (\<forall>cs c t. t \<noteq> cType c \<longrightarrow> find_condition (ssc cs c) t = find_condition cs t) \<and>
     (\<forall>cs c. condition_agrees (find_condition cs (cType c)) c \<longrightarrow> ssc cs c = cs)"

lemma ssc_sets:
  "status_condition_setter ssc \<Longrightarrow> condition_agrees (find_condition (ssc cs c) (cType c)) c"
  by (simp add: status_condition_setter_def)

lemma ssc_frame:
  "status_condition_setter ssc \<Longrightarrow> t \<noteq> cType c \<Longrightarrow> find_condition (ssc cs c) t = find_condition cs t"
  by (simp add: status_condition_setter_def)

lemma ssc_noop:
  "status_condition_setter ssc \<Longrightarrow> condition_agrees (find_condition cs (cType c)) c \<Longrightarrow> ssc cs c = cs"
  by (simp add: status_condition_setter_def)

section \<open>The setters\<close>

definition SetSuccessful ::
  "(Condition list \<Rightarrow> Condition \<Rightarrow> Condition list) \<Rightarrow> Condition list \<Rightarrow> go_error option \<Rightarrow> Condition list" where
  "SetSuccessful ssc conds err =
     (case err of
        None \<Rightarrow> ssc conds \<lparr>cType = ConditionTypeSuccessful, cStatus = ConditionTrue,
                  cReason = ConditionReasonNoErrors, cMessage = ''As expected.'',
                  cLastTransitionTime = 0\<rparr>
      | Some e \<Rightarrow>
          (let reason = (case e of PreCheckError _ \<Rightarrow> ConditionReasonPreCheckFailed
                         | _ \<Rightarrow> ConditionReasonKubeAPIError)
           in ssc conds \<lparr>cType = ConditionTypeSuccessful, cStatus = ConditionFalse,
                cReason = reason, cMessage = error_text e, cLastTransitionTime = 0\<rparr>))"

text \<open>\<open>formatRFC3339\<close> is \<open>t.UTC().Format(time.RFC3339)\<close>.\<close>

definition SetSuccessfulWaitingForDeletion ::
  "(Condition list \<Rightarrow> Condition \<Rightarrow> Condition list) \<Rightarrow> (gtime \<Rightarrow> string) \<Rightarrow> Condition list
     \<Rightarrow> gtime \<Rightarrow> string \<Rightarrow> Condition list" where
  "SetSuccessfulWaitingForDeletion ssc formatRFC3339 conds deletionTime uid =
     ssc conds \<lparr>cType = ConditionTypeSuccessful, cStatus = ConditionFalse,
       cReason = ConditionReasonWaitingForDeletion,
       cMessage = ''waiting for deletion: deletionTimestamp='' @ formatRFC3339 deletionTime
                    @ '' uid='' @ uid,
       cLastTransitionTime = 0\<rparr>"

definition SetDegraded ::
  "(Condition list \<Rightarrow> Condition \<Rightarrow> Condition list) \<Rightarrow> Condition list \<Rightarrow> go_error option \<Rightarrow> Condition list" where
  "SetDegraded ssc conds err =
     (case err of
        None \<Rightarrow> ssc conds \<lparr>cType = ConditionTypeDegraded, cStatus = ConditionFalse,
                  cReason = ConditionReasonNoErrors, cMessage = ''As expected.'',
                  cLastTransitionTime = 0\<rparr>
      | Some e \<Rightarrow> ssc conds \<lparr>cType = ConditionTypeDegraded, cStatus = ConditionTrue,
                  cReason = ConditionReasonFailed,
                  cMessage = ''Had an error while syncing: '' @ error_text e,
                  cLastTransitionTime = 0\<rparr>)"

text \<open>
  The three readings of a condition list that the consumers of a status document make: the status
  and reason of the two conditions.
\<close>

definition condition_is :: "Condition list \<Rightarrow> string \<Rightarrow> string \<Rightarrow> string \<Rightarrow> bool" where
  "condition_is cs t st rs =
     (case find_condition cs t of None \<Rightarrow> False | Some c \<Rightarrow> cStatus c = st \<and> cReason c = rs)"

definition successful_is :: "Condition list \<Rightarrow> string \<Rightarrow> string \<Rightarrow> bool" where
  "successful_is cs = condition_is cs ConditionTypeSuccessful"

definition degraded_is :: "Condition list \<Rightarrow> string \<Rightarrow> string \<Rightarrow> bool" where
  "degraded_is cs = condition_is cs ConditionTypeDegraded"

lemma condition_is_ssc:
  assumes "status_condition_setter ssc"
  shows "condition_is (ssc cs c) (cType c) (cStatus c) (cReason c)"
  using ssc_sets [OF assms, of cs c]
  by (auto simp: condition_is_def condition_agrees_def split: option.splits)

lemma condition_is_ssc_other:
  "status_condition_setter ssc \<Longrightarrow> t \<noteq> cType c \<Longrightarrow> condition_is (ssc cs c) t = condition_is cs t"
  by (simp add: condition_is_def ssc_frame fun_eq_iff)

lemma condition_is_unique:
  "condition_is cs t s r \<Longrightarrow> condition_is cs t s' r' \<Longrightarrow> s = s' \<and> r = r'"
  by (auto simp: condition_is_def split: option.splits)

definition successful_reason :: "go_error \<Rightarrow> string" where
  "successful_reason e = (case e of PreCheckError _ \<Rightarrow> ConditionReasonPreCheckFailed
                          | _ \<Rightarrow> ConditionReasonKubeAPIError)"

lemma SetSuccessful_successful:
  assumes "status_condition_setter ssc"
  shows "successful_is (SetSuccessful ssc cs None) ConditionTrue ConditionReasonNoErrors"
    and "successful_is (SetSuccessful ssc cs (Some e)) ConditionFalse (successful_reason e)"
  using condition_is_ssc [OF assms, of cs "\<lparr>cType = ConditionTypeSuccessful, cStatus = ConditionTrue,
      cReason = ConditionReasonNoErrors, cMessage = ''As expected.'', cLastTransitionTime = 0\<rparr>"]
    condition_is_ssc [OF assms, of cs "\<lparr>cType = ConditionTypeSuccessful, cStatus = ConditionFalse,
      cReason = successful_reason e, cMessage = error_text e, cLastTransitionTime = 0\<rparr>"]
  by (simp_all add: SetSuccessful_def successful_is_def successful_reason_def)

lemma SetDegraded_degraded:
  assumes "status_condition_setter ssc"
  shows "degraded_is (SetDegraded ssc cs None) ConditionFalse ConditionReasonNoErrors"
    and "degraded_is (SetDegraded ssc cs (Some e)) ConditionTrue ConditionReasonFailed"
  using condition_is_ssc [OF assms, of cs "\<lparr>cType = ConditionTypeDegraded, cStatus = ConditionFalse,
      cReason = ConditionReasonNoErrors, cMessage = ''As expected.'', cLastTransitionTime = 0\<rparr>"]
    condition_is_ssc [OF assms, of cs "\<lparr>cType = ConditionTypeDegraded, cStatus = ConditionTrue,
      cReason = ConditionReasonFailed, cMessage = ''Had an error while syncing: '' @ error_text e,
      cLastTransitionTime = 0\<rparr>"]
  by (simp_all add: SetDegraded_def degraded_is_def)

lemma SetWaiting_successful:
  assumes "status_condition_setter ssc"
  shows "successful_is (SetSuccessfulWaitingForDeletion ssc fmt cs t uid)
           ConditionFalse ConditionReasonWaitingForDeletion"
  using condition_is_ssc [OF assms, of cs "\<lparr>cType = ConditionTypeSuccessful, cStatus = ConditionFalse,
      cReason = ConditionReasonWaitingForDeletion,
      cMessage = ''waiting for deletion: deletionTimestamp='' @ fmt t @ '' uid='' @ uid,
      cLastTransitionTime = 0\<rparr>"]
  by (simp add: SetSuccessfulWaitingForDeletion_def successful_is_def)

text \<open>Each setter leaves the other condition alone.\<close>

lemma setters_frame:
  assumes "status_condition_setter ssc"
  shows "t \<noteq> ConditionTypeSuccessful \<Longrightarrow>
           find_condition (SetSuccessful ssc cs e) t = find_condition cs t"
    and "t \<noteq> ConditionTypeDegraded \<Longrightarrow>
           find_condition (SetDegraded ssc cs e) t = find_condition cs t"
    and "t \<noteq> ConditionTypeSuccessful \<Longrightarrow>
           find_condition (SetSuccessfulWaitingForDeletion ssc fmt cs d uid) t = find_condition cs t"
  by (auto simp: SetSuccessful_def SetDegraded_def SetSuccessfulWaitingForDeletion_def Let_def
      ssc_frame [OF assms] split: option.splits)

lemma successful_SetDegraded [simp]:
  "status_condition_setter ssc \<Longrightarrow> successful_is (SetDegraded ssc cs e) = successful_is cs"
  by (simp add: successful_is_def condition_is_def setters_frame fun_eq_iff)

text \<open>Running a setter again with the same outcome changes nothing.\<close>

lemma setters_idem:
  assumes "status_condition_setter ssc"
  shows "SetSuccessful ssc (SetSuccessful ssc cs e) e = SetSuccessful ssc cs e"
    and "SetDegraded ssc (SetDegraded ssc cs e) e = SetDegraded ssc cs e"
proof -
  have idem: "ssc (ssc cs c) c = ssc cs c" for c
    using ssc_noop [OF assms ssc_sets [OF assms]] .
  show "SetSuccessful ssc (SetSuccessful ssc cs e) e = SetSuccessful ssc cs e"
    by (simp add: SetSuccessful_def Let_def idem split: option.split)
  show "SetDegraded ssc (SetDegraded ssc cs e) e = SetDegraded ssc cs e"
    by (simp add: SetDegraded_def idem split: option.split)
qed

lemma setters_pair_idem:
  fixes e e' :: "go_error option"
  assumes "status_condition_setter ssc"
  defines "f \<equiv> \<lambda>cs. SetDegraded ssc (SetSuccessful ssc cs e) e'"
  shows "f (f cs) = f cs"
proof -
  have s: "\<exists>c. (\<forall>cs. SetSuccessful ssc cs e = ssc cs c) \<and> cType c = ConditionTypeSuccessful"
    by (cases e) (force simp: SetSuccessful_def Let_def)+
  have d: "\<exists>c. (\<forall>cs. SetDegraded ssc cs e' = ssc cs c) \<and> cType c = ConditionTypeDegraded"
    by (cases e') (force simp: SetDegraded_def)+
  from s d obtain c c' where c: "\<And>cs. SetSuccessful ssc cs e = ssc cs c"
      "cType c = ConditionTypeSuccessful"
    and c': "\<And>cs. SetDegraded ssc cs e' = ssc cs c'" "cType c' = ConditionTypeDegraded"
    by blast
  have "find_condition (f cs) (cType c) = find_condition (ssc cs c) (cType c)"
    by (simp add: f_def c c' ssc_frame [OF assms(1)])
  then have "condition_agrees (find_condition (f cs) (cType c)) c"
    by (simp add: ssc_sets [OF assms(1)])
  then have "SetSuccessful ssc (f cs) e = f cs"
    by (simp add: c ssc_noop [OF assms(1)])
  moreover have "ssc (f cs) c' = f cs"
    unfolding f_def c'(1) by (rule ssc_noop [OF assms(1) ssc_sets [OF assms(1)]])
  moreover have "f (f cs) = SetDegraded ssc (SetSuccessful ssc (f cs) e) e'"
    by (simp only: f_def)
  ultimately show ?thesis by (simp add: c')
qed

section \<open>A setter for evaluation\<close>

text \<open>The documented algorithm, with \<open>now\<close> the clock reading; used in the witnesses only.\<close>

fun sample_ssc :: "gtime \<Rightarrow> Condition list \<Rightarrow> Condition \<Rightarrow> Condition list" where
  "sample_ssc now [] c = [c\<lparr>cLastTransitionTime := now\<rparr>]"
| "sample_ssc now (x # xs) c =
     (if cType x = cType c
      then x\<lparr>cStatus := cStatus c, cReason := cReason c, cMessage := cMessage c,
             cLastTransitionTime := (if cStatus x = cStatus c then cLastTransitionTime x else now)\<rparr> # xs
      else x # sample_ssc now xs c)"

lemma sample_ssc_ok: "status_condition_setter (sample_ssc now)"
proof -
  have "condition_agrees (find_condition (sample_ssc now cs c) (cType c)) c" for cs c
    by (induction cs) (auto simp: condition_agrees_def find_condition_def)
  moreover have "t \<noteq> cType c \<Longrightarrow> find_condition (sample_ssc now cs c) t = find_condition cs t" for cs c t
    by (induction cs) (auto simp: find_condition_def)
  moreover have "condition_agrees (find_condition cs (cType c)) c \<Longrightarrow> sample_ssc now cs c = cs" for cs c
    by (induction cs) (auto simp: condition_agrees_def find_condition_def split: if_splits option.splits)
  ultimately show ?thesis by (simp add: status_condition_setter_def)
qed

end
