(* ===== verification/Cooldown.thy ===== *)
theory Cooldown
  imports KA_Prelude
begin

text \<open>
  \<open>internal/controllerutils/cooldown.go\<close>: the time-based cooldown gate in front of the work queues.
  The LRU cache of k8s.io/utils is a parameter, the record \<open>lru_lib\<close>, and \<open>lru_ok\<close> its documented
  behaviour: a key just added is there, a lookup changes nothing that a later lookup sees, and
  nothing is evicted as long as the keys fit in the capacity. The clock reading is an argument of
  each call.
\<close>

record ('k, 'c) lru_lib =
  lru_New :: "nat \<Rightarrow> 'c"
  lru_Get :: "'k \<Rightarrow> 'c \<Rightarrow> gtime option \<times> 'c"
  lru_Add :: "'k \<Rightarrow> gtime \<Rightarrow> 'c \<Rightarrow> 'c"

record 'c TimeBasedCooldownChecker =
  cooldownDuration :: duration
  nextExecTime :: 'c

definition NewTimeBasedCooldownChecker ::
  "('k, 'c) lru_lib \<Rightarrow> duration \<Rightarrow> 'c TimeBasedCooldownChecker" where
  "NewTimeBasedCooldownChecker lib d =
     \<lparr>cooldownDuration = d, nextExecTime = lru_New lib 1000000\<rparr>"

definition CanSync ::
  "('k, 'c) lru_lib \<Rightarrow> gtime \<Rightarrow> 'k \<Rightarrow> 'c TimeBasedCooldownChecker
     \<Rightarrow> bool \<times> 'c TimeBasedCooldownChecker" where
  "CanSync lib now key c =
     (let (entry, cache) = lru_Get lib key (nextExecTime c);
          c = c\<lparr>nextExecTime := cache\<rparr>
      in if (case entry of None \<Rightarrow> True | Some nextTime \<Rightarrow> now > nextTime)
         then (True, c\<lparr>nextExecTime := lru_Add lib key (now + cooldownDuration c) (nextExecTime c)\<rparr>)
         else (False, c))"

definition lru_ok :: "('k, 'c) lru_lib \<Rightarrow> ('c \<Rightarrow> 'k \<Rightarrow> gtime option) \<Rightarrow> ('c \<Rightarrow> nat) \<Rightarrow> bool" where
  "lru_ok lib content cap \<longleftrightarrow>
     (\<forall>n. content (lru_New lib n) = Map.empty \<and> cap (lru_New lib n) = n) \<and>
     (\<forall>k c v c'. lru_Get lib k c = (v, c') \<longrightarrow> v = content c k \<and> content c' = content c \<and> cap c' = cap c) \<and>
     (\<forall>k t c. cap (lru_Add lib k t c) = cap c \<and> content (lru_Add lib k t c) k = Some t \<and>
        (card (insert k (dom (content c))) \<le> cap c \<longrightarrow>
           content (lru_Add lib k t c) = (content c)(k \<mapsto> t)))"

text \<open>A run of the gate over calls in the order in which they are made, with each answer.\<close>

fun run_cooldown ::
  "('k, 'c) lru_lib \<Rightarrow> 'c TimeBasedCooldownChecker \<Rightarrow> (gtime \<times> 'k) list \<Rightarrow> (gtime \<times> 'k \<times> bool) list" where
  "run_cooldown lib c [] = []"
| "run_cooldown lib c ((now, k) # calls) =
     (let (ok, c') = CanSync lib now k c in (now, k, ok) # run_cooldown lib c' calls)"

text \<open>
  What the gate is for: a call is allowed when every call for the same key that was allowed before
  lies more than the cooldown in the past, and denied calls do not count.
\<close>

fun cooldown_spec ::
  "duration \<Rightarrow> (gtime \<times> 'k) list \<Rightarrow> (gtime \<times> 'k) list \<Rightarrow> (gtime \<times> 'k \<times> bool) list" where
  "cooldown_spec d allowed [] = []"
| "cooldown_spec d allowed ((now, k) # calls) =
     (let ok = list_all (\<lambda>(t, k'). k' = k \<longrightarrow> t + d < now) allowed
      in (now, k, ok) # cooldown_spec d (if ok then (now, k) # allowed else allowed) calls)"

lemma CanSync_result:
  assumes "lru_ok lib content cap" and "CanSync lib now k c = (ok, c')"
  shows "ok = (case content (nextExecTime c) k of None \<Rightarrow> True | Some t \<Rightarrow> t < now)"
    and "cooldownDuration c' = cooldownDuration c"
    and "cap (nextExecTime c') = cap (nextExecTime c)"
    and "\<not> ok \<Longrightarrow> content (nextExecTime c') = content (nextExecTime c)"
    and "ok \<Longrightarrow> content (nextExecTime c') k = Some (now + cooldownDuration c)"
    and "ok \<Longrightarrow> card (insert k (dom (content (nextExecTime c)))) \<le> cap (nextExecTime c) \<Longrightarrow>
           content (nextExecTime c') = (content (nextExecTime c))(k \<mapsto> now + cooldownDuration c)"
proof -
  obtain v ch where g: "lru_Get lib k (nextExecTime c) = (v, ch)" by fastforce
  with assms(1) have v: "v = content (nextExecTime c) k" "content ch = content (nextExecTime c)"
    "cap ch = cap (nextExecTime c)" unfolding lru_ok_def by blast+
  have add: "cap (lru_Add lib k t ch) = cap ch" "content (lru_Add lib k t ch) k = Some t"
    "card (insert k (dom (content ch))) \<le> cap ch \<Longrightarrow>
       content (lru_Add lib k t ch) = (content ch)(k \<mapsto> t)" for t
    using assms(1) unfolding lru_ok_def by blast+
  show "ok = (case content (nextExecTime c) k of None \<Rightarrow> True | Some t \<Rightarrow> t < now)"
    and "cooldownDuration c' = cooldownDuration c"
    and "cap (nextExecTime c') = cap (nextExecTime c)"
    and "\<not> ok \<Longrightarrow> content (nextExecTime c') = content (nextExecTime c)"
    and "ok \<Longrightarrow> content (nextExecTime c') k = Some (now + cooldownDuration c)"
    and "ok \<Longrightarrow> card (insert k (dom (content (nextExecTime c)))) \<le> cap (nextExecTime c) \<Longrightarrow>
           content (nextExecTime c') = (content (nextExecTime c))(k \<mapsto> now + cooldownDuration c)"
    using assms(2) g v add by (auto simp: CanSync_def Let_def split: if_splits)
qed

text \<open>
  The simulation: the cache holds, for each key, the end of the window of its last allowed call, and
  that window ends after the windows of the calls allowed before it.
\<close>

definition window_sim :: "duration \<Rightarrow> (gtime \<times> 'k) list \<Rightarrow> ('k \<Rightarrow> gtime option) \<Rightarrow> bool" where
  "window_sim d allowed m \<longleftrightarrow>
     (\<forall>k. m k = None \<longrightarrow> k \<notin> snd ` set allowed) \<and>
     (\<forall>k e. m k = Some e \<longrightarrow> (\<exists>t. (t, k) \<in> set allowed \<and> e = t + d) \<and>
        (\<forall>t. (t, k) \<in> set allowed \<longrightarrow> t + d \<le> e))"

lemma window_sim_ok:
  assumes "window_sim d allowed m"
  shows "(case m k of None \<Rightarrow> True | Some t \<Rightarrow> t < now) =
           list_all (\<lambda>(t, k'). k' = k \<longrightarrow> t + d < now) allowed"
proof (cases "m k")
  case None
  with assms have "k \<notin> snd ` set allowed" unfolding window_sim_def by blast
  then show ?thesis by (auto simp: None list_all_iff image_iff)
next
  case (Some e)
  have w: "(\<exists>t. (t, k) \<in> set allowed \<and> e = t + d) \<and> (\<forall>t. (t, k) \<in> set allowed \<longrightarrow> t + d \<le> e)"
    by (rule assms [unfolded window_sim_def, THEN conjunct2, THEN spec, THEN spec, THEN mp, OF Some])
  then obtain t where t: "(t, k) \<in> set allowed" "e = t + d" by (elim conjE exE)
  from w have le: "\<And>t. (t, k) \<in> set allowed \<Longrightarrow> t + d \<le> e" by simp
  show ?thesis
  proof
    assume "case m k of None \<Rightarrow> True | Some t \<Rightarrow> t < now"
    then have "e < now" by (simp add: Some)
    with le show "list_all (\<lambda>(t, k'). k' = k \<longrightarrow> t + d < now) allowed"
      by (force simp: list_all_iff)
  next
    assume "list_all (\<lambda>(t, k'). k' = k \<longrightarrow> t + d < now) allowed"
    with t show "case m k of None \<Rightarrow> True | Some t \<Rightarrow> t < now"
      by (auto simp: Some list_all_iff)
  qed
qed

lemma window_sim_step:
  assumes "window_sim d allowed m" and "0 \<le> d"
    and "list_all (\<lambda>(t, k'). k' = k \<longrightarrow> t + d < now) allowed"
  shows "window_sim d ((now, k) # allowed) (m(k \<mapsto> now + d))"
proof -
  have "(t, k) \<in> set allowed \<Longrightarrow> t + d \<le> now + d" for t
    using assms(2,3) by (force simp: list_all_iff)
  with assms(1) show ?thesis unfolding window_sim_def by simp
qed

lemma window_sim_dom: "window_sim d allowed m \<Longrightarrow> dom m \<subseteq> snd ` set allowed"
  unfolding window_sim_def by force

lemma run_cooldown_spec:
  assumes "lru_ok lib content cap" and "0 \<le> cooldownDuration c"
    and "window_sim (cooldownDuration c) allowed (content (nextExecTime c))"
    and "card (snd ` set allowed \<union> snd ` set calls) \<le> cap (nextExecTime c)"
  shows "run_cooldown lib c calls = cooldown_spec (cooldownDuration c) allowed calls"
  using assms(2-4)
proof (induction calls arbitrary: c allowed)
  case (Cons call calls)
  obtain now k where call: "call = (now, k)" by fastforce
  obtain ok c' where cs: "CanSync lib now k c = (ok, c')" by fastforce
  note res = CanSync_result [OF assms(1) cs]
  let ?d = "cooldownDuration c"
  let ?ok = "list_all (\<lambda>(t, k'). k' = k \<longrightarrow> t + ?d < now) allowed"
  have ok: "ok = ?ok" using res(1) window_sim_ok [OF Cons.prems(2)] by simp
  let ?allowed = "if ?ok then (now, k) # allowed else allowed"
  have "insert k (dom (content (nextExecTime c))) \<subseteq> snd ` set allowed \<union> snd ` set (call # calls)"
    using window_sim_dom [OF Cons.prems(2)] call by auto
  then have "card (insert k (dom (content (nextExecTime c)))) \<le> cap (nextExecTime c)"
    using Cons.prems(3) by (meson card_mono finite_UnI finite_imageI finite_set le_trans)
  with res ok Cons.prems(1,2) have sim: "window_sim ?d ?allowed (content (nextExecTime c'))"
    by (auto intro: window_sim_step)
  have "snd ` set ?allowed \<union> snd ` set calls \<subseteq> snd ` set allowed \<union> snd ` set (call # calls)"
    using call by auto
  then have "card (snd ` set ?allowed \<union> snd ` set calls) \<le> cap (nextExecTime c')"
    using Cons.prems(3) res(3) by (metis (no_types, lifting) List.finite_set card_mono finite_UnI finite_imageI le_trans)
  with Cons.IH [of c' ?allowed] sim res(2) Cons.prems(1)
  have "run_cooldown lib c' calls = cooldown_spec ?d ?allowed calls" by simp
  with call cs ok show ?case by simp
qed simp

section \<open>A cache for evaluation\<close>

definition sample_lru :: "('k, nat \<times> ('k \<times> gtime) list) lru_lib" where
  "sample_lru = \<lparr>lru_New = (\<lambda>n. (n, [])),
     lru_Get = (\<lambda>k c. (map_of (snd c) k, c)),
     lru_Add = (\<lambda>k t c. (fst c,
       (k, t) # (let rest = filter (\<lambda>e. fst e \<noteq> k) (snd c) in
                 if Suc (length (remdups (map fst rest))) \<le> fst c then rest else butlast rest)))\<rparr>"

lemma sample_lru_ok: "lru_ok (sample_lru :: ('k, nat \<times> ('k \<times> gtime) list) lru_lib) (\<lambda>c. map_of (snd c)) fst"
proof -
  have rest: "map_of (filter (\<lambda>e. fst e \<noteq> k) xs) = (map_of xs)(k := None)" for k and xs :: "('k \<times> gtime) list"
    by (induction xs) (auto simp: fun_eq_iff)
  have dom: "insert k (fst ` set (filter (\<lambda>e. fst e \<noteq> k) xs)) = insert k (dom (map_of xs))" for k and xs :: "('k \<times> gtime) list"
    by (auto simp: dom_map_of_conv_image_fst image_iff)
  have "Suc (length (remdups (map fst (filter (\<lambda>e. fst e \<noteq> k) xs)))) = card (insert k (dom (map_of xs)))"
    for k and xs :: "('k \<times> gtime) list"
    unfolding dom [symmetric] by (subst card_insert_disjoint) (auto simp: length_remdups_card_conv)
  then show ?thesis
    by (auto simp: lru_ok_def sample_lru_def Let_def rest)
qed

end
