(* ===== verification/ApplyDesireCtl.thy ===== *)
theory ApplyDesireCtl
  imports StatusWriter Conditions Cooldown
begin

text \<open>
  \<open>pkg/controllers/apply_desire/controller.go\<close>: the event handlers with their cooldown gates, the
  worker step, and the reconcile pass \<open>SyncOnce\<close> with its two operations, server-side apply and the
  delete state machine.

  The cluster behind client-go's dynamic client is the record \<open>kube_client\<close>, a parameter; so are
  \<open>meta.SetStatusCondition\<close> (see theory \<open>Conditions\<close>), the rate-limiting queue, whose calls are
  recorded as a trace, and \<open>%q\<close> of \<open>fmt\<close>. What an informer hands to a handler is \<open>informer_obj\<close>: an
  object of the expected type, a tombstone, or anything else.
\<close>

section \<open>The cluster\<close>

record GroupVersionResource =
  gvrGroup :: string
  gvrVersion :: string
  gvrResource :: string

text \<open>The fields of an \<open>unstructured\<close> object that the controllers read; \<open>uoJSON\<close> is the whole object.\<close>

record unstructured =
  uoUID :: string
  uoDeletionTimestamp :: "gtime option"
  uoGeneration :: int64
  uoJSON :: json

text \<open>A resource interface is a resource with the namespace that \<open>Namespace\<close> fixed, if it was called.\<close>

type_synonym resource_interface = "GroupVersionResource \<times> string option"

record ApplyOptions =
  aoFieldManager :: string
  aoForce :: bool

record 'w kube_client =
  kcUnmarshalJSON :: "string \<Rightarrow> go_error + unstructured"
  kcApply :: "resource_interface \<Rightarrow> string \<Rightarrow> unstructured \<Rightarrow> ApplyOptions \<Rightarrow> 'w
                \<Rightarrow> (go_error + unstructured) \<times> 'w"
  kcGet :: "resource_interface \<Rightarrow> string \<Rightarrow> 'w \<Rightarrow> (go_error + unstructured) \<times> 'w"
  kcDelete :: "resource_interface \<Rightarrow> string \<Rightarrow> 'w \<Rightarrow> go_error option \<times> 'w"
  kcIsNotFound :: "go_error \<Rightarrow> bool"
  kcNow :: "'w \<Rightarrow> gtime \<times> 'w"

definition FieldManager :: string where "FieldManager = ''gcp-hcp-kube-applier''"

definition resourceInterface :: "ResourceReference \<Rightarrow> resource_interface" where
  "resourceInterface target =
     (\<lparr>gvrGroup = rrGroup target, gvrVersion = rrVersion target, gvrResource = rrResource target\<rparr>,
      if 0 < length (rrNamespace target) then Some (rrNamespace target) else None)"

section \<open>The controller\<close>

definition DefaultCooldownPeriod :: duration where "DefaultCooldownPeriod = 10 * 60 * second"
definition DefaultDeleteCooldownPeriod :: duration where
  "DefaultDeleteCooldownPeriod = 1 * 60 * second"

record 'clock apply_config =
  CooldownPeriod :: duration
  DeleteCooldownPeriod :: duration
  cfgClock :: "'clock option"

definition withDefaults :: "'clock \<Rightarrow> 'clock apply_config \<Rightarrow> 'clock apply_config" where
  "withDefaults realClock c =
     (let c = (if CooldownPeriod c = 0 then c\<lparr>CooldownPeriod := DefaultCooldownPeriod\<rparr> else c);
          c = (if DeleteCooldownPeriod c = 0
               then c\<lparr>DeleteCooldownPeriod := DefaultDeleteCooldownPeriod\<rparr> else c)
      in (if cfgClock c = None then c\<lparr>cfgClock := Some realClock\<rparr> else c))"

record ('w, 'c) ApplyDesireController =
  acSpecFetch :: "ApplyDesireKey \<Rightarrow> 'w \<Rightarrow> (go_error + ApplyDesire option) \<times> 'w"
  acDyn :: "'w kube_client"
  acStatusCRUD :: "('w, ApplyDesire) crud_ops"
  acSetCondition :: "Condition list \<Rightarrow> Condition \<Rightarrow> Condition list"
  acFormatRFC3339 :: "gtime \<Rightarrow> string"
  acQuote :: "string \<Rightarrow> string"
  acCooldown :: "'c TimeBasedCooldownChecker"
  acDeleteCooldown :: "'c TimeBasedCooldownChecker"

text \<open>\<open>applyDesireSpecFetcher\<close>: a read of the specs table; the pointer it returns may be nil.\<close>

definition specFetcher ::
  "(string \<Rightarrow> 'w \<Rightarrow> (go_error + 'd) \<times> 'w) \<Rightarrow> ('k \<Rightarrow> string) \<Rightarrow> 'k \<Rightarrow> 'w
     \<Rightarrow> (go_error + 'd option) \<times> 'w" where
  "specFetcher readerGet keyName key w =
     (case readerGet (keyName key) w of
        (Inl err, w) \<Rightarrow> (Inl err, w)
      | (Inr d, w) \<Rightarrow> (Inr (Some d), w))"

definition NewApplyDesireController ::
  "(ApplyDesireKey, 'c) lru_lib \<Rightarrow> 'clock \<Rightarrow> 'w kube_client
     \<Rightarrow> (string \<Rightarrow> 'w \<Rightarrow> (go_error + ApplyDesire) \<times> 'w) \<Rightarrow> ('w, ApplyDesire) crud_ops
     \<Rightarrow> (Condition list \<Rightarrow> Condition \<Rightarrow> Condition list) \<Rightarrow> (gtime \<Rightarrow> string) \<Rightarrow> (string \<Rightarrow> string)
     \<Rightarrow> 'clock apply_config \<Rightarrow> ('w, 'c) ApplyDesireController" where
  "NewApplyDesireController lib realClock dynClient specGet statusCRUD ssc fmt quote cfg =
     (let cfg = withDefaults realClock cfg
      in \<lparr>acSpecFetch = specFetcher specGet akName, acDyn = dynClient, acStatusCRUD = statusCRUD, acSetCondition = ssc,
          acFormatRFC3339 = fmt, acQuote = quote,
          acCooldown = NewTimeBasedCooldownChecker lib (CooldownPeriod cfg),
          acDeleteCooldown = NewTimeBasedCooldownChecker lib (DeleteCooldownPeriod cfg)\<rparr>)"

definition apply_writer ::
  "('w, 'c) ApplyDesireController \<Rightarrow> ('w, ApplyDesire, ApplyDesireKey) writer" where
  "apply_writer c = statusWriter (acStatusCRUD c) show_ApplyDesireKey akName zero_ApplyDesire"

section \<open>Event handlers\<close>

datatype 'd informer_obj =
    TypedObj 'd
  | Tombstone "'d option"
  | OtherObj

text \<open>The handlers return the keys they add to the queue.\<close>

definition enqueue :: "ApplyDesire \<Rightarrow> ApplyDesireKey list" where
  "enqueue d = (case ApplyDesireKeyFromDesire d of Inl _ \<Rightarrow> [] | Inr key \<Rightarrow> [key])"

definition enqueueWithCooldown ::
  "(ApplyDesireKey, 'c) lru_lib \<Rightarrow> gtime \<Rightarrow> ApplyDesire \<Rightarrow> bool
     \<Rightarrow> ('w, 'c) ApplyDesireController \<Rightarrow> ApplyDesireKey list \<times> ('w, 'c) ApplyDesireController" where
  "enqueueWithCooldown lib now d changed c =
     (case ApplyDesireKeyFromDesire d of
        Inl _ \<Rightarrow> ([], c)
      | Inr key \<Rightarrow>
          (if changed then ([key], c)
           else if asType (adSpec d) = ApplyDesireTypeDelete
           then (let (ok, cd) = CanSync lib now key (acDeleteCooldown c)
                 in (if ok then [key] else [], c\<lparr>acDeleteCooldown := cd\<rparr>))
           else (let (ok, cd) = CanSync lib now key (acCooldown c)
                 in (if ok then [key] else [], c\<lparr>acCooldown := cd\<rparr>))))"

definition handleAdd :: "ApplyDesire informer_obj \<Rightarrow> ApplyDesireKey list" where
  "handleAdd obj = (case obj of TypedObj d \<Rightarrow> enqueue d | _ \<Rightarrow> [])"

definition handleUpdate ::
  "(ApplyDesireKey, 'c) lru_lib \<Rightarrow> gtime \<Rightarrow> ApplyDesire informer_obj \<Rightarrow> ApplyDesire informer_obj
     \<Rightarrow> ('w, 'c) ApplyDesireController \<Rightarrow> ApplyDesireKey list \<times> ('w, 'c) ApplyDesireController" where
  "handleUpdate lib now oldObj newObj c =
     (case (oldObj, newObj) of
        (TypedObj oldD, TypedObj newD) \<Rightarrow>
          enqueueWithCooldown lib now newD (UpdateTime oldD \<noteq> UpdateTime newD) c
      | _ \<Rightarrow> ([], c))"

text \<open>A status document is removed with its spec; a failure is only logged.\<close>

definition handleDelete ::
  "('w, 'c) ApplyDesireController \<Rightarrow> ApplyDesire informer_obj \<Rightarrow> 'w \<Rightarrow> go_error option \<times> 'w" where
  "handleDelete c obj w =
     (case (case obj of TypedObj d \<Rightarrow> Some d | Tombstone (Some d) \<Rightarrow> Some d | _ \<Rightarrow> None) of
        None \<Rightarrow> (None, w)
      | Some d \<Rightarrow>
          (case opDelete (acStatusCRUD c) (DocumentID d) w of
             (Some err, w) \<Rightarrow> (if IsNotFoundError err then None else Some err, w)
           | (None, w) \<Rightarrow> (None, w)))"

section \<open>Error classes\<close>

definition isClientError :: "go_error \<Rightarrow> bool" where
  "isClientError err =
     (case errors_as (\<lambda>e. case e of StatusError code _ \<Rightarrow> Some code | _ \<Rightarrow> None) err of
        None \<Rightarrow> False
      | Some c \<Rightarrow> 400 \<le> c \<and> c < 500)"

definition classifyAsDegraded :: "go_error option \<Rightarrow> go_error option" where
  "classifyAsDegraded err =
     (case err of
        None \<Rightarrow> None
      | Some e \<Rightarrow>
          (if errors_as (\<lambda>e. case e of PreCheckError x \<Rightarrow> Some x | _ \<Rightarrow> None) e \<noteq> None then None
           else if isClientError e then None
           else Some e))"

section \<open>Reconciling\<close>

definition target_incomplete :: "ResourceReference \<Rightarrow> bool" where
  "target_incomplete target \<longleftrightarrow>
     length (rrResource target) = 0 \<or> length (rrVersion target) = 0 \<or> length (rrName target) = 0"

definition errTargetItem :: go_error where
  "errTargetItem = PreCheckError (ErrorString ''spec.targetItem requires version, resource, and name'')"

definition errKubeContentEmpty :: go_error where
  "errKubeContentEmpty = PreCheckError (ErrorString ''spec.serverSideApply.kubeContent is empty'')"

definition spec_content :: "ApplyDesire \<Rightarrow> string" where
  "spec_content d =
     (case asServerSideApply (adSpec d) of
        None \<Rightarrow> ''''
      | Some cfg \<Rightarrow> (case ssaKubeContent cfg of None \<Rightarrow> '''' | Some ext \<Rightarrow> Raw ext))"

definition applyDesired ::
  "('w, 'c) ApplyDesireController \<Rightarrow> ApplyDesire \<Rightarrow> 'w \<Rightarrow> (int64 \<times> go_error option) \<times> 'w" where
  "applyDesired c d w =
     (let target = asTargetItem (adSpec d) in
      if target_incomplete target then ((0, Some errTargetItem), w)
      else if spec_content d = '''' then ((0, Some errKubeContentEmpty), w)
      else
        (case kcUnmarshalJSON (acDyn c) (spec_content d) of
           Inl err \<Rightarrow> ((0, Some (PreCheckError (WrapError ''decode kubeContent: '' err))), w)
         | Inr obj \<Rightarrow>
             (case kcApply (acDyn c) (resourceInterface target) (rrName target) obj
                     \<lparr>aoFieldManager = FieldManager, aoForce = True\<rparr> w of
                (Inl err, w) \<Rightarrow> ((0, Some (WrapError ''server-side apply: '' err)), w)
              | (Inr result, w) \<Rightarrow> ((uoGeneration result, None), w))))"

text \<open>The mutate functions: what each outcome writes on the conditions of a status document.\<close>

definition on_conditions :: "(Condition list \<Rightarrow> Condition list) \<Rightarrow> ApplyDesire \<Rightarrow> ApplyDesire" where
  "on_conditions f d = d\<lparr>adStatus := (adStatus d)\<lparr>asConditions := f (asConditions (adStatus d))\<rparr>\<rparr>"

definition record_outcome ::
  "(Condition list \<Rightarrow> Condition \<Rightarrow> Condition list) \<Rightarrow> go_error option \<Rightarrow> go_error option
     \<Rightarrow> ApplyDesire \<Rightarrow> ApplyDesire" where
  "record_outcome ssc err degraded d =
     on_conditions (\<lambda>cs. SetDegraded ssc cs degraded) (on_conditions (\<lambda>cs. SetSuccessful ssc cs err) d)"

definition record_waiting ::
  "(Condition list \<Rightarrow> Condition \<Rightarrow> Condition list) \<Rightarrow> (gtime \<Rightarrow> string) \<Rightarrow> gtime \<Rightarrow> string
     \<Rightarrow> ApplyDesire \<Rightarrow> ApplyDesire" where
  "record_waiting ssc fmt dt uid d =
     on_conditions (\<lambda>cs. SetDegraded ssc cs None)
       (on_conditions (\<lambda>cs. SetSuccessfulWaitingForDeletion ssc fmt cs dt uid) d)"

definition evaluateDelete ::
  "('w, 'c) ApplyDesireController \<Rightarrow> ApplyDesire \<Rightarrow> 'w \<Rightarrow> (ApplyDesire \<Rightarrow> ApplyDesire) \<times> 'w" where
  "evaluateDelete c d w =
     (let target = asTargetItem (adSpec d); ssc = acSetCondition c; dyn = acDyn c;
          failed = (\<lambda>err. record_outcome ssc (Some err) (classifyAsDegraded (Some err)));
          gone = record_outcome ssc None None;
          waiting = record_waiting ssc (acFormatRFC3339 c);
          ri = resourceInterface target; name = rrName target
      in if target_incomplete target then (failed errTargetItem, w)
         else
           (case kcGet dyn ri name w of
              (Inl getErr, w) \<Rightarrow>
                (if kcIsNotFound dyn getErr then (gone, w)
                 else (failed (WrapError ''get target: '' getErr), w))
            | (Inr got, w) \<Rightarrow>
                (case uoDeletionTimestamp got of
                   Some dt \<Rightarrow> (waiting dt (uoUID got), w)
                 | None \<Rightarrow>
                     (case kcDelete dyn ri name w of
                        (Some delErr, w) \<Rightarrow>
                          (if kcIsNotFound dyn delErr then (gone, w)
                           else (failed (WrapError ''delete target: '' delErr), w))
                      | (None, w) \<Rightarrow>
                          (case kcGet dyn ri name w of
                             (Inl postErr, w) \<Rightarrow>
                               (if kcIsNotFound dyn postErr then (gone, w)
                                else (failed (WrapError ''post-delete get: '' postErr), w))
                           | (Inr post, w) \<Rightarrow>
                               (case uoDeletionTimestamp post of
                                  Some dt \<Rightarrow> (waiting dt (uoUID post), w)
                                | None \<Rightarrow>
                                    (let (now, w) = kcNow dyn w
                                     in (waiting now (uoUID post), w))))))))"

text \<open>What every branch of \<open>SyncOnce\<close> writes first.\<close>

definition observe :: "ApplyDesire \<Rightarrow> ApplyDesire \<Rightarrow> ApplyDesire" where
  "observe desire d = d\<lparr>DocumentID := DocumentID desire,
     adStatus := (adStatus d)\<lparr>asObservedDesireUpdateTime := UpdateTime desire\<rparr>\<rparr>"

definition set_generation :: "int64 \<Rightarrow> ApplyDesire \<Rightarrow> ApplyDesire" where
  "set_generation g d = d\<lparr>adStatus := (adStatus d)\<lparr>asAppliedResourceGeneration := g\<rparr>\<rparr>"

definition ApplyDesire_SyncOnce ::
  "('w, 'c) ApplyDesireController \<Rightarrow> ApplyDesireKey \<Rightarrow> 'w \<Rightarrow> go_error option \<times> 'w" where
  "ApplyDesire_SyncOnce c key w =
     (case acSpecFetch c key w of
        (Inl err, w) \<Rightarrow> (if IsNotFoundError err then None else Some err, w)
      | (Inr None, w) \<Rightarrow> (None, w)
      | (Inr (Some desire), w) \<Rightarrow>
          (if asType (adSpec desire) = ApplyDesireTypeServerSideApply \<or> asType (adSpec desire) = ''''
           then
             (let ((appliedGen, syncErr), w) = applyDesired c desire w;
                  (statusErr, w) = UpdateStatus (apply_writer c) key
                    (record_outcome (acSetCondition c) syncErr (classifyAsDegraded syncErr)
                       \<circ> set_generation appliedGen \<circ> observe desire) w
              in (errors_join [syncErr, statusErr], w))
           else if asType (adSpec desire) = ApplyDesireTypeDelete
           then
             (let (mutate, w) = evaluateDelete c desire w
              in UpdateStatus (apply_writer c) key (mutate \<circ> observe desire) w)
           else
             (let syncErr = PreCheckError (ErrorString
                    (''unknown desire type '' @ acQuote c (asType (adSpec desire))));
                  (statusErr, w) = UpdateStatus (apply_writer c) key
                    (record_outcome (acSetCondition c) (Some syncErr) None \<circ> observe desire) w
              in (errors_join [Some syncErr, statusErr], w))))"

text \<open>The worker: the calls it makes on the queue, in order.\<close>

datatype 'k queue_call =
    QGet 'k
  | QGetShutdown
  | QAddRateLimited 'k
  | QForget 'k
  | QDone 'k

definition apply_processNext ::
  "('w, 'c) ApplyDesireController \<Rightarrow> ApplyDesireKey option \<Rightarrow> 'w
     \<Rightarrow> (bool \<times> ApplyDesireKey queue_call list) \<times> 'w" where
  "apply_processNext c next w =
     (case next of
        None \<Rightarrow> ((False, [QGetShutdown]), w)
      | Some key \<Rightarrow>
          (case ApplyDesire_SyncOnce c key w of
             (Some err, w) \<Rightarrow> ((True, [QGet key, QAddRateLimited key, QDone key]), w)
           | (None, w) \<Rightarrow> ((True, [QGet key, QForget key, QDone key]), w)))"

lemmas mutate_defs = on_conditions_def record_outcome_def record_waiting_def observe_def
  set_generation_def

end
