(* ===== verification/ApplyDesireProofs.thy ===== *)
theory ApplyDesireProofs
  imports ApplyDesireCtl
begin

text \<open>
  What a pass of the apply controller leaves behind, over the contract of the status table
  (\<open>crud_contract\<close>, which the in-memory and the DynamoDB implementation satisfy) and the documented
  behaviour of the cluster (\<open>kube_ok\<close>).
\<close>

section \<open>The surroundings of the controller\<close>

text \<open>
  The Kubernetes API over the ghost view \<open>objs\<close> of the cluster: a read returns the object or reports
  that there is none; a delete that succeeds removes the object or marks it for deletion; a request
  that fails, other than with \<open>NotFound\<close>, may have been carried out; no request touches another object.
\<close>

type_synonym cluster_view = "resource_interface \<Rightarrow> string \<Rightarrow> unstructured option"

definition deleted_from :: "unstructured option \<Rightarrow> unstructured option \<Rightarrow> bool" where
  "deleted_from before after \<longleftrightarrow>
     (\<exists>o1. before = Some o1 \<and>
        (after = None \<or> (\<exists>o2. after = Some o2 \<and> uoUID o2 = uoUID o1 \<and> uoDeletionTimestamp o2 \<noteq> None)))"

definition kube_get_ok :: "'w kube_client \<Rightarrow> ('w \<Rightarrow> cluster_view) \<Rightarrow> bool" where
  "kube_get_ok kc objs \<longleftrightarrow>
     (\<forall>ri n w r w'. kcGet kc ri n w = (r, w') \<longrightarrow> objs w' = objs w \<and>
        (case r of Inr ob \<Rightarrow> objs w ri n = Some ob
         | Inl e \<Rightarrow> kcIsNotFound kc e \<longrightarrow> objs w ri n = None))"

definition kube_delete_ok :: "'w kube_client \<Rightarrow> ('w \<Rightarrow> cluster_view) \<Rightarrow> bool" where
  "kube_delete_ok kc objs \<longleftrightarrow>
     (\<forall>ri n w r w'. kcDelete kc ri n w = (r, w') \<longrightarrow>
        (\<forall>ri' n'. (ri', n') \<noteq> (ri, n) \<longrightarrow> objs w' ri' n' = objs w ri' n') \<and>
        (case r of None \<Rightarrow> deleted_from (objs w ri n) (objs w' ri n)
         | Some e \<Rightarrow> if kcIsNotFound kc e then objs w ri n = None \<and> objs w' = objs w
                     else objs w' = objs w \<or> deleted_from (objs w ri n) (objs w' ri n)))"

definition kube_apply_ok :: "'w kube_client \<Rightarrow> ('w \<Rightarrow> cluster_view) \<Rightarrow> bool" where
  "kube_apply_ok kc objs \<longleftrightarrow>
     (\<forall>ri n ob opts w r w'. kcApply kc ri n ob opts w = (r, w') \<longrightarrow>
        (\<forall>ri' n'. (ri', n') \<noteq> (ri, n) \<longrightarrow> objs w' ri' n' = objs w ri' n') \<and>
        (case r of Inr result \<Rightarrow> objs w' ri n = Some result | Inl _ \<Rightarrow> True))"

definition kube_ok :: "'w kube_client \<Rightarrow> ('w \<Rightarrow> cluster_view) \<Rightarrow> bool" where
  "kube_ok kc objs \<longleftrightarrow> kube_get_ok kc objs \<and> kube_delete_ok kc objs \<and> kube_apply_ok kc objs \<and>
     (\<forall>w. objs (snd (kcNow kc w)) = objs w)"

lemma kube_get:
  assumes "kube_ok kc objs" and "kcGet kc ri n w = (r, w')"
  shows "objs w' = objs w \<and>
     (case r of Inr ob \<Rightarrow> objs w ri n = Some ob
      | Inl e \<Rightarrow> kcIsNotFound kc e \<longrightarrow> objs w ri n = None)"
  by (rule kube_get_ok_def [THEN iffD1, rule_format, OF _ assms(2)])
    (use assms(1) in \<open>simp add: kube_ok_def\<close>)

lemma kube_delete:
  assumes "kube_ok kc objs" and "kcDelete kc ri n w = (r, w')"
  shows "(\<forall>ri' n'. (ri', n') \<noteq> (ri, n) \<longrightarrow> objs w' ri' n' = objs w ri' n') \<and>
     (case r of None \<Rightarrow> deleted_from (objs w ri n) (objs w' ri n)
      | Some e \<Rightarrow> if kcIsNotFound kc e then objs w ri n = None \<and> objs w' = objs w
                  else objs w' = objs w \<or> deleted_from (objs w ri n) (objs w' ri n))"
  by (rule kube_delete_ok_def [THEN iffD1, rule_format, OF _ assms(2)])
    (use assms(1) in \<open>simp add: kube_ok_def\<close>)

lemma kube_apply:
  assumes "kube_ok kc objs" and "kcApply kc ri n ob opts w = (r, w')"
  shows "(\<forall>ri' n'. (ri', n') \<noteq> (ri, n) \<longrightarrow> objs w' ri' n' = objs w ri' n') \<and>
     (case r of Inr result \<Rightarrow> objs w' ri n = Some result | Inl _ \<Rightarrow> True)"
  by (rule kube_apply_ok_def [THEN iffD1, rule_format, OF _ assms(2)])
    (use assms(1) in \<open>simp add: kube_ok_def\<close>)

lemma kube_now: "kube_ok kc objs \<Longrightarrow> kcNow kc w = (t, w') \<Longrightarrow> objs w' = objs w"
  unfolding kube_ok_def by (metis snd_conv)

text \<open>The cluster and the specs table do not touch the status table, and conversely.\<close>

definition keeps :: "('w \<Rightarrow> 'v) \<Rightarrow> ('w \<Rightarrow> 'r \<times> 'w) \<Rightarrow> bool" where
  "keeps view f \<longleftrightarrow> (\<forall>w. view (snd (f w)) = view w)"

lemma keepsD: "keeps view f \<Longrightarrow> f w = (r, w') \<Longrightarrow> view w' = view w"
  unfolding keeps_def by (metis snd_conv)

definition kube_keeps :: "('w \<Rightarrow> 'v) \<Rightarrow> 'w kube_client \<Rightarrow> bool" where
  "kube_keeps view kc \<longleftrightarrow>
     (\<forall>ri n. keeps view (kcGet kc ri n) \<and> keeps view (kcDelete kc ri n)) \<and>
     (\<forall>ri n ob opts. keeps view (kcApply kc ri n ob opts)) \<and> keeps view (kcNow kc)"

definition ops_keep :: "('w \<Rightarrow> 'v) \<Rightarrow> ('w, 'd) crud_ops \<Rightarrow> bool" where
  "ops_keep view ops \<longleftrightarrow>
     (\<forall>k. keeps view (opGet ops k) \<and> keeps view (opDelete ops k)) \<and>
     (\<forall>d. keeps view (opCreate ops d) \<and> keeps view (opReplace ops d))"

definition apply_env ::
  "('w \<Rightarrow> bool) \<Rightarrow> ('w \<Rightarrow> string \<Rightarrow> ApplyDesire option) \<Rightarrow> (ApplyDesire \<Rightarrow> ApplyDesire)
     \<Rightarrow> ('w \<Rightarrow> cluster_view) \<Rightarrow> ('w, 'c) ApplyDesireController \<Rightarrow> bool" where
  "apply_env I docs N objs c \<longleftrightarrow>
     crud_contract I docs N (acStatusCRUD c) \<and> (\<forall>d. adStatus (N d) = adStatus d) \<and>
     status_condition_setter (acSetCondition c) \<and>
     kube_ok (acDyn c) objs \<and> kube_keeps (\<lambda>w. (I w, docs w)) (acDyn c) \<and>
     ops_keep objs (acStatusCRUD c) \<and>
     (\<forall>key. keeps (\<lambda>w. (I w, docs w, objs w)) (acSpecFetch c key)) \<and>
     (\<forall>key w d w'. acSpecFetch c key w = (Inr (Some d), w') \<longrightarrow> DocumentID d = akName key)"

lemma apply_envD:
  assumes "apply_env I docs N objs c"
  shows "resource_crud I docs N (opGet (acStatusCRUD c)) (opCreate (acStatusCRUD c))
           (opReplace (acStatusCRUD c)) (opDelete (acStatusCRUD c))"
    and "adStatus (N d) = adStatus d" and "status_condition_setter (acSetCondition c)"
    and "kube_ok (acDyn c) objs" and "kube_keeps (\<lambda>w. (I w, docs w)) (acDyn c)"
    and "ops_keep objs (acStatusCRUD c)"
    and "keeps (\<lambda>w. (I w, docs w, objs w)) (acSpecFetch c key)"
    and "acSpecFetch c key w = (Inr (Some desire), w') \<Longrightarrow> DocumentID desire = akName key"
  using assms unfolding apply_env_def crud_contract_def by blast+

section \<open>Outcomes in the status\<close>

text \<open>How a status document shows the outcome of a pass: the two conditions and their reasons.\<close>

definition shows_outcome :: "go_error option \<Rightarrow> ApplyDesireStatus \<Rightarrow> bool" where
  "shows_outcome err st \<longleftrightarrow>
     (case err of
        None \<Rightarrow> successful_is (asConditions st) ConditionTrue ConditionReasonNoErrors
      | Some e \<Rightarrow> successful_is (asConditions st) ConditionFalse (successful_reason e)) \<and>
     (case classifyAsDegraded err of
        None \<Rightarrow> degraded_is (asConditions st) ConditionFalse ConditionReasonNoErrors
      | Some _ \<Rightarrow> degraded_is (asConditions st) ConditionTrue ConditionReasonFailed)"

definition shows_waiting :: "ApplyDesireStatus \<Rightarrow> bool" where
  "shows_waiting st \<longleftrightarrow>
     successful_is (asConditions st) ConditionFalse ConditionReasonWaitingForDeletion \<and>
     degraded_is (asConditions st) ConditionFalse ConditionReasonNoErrors"

text \<open>The status of a document as a function of the status before: every mutate function is of this
  form, after \<open>observe\<close>.\<close>

definition outcome_status ::
  "(Condition list \<Rightarrow> Condition \<Rightarrow> Condition list) \<Rightarrow> go_error option \<Rightarrow> go_error option
     \<Rightarrow> ApplyDesireStatus \<Rightarrow> ApplyDesireStatus" where
  "outcome_status ssc err deg st =
     st\<lparr>asConditions := SetDegraded ssc (SetSuccessful ssc (asConditions st) err) deg\<rparr>"

definition waiting_status ::
  "(Condition list \<Rightarrow> Condition \<Rightarrow> Condition list) \<Rightarrow> (gtime \<Rightarrow> string) \<Rightarrow> gtime \<Rightarrow> string
     \<Rightarrow> ApplyDesireStatus \<Rightarrow> ApplyDesireStatus" where
  "waiting_status ssc fmt dt uid st =
     st\<lparr>asConditions := SetDegraded ssc (SetSuccessfulWaitingForDeletion ssc fmt (asConditions st) dt uid) None\<rparr>"

lemma mutate_status:
  "record_outcome ssc err deg d = d\<lparr>adStatus := outcome_status ssc err deg (adStatus d)\<rparr>"
  "record_waiting ssc fmt dt uid d = d\<lparr>adStatus := waiting_status ssc fmt dt uid (adStatus d)\<rparr>"
  by (simp_all add: mutate_defs outcome_status_def waiting_status_def)

lemma outcome_shows:
  assumes "status_condition_setter ssc"
  shows "shows_outcome err (outcome_status ssc err (classifyAsDegraded err) st)"
  using SetSuccessful_successful [OF assms] SetDegraded_degraded [OF assms]
  by (simp add: shows_outcome_def outcome_status_def successful_SetDegraded [OF assms]
      split: option.split)

lemma outcome_shows_unknown:
  assumes "status_condition_setter ssc"
  shows "shows_outcome (Some (PreCheckError e)) (outcome_status ssc (Some (PreCheckError e)) None st)"
  using outcome_shows [OF assms, of "Some (PreCheckError e)" st]
  by (simp add: classifyAsDegraded_def)

lemma waiting_shows:
  assumes "status_condition_setter ssc"
  shows "shows_waiting (waiting_status ssc fmt dt uid st)"
  using SetWaiting_successful [OF assms] SetDegraded_degraded [OF assms]
  by (simp add: shows_waiting_def waiting_status_def successful_SetDegraded [OF assms])

lemma shows_outcome_exclusive:
  "shows_outcome None st \<Longrightarrow> \<not> shows_outcome (Some e) st" "shows_outcome None st \<Longrightarrow> \<not> shows_waiting st"
  by (auto simp: shows_outcome_def shows_waiting_def successful_is_def condition_is_def
      split: option.splits)

section \<open>Updating the status\<close>

lemma crud_ops_eta: "\<lparr>opGet = opGet ops, opCreate = opCreate ops, opReplace = opReplace ops,
    opDelete = opDelete ops\<rparr> = ops"
  by (cases ops) simp

lemma apply_writer_eta:
  "apply_writer c = statusWriter \<lparr>opGet = opGet (acStatusCRUD c), opCreate = opCreate (acStatusCRUD c),
     opReplace = opReplace (acStatusCRUD c), opDelete = opDelete (acStatusCRUD c)\<rparr>
     show_ApplyDesireKey akName zero_ApplyDesire"
  by (simp add: apply_writer_def crud_ops_eta)

lemma createInitialStatus_keeps:
  "ops_keep view ops \<Longrightarrow> keeps view (createInitialStatus (statusWriter ops sh nm zero) key mutate)"
  unfolding keeps_def createInitialStatus_def status_writer_defs ops_keep_def
  by (auto split: sum.splits option.splits prod.splits)

lemma UpdateStatus_keeps:
  assumes "ops_keep view ops"
  shows "keeps view (UpdateStatus (statusWriter ops sh nm zero) key mutate)"
  unfolding keeps_def
proof
  fix w
  define wr where "wr = statusWriter ops sh nm zero"
  have init: "view (snd (createInitialStatus wr key mutate w)) = view w" for w
    using createInitialStatus_keeps [OF assms, of sh nm zero key mutate]
    by (simp add: keeps_def wr_def)
  obtain g w1 where g: "opGet ops (nm key) w = (g, w1)" by fastforce
  have w1: "view w1 = view w" using assms g unfolding ops_keep_def by (metis keepsD)
  show "view (snd (UpdateStatus (statusWriter ops sh nm zero) key mutate w)) = view w"
  proof (cases g)
    case (Inl e)
    with g w1 init [unfolded wr_def] show ?thesis
      by (simp add: UpdateStatus_def) (simp add: statusWriter_def statusFetcher_def)
  next
    case (Inr old)
    obtain r w2 where r: "opReplace ops (mutate old) w1 = (r, w2)" by fastforce
    have "view w2 = view w1" using assms r unfolding ops_keep_def by (metis keepsD)
    with g w1 Inr r show ?thesis
      by (simp add: UpdateStatus_def status_writer_defs Let_def split: sum.split)
  qed
qed

lemma names_observe:
  assumes "DocumentID desire = k" and "\<And>d. f d = d\<lparr>adStatus := F (adStatus d)\<rparr>"
  shows "names_document k (f \<circ> observe desire)"
  using assms by (simp add: names_document_def observe_def)

text \<open>A status update that succeeds leaves a document with the mutated status at the key.\<close>

lemma update_records:
  assumes env: "apply_env I docs N objs c" and I: "I w" and id: "DocumentID desire = akName key"
    and f: "\<And>d. f d = d\<lparr>adStatus := F (adStatus d)\<rparr>"
    and upd: "UpdateStatus (apply_writer c) key (f \<circ> observe desire) w = (r, w')"
  shows "I w'" and "objs w' = objs w" and "k \<noteq> akName key \<Longrightarrow> docs w' k = docs w k"
    and "r = None \<Longrightarrow> \<exists>d st. docs w' (akName key) = Some d \<and>
           adStatus d = F (st\<lparr>asObservedDesireUpdateTime := UpdateTime desire\<rparr>)"
proof -
  note C = apply_envD(1) [OF env] and N = apply_envD(2) [OF env]
  let ?m = "f \<circ> observe desire"
  note nm = names_observe [of desire "akName key" f F, OF id f]
  note cases = resource_crud.update_status_cases [where nm = akName and key = key, OF C I nm
      upd [unfolded apply_writer_eta]]
  then show "I w'" by blast
  show "objs w' = objs w"
    using UpdateStatus_keeps [OF apply_envD(6) [OF env]] upd
    unfolding apply_writer_def by (rule keepsD)
  show "docs w' k = docs w k" if "k \<noteq> akName key"
    using resource_crud.update_status_frame [where nm = akName and key = key, OF C I nm that,
        of show_ApplyDesireKey zero_ApplyDesire] upd [unfolded apply_writer_eta]
    by simp
  have m: "adStatus (?m x) = F ((adStatus x)\<lparr>asObservedDesireUpdateTime := UpdateTime desire\<rparr>)" for x
    by (simp add: f observe_def)
  have cr: "adStatus d' = adStatus x" if "created x d' \<or> replaced x d'" for x d'
    using that unfolding created_def replaced_def by (elim disjE exE) simp_all
  show "\<exists>d st. docs w' (akName key) = Some d \<and>
      adStatus d = F (st\<lparr>asObservedDesireUpdateTime := UpdateTime desire\<rparr>)" if r: "r = None"
  proof -
    from cases r consider (same) old where "docs w' = docs w" "docs w (akName key) = Some old" "?m old = old"
      | (wrote) x d' where "created (?m x) d' \<or> replaced (?m x) d'"
          "docs w' = (docs w)(akName key \<mapsto> N d')"
      by (auto simp: resource_crud.wrote_def [OF C] split: option.splits)
    then show ?thesis
    proof cases
      case same
      then show ?thesis using m [of old] by (intro exI [of _ old] exI [of _ "adStatus old"]) simp
    next
      case wrote
      then show ?thesis using m [of x] cr [of "?m x" d'] N by auto
    qed
  qed
qed

section \<open>The delete state machine\<close>

text \<open>Every path through \<open>evaluateDelete\<close> ends in one of three outcomes, and says of the cluster what
  the last answer showed.\<close>

definition terminating :: "unstructured option \<Rightarrow> bool" where
  "terminating x \<longleftrightarrow> (case x of None \<Rightarrow> False | Some ob \<Rightarrow> uoDeletionTimestamp ob \<noteq> None)"

definition delete_outcome ::
  "('w, 'c) ApplyDesireController \<Rightarrow> ApplyDesire \<Rightarrow> (ApplyDesire \<Rightarrow> ApplyDesire)
     \<Rightarrow> cluster_view \<Rightarrow> cluster_view \<Rightarrow> bool" where
  "delete_outcome c d m before after \<longleftrightarrow>
     (let target = asTargetItem (adSpec d); ri = resourceInterface target; name = rrName target;
          ssc = acSetCondition c
      in (\<forall>ri' n'. (ri', n') \<noteq> (ri, name) \<longrightarrow> after ri' n' = before ri' n') \<and>
         (m = record_outcome ssc None None \<and> \<not> target_incomplete target \<and> after ri name = None \<or>
          (\<exists>dt ob. m = record_waiting ssc (acFormatRFC3339 c) dt (uoUID ob) \<and>
             \<not> target_incomplete target \<and> after ri name = Some ob \<and> uoDeletionTimestamp ob \<noteq> None) \<or>
          (\<exists>e. m = record_outcome ssc (Some e) (classifyAsDegraded (Some e)))))"

lemma evaluateDelete_outcome:
  assumes kc: "kube_ok (acDyn c) objs" and ev: "evaluateDelete c d w = (m, w')"
  shows "delete_outcome c d m (objs w) (objs w')"
proof (cases "target_incomplete (asTargetItem (adSpec d))")
  case True
  with ev show ?thesis by (auto simp: evaluateDelete_def delete_outcome_def Let_def)
next
  case complete: False
  define ri where "ri = resourceInterface (asTargetItem (adSpec d))"
  define name where "name = rrName (asTargetItem (adSpec d))"
  note folds = ri_def [symmetric] name_def [symmetric]
  obtain g w1 where g: "kcGet (acDyn c) ri name w = (g, w1)" by fastforce
  note g' = kube_get [OF kc g]
  show ?thesis
  proof (cases g)
    case (Inl e)
    with ev g g' complete show ?thesis
      by (auto simp: evaluateDelete_def delete_outcome_def folds Let_def split: if_splits)
  next
    case got: (Inr ob)
    show ?thesis
    proof (cases "uoDeletionTimestamp ob")
      case (Some dt)
      with ev g g' got complete show ?thesis
        by (auto simp: evaluateDelete_def delete_outcome_def folds Let_def)
    next
      case live: None
      obtain dl w2 where dl: "kcDelete (acDyn c) ri name w1 = (dl, w2)" by fastforce
      note d' = kube_delete [OF kc dl]
      from d' have frame: "\<forall>ri' n'. (ri', n') \<noteq> (ri, name) \<longrightarrow> objs w2 ri' n' = objs w1 ri' n'" by simp
      show ?thesis
      proof (cases dl)
        case (Some e)
        with ev g g' got live dl d' complete frame show ?thesis
          by (auto simp: evaluateDelete_def delete_outcome_def folds Let_def split: if_splits)
      next
        case deleted: None
        obtain p w3 where p: "kcGet (acDyn c) ri name w2 = (p, w3)" by fastforce
        note p' = kube_get [OF kc p]
        show ?thesis
        proof (cases p)
          case (Inl e)
          with ev g g' got live dl deleted p p' complete frame show ?thesis
            by (auto simp: evaluateDelete_def delete_outcome_def folds Let_def split: if_splits)
        next
          case (Inr post)
          obtain now w4 where now: "kcNow (acDyn c) w3 = (now, w4)" by fastforce
          note kube_now [OF kc now]
          with ev g g' got live dl d' deleted p p' Inr now complete frame show ?thesis
            by (cases "uoDeletionTimestamp post")
              (auto simp: evaluateDelete_def delete_outcome_def deleted_from_def folds Let_def)
        qed
      qed
    qed
  qed
qed

text \<open>An object that is being deleted already is left alone.\<close>

lemma evaluateDelete_terminating:
  assumes kc: "kube_ok (acDyn c) objs" and ev: "evaluateDelete c d w = (m, w')"
    and ob: "objs w (resourceInterface (asTargetItem (adSpec d))) (rrName (asTargetItem (adSpec d))) = Some ob"
    and dt: "uoDeletionTimestamp ob \<noteq> None"
  shows "objs w' = objs w"
proof -
  obtain g w1 where g: "kcGet (acDyn c) (resourceInterface (asTargetItem (adSpec d)))
      (rrName (asTargetItem (adSpec d))) w = (g, w1)" by fastforce
  from kube_get [OF kc g] ev g ob dt show ?thesis
    by (cases g) (auto simp: evaluateDelete_def Let_def split: if_splits)
qed

lemma evaluateDelete_keeps:
  assumes "kube_keeps view (acDyn c)" and "evaluateDelete c d w = (m, w')"
  shows "view w' = view w"
proof -
  have kg: "kcGet (acDyn c) ri n w = (r, w') \<Longrightarrow> view w' = view w"
    and kd: "kcDelete (acDyn c) ri n w = (s, w') \<Longrightarrow> view w' = view w"
    and kn: "kcNow (acDyn c) w = (t, w') \<Longrightarrow> view w' = view w" for ri n w r s t w'
    using assms(1) unfolding kube_keeps_def by (blast dest: keepsD)+
  from assms(2) show ?thesis
    by (auto simp: evaluateDelete_def Let_def split: if_splits prod.splits sum.splits option.splits
        dest!: kg kd kn)
qed

section \<open>Applying\<close>

lemma applyDesired_keeps:
  assumes "kube_keeps view (acDyn c)" and "applyDesired c d w = (r, w')"
  shows "view w' = view w"
proof -
  have ka: "kcApply (acDyn c) ri n ob opts w = (r, w') \<Longrightarrow> view w' = view w" for ri n ob opts w r w'
    using assms(1) unfolding kube_keeps_def by (blast dest: keepsD)
  from assms(2) show ?thesis
    by (auto simp: applyDesired_def Let_def split: if_splits prod.splits sum.splits dest!: ka)
qed

text \<open>A nil error means that the API server accepted the decoded content, forced, under this
  controller's field manager.\<close>

lemma applyDesired_ok:
  assumes "applyDesired c d w = ((gen, None), w')"
  shows "\<exists>ob result. kcUnmarshalJSON (acDyn c) (spec_content d) = Inr ob \<and>
    kcApply (acDyn c) (resourceInterface (asTargetItem (adSpec d))) (rrName (asTargetItem (adSpec d)))
      ob \<lparr>aoFieldManager = FieldManager, aoForce = True\<rparr> w = (Inr result, w') \<and>
    gen = uoGeneration result"
  using assms by (auto simp: applyDesired_def Let_def split: if_splits prod.splits sum.splits)

lemma applyDesired_frame:
  assumes kc: "kube_ok (acDyn c) objs" and "applyDesired c d w = (r, w')"
    and "(ri, n) \<noteq> (resourceInterface (asTargetItem (adSpec d)), rrName (asTargetItem (adSpec d)))"
  shows "objs w' ri n = objs w ri n"
  using assms(2,3)
  by (auto simp: applyDesired_def Let_def split: if_splits prod.splits sum.splits
      dest!: kube_apply [OF kc])

section \<open>A pass\<close>

lemma fetch_keeps:
  assumes "apply_env I docs N objs c" and "I w" and "acSpecFetch c key w = (f, w1)"
  shows "I w1" and "docs w1 = docs w" and "objs w1 = objs w"
  using keepsD [OF apply_envD(7) [OF assms(1)] assms(3)] assms(2) by simp_all

definition ssa_typed :: "ApplyDesire \<Rightarrow> bool" where
  "ssa_typed d \<longleftrightarrow> asType (adSpec d) = ApplyDesireTypeServerSideApply \<or> asType (adSpec d) = ''''"

lemma ssa_not_delete: "ssa_typed d \<Longrightarrow> asType (adSpec d) \<noteq> ApplyDesireTypeDelete"
  by (auto simp: ssa_typed_def apply_type_consts)

lemma generation_status:
  "(record_outcome ssc err deg \<circ> set_generation g) d =
     d\<lparr>adStatus := outcome_status ssc err deg ((adStatus d)\<lparr>asAppliedResourceGeneration := g\<rparr>)\<rparr>"
  by (simp add: mutate_status set_generation_def)

lemma outcome_status_fields [simp]:
  "asObservedDesireUpdateTime (outcome_status ssc err deg st) = asObservedDesireUpdateTime st"
  "asAppliedResourceGeneration (outcome_status ssc err deg st) = asAppliedResourceGeneration st"
  "asObservedDesireUpdateTime (waiting_status ssc fmt dt uid st) = asObservedDesireUpdateTime st"
  by (simp_all add: outcome_status_def waiting_status_def)

text \<open>Server-side apply: what was applied, what the pass returns, and what the status shows.\<close>

lemma ssa_pass:
  assumes env: "apply_env I docs N objs c" and I: "I w"
    and fetch: "acSpecFetch c key w = (Inr (Some desire), w1)" and ty: "ssa_typed desire"
    and sync: "ApplyDesire_SyncOnce c key w = (r, w')"
  shows "\<exists>gen err statusErr w2. applyDesired c desire w1 = ((gen, err), w2) \<and>
    r = errors_join [err, statusErr] \<and> I w' \<and> objs w' = objs w2 \<and>
    (\<forall>k. k \<noteq> akName key \<longrightarrow> docs w' k = docs w k) \<and>
    (statusErr = None \<longrightarrow>
       (\<exists>d. docs w' (akName key) = Some d \<and>
          asObservedDesireUpdateTime (adStatus d) = UpdateTime desire \<and>
          asAppliedResourceGeneration (adStatus d) = gen \<and> shows_outcome err (adStatus d)))"
proof -
  obtain gen err w2 where ap: "applyDesired c desire w1 = ((gen, err), w2)" by (metis prod.collapse)
  let ?f = "record_outcome (acSetCondition c) err (classifyAsDegraded err) \<circ> set_generation gen"
  obtain se w3 where up: "UpdateStatus (apply_writer c) key (?f \<circ> observe desire) w2 = (se, w3)"
    by fastforce
  from sync fetch ty ap up have r: "r = errors_join [err, se]" "w' = w3"
    by (simp_all add: ApplyDesire_SyncOnce_def ssa_typed_def [symmetric] Let_def)
  note w1 = fetch_keeps [OF env I fetch]
  from applyDesired_keeps [OF apply_envD(5) [OF env] ap] w1
  have w2: "I w2" "docs w2 = docs w" by simp_all
  note rec = update_records [OF env w2(1) apply_envD(8) [OF env fetch] generation_status up]
  have "\<exists>d. docs w' (akName key) = Some d \<and>
      asObservedDesireUpdateTime (adStatus d) = UpdateTime desire \<and>
      asAppliedResourceGeneration (adStatus d) = gen \<and> shows_outcome err (adStatus d)"
    if se: "se = None"
  proof -
    from rec(4) [OF se] obtain d st where "docs w3 (akName key) = Some d"
      "adStatus d = outcome_status (acSetCondition c) err (classifyAsDegraded err)
         (st\<lparr>asObservedDesireUpdateTime := UpdateTime desire, asAppliedResourceGeneration := gen\<rparr>)"
      by auto
    then show ?thesis
      using outcome_shows [OF apply_envD(3) [OF env]] r(2) by auto
  qed
  moreover have "docs w' k = docs w k" if "k \<noteq> akName key" for k
    using rec(3) [OF that] r(2) w2 by simp
  ultimately show ?thesis
    using ap r rec(1,2)
    by (intro exI [of _ gen] exI [of _ err] exI [of _ se] exI [of _ w2]) simp
qed

text \<open>Deletion.\<close>

lemma delete_pass:
  assumes env: "apply_env I docs N objs c" and I: "I w"
    and fetch: "acSpecFetch c key w = (Inr (Some desire), w1)"
    and ty: "asType (adSpec desire) = ApplyDesireTypeDelete"
    and sync: "ApplyDesire_SyncOnce c key w = (r, w')"
  defines "ri \<equiv> resourceInterface (asTargetItem (adSpec desire))"
    and "name \<equiv> rrName (asTargetItem (adSpec desire))"
  shows "I w'" and "k \<noteq> akName key \<Longrightarrow> docs w' k = docs w k"
    and "(ri', n') \<noteq> (ri, name) \<Longrightarrow> objs w' ri' n' = objs w ri' n'"
    and "r = None \<Longrightarrow> \<exists>d. docs w' (akName key) = Some d \<and>
      asObservedDesireUpdateTime (adStatus d) = UpdateTime desire \<and>
      (shows_outcome None (adStatus d) \<and> objs w' ri name = None \<or>
       shows_waiting (adStatus d) \<and> terminating (objs w' ri name) \<or>
       (\<exists>e. shows_outcome (Some e) (adStatus d)))"
proof -
  obtain m w2 where ev: "evaluateDelete c desire w1 = (m, w2)" by fastforce
  obtain se w3 where up: "UpdateStatus (apply_writer c) key (m \<circ> observe desire) w2 = (se, w3)"
    by fastforce
  from ty have "\<not> (asType (adSpec desire) = ApplyDesireTypeServerSideApply \<or> asType (adSpec desire) = '''')"
    by (auto simp: apply_type_consts)
  with sync fetch ty ev up have r: "r = se" "w' = w3"
    by (simp_all add: ApplyDesire_SyncOnce_def Let_def)
  note w1 = fetch_keeps [OF env I fetch]
  from evaluateDelete_keeps [OF apply_envD(5) [OF env] ev] w1
  have w2: "I w2" "docs w2 = docs w" by simp_all
  note out = evaluateDelete_outcome [OF apply_envD(4) [OF env] ev, unfolded delete_outcome_def Let_def,
    folded ri_def name_def]
  from out obtain F where F: "\<And>d. m d = d\<lparr>adStatus := F (adStatus d)\<rparr>"
    and shows_F: "\<And>st. asObservedDesireUpdateTime (F st) = asObservedDesireUpdateTime st \<and>
      (shows_outcome None (F st) \<and> objs w2 ri name = None \<or>
       shows_waiting (F st) \<and> terminating (objs w2 ri name) \<or> (\<exists>e. shows_outcome (Some e) (F st)))"
  proof (elim conjE disjE exE)
    assume "m = record_outcome (acSetCondition c) None None" "objs w2 ri name = None"
    then show ?thesis
      using outcome_shows [OF apply_envD(3) [OF env], of None]
      by (intro that [of "outcome_status (acSetCondition c) None None"])
        (simp_all add: mutate_status classifyAsDegraded_def)
  next
    fix dt ob
    assume "m = record_waiting (acSetCondition c) (acFormatRFC3339 c) dt (uoUID ob)"
      "objs w2 ri name = Some ob" "uoDeletionTimestamp ob \<noteq> None"
    then show ?thesis
      using waiting_shows [OF apply_envD(3) [OF env]]
      by (intro that [of "waiting_status (acSetCondition c) (acFormatRFC3339 c) dt (uoUID ob)"])
        (simp_all add: mutate_status terminating_def)
  next
    fix e
    assume "m = record_outcome (acSetCondition c) (Some e) (classifyAsDegraded (Some e))"
    then show ?thesis
      using outcome_shows [OF apply_envD(3) [OF env], of "Some e"]
      by (intro that [of "outcome_status (acSetCondition c) (Some e) (classifyAsDegraded (Some e))"])
        (auto simp: mutate_status)
  qed
  note rec = update_records [OF env w2(1) apply_envD(8) [OF env fetch] F up]
  show "I w'" and "k \<noteq> akName key \<Longrightarrow> docs w' k = docs w k"
    using rec(1,3) r w2 by simp_all
  show "(ri', n') \<noteq> (ri, name) \<Longrightarrow> objs w' ri' n' = objs w ri' n'"
    using out [THEN conjunct1] rec(2) r w1 by (cases ri') simp
  show "\<exists>d. docs w' (akName key) = Some d \<and>
      asObservedDesireUpdateTime (adStatus d) = UpdateTime desire \<and>
      (shows_outcome None (adStatus d) \<and> objs w' ri name = None \<or>
       shows_waiting (adStatus d) \<and> terminating (objs w' ri name) \<or>
       (\<exists>e. shows_outcome (Some e) (adStatus d)))" if "r = None"
  proof -
    from rec(4) that r obtain d st where "docs w3 (akName key) = Some d"
      "adStatus d = F (st\<lparr>asObservedDesireUpdateTime := UpdateTime desire\<rparr>)" by auto
    then show ?thesis
      using shows_F [of "st\<lparr>asObservedDesireUpdateTime := UpdateTime desire\<rparr>"] r(2) rec(2) by simp
  qed
qed

text \<open>A pass over a desire of a type it does not know never reaches the cluster.\<close>

lemma unknown_pass:
  assumes env: "apply_env I docs N objs c" and I: "I w"
    and fetch: "acSpecFetch c key w = (Inr (Some desire), w1)"
    and ty: "\<not> ssa_typed desire" "asType (adSpec desire) \<noteq> ApplyDesireTypeDelete"
    and sync: "ApplyDesire_SyncOnce c key w = (r, w')"
  shows "\<exists>err statusErr. r = errors_join [Some (PreCheckError err), statusErr] \<and> objs w' = objs w \<and>
    (statusErr = None \<longrightarrow>
       (\<exists>d. docs w' (akName key) = Some d \<and> shows_outcome (Some (PreCheckError err)) (adStatus d)))"
    and "I w'" and "k \<noteq> akName key \<Longrightarrow> docs w' k = docs w k"
proof -
  define err where "err = ErrorString (''unknown desire type '' @ acQuote c (asType (adSpec desire)))"
  let ?f = "record_outcome (acSetCondition c) (Some (PreCheckError err)) None"
  obtain se w3 where up: "UpdateStatus (apply_writer c) key (?f \<circ> observe desire) w1 = (se, w3)"
    by fastforce
  from sync fetch ty up have r: "r = errors_join [Some (PreCheckError err), se]" "w' = w3"
    by (simp_all add: ApplyDesire_SyncOnce_def ssa_typed_def err_def)
  note w1 = fetch_keeps [OF env I fetch]
  note rec = update_records [OF env w1(1) apply_envD(8) [OF env fetch] mutate_status(1) up]
  have "\<exists>d. docs w' (akName key) = Some d \<and> shows_outcome (Some (PreCheckError err)) (adStatus d)"
    if "se = None"
    using rec(4) [OF that] outcome_shows_unknown [OF apply_envD(3) [OF env], of err] r(2) by auto
  with r rec(2) w1 show "\<exists>err statusErr. r = errors_join [Some (PreCheckError err), statusErr] \<and> objs w' = objs w \<and>
    (statusErr = None \<longrightarrow>
       (\<exists>d. docs w' (akName key) = Some d \<and> shows_outcome (Some (PreCheckError err)) (adStatus d)))"
    by (intro exI [of _ err] exI [of _ se]) simp
  show "I w'" and "k \<noteq> akName key \<Longrightarrow> docs w' k = docs w k" using rec(1,3) r w1 by simp_all
qed

text \<open>Two passes with the same outcome: the second one finds nothing to write.\<close>

definition ssa_status ::
  "(Condition list \<Rightarrow> Condition \<Rightarrow> Condition list) \<Rightarrow> go_error option \<Rightarrow> int64 \<Rightarrow> gtime
     \<Rightarrow> ApplyDesireStatus \<Rightarrow> ApplyDesireStatus" where
  "ssa_status ssc err g t st = outcome_status ssc err (classifyAsDegraded err)
     (st\<lparr>asObservedDesireUpdateTime := t, asAppliedResourceGeneration := g\<rparr>)"

lemma ssa_mutate:
  "(record_outcome ssc err (classifyAsDegraded err) \<circ> set_generation g \<circ> observe desire) d =
     d\<lparr>DocumentID := DocumentID desire,
       adStatus := ssa_status ssc err g (UpdateTime desire) (adStatus d)\<rparr>"
  by (simp add: mutate_status set_generation_def observe_def ssa_status_def)

lemma ssa_status_idem:
  assumes "status_condition_setter ssc"
  shows "ssa_status ssc err g t (ssa_status ssc err g t st) = ssa_status ssc err g t st"
  using setters_pair_idem [OF assms, of "asConditions st" err "classifyAsDegraded err"]
  by (simp add: ssa_status_def outcome_status_def)

lemma ssa_settles:
  assumes "resource_crud I docs N G C R D" and "\<And>d. adStatus (N d) = adStatus d"
    and "status_condition_setter ssc"
  shows "resource_crud.settles N
    (record_outcome ssc err (classifyAsDegraded err) \<circ> set_generation g \<circ> observe desire)"
  unfolding resource_crud.settles_def [OF assms(1)] ssa_mutate
proof (intro allI impI)
  fix x d' :: ApplyDesire
  let ?x = "x\<lparr>DocumentID := DocumentID desire,
    adStatus := ssa_status ssc err g (UpdateTime desire) (adStatus x)\<rparr>"
  assume "created ?x d' \<or> replaced ?x d'"
  then have "DocumentID d' = DocumentID desire"
    and "adStatus d' = ssa_status ssc err g (UpdateTime desire) (adStatus x)"
    unfolding created_def replaced_def by (elim disjE exE; simp)+
  then have "DocumentID (N d') = DocumentID desire"
    and "ssa_status ssc err g (UpdateTime desire) (adStatus (N d')) = adStatus (N d')"
    by (simp_all add: resource_crud.norm_meta [OF assms(1)] assms(2) ssa_status_idem [OF assms(3)])
  then show "(N d')\<lparr>DocumentID := DocumentID desire,
      adStatus := ssa_status ssc err g (UpdateTime desire) (adStatus (N d'))\<rparr> = N d'"
    by simp
qed

lemma ssa_pass_again:
  assumes env: "apply_env I docs N objs c" and I: "I w"
    and fetch: "acSpecFetch c key w = (Inr (Some desire), w1)" and ty: "ssa_typed desire"
    and ap: "applyDesired c desire w1 = ((gen, err), w2)"
    and sync: "ApplyDesire_SyncOnce c key w = (errors_join [err, None], w')"
    and fetch': "acSpecFetch c key w' = (Inr (Some desire), w1')"
    and ap': "applyDesired c desire w1' = ((gen, err), w2')"
  shows "docs (snd (ApplyDesire_SyncOnce c key w')) = docs w'"
proof -
  note C = apply_envD(1) [OF env]
  let ?m = "record_outcome (acSetCondition c) err (classifyAsDegraded err) \<circ> set_generation gen \<circ>
    observe desire"
  have nm: "names_document (akName key) ?m"
    by (rule names_observe [OF apply_envD(8) [OF env fetch]]) (rule generation_status)
  note st = ssa_settles [OF C apply_envD(2) [OF env] apply_envD(3) [OF env]]
  obtain se w3 where up: "UpdateStatus (apply_writer c) key ?m w2 = (se, w3)" by fastforce
  from sync fetch ty ap up have r: "errors_join [err, se] = errors_join [err, None]" "w' = w3"
    by (simp_all add: ApplyDesire_SyncOnce_def ssa_typed_def [symmetric] Let_def)
  from r(1) have se: "se = None" by (cases err; cases se) (simp_all add: errors_join_def)
  note w1 = fetch_keeps [OF env I fetch]
  from applyDesired_keeps [OF apply_envD(5) [OF env] ap] w1 have w2: "I w2" by simp
  note ok = resource_crud.update_status_ok [where nm = akName and key = key, OF C w2 nm
      up [unfolded se apply_writer_eta]]
  note again = resource_crud.update_status_again [where nm = akName and key = key, OF C _ nm st]
  note w1' = fetch_keeps [OF env ok(1) fetch' [unfolded r(2)]]
  from applyDesired_keeps [OF apply_envD(5) [OF env] ap'] w1'
  have w2': "I w2'" "docs w2' = docs w'" by (simp_all add: r(2))
  obtain se' w3' where up': "UpdateStatus (apply_writer c) key ?m w2' = (se', w3')" by fastforce
  have fin: "snd (ApplyDesire_SyncOnce c key w') = w3'"
    using fetch' ty ap' up' by (simp add: ApplyDesire_SyncOnce_def ssa_typed_def [symmetric] Let_def)
  from resource_crud.update_status_settles [where nm = akName and key = key, OF C w2 nm st
      up [unfolded se apply_writer_eta]]
  obtain d where "docs w2' (akName key) = Some d" "?m d = d" using w2'(2) r(2) by auto
  with resource_crud.update_status_cases [where nm = akName and key = key, OF C w2'(1) nm
      up' [unfolded apply_writer_eta]] resource_crud.wrote_def [OF C]
  have "docs w3' = docs w2'" by auto
  with fin w2' show ?thesis by simp
qed

end
