(* ===== verification/ApplyDesireClaims.thy ===== *)
theory ApplyDesireClaims
  imports ApplyDesireProofs
begin

text \<open>
  The properties of the apply controller, with a world on which their witnesses are evaluated: a
  specs table, the in-memory status table of \<open>FakeCrud\<close>, and a small cluster whose objects may carry
  a finalizer.
\<close>

section \<open>A world for evaluation\<close>

record sample_world =
  swSpecs :: "(string \<times> ApplyDesire) list"
  swStatus :: "ApplyDesire FakeCRUD"
  swObjs :: "((resource_interface \<times> string) \<times> unstructured) list"
  swClock :: gtime

definition sw_objs :: "sample_world \<Rightarrow> cluster_view" where
  "sw_objs w ri n = map_of (swObjs w) (ri, n)"

definition http_404 :: go_error where "http_404 = StatusError 404 ''not found''"

definition sample_kube :: "sample_world kube_client" where
  "sample_kube = \<lparr>
     kcUnmarshalJSON = (\<lambda>s. if s = ''{'' then Inl (ErrorString ''unexpected end of JSON input'')
       else Inr \<lparr>uoUID = '''', uoDeletionTimestamp = None, uoGeneration = 0, uoJSON = JString s\<rparr>),
     kcApply = (\<lambda>ri n ob opts w.
       (let res = (case map_of (swObjs w) (ri, n) of
                None \<Rightarrow> ob\<lparr>uoUID := ''uid-'' @ n, uoGeneration := 1\<rparr>
              | Some old \<Rightarrow> ob\<lparr>uoUID := uoUID old, uoDeletionTimestamp := uoDeletionTimestamp old,
                  uoGeneration := if uoJSON old = uoJSON ob then uoGeneration old else uoGeneration old + 1\<rparr>)
        in if snd ri = Some ''forbidden'' then (Inl (StatusError 403 ''forbidden''), w)
           else (Inr res, w\<lparr>swObjs := AList.update (ri, n) res (swObjs w)\<rparr>))),
     kcGet = (\<lambda>ri n w. (case map_of (swObjs w) (ri, n) of None \<Rightarrow> Inl http_404 | Some ob \<Rightarrow> Inr ob, w)),
     kcDelete = (\<lambda>ri n w.
       (case map_of (swObjs w) (ri, n) of
          None \<Rightarrow> (Some http_404, w)
        | Some ob \<Rightarrow>
            (None, w\<lparr>swObjs :=
               (if uoJSON ob = JString ''finalizer''
                then AList.update (ri, n) (ob\<lparr>uoDeletionTimestamp := Some (swClock w)\<rparr>) (swObjs w)
                else AList.delete (ri, n) (swObjs w))\<rparr>))),
     kcIsNotFound = (\<lambda>e. case e of StatusError c _ \<Rightarrow> c = 404 | _ \<Rightarrow> False),
     kcNow = (\<lambda>w. (swClock w, w\<lparr>swClock := swClock w + 1\<rparr>))\<rparr>"

definition sample_specs_get :: "string \<Rightarrow> sample_world \<Rightarrow> (go_error + ApplyDesire) \<times> sample_world" where
  "sample_specs_get k w =
     (case map_of (swSpecs w) k of
        None \<Rightarrow> (Inl ErrNotFound, w)
      | Some d \<Rightarrow> (Inr (d\<lparr>DocumentID := k\<rparr>), w))"

definition sample_controller ::
  "(sample_world, nat \<times> (ApplyDesireKey \<times> gtime) list) ApplyDesireController" where
  "sample_controller = \<lparr>acSpecFetch = specFetcher sample_specs_get akName, acDyn = sample_kube,
     acStatusCRUD = zoom_ops swStatus (\<lambda>st w. w\<lparr>swStatus := st\<rparr>) fake_ops,
     acSetCondition = sample_ssc 7, acFormatRFC3339 = show_int, acQuote = (\<lambda>s. s),
     acCooldown = \<lparr>cooldownDuration = DefaultCooldownPeriod, nextExecTime = (2, [])\<rparr>,
     acDeleteCooldown = \<lparr>cooldownDuration = DefaultDeleteCooldownPeriod, nextExecTime = (2, [])\<rparr>\<rparr>"

abbreviation sw_inv :: "sample_world \<Rightarrow> bool" where "sw_inv \<equiv> fake_inv \<circ> swStatus"
abbreviation sw_docs :: "sample_world \<Rightarrow> string \<Rightarrow> ApplyDesire option" where
  "sw_docs \<equiv> fake_docs \<circ> swStatus"

lemma sample_kube_ok: "kube_ok sample_kube sw_objs"
proof -
  have "kube_get_ok sample_kube sw_objs"
    by (auto simp: kube_get_ok_def sample_kube_def sw_objs_def split: option.splits)
  moreover have "kube_delete_ok sample_kube sw_objs"
    by (auto simp: kube_delete_ok_def sample_kube_def sw_objs_def deleted_from_def http_404_def
        fun_eq_iff split: option.splits)
  moreover have "kube_apply_ok sample_kube sw_objs"
    by (auto simp: kube_apply_ok_def sample_kube_def sw_objs_def Let_def
        split: option.splits if_splits)
  moreover have "sw_objs (snd (kcNow sample_kube w)) = sw_objs w" for w
    by (simp add: sample_kube_def sw_objs_def fun_eq_iff)
  ultimately show ?thesis by (simp add: kube_ok_def)
qed

lemma sample_kube_keeps: "kube_keeps (\<lambda>w. (sw_inv w, sw_docs w)) sample_kube"
  by (auto simp: kube_keeps_def keeps_def sample_kube_def Let_def split: option.splits)

lemma sample_env: "apply_env sw_inv sw_docs (\<lambda>d. d) sw_objs sample_controller"
  unfolding apply_env_def
proof (intro conjI allI impI)
  show "crud_contract sw_inv sw_docs (\<lambda>d. d) (acStatusCRUD sample_controller)"
    unfolding sample_controller_def
    by (simp add: zoom_contract [OF fake_contract] Let_def)
  show "status_condition_setter (acSetCondition sample_controller)"
    by (simp add: sample_controller_def sample_ssc_ok Let_def)
  show "kube_ok (acDyn sample_controller) sw_objs"
    and "kube_keeps (\<lambda>w. (sw_inv w, sw_docs w)) (acDyn sample_controller)"
    using sample_kube_ok sample_kube_keeps
    by (simp_all add: sample_controller_def Let_def comp_def)
  show "ops_keep sw_objs (acStatusCRUD sample_controller)"
    by (simp add: sample_controller_def ops_keep_def keeps_def
        zoom_ops_def zoom_def sw_objs_def fun_eq_iff split: prod.split)
  show "keeps (\<lambda>w. (sw_inv w, sw_docs w, sw_objs w)) (acSpecFetch sample_controller key)" for key
    by (simp add: sample_controller_def Let_def keeps_def
        specFetcher_def sample_specs_get_def split: option.split)
  show "acSpecFetch sample_controller key w = (Inr (Some d), w') \<Longrightarrow> DocumentID d = akName key" for key w d w'
    by (auto simp: sample_controller_def Let_def specFetcher_def
        sample_specs_get_def split: option.splits)
qed simp

definition sample_target :: ResourceReference where
  "sample_target = \<lparr>rrGroup = '''', rrVersion = ''v1'', rrResource = ''configmaps'',
     rrNamespace = ''ns'', rrName = ''cm''\<rparr>"

definition sample_desire :: "string \<Rightarrow> string \<Rightarrow> ApplyDesire" where
  "sample_desire ty content = zero_ApplyDesire\<lparr>DocumentID := ''d'', UpdateTime := 5,
     adSpec := zero_ApplyDesireSpec\<lparr>asType := ty, asTargetItem := sample_target,
       asServerSideApply := Some \<lparr>ssaKubeContent = Some \<lparr>Raw = content\<rparr>\<rparr>\<rparr>\<rparr>"

definition sample_key :: ApplyDesireKey where
  "sample_key = \<lparr>akClusterID = '''', akNodePoolName = '''', akName = ''d''\<rparr>"

definition sample_object :: "string \<Rightarrow> unstructured" where
  "sample_object content = \<lparr>uoUID = ''uid-cm'', uoDeletionTimestamp = None, uoGeneration = 1,
     uoJSON = JString content\<rparr>"

definition world_with :: "ApplyDesire list \<Rightarrow> unstructured list \<Rightarrow> sample_world" where
  "world_with ds obs = \<lparr>swSpecs = map (\<lambda>d. (DocumentID d, d)) ds, swStatus = NewFakeCRUD,
     swObjs = map (\<lambda>ob. ((resourceInterface sample_target, ''cm''), ob)) obs, swClock = 1000\<rparr>"

lemma world_with_inv: "sw_inv (world_with ds obs)"
  by (simp add: world_with_def fake_inv_new)

section \<open>Server-side apply\<close>

text \<open>
  C1: a pass over a server-side-apply desire that returns nil has applied the decoded content, forced
  and under this controller's field manager; the cluster holds the object the API server returned;
  and the status document shows Successful=True, Degraded=False, the update time of the spec that was
  read and the generation of that object.
\<close>

theorem apply_pass_success:
  assumes "apply_env I docs N objs c" and "I w"
    and "acSpecFetch c key w = (Inr (Some desire), w1)" and "ssa_typed desire"
    and "ApplyDesire_SyncOnce c key w = (None, w')"
  shows "\<exists>ob result w2 d.
    kcUnmarshalJSON (acDyn c) (spec_content desire) = Inr ob \<and>
    kcApply (acDyn c) (resourceInterface (asTargetItem (adSpec desire)))
      (rrName (asTargetItem (adSpec desire))) ob \<lparr>aoFieldManager = FieldManager, aoForce = True\<rparr> w1
      = (Inr result, w2) \<and>
    objs w' (resourceInterface (asTargetItem (adSpec desire))) (rrName (asTargetItem (adSpec desire)))
      = Some result \<and>
    docs w' (akName key) = Some d \<and>
    asObservedDesireUpdateTime (adStatus d) = UpdateTime desire \<and>
    asAppliedResourceGeneration (adStatus d) = uoGeneration result \<and>
    successful_is (asConditions (adStatus d)) ConditionTrue ConditionReasonNoErrors \<and>
    degraded_is (asConditions (adStatus d)) ConditionFalse ConditionReasonNoErrors"
proof -
  from ssa_pass [OF assms] obtain gen err se w2 where ap: "applyDesired c desire w1 = ((gen, err), w2)"
    and r: "None = errors_join [err, se]" and ob: "objs w' = objs w2"
    and st: "se = None \<Longrightarrow> \<exists>d. docs w' (akName key) = Some d \<and>
          asObservedDesireUpdateTime (adStatus d) = UpdateTime desire \<and>
          asAppliedResourceGeneration (adStatus d) = gen \<and> shows_outcome err (adStatus d)"
    by blast
  from r have none: "err = None" "se = None" by (simp_all add: eq_commute [of None])
  from applyDesired_ok [OF ap [unfolded none]] obtain ob result where
    kc: "kcUnmarshalJSON (acDyn c) (spec_content desire) = Inr ob"
      "kcApply (acDyn c) (resourceInterface (asTargetItem (adSpec desire)))
        (rrName (asTargetItem (adSpec desire))) ob \<lparr>aoFieldManager = FieldManager, aoForce = True\<rparr> w1
        = (Inr result, w2)" "gen = uoGeneration result" by blast
  from kube_apply [OF apply_envD(4) [OF assms(1)] kc(2)] ob
  have "objs w' (resourceInterface (asTargetItem (adSpec desire))) (rrName (asTargetItem (adSpec desire)))
      = Some result" by simp
  with kc st none show ?thesis
    by (auto simp: shows_outcome_def classifyAsDegraded_def)
qed

definition sample_ssa_world :: sample_world where
  "sample_ssa_world = world_with [sample_desire '''' ''data''] []"

lemma apply_pass_success_witness:
  "fst (ApplyDesire_SyncOnce sample_controller sample_key sample_ssa_world) = None \<and>
   (\<exists>d. sw_docs (snd (ApplyDesire_SyncOnce sample_controller sample_key sample_ssa_world)) ''d'' = Some d \<and>
      successful_is (asConditions (adStatus d)) ConditionTrue ConditionReasonNoErrors)"
proof -
  have fetch: "acSpecFetch sample_controller sample_key sample_ssa_world =
      (Inr (Some (sample_desire '''' ''data'')), sample_ssa_world)"
    by code_simp
  have ty: "ssa_typed (sample_desire '''' ''data'')" by code_simp
  have none: "fst (ApplyDesire_SyncOnce sample_controller sample_key sample_ssa_world) = None"
    by code_simp
  then have sync: "ApplyDesire_SyncOnce sample_controller sample_key sample_ssa_world =
      (None, snd (ApplyDesire_SyncOnce sample_controller sample_key sample_ssa_world))"
    by (metis prod.collapse)
  have "akName sample_key = ''d''" by (simp add: sample_key_def)
  with apply_pass_success [OF sample_env world_with_inv fetch [unfolded sample_ssa_world_def] ty
      sync [unfolded sample_ssa_world_def]] none
  show ?thesis unfolding sample_ssa_world_def by auto
qed

text \<open>
  C2: when applying fails, the pass returns an error that carries the failure, so the worker re-adds
  the key with rate limiting and does not forget it; the generation recorded is zero; and the
  status, when it could be written, shows Successful=False with the reason for the failure, and
  Degraded=True exactly if the failure is neither a failed pre-check nor a 4xx answer.
\<close>

theorem apply_pass_failure:
  assumes "apply_env I docs N objs c" and "I w"
    and "acSpecFetch c key w = (Inr (Some desire), w1)" and "ssa_typed desire"
    and "applyDesired c desire w1 = ((gen, Some err), w2)"
    and "ApplyDesire_SyncOnce c key w = (r, w')"
  shows "gen = 0 \<and> (\<exists>e. r = Some e \<and> (\<forall>t. errors_is err t \<longrightarrow> errors_is e t)) \<and>
    apply_processNext c (Some key) w = ((True, [QGet key, QAddRateLimited key, QDone key]), w') \<and>
    (r = errors_join [Some err, None] \<longrightarrow>
       (\<exists>d. docs w' (akName key) = Some d \<and>
          successful_is (asConditions (adStatus d)) ConditionFalse (successful_reason err) \<and>
          (degraded_is (asConditions (adStatus d)) ConditionTrue ConditionReasonFailed \<longleftrightarrow>
             \<not> isClientError err \<and>
             errors_as (\<lambda>e. case e of PreCheckError x \<Rightarrow> Some x | _ \<Rightarrow> None) err = None)))"
proof -
  from assms(5) have gen: "gen = 0"
    by (auto simp: applyDesired_def Let_def split: if_splits prod.splits sum.splits)
  from ssa_pass [OF assms(1-4,6)] assms(5) obtain se where r: "r = errors_join [Some err, se]"
    and st: "se = None \<Longrightarrow> \<exists>d. docs w' (akName key) = Some d \<and>
          asObservedDesireUpdateTime (adStatus d) = UpdateTime desire \<and>
          asAppliedResourceGeneration (adStatus d) = gen \<and> shows_outcome (Some err) (adStatus d)"
    by auto
  from r have "r \<noteq> None" by (simp del: not_None_eq)
  then obtain e where e: "r = Some e" by blast
  have carried: "errors_is err t \<Longrightarrow> errors_is e t" for t
    by (rule errors_is_joined [of "[Some err, se]"]) (use r e in simp_all)
  have proc: "apply_processNext c (Some key) w = ((True, [QGet key, QAddRateLimited key, QDone key]), w')"
    using assms(6) e by (simp add: apply_processNext_def)
  have sn: "r = errors_join [Some err, None] \<Longrightarrow> se = None"
    using r by (cases se) (simp_all add: errors_join_def)
  have deg: "degraded_is cs ConditionTrue ConditionReasonFailed \<Longrightarrow>
      degraded_is cs ConditionFalse ConditionReasonNoErrors \<Longrightarrow> False" for cs
    unfolding degraded_is_def by (drule (1) condition_is_unique) simp
  show ?thesis
    using gen e carried proc st [OF sn] deg
    by (auto simp: shows_outcome_def classifyAsDegraded_def split: if_splits option.splits)
qed

definition sample_forbidden :: ApplyDesire where
  "sample_forbidden = sample_desire ''ServerSideApply'' ''data''
     \<lparr>adSpec := (adSpec (sample_desire ''ServerSideApply'' ''data''))
        \<lparr>asTargetItem := sample_target\<lparr>rrNamespace := ''forbidden''\<rparr>\<rparr>\<rparr>"

lemma apply_pass_failure_witness:
  "fst (fst (applyDesired sample_controller sample_forbidden (world_with [sample_forbidden] []))) = 0 \<and>
   (\<exists>e. fst (ApplyDesire_SyncOnce sample_controller sample_key (world_with [sample_forbidden] [])) = Some e
      \<and> errors_is e (StatusError 403 ''forbidden''))"
proof -
  let ?w = "world_with [sample_forbidden] []"
  let ?err = "WrapError ''server-side apply: '' (StatusError 403 ''forbidden'')"
  have fetch: "acSpecFetch sample_controller sample_key ?w = (Inr (Some sample_forbidden), ?w)"
    and ty: "ssa_typed sample_forbidden"
    and ap: "applyDesired sample_controller sample_forbidden ?w = ((0, Some ?err), ?w)"
    by code_simp+
  note all = apply_pass_failure [OF sample_env world_with_inv fetch ty ap prod.collapse [symmetric]]
  moreover have "errors_is ?err (StatusError 403 ''forbidden'')"
    by (simp add: errors_is_def)
  ultimately show ?thesis using ap by auto
qed



section \<open>Deletion\<close>

text \<open>
  C3: Successful=True on a delete desire is never premature. After a pass that returned nil the status
  document shows the spec's update time and one of three outcomes: success, and the target is absent
  from the cluster; waiting for deletion, and the target is marked for deletion; or the failure. No other
  object of the cluster and no other status document changed.
\<close>

theorem delete_pass_sound:
  assumes "apply_env I docs N objs c" and "I w"
    and "acSpecFetch c key w = (Inr (Some desire), w1)"
    and "asType (adSpec desire) = ApplyDesireTypeDelete"
    and "ApplyDesire_SyncOnce c key w = (None, w')"
  shows "\<exists>d. docs w' (akName key) = Some d \<and>
    asObservedDesireUpdateTime (adStatus d) = UpdateTime desire \<and>
    (successful_is (asConditions (adStatus d)) ConditionTrue ConditionReasonNoErrors \<longrightarrow>
       objs w' (resourceInterface (asTargetItem (adSpec desire))) (rrName (asTargetItem (adSpec desire))) = None) \<and>
    (successful_is (asConditions (adStatus d)) ConditionFalse ConditionReasonWaitingForDeletion \<longrightarrow>
       terminating (objs w' (resourceInterface (asTargetItem (adSpec desire))) (rrName (asTargetItem (adSpec desire))))) \<and>
    (successful_is (asConditions (adStatus d)) ConditionTrue ConditionReasonNoErrors \<or>
     successful_is (asConditions (adStatus d)) ConditionFalse ConditionReasonWaitingForDeletion \<or>
     (\<exists>e. shows_outcome (Some e) (adStatus d))) \<and>
    (\<forall>k. k \<noteq> akName key \<longrightarrow> docs w' k = docs w k) \<and>
    (\<forall>ri n. (ri, n) \<noteq> (resourceInterface (asTargetItem (adSpec desire)), rrName (asTargetItem (adSpec desire)))
       \<longrightarrow> objs w' ri n = objs w ri n)"
proof -
  note pass = delete_pass [OF assms]
  from pass(4) obtain d where d: "docs w' (akName key) = Some d"
    "asObservedDesireUpdateTime (adStatus d) = UpdateTime desire"
    and cases: "shows_outcome None (adStatus d) \<and>
        objs w' (resourceInterface (asTargetItem (adSpec desire))) (rrName (asTargetItem (adSpec desire))) = None \<or>
      shows_waiting (adStatus d) \<and>
        terminating (objs w' (resourceInterface (asTargetItem (adSpec desire))) (rrName (asTargetItem (adSpec desire)))) \<or>
      (\<exists>e. shows_outcome (Some e) (adStatus d))"
    by blast
  have distinct: "successful_is cs s rs \<Longrightarrow> successful_is cs s' rs' \<Longrightarrow> s = s' \<and> rs = rs'" for cs s rs s' rs'
    unfolding successful_is_def by (rule condition_is_unique)
  have reason: "successful_reason e \<noteq> ConditionReasonWaitingForDeletion" for e
    by (simp add: successful_reason_def condition_consts split: go_error.split)
  let ?S = "successful_is (asConditions (adStatus d))"
  let ?there = "objs w' (resourceInterface (asTargetItem (adSpec desire))) (rrName (asTargetItem (adSpec desire)))"
  from cases have "?S ConditionTrue ConditionReasonNoErrors \<and>
      \<not> ?S ConditionFalse ConditionReasonWaitingForDeletion \<and> ?there = None \<or>
    ?S ConditionFalse ConditionReasonWaitingForDeletion \<and>
      \<not> ?S ConditionTrue ConditionReasonNoErrors \<and> terminating ?there \<or>
    (\<exists>e. shows_outcome (Some e) (adStatus d)) \<and> \<not> ?S ConditionTrue ConditionReasonNoErrors \<and>
      \<not> ?S ConditionFalse ConditionReasonWaitingForDeletion"
  proof (elim disjE conjE exE)
    assume "shows_outcome None (adStatus d)" and gone: "?there = None"
    then have s: "?S ConditionTrue ConditionReasonNoErrors" by (simp add: shows_outcome_def)
    then show ?thesis using distinct [OF s, of ConditionFalse] gone by auto
  next
    assume "shows_waiting (adStatus d)" and there: "terminating ?there"
    then have s: "?S ConditionFalse ConditionReasonWaitingForDeletion" by (simp add: shows_waiting_def)
    then show ?thesis using distinct [OF s, of ConditionTrue] there by auto
  next
    fix e assume e: "shows_outcome (Some e) (adStatus d)"
    then have s: "?S ConditionFalse (successful_reason e)" by (simp add: shows_outcome_def)
    have "\<not> ?S ConditionTrue ConditionReasonNoErrors"
      using distinct [OF s, of ConditionTrue ConditionReasonNoErrors] by auto
    moreover have "\<not> ?S ConditionFalse ConditionReasonWaitingForDeletion"
      using distinct [OF s, of ConditionFalse ConditionReasonWaitingForDeletion] reason [of e] by auto
    ultimately show ?thesis using e by blast
  qed
  then show ?thesis using d pass(2,3) by (intro exI [of _ d]) auto
qed

lemma delete_pass_sound_witness:
  "let d = sample_desire ''Delete'' ''''; w = world_with [d] [sample_object ''finalizer''];
       w' = snd (ApplyDesire_SyncOnce sample_controller sample_key w)
   in terminating (sw_objs w' (resourceInterface sample_target) ''cm'') \<and>
      (\<exists>d. sw_docs w' ''d'' = Some d \<and>
         successful_is (asConditions (adStatus d)) ConditionFalse ConditionReasonWaitingForDeletion)"
proof -
  let ?d = "sample_desire ''Delete'' ''''"
  let ?w = "world_with [?d] [sample_object ''finalizer'']"
  let ?w' = "snd (ApplyDesire_SyncOnce sample_controller sample_key ?w)"
  have fetch: "acSpecFetch sample_controller sample_key ?w = (Inr (Some ?d), ?w)"
    and sync: "ApplyDesire_SyncOnce sample_controller sample_key ?w = (None, ?w')"
    and ty: "asType (adSpec ?d) = ApplyDesireTypeDelete"
    and tgt: "asTargetItem (adSpec ?d) = sample_target" "rrName sample_target = ''cm''"
    and k: "akName sample_key = ''d''"
    and st: "map_option (\<lambda>d. successful_is (asConditions (adStatus d)) ConditionFalse
      ConditionReasonWaitingForDeletion) (sw_docs ?w' ''d'') = Some True"
    by code_simp+
  from delete_pass_sound [OF sample_env world_with_inv fetch ty sync] st
  show ?thesis unfolding Let_def tgt k by auto
qed

text \<open>
  C17: an object that is being deleted already is not deleted again: on a terminating target a pass
  leaves the whole cluster as it is.
\<close>

theorem delete_not_repeated:
  assumes "apply_env I docs N objs c" and "I w"
    and "acSpecFetch c key w = (Inr (Some desire), w1)"
    and "asType (adSpec desire) = ApplyDesireTypeDelete"
    and "terminating (objs w (resourceInterface (asTargetItem (adSpec desire))) (rrName (asTargetItem (adSpec desire))))"
  shows "objs (snd (ApplyDesire_SyncOnce c key w)) = objs w"
proof -
  obtain m w2 where ev: "evaluateDelete c desire w1 = (m, w2)" by fastforce
  obtain se w3 where up: "UpdateStatus (apply_writer c) key (m \<circ> observe desire) w2 = (se, w3)"
    by fastforce
  from assms(4) have "asType (adSpec desire) \<noteq> ApplyDesireTypeServerSideApply" "asType (adSpec desire) \<noteq> ''''"
    by (auto simp: apply_type_consts)
  with assms(3,4) ev up have w3: "snd (ApplyDesire_SyncOnce c key w) = w3"
    by (simp add: ApplyDesire_SyncOnce_def)
  note same = fetch_keeps(3) [OF assms(1-3)]
  from assms(5) obtain ob where ob: "objs w1 (resourceInterface (asTargetItem (adSpec desire)))
      (rrName (asTargetItem (adSpec desire))) = Some ob" and dt: "uoDeletionTimestamp ob \<noteq> None"
    unfolding same terminating_def by (auto split: option.splits)
  from evaluateDelete_terminating [OF apply_envD(4) [OF assms(1)] ev ob dt] same
  have "objs w2 = objs w" by simp
  moreover have "objs w3 = objs w2"
    using UpdateStatus_keeps [OF apply_envD(6) [OF assms(1)]] up unfolding apply_writer_def
    by (rule keepsD)
  ultimately show ?thesis by (simp add: w3)
qed

lemma delete_not_repeated_witness:
  "let w = world_with [sample_desire ''Delete'' ''''] [sample_object ''data''\<lparr>uoDeletionTimestamp := Some 3\<rparr>]
   in sw_objs (snd (ApplyDesire_SyncOnce sample_controller sample_key w)) = sw_objs w"
proof -
  let ?d = "sample_desire ''Delete'' ''''"
  let ?w = "world_with [?d] [sample_object ''data''\<lparr>uoDeletionTimestamp := Some 3\<rparr>]"
  have fetch: "acSpecFetch sample_controller sample_key ?w = (Inr (Some ?d), ?w)"
    and ty: "asType (adSpec ?d) = ApplyDesireTypeDelete"
    and tm: "terminating (sw_objs ?w (resourceInterface (asTargetItem (adSpec ?d))) (rrName (asTargetItem (adSpec ?d))))"
    by code_simp+
  have "sw_objs (snd (ApplyDesire_SyncOnce sample_controller sample_key ?w)) = sw_objs ?w"
    by (rule delete_not_repeated [where objs = sw_objs and desire = ?d])
      (rule sample_env world_with_inv fetch ty tm)+
  then show ?thesis by (simp only: Let_def)
qed

section \<open>Other passes\<close>

text \<open>
  A desire of a type the controller does not know is a failed pre-check: the pass returns that
  error, the cluster is as it was (whatever the dynamic client is), and the status, when it could be
  written, shows Successful=False with reason PreCheckFailed and Degraded=False.
\<close>

theorem unknown_type_pass:
  assumes "apply_env I docs N objs c" and "I w"
    and "acSpecFetch c key w = (Inr (Some desire), w1)"
    and "\<not> ssa_typed desire" and "asType (adSpec desire) \<noteq> ApplyDesireTypeDelete"
    and "ApplyDesire_SyncOnce c key w = (r, w')"
  shows "\<exists>err statusErr. r = errors_join [Some (PreCheckError err), statusErr] \<and> objs w' = objs w \<and>
    ApplyDesire_SyncOnce (c\<lparr>acDyn := otherCluster\<rparr>) key w = (r, w') \<and>
    (statusErr = None \<longrightarrow>
       (\<exists>d. docs w' (akName key) = Some d \<and>
          successful_is (asConditions (adStatus d)) ConditionFalse ConditionReasonPreCheckFailed \<and>
          degraded_is (asConditions (adStatus d)) ConditionFalse ConditionReasonNoErrors))"
proof -
  have other: "ApplyDesire_SyncOnce (c\<lparr>acDyn := otherCluster\<rparr>) key w = (r, w')"
    using assms(3-6) by (simp add: ApplyDesire_SyncOnce_def ssa_typed_def apply_writer_def)
  from unknown_pass(1) [OF assms] other show ?thesis
    by (auto simp: shows_outcome_def classifyAsDegraded_def successful_reason_def)
qed

lemma unknown_type_pass_witness:
  "\<exists>d. sw_docs (snd (ApplyDesire_SyncOnce sample_controller sample_key
          (world_with [sample_desire ''Patch'' ''data''] [sample_object ''x'']))) ''d'' = Some d \<and>
     successful_is (asConditions (adStatus d)) ConditionFalse ConditionReasonPreCheckFailed"
proof -
  let ?d = "sample_desire ''Patch'' ''data''"
  let ?w = "world_with [?d] [sample_object ''x'']"
  let ?err = "PreCheckError (ErrorString ''unknown desire type Patch'')"
  have fetch: "acSpecFetch sample_controller sample_key ?w = (Inr (Some ?d), ?w)"
    and ty: "\<not> ssa_typed ?d" "asType (adSpec ?d) \<noteq> ApplyDesireTypeDelete"
    and k: "akName sample_key = ''d''"
    by code_simp+
  have sync: "ApplyDesire_SyncOnce sample_controller sample_key ?w =
      (errors_join [Some ?err, None], snd (ApplyDesire_SyncOnce sample_controller sample_key ?w))"
    by code_simp
  from unknown_type_pass [where otherCluster = sample_kube, OF sample_env world_with_inv fetch ty sync]
  obtain err se where se: "errors_join [Some ?err, None] = errors_join [Some (PreCheckError err), se]"
    and st: "se = None \<longrightarrow> (\<exists>d. sw_docs (snd (ApplyDesire_SyncOnce sample_controller sample_key ?w)) ''d'' = Some d \<and>
      successful_is (asConditions (adStatus d)) ConditionFalse ConditionReasonPreCheckFailed)"
    unfolding k by blast
  from se have "se = None" by (cases se) (simp_all add: errors_join_def)
  with st show ?thesis by simp
qed

end
