(* ===== verification/ApplyEvents.thy ===== *)
theory ApplyEvents
  imports ApplyDesireClaims
begin

text \<open>
  The event side of the apply controller: which events reach the work queue through the cooldown
  gates, and the removal of a status document with its spec.
\<close>

section \<open>The cooldown gate\<close>

text \<open>
  C28: the gate implements its reference definition: whatever the order and the clock of the calls, as
  long as no more than a million keys are in play, a call is allowed exactly when each allowed call
  made before for the same key lies more than the cooldown in the past; denied calls do not extend
  the wait, and keys do not influence each other.
\<close>

theorem cooldown_exact:
  assumes "lru_ok lib content cap" and "0 \<le> d" and "card (snd ` set calls) \<le> 1000000"
  shows "run_cooldown lib (NewTimeBasedCooldownChecker lib d) calls = cooldown_spec d [] calls"
proof -
  let ?c = "NewTimeBasedCooldownChecker lib d"
  have new: "content (nextExecTime ?c) = Map.empty" "cap (nextExecTime ?c) = 1000000"
    using assms(1) unfolding lru_ok_def NewTimeBasedCooldownChecker_def by simp_all
  have "window_sim d [] (content (nextExecTime ?c))" by (simp add: new window_sim_def)
  with run_cooldown_spec [OF assms(1), of ?c "[]" calls] assms(2,3) new show ?thesis
    by (simp add: NewTimeBasedCooldownChecker_def)
qed

lemma cooldown_exact_witness:
  "run_cooldown sample_lru (NewTimeBasedCooldownChecker sample_lru 10) [(0, ''a''), (9, ''a''), (9, ''b''), (11, ''a'')]
     = [(0, ''a'', True), (9, ''a'', False), (9, ''b'', True), (11, ''a'', True)]"
proof -
  have "card (snd ` set [(0 :: gtime, ''a''), (9, ''a''), (9, ''b''), (11, ''a'')]) \<le> 1000000"
    by (rule order.trans [OF card_image_set_le]) simp
  from cooldown_exact [OF sample_lru_ok _ this, of 10] show ?thesis by simp
qed

section \<open>Resyncs\<close>

text \<open>
  A resync delivers an update whose old and new object carry the same update time. \<open>run_resync\<close> feeds a
  sequence of them, of any desires, to the update handler, and says for each whether its key was
  queued.
\<close>

definition key_of :: "ApplyDesire \<Rightarrow> ApplyDesireKey" where
  "key_of d = \<lparr>akClusterID = asClusterID (adSpec d), akNodePoolName = asNodePoolName (adSpec d),
     akName = DocumentID d\<rparr>"

fun run_resync ::
  "(ApplyDesireKey, 'c) lru_lib \<Rightarrow> ('w, 'c) ApplyDesireController \<Rightarrow> (gtime \<times> ApplyDesire) list
     \<Rightarrow> (gtime \<times> ApplyDesire \<times> bool) list" where
  "run_resync lib c [] = []"
| "run_resync lib c ((now, d) # evs) =
     (let (ks, c') = handleUpdate lib now (TypedObj d) (TypedObj d) c
      in (now, d, ks = [key_of d]) # run_resync lib c' evs)"

definition is_delete :: "ApplyDesire \<Rightarrow> bool" where
  "is_delete d \<longleftrightarrow> asType (adSpec d) = ApplyDesireTypeDelete"

lemma handleUpdate_resync:
  assumes "DocumentID d \<noteq> ''''"
  shows "handleUpdate lib now (TypedObj d) (TypedObj d) c =
    (if is_delete d
     then (case CanSync lib now (key_of d) (acDeleteCooldown c) of (ok, cd) \<Rightarrow>
             (if ok then [key_of d] else [], c\<lparr>acDeleteCooldown := cd\<rparr>))
     else (case CanSync lib now (key_of d) (acCooldown c) of (ok, cd) \<Rightarrow>
             (if ok then [key_of d] else [], c\<lparr>acCooldown := cd\<rparr>)))"
proof -
  have "ApplyDesireKeyFromDesire d = Inr (key_of d)"
    using assms by (simp add: ApplyDesireKeyFromDesire_def key_of_def)
  then show ?thesis by (simp add: handleUpdate_def enqueueWithCooldown_def is_delete_def)
qed

lemma run_resync_gates:
  assumes "\<forall>(t, d) \<in> set evs. DocumentID d \<noteq> ''''"
  shows "map (\<lambda>(t, d, ok). (t, key_of d, ok)) (filter (\<lambda>(t, d, ok). \<not> is_delete d) (run_resync lib c evs)) =
      run_cooldown lib (acCooldown c) (map (\<lambda>(t, d). (t, key_of d)) (filter (\<lambda>(t, d). \<not> is_delete d) evs))"
    and "map (\<lambda>(t, d, ok). (t, key_of d, ok)) (filter (\<lambda>(t, d, ok). is_delete d) (run_resync lib c evs)) =
      run_cooldown lib (acDeleteCooldown c) (map (\<lambda>(t, d). (t, key_of d)) (filter (\<lambda>(t, d). is_delete d) evs))"
  using assms
proof (induction evs arbitrary: c)
  case (Cons ev evs)
  obtain now d where ev: "ev = (now, d)" by fastforce
  case 1
  with Cons.IH(1) ev handleUpdate_resync [of d lib now c] show ?case
    by (cases "is_delete d") (auto split: prod.splits)
  case 2
  with Cons.IH(2) ev handleUpdate_resync [of d lib now c] show ?case
    by (cases "is_delete d") (auto split: prod.splits)
qed simp_all

text \<open>
  Periodic resyncs do not make work: a controller built with the default configuration queues an
  unchanged server-side-apply desire at most once in ten minutes and an unchanged delete desire at
  most once a minute, in any mixture of the two; and once that time has passed the next resync does
  queue it.
\<close>

theorem resync_spacing:
  assumes "lru_ok lib content cap" and "\<forall>(t, d) \<in> set evs. DocumentID d \<noteq> ''''"
    and "card ((\<lambda>(t, d). key_of d) ` set evs) \<le> 1000000"
    and "c = NewApplyDesireController lib realClock dynClient specGet statusCRUD ssc fmt quote
           \<lparr>CooldownPeriod = 0, DeleteCooldownPeriod = 0, cfgClock = clock\<rparr>"
  shows "map (\<lambda>(t, d, ok). (t, key_of d, ok)) (filter (\<lambda>(t, d, ok). \<not> is_delete d) (run_resync lib c evs)) =
      cooldown_spec (600 * second) [] (map (\<lambda>(t, d). (t, key_of d)) (filter (\<lambda>(t, d). \<not> is_delete d) evs)) \<and>
    map (\<lambda>(t, d, ok). (t, key_of d, ok)) (filter (\<lambda>(t, d, ok). is_delete d) (run_resync lib c evs)) =
      cooldown_spec (60 * second) [] (map (\<lambda>(t, d). (t, key_of d)) (filter (\<lambda>(t, d). is_delete d) evs))"
proof -
  have gates: "acCooldown c = NewTimeBasedCooldownChecker lib (600 * second)"
    "acDeleteCooldown c = NewTimeBasedCooldownChecker lib (60 * second)"
    unfolding assms(4)
    by (simp_all add: NewApplyDesireController_def withDefaults_def Let_def
        DefaultCooldownPeriod_def DefaultDeleteCooldownPeriod_def)
  have card: "card (snd ` set (map (\<lambda>(t, d). (t, key_of d)) (filter P evs))) \<le> 1000000" for P
  proof -
    have "snd ` set (map (\<lambda>(t, d). (t, key_of d)) (filter P evs)) \<subseteq> (\<lambda>(t, d). key_of d) ` set evs"
      by force
    then show ?thesis using assms(3) by (meson List.finite_set card_mono finite_imageI le_trans)
  qed
  let ?c = "NewTimeBasedCooldownChecker lib"
  have new: "content (nextExecTime (?c p)) = Map.empty" "cap (nextExecTime (?c p)) = 1000000" for p
    using assms(1) unfolding lru_ok_def NewTimeBasedCooldownChecker_def by simp_all
  have spec: "run_cooldown lib (?c p) calls = cooldown_spec p [] calls"
    if "0 \<le> p" "card (snd ` set calls) \<le> 1000000" for p calls
    using run_cooldown_spec [OF assms(1), of "?c p" "[]" calls] that new
    by (simp add: NewTimeBasedCooldownChecker_def window_sim_def)
  show ?thesis
    unfolding run_resync_gates [OF assms(2)] gates by (intro conjI spec card) simp_all
qed

text \<open>
  The spec's removal removes its status document and nothing else: after a delete event, or a
  tombstone of one, whose handling reported no error, the status table has no document under that
  identifier and every other document is as it was.
\<close>

theorem spec_removal_cleans_status:
  assumes "apply_env I docs N objs c" and "I w"
    and "obj = TypedObj d \<or> obj = Tombstone (Some d)"
    and "handleDelete c obj w = (None, w')"
  shows "docs w' = (docs w)(DocumentID d := None)"
proof -
  note C = apply_envD(1) [OF assms(1)]
  obtain r w1 where dl: "opDelete (acStatusCRUD c) (DocumentID d) w = (r, w1)" by fastforce
  have "handleDelete c obj w =
      (case r of None \<Rightarrow> None | Some e \<Rightarrow> if IsNotFoundError e then None else Some e, w1)"
    using assms(3) dl by (auto simp: handleDelete_def split: option.split)
  with assms(4) have w': "w' = w1" and r: "r = None \<or> (\<exists>e. r = Some e \<and> IsNotFoundError e)"
    by (auto split: option.splits if_splits)
  from r show ?thesis
  proof (elim disjE exE conjE)
    assume "r = None"
    with resource_crud.delete_ok [OF C assms(2)] dl w' show ?thesis by simp
  next
    fix e assume "r = Some e" "IsNotFoundError e"
    with resource_crud.delete_not_found [OF C assms(2), of "DocumentID d" e w1] dl w' show ?thesis
      by (simp add: fun_upd_idem)
  qed
qed

lemma resync_spacing_witness:
  "let d = sample_desire '''' ''data''; e = sample_desire ''Delete'' '''';
       c = NewApplyDesireController sample_lru () sample_kube sample_specs_get
             (zoom_ops swStatus (\<lambda>st w. w\<lparr>swStatus := st\<rparr>) fake_ops) (sample_ssc 7) show_int (\<lambda>s. s)
             \<lparr>CooldownPeriod = 0, DeleteCooldownPeriod = 0, cfgClock = None\<rparr>
   in map (\<lambda>(t, d, ok). (t, ok)) (filter (\<lambda>(t, d, ok). \<not> is_delete d)
        (run_resync sample_lru c [(0, d), (61 * second, e), (61 * second, d), (601 * second, d)]))
      = [(0, True), (61 * second, False), (601 * second, True)]"
proof -
  let ?d = "sample_desire '''' ''data''" and ?e = "sample_desire ''Delete'' ''''"
  let ?evs = "[(0, ?d), (61 * second, ?e), (61 * second, ?d), (601 * second, ?d)]"
  let ?c = "NewApplyDesireController sample_lru () sample_kube sample_specs_get
             (zoom_ops swStatus (\<lambda>st w. w\<lparr>swStatus := st\<rparr>) fake_ops) (sample_ssc 7) show_int (\<lambda>s. s)
             \<lparr>CooldownPeriod = 0, DeleteCooldownPeriod = 0, cfgClock = None\<rparr>"
  have ids: "\<forall>(t, d) \<in> set ?evs. DocumentID d \<noteq> ''''"
    by (simp add: sample_desire_def)
  have card: "card ((\<lambda>(t, d). key_of d) ` set ?evs) \<le> 1000000"
    by (rule order.trans [OF card_image_set_le]) simp
  have del: "\<not> is_delete ?d" "is_delete ?e" by code_simp+
  have "map (\<lambda>(t, d, ok). (t, key_of d, ok)) (filter (\<lambda>(t, d, ok). \<not> is_delete d) (run_resync sample_lru ?c ?evs))
      = [(0, key_of ?d, True), (61 * second, key_of ?d, False), (601 * second, key_of ?d, True)]"
    by (rule trans [OF resync_spacing [OF sample_lru_ok ids card refl, THEN conjunct1]]) (simp add: del)
  from arg_cong [OF this, of "map (\<lambda>(t, k, ok). (t, ok))"] show ?thesis
    unfolding Let_def map_map by (simp add: comp_def case_prod_beta')
qed

lemma spec_removal_cleans_status_witness:
  "let d = sample_desire '''' ''data'';
       w = snd (ApplyDesire_SyncOnce sample_controller sample_key (world_with [d] []))
   in sw_docs w ''d'' \<noteq> None \<and>
      sw_docs (snd (handleDelete sample_controller (Tombstone (Some d)) w)) ''d'' = None"
proof -
  let ?d = "sample_desire '''' ''data''"
  let ?w = "snd (ApplyDesire_SyncOnce sample_controller sample_key (world_with [?d] []))"
  have id: "DocumentID ?d = ''d''" and some: "(sw_docs ?w ''d'' = None) = False"
    and ok: "handleDelete sample_controller (Tombstone (Some ?d)) ?w =
      (None, snd (handleDelete sample_controller (Tombstone (Some ?d)) ?w))"
    by code_simp+
  have "sw_inv ?w"
  proof -
    have "acSpecFetch sample_controller sample_key (world_with [?d] []) = (Inr (Some ?d), world_with [?d] [])"
      and "ssa_typed ?d" by code_simp+
    from ssa_pass [OF sample_env world_with_inv this prod.collapse [symmetric]] show ?thesis by blast
  qed
  from spec_removal_cleans_status [OF sample_env this disjI2 [OF refl] ok] id some
  show ?thesis by (simp add: Let_def)
qed

end
