(* ===== verification/ReadDesireKube.thy ===== *)
theory ReadDesireKube
  imports ApplyDesireProofs
begin

text \<open>
  \<open>pkg/controllers/read_desire_kubernetes/controller.go\<close>: the reflector that one ReadDesire owns. It
  mirrors a single object from its informer's store into the status document. The informer is the
  record \<open>object_informer\<close>, a parameter, whose store may hold the object, something of another type,
  or nothing; \<open>uiMarshal\<close> is \<open>json.Marshal\<close> of an \<open>unstructured\<close>.
\<close>

section \<open>The reflector\<close>

datatype stored_obj =
    StoredUnstructured unstructured
  | StoredOther string

record 'w object_informer =
  uiHasSynced :: "'w \<Rightarrow> bool"
  uiGetByKey :: "string \<Rightarrow> 'w \<Rightarrow> go_error + stored_obj option"
  uiMarshal :: "unstructured \<Rightarrow> go_error + string"

definition ResyncDuration :: duration where "ResyncDuration = 60 * second"

record 'w ReadDesireKubernetesController =
  rkcKey :: ReadDesireKey
  rkcTarget :: ResourceReference
  rkcSpecUpdateTime :: gtime
  rkcGvr :: GroupVersionResource
  rkcNamespaced :: bool
  rkcInformer :: "'w object_informer"
  rkcStatusCRUD :: "('w, ReadDesire) crud_ops"
  rkcSetCondition :: "Condition list \<Rightarrow> Condition \<Rightarrow> Condition list"

text \<open>\<open>informerFor\<close> is the informer that client-go builds for the single-object list and watch.\<close>

record ListOptions =
  FieldSelector :: string

definition singleObjectListWatch ::
  "(string \<Rightarrow> string) \<Rightarrow> ResourceReference \<Rightarrow> ListOptions \<Rightarrow> resource_interface \<times> ListOptions" where
  "singleObjectListWatch singleObject target options =
     (resourceInterface target, options\<lparr>FieldSelector := singleObject (rrName target)\<rparr>)"

definition NewReadDesireKubernetesController ::
  "(string \<Rightarrow> string) \<Rightarrow> ((ListOptions \<Rightarrow> resource_interface \<times> ListOptions) \<Rightarrow> 'w object_informer)
     \<Rightarrow> (Condition list \<Rightarrow> Condition \<Rightarrow> Condition list) \<Rightarrow> ReadDesireKey \<Rightarrow> ResourceReference \<Rightarrow> gtime
     \<Rightarrow> ('w, ReadDesire) crud_ops \<Rightarrow> go_error + 'w ReadDesireKubernetesController" where
  "NewReadDesireKubernetesController singleObject informerFor ssc key target specUpdateTime statusCRUD =
     (if target_incomplete target then Inl errTargetItem
      else Inr \<lparr>rkcKey = key, rkcTarget = target, rkcSpecUpdateTime = specUpdateTime,
             rkcGvr = \<lparr>gvrGroup = rrGroup target, gvrVersion = rrVersion target,
                       gvrResource = rrResource target\<rparr>,
             rkcNamespaced = (0 < length (rrNamespace target)),
             rkcInformer = informerFor (singleObjectListWatch singleObject target),
             rkcStatusCRUD = statusCRUD, rkcSetCondition = ssc\<rparr>)"

definition read_writer ::
  "'w ReadDesireKubernetesController \<Rightarrow> ('w, ReadDesire, ReadDesireKey) writer" where
  "read_writer c = statusWriter (rkcStatusCRUD c) show_ReadDesireKey rkName zero_ReadDesire"

text \<open>Every informer event and every resync adds the controller's one key.\<close>

definition reflector_event :: "'w ReadDesireKubernetesController \<Rightarrow> ReadDesireKey list" where
  "reflector_event c = [rkcKey c]"

section \<open>Reconciling\<close>

definition rd_observe :: "string \<Rightarrow> gtime \<Rightarrow> ReadDesire \<Rightarrow> ReadDesire" where
  "rd_observe docID t d = d\<lparr>DocumentID := docID,
     rdStatus := (rdStatus d)\<lparr>rsObservedDesireUpdateTime := t\<rparr>\<rparr>"

definition rd_outcome ::
  "(Condition list \<Rightarrow> Condition \<Rightarrow> Condition list) \<Rightarrow> go_error option \<Rightarrow> ReadDesire \<Rightarrow> ReadDesire" where
  "rd_outcome ssc err d = d\<lparr>rdStatus := (rdStatus d)\<lparr>rsConditions := SetSuccessful ssc (rsConditions (rdStatus d)) err\<rparr>\<rparr>"

definition rd_content :: "string option \<Rightarrow> ReadDesire \<Rightarrow> ReadDesire" where
  "rd_content newRaw d = d\<lparr>rdStatus := (rdStatus d)\<lparr>rsKubeContent :=
     (case newRaw of None \<Rightarrow> None | Some raw \<Rightarrow> Some \<lparr>Raw = raw\<rparr>)\<rparr>\<rparr>"

definition bytes_of :: "string option \<Rightarrow> string" where
  "bytes_of b = (case b of None \<Rightarrow> '''' | Some s \<Rightarrow> s)"

definition existing_raw :: "ReadDesire option \<Rightarrow> string" where
  "existing_raw desire =
     (case desire of None \<Rightarrow> ''''
      | Some d \<Rightarrow> (case rsKubeContent (rdStatus d) of None \<Rightarrow> '''' | Some ext \<Rightarrow> Raw ext))"

definition storeKey :: "'w ReadDesireKubernetesController \<Rightarrow> string" where
  "storeKey c = (if rkcNamespaced c then rrNamespace (rkcTarget c) @ ''/'' @ rrName (rkcTarget c)
                 else rrName (rkcTarget c))"

definition ReadDesire_SyncOnce ::
  "'w ReadDesireKubernetesController \<Rightarrow> 'w \<Rightarrow> go_error option \<times> 'w" where
  "ReadDesire_SyncOnce c w =
     (if \<not> uiHasSynced (rkcInformer c) w then (None, w)
      else
        (case statusFetcher (rkcStatusCRUD c) rkName (rkcKey c) w of
           (fetched, w) \<Rightarrow>
             (case (case fetched of
                      Inl err \<Rightarrow> (if IsNotFoundError err then Inr None else Inl err)
                    | Inr desire \<Rightarrow> Inr desire) of
                Inl err \<Rightarrow> (Some err, w)
              | Inr desire \<Rightarrow>
                  (let ssc = rkcSetCondition c;
                       update = (\<lambda>mutate. UpdateStatus (read_writer c) (rkcKey c)
                         (mutate \<circ> rd_observe (rkName (rkcKey c)) (rkcSpecUpdateTime c)))
                   in (case uiGetByKey (rkcInformer c) (storeKey c) w of
                         Inl err \<Rightarrow> update (rd_outcome ssc (Some (WrapError ''read cache: '' err))) w
                       | Inr rawObj \<Rightarrow>
                           (case (case rawObj of
                                    None \<Rightarrow> Inr None
                                  | Some (StoredOther ty) \<Rightarrow>
                                      Inl (PreCheckError (ErrorString
                                        (''informer cached unexpected type '' @ ty)))
                                  | Some (StoredUnstructured obj) \<Rightarrow>
                                      (case uiMarshal (rkcInformer c) obj of
                                         Inl err \<Rightarrow> Inl (WrapError ''marshal observed object: '' err)
                                       | Inr raw \<Rightarrow> Inr (Some raw))) of
                              Inl err \<Rightarrow> update (rd_outcome ssc (Some err)) w
                            | Inr newRaw \<Rightarrow>
                                (if bytes_of newRaw = existing_raw desire
                                 then update (rd_outcome ssc None) w
                                 else update (rd_outcome ssc None \<circ> rd_content newRaw) w)))))))"

definition reflector_processNext ::
  "'w ReadDesireKubernetesController \<Rightarrow> ReadDesireKey option \<Rightarrow> 'w
     \<Rightarrow> (bool \<times> ReadDesireKey queue_call list) \<times> 'w" where
  "reflector_processNext c next w =
     (case next of
        None \<Rightarrow> ((False, [QGetShutdown]), w)
      | Some key \<Rightarrow>
          (case ReadDesire_SyncOnce c w of
             (Some err, w) \<Rightarrow> ((True, [QGet key, QAddRateLimited key, QDone key]), w)
           | (None, w) \<Rightarrow> ((True, [QGet key, QForget key, QDone key]), w)))"

section \<open>What a pass leaves behind\<close>

text \<open>
  The contract of the table, with what storing does to a content: \<open>f\<close> is the identity in the in-memory
  table and the JSON re-encoding in DynamoDB.
\<close>

definition content_raw :: "RawExtension option \<Rightarrow> string" where
  "content_raw x = (case x of None \<Rightarrow> '''' | Some ext \<Rightarrow> Raw ext)"

definition read_env ::
  "('w \<Rightarrow> bool) \<Rightarrow> ('w \<Rightarrow> string \<Rightarrow> ReadDesire option) \<Rightarrow> (ReadDesire \<Rightarrow> ReadDesire)
     \<Rightarrow> (RawExtension option \<Rightarrow> RawExtension option) \<Rightarrow> 'w ReadDesireKubernetesController \<Rightarrow> bool" where
  "read_env I docs N f c \<longleftrightarrow>
     crud_contract I docs N (rkcStatusCRUD c) \<and>
     (\<forall>d. rdStatus (N d) = (rdStatus d)\<lparr>rsKubeContent := f (rsKubeContent (rdStatus d))\<rparr>) \<and>
     f None = None \<and> content_raw (f (Some \<lparr>Raw = ''''\<rparr>)) = '''' \<and> (\<forall>x. f (f x) = f x) \<and>
     (\<forall>k. ops_keep (\<lambda>w. uiGetByKey (rkcInformer c) k w) (rkcStatusCRUD c)) \<and>
     ops_keep (uiHasSynced (rkcInformer c)) (rkcStatusCRUD c) \<and>
     status_condition_setter (rkcSetCondition c)"

lemma read_envD:
  assumes "read_env I docs N f c"
  shows "resource_crud I docs N (opGet (rkcStatusCRUD c)) (opCreate (rkcStatusCRUD c))
           (opReplace (rkcStatusCRUD c)) (opDelete (rkcStatusCRUD c))"
    and "rdStatus (N d) = (rdStatus d)\<lparr>rsKubeContent := f (rsKubeContent (rdStatus d))\<rparr>"
    and "f None = None" and "content_raw (f (Some \<lparr>Raw = ''''\<rparr>)) = ''''" and "f (f x) = f x"
    and "ops_keep (\<lambda>w. uiGetByKey (rkcInformer c) k w) (rkcStatusCRUD c)"
    and "ops_keep (uiHasSynced (rkcInformer c)) (rkcStatusCRUD c)"
    and "status_condition_setter (rkcSetCondition c)"
  using assms unfolding read_env_def crud_contract_def by blast+

lemma read_writer_eta:
  "read_writer c = statusWriter \<lparr>opGet = opGet (rkcStatusCRUD c), opCreate = opCreate (rkcStatusCRUD c),
     opReplace = opReplace (rkcStatusCRUD c), opDelete = opDelete (rkcStatusCRUD c)\<rparr>
     show_ReadDesireKey rkName zero_ReadDesire"
  by (simp add: read_writer_def crud_ops_eta)

text \<open>The status that a mutation makes of the one before.\<close>

definition rd_status ::
  "(Condition list \<Rightarrow> Condition \<Rightarrow> Condition list) \<Rightarrow> gtime \<Rightarrow> go_error option
     \<Rightarrow> (RawExtension option \<Rightarrow> RawExtension option) \<Rightarrow> ReadDesireStatus \<Rightarrow> ReadDesireStatus" where
  "rd_status ssc t err g st = \<lparr>rsConditions = SetSuccessful ssc (rsConditions st) err,
     rsObservedDesireUpdateTime = t, rsKubeContent = g (rsKubeContent st)\<rparr>"

definition rd_mutation :: "string \<Rightarrow> (ReadDesireStatus \<Rightarrow> ReadDesireStatus) \<Rightarrow> ReadDesire \<Rightarrow> ReadDesire" where
  "rd_mutation k F d = d\<lparr>DocumentID := k, rdStatus := F (rdStatus d)\<rparr>"

lemma rd_mutations:
  "rd_outcome ssc err \<circ> rd_observe k t = rd_mutation k (rd_status ssc t err (\<lambda>x. x))"
  "rd_outcome ssc err \<circ> rd_content r \<circ> rd_observe k t = rd_mutation k
     (rd_status ssc t err (\<lambda>_. map_option (\<lambda>raw. \<lparr>Raw = raw\<rparr>) r))"
  by (simp_all add: fun_eq_iff rd_outcome_def rd_observe_def rd_content_def rd_mutation_def rd_status_def
      split: option.split)

lemma rd_mutation_names: "names_document k (rd_mutation k F)"
  by (simp add: names_document_def rd_mutation_def)

definition status_at :: "ReadDesire option \<Rightarrow> ReadDesireStatus" where
  "status_at od = (case od of None \<Rightarrow> rdStatus zero_ReadDesire | Some d \<Rightarrow> rdStatus d)"

text \<open>A status update that succeeds: the new status of the document, as stored, or as it already was.\<close>

lemma read_update:
  assumes env: "read_env I docs N f c" and I: "I w"
    and upd: "UpdateStatus (read_writer c) (rkcKey c) (rd_mutation (rkName (rkcKey c)) F) w = (r, w')"
  shows "I w'" and "k \<noteq> rkName (rkcKey c) \<Longrightarrow> docs w' k = docs w k"
    and "r = None \<Longrightarrow> \<exists>d st. docs w' (rkName (rkcKey c)) = Some d \<and>
           st = F (status_at (docs w (rkName (rkcKey c)))) \<and>
           (rdStatus d = st \<and> docs w' = docs w \<or>
            rdStatus d = st\<lparr>rsKubeContent := f (rsKubeContent st)\<rparr>)"
proof -
  note C = read_envD(1) [OF env]
  let ?k = "rkName (rkcKey c)" and ?m = "rd_mutation (rkName (rkcKey c)) F"
  note cases = resource_crud.update_status_cases [where nm = rkName and key = "rkcKey c", OF C I
      rd_mutation_names upd [unfolded read_writer_eta]]
  then show "I w'" by blast
  show "k \<noteq> ?k \<Longrightarrow> docs w' k = docs w k"
    using resource_crud.update_status_frame [where nm = rkName and key = "rkcKey c" and k = k and
        mutate = ?m and sh = show_ReadDesireKey and zero = zero_ReadDesire, OF C I rd_mutation_names]
      upd [unfolded read_writer_eta]
    by simp
  have cr: "rdStatus d' = rdStatus x" if "created x d' \<or> replaced x d'" for x d' :: ReadDesire
    using that unfolding created_def replaced_def by (elim disjE exE) simp_all
  show "\<exists>d st. docs w' ?k = Some d \<and> st = F (status_at (docs w ?k)) \<and>
      (rdStatus d = st \<and> docs w' = docs w \<or> rdStatus d = st\<lparr>rsKubeContent := f (rsKubeContent st)\<rparr>)"
    if r: "r = None"
  proof -
    from cases r consider (same) old where "docs w' = docs w" "docs w ?k = Some old" "?m old = old"
      | (wrote) x d' where "created (?m x) d' \<or> replaced (?m x) d'"
          "docs w' = (docs w)(?k \<mapsto> N d')" "rdStatus x = status_at (docs w ?k)"
      by (auto simp: resource_crud.wrote_def [OF C] status_at_def split: option.splits)
    then show ?thesis
    proof cases
      case same
      from arg_cong [OF same(3), of rdStatus] have "rdStatus old = F (rdStatus old)"
        by (simp add: rd_mutation_def)
      with same show ?thesis by (simp add: status_at_def)
    next
      case wrote
      then have "rdStatus d' = F (status_at (docs w ?k))"
        using cr [OF wrote(1)] by (simp add: rd_mutation_def)
      with wrote(2) show ?thesis by (simp add: read_envD(2) [OF env])
    qed
  qed
qed

text \<open>What the store holds for the target, as far as the status is concerned.\<close>

definition observed ::
  "'w ReadDesireKubernetesController \<Rightarrow> 'w \<Rightarrow> go_error + string option" where
  "observed c w =
     (case uiGetByKey (rkcInformer c) (storeKey c) w of
        Inl err \<Rightarrow> Inl (WrapError ''read cache: '' err)
      | Inr None \<Rightarrow> Inr None
      | Inr (Some (StoredOther ty)) \<Rightarrow>
          Inl (PreCheckError (ErrorString (''informer cached unexpected type '' @ ty)))
      | Inr (Some (StoredUnstructured obj)) \<Rightarrow>
          (case uiMarshal (rkcInformer c) obj of
             Inl err \<Rightarrow> Inl (WrapError ''marshal observed object: '' err)
           | Inr raw \<Rightarrow> Inr (Some raw)))"

lemma SyncOnce_pass:
  assumes env: "read_env I docs N f c" and I: "I w" and synced: "uiHasSynced (rkcInformer c) w"
    and sync: "ReadDesire_SyncOnce c w = (r, w')"
  shows "(\<exists>e. r = Some e \<and> docs w' = docs w \<and> I w') \<or>
    (\<exists>w1. I w1 \<and> docs w1 = docs w \<and>
       UpdateStatus (read_writer c) (rkcKey c) (rd_mutation (rkName (rkcKey c))
         (case observed c w of
            Inl e \<Rightarrow> rd_status (rkcSetCondition c) (rkcSpecUpdateTime c) (Some e) (\<lambda>x. x)
          | Inr newRaw \<Rightarrow> rd_status (rkcSetCondition c) (rkcSpecUpdateTime c) None
              (if bytes_of newRaw = existing_raw (docs w (rkName (rkcKey c))) then (\<lambda>x. x)
               else (\<lambda>_. map_option (\<lambda>raw. \<lparr>Raw = raw\<rparr>) newRaw)))) w1 = (r, w'))"
proof -
  note C = read_envD(1) [OF env]
  obtain g w1 where g: "opGet (rkcStatusCRUD c) (rkName (rkcKey c)) w = (g, w1)" by fastforce
  note w1 = resource_crud.get_ok_inv [OF C I g]
  have same: "uiGetByKey (rkcInformer c) (storeKey c) w1 = uiGetByKey (rkcInformer c) (storeKey c) w"
    using read_envD(6) [OF env] g unfolding ops_keep_def by (metis keepsD)
  define desire where "desire = (case g of Inl e \<Rightarrow> None | Inr d \<Rightarrow> Some d)"
  show ?thesis
  proof (cases "\<exists>e. g = Inl e \<and> \<not> IsNotFoundError e")
    case True
    with sync synced g have "\<exists>e. r = Some e" "w' = w1"
      by (auto simp: ReadDesire_SyncOnce_def statusFetcher_def)
    with w1 show ?thesis by blast
  next
    case False
    then have d: "desire = docs w (rkName (rkcKey c))"
      using resource_crud.get_ok [OF C I] resource_crud.get_not_found [OF C I] g
      by (cases g) (auto simp: desire_def)
    have fet: "(case (case g of Inl e \<Rightarrow> Inl e | Inr d \<Rightarrow> Inr (Some d)) of
        Inl err \<Rightarrow> (if IsNotFoundError err then Inr None else Inl err) | Inr x \<Rightarrow> Inr x) = Inr desire"
      using False by (cases g) (auto simp: desire_def)
    have sf: "statusFetcher (rkcStatusCRUD c) rkName (rkcKey c) w =
        ((case g of Inl e \<Rightarrow> Inl e | Inr d \<Rightarrow> Inr (Some d)), w1)"
      using g by (simp add: statusFetcher_def split: sum.split)
    let ?update = "\<lambda>F. UpdateStatus (read_writer c) (rkcKey c) (rd_mutation (rkName (rkcKey c)) F) w1"
    have "ReadDesire_SyncOnce c w = ?update (case observed c w of
            Inl e \<Rightarrow> rd_status (rkcSetCondition c) (rkcSpecUpdateTime c) (Some e) (\<lambda>x. x)
          | Inr newRaw \<Rightarrow> rd_status (rkcSetCondition c) (rkcSpecUpdateTime c) None
              (if bytes_of newRaw = existing_raw desire then (\<lambda>x. x)
               else (\<lambda>_. map_option (\<lambda>raw. \<lparr>Raw = raw\<rparr>) newRaw)))"
      using synced fet same
      by (simp add: ReadDesire_SyncOnce_def sf rd_mutations observed_def Let_def
          split: sum.split option.split stored_obj.split)
    with sync w1 show ?thesis unfolding d by (intro disjI2 exI [of _ w1]) simp
  qed
qed

lemma pass_inv:
  assumes env: "read_env I docs N f c" and I: "I w" and synced: "uiHasSynced (rkcInformer c) w"
    and sync: "ReadDesire_SyncOnce c w = (r, w')"
  shows "I w'"
  using SyncOnce_pass [OF assms]
proof (elim disjE exE conjE)
  fix w1
  assume "I w1" and "UpdateStatus (read_writer c) (rkcKey c) (rd_mutation (rkName (rkcKey c))
         (case observed c w of
            Inl e \<Rightarrow> rd_status (rkcSetCondition c) (rkcSpecUpdateTime c) (Some e) (\<lambda>x. x)
          | Inr newRaw \<Rightarrow> rd_status (rkcSetCondition c) (rkcSpecUpdateTime c) None
              (if bytes_of newRaw = existing_raw (docs w (rkName (rkcKey c))) then (\<lambda>x. x)
               else (\<lambda>_. map_option (\<lambda>raw. \<lparr>Raw = raw\<rparr>) newRaw)))) w1 = (r, w')"
  then show "I w'" by (rule read_update(1) [OF env])
qed

text \<open>The status that a pass leaves: the outcome of reading the object, the spec revision the reflector
  was started for, and the content that was observed.\<close>

definition mirrors ::
  "(RawExtension option \<Rightarrow> RawExtension option) \<Rightarrow> go_error + string option \<Rightarrow> RawExtension option
     \<Rightarrow> ReadDesireStatus \<Rightarrow> bool" where
  "mirrors f obs before st \<longleftrightarrow>
     (case obs of
        Inl e \<Rightarrow> successful_is (rsConditions st) ConditionFalse (successful_reason e) \<and>
          (rsKubeContent st = before \<or> rsKubeContent st = f before)
      | Inr newRaw \<Rightarrow> successful_is (rsConditions st) ConditionTrue ConditionReasonNoErrors \<and>
          (content_raw (rsKubeContent st) = bytes_of newRaw \<or>
           rsKubeContent st = f (map_option (\<lambda>raw. \<lparr>Raw = raw\<rparr>) newRaw)))"

lemma raw_eta: "\<lparr>Raw = Raw e\<rparr> = e"
  by simp

lemma read_pass:
  assumes env: "read_env I docs N f c" and I: "I w" and synced: "uiHasSynced (rkcInformer c) w"
    and sync: "ReadDesire_SyncOnce c w = (None, w')"
  shows "\<exists>d. docs w' (rkName (rkcKey c)) = Some d \<and>
    rsObservedDesireUpdateTime (rdStatus d) = rkcSpecUpdateTime c \<and>
    mirrors f (observed c w) (rsKubeContent (status_at (docs w (rkName (rkcKey c))))) (rdStatus d)"
proof -
  let ?k = "rkName (rkcKey c)" and ?before = "rsKubeContent (status_at (docs w (rkName (rkcKey c))))"
  note S = SetSuccessful_successful [OF read_envD(8) [OF env]]
  from SyncOnce_pass [OF env I synced sync] obtain w1 where w1: "I w1" "docs w1 = docs w"
    and up: "UpdateStatus (read_writer c) (rkcKey c) (rd_mutation ?k
         (case observed c w of
            Inl e \<Rightarrow> rd_status (rkcSetCondition c) (rkcSpecUpdateTime c) (Some e) (\<lambda>x. x)
          | Inr newRaw \<Rightarrow> rd_status (rkcSetCondition c) (rkcSpecUpdateTime c) None
              (if bytes_of newRaw = existing_raw (docs w ?k) then (\<lambda>x. x)
               else (\<lambda>_. map_option (\<lambda>raw. \<lparr>Raw = raw\<rparr>) newRaw)))) w1 = (None, w')"
    by blast
  have raw: "existing_raw (docs w ?k) = content_raw ?before"
    by (simp add: existing_raw_def content_raw_def status_at_def zero_ReadDesire_def split: option.split)
  have empty: "content_raw x = '''' \<Longrightarrow> content_raw (f x) = ''''" for x
  proof (cases x)
    case (Some ext)
    assume "content_raw x = ''''"
    with Some have "x = Some \<lparr>Raw = ''''\<rparr>" by (cases ext) (simp add: content_raw_def)
    with read_envD(4) [OF env] show ?thesis by simp
  qed (simp add: read_envD(3) [OF env] content_raw_def)
  from read_update(3) [OF env w1(1) up refl] obtain d st where d: "docs w' ?k = Some d"
    and st: "rdStatus d = st \<or> rdStatus d = st\<lparr>rsKubeContent := f (rsKubeContent st)\<rparr>"
    and eq: "st = (case observed c w of
            Inl e \<Rightarrow> rd_status (rkcSetCondition c) (rkcSpecUpdateTime c) (Some e) (\<lambda>x. x)
          | Inr newRaw \<Rightarrow> rd_status (rkcSetCondition c) (rkcSpecUpdateTime c) None
              (if bytes_of newRaw = existing_raw (docs w ?k) then (\<lambda>x. x)
               else (\<lambda>_. map_option (\<lambda>raw. \<lparr>Raw = raw\<rparr>) newRaw))) (status_at (docs w ?k))"
    by (auto simp: w1(2))
  show ?thesis
  proof (cases "observed c w")
    case (Inl e)
    with eq have "st = rd_status (rkcSetCondition c) (rkcSpecUpdateTime c) (Some e) (\<lambda>x. x) (status_at (docs w ?k))"
      by simp
    with st S(2) have "rsObservedDesireUpdateTime (rdStatus d) = rkcSpecUpdateTime c"
      "mirrors f (Inl e) ?before (rdStatus d)"
      by (auto simp: rd_status_def mirrors_def)
    with d Inl show ?thesis by simp
  next
    case (Inr newRaw)
    show ?thesis
    proof (cases "bytes_of newRaw = content_raw ?before")
      case True
      with eq Inr raw have eq': "st = rd_status (rkcSetCondition c) (rkcSpecUpdateTime c) None (\<lambda>x. x)
          (status_at (docs w ?k))" by simp
      have "content_raw (f ?before) = bytes_of newRaw \<or> f ?before = f (map_option (\<lambda>raw. \<lparr>Raw = raw\<rparr>) newRaw)"
        using True empty [of ?before] read_envD(3) [OF env]
        by (cases newRaw; cases ?before) (auto simp: bytes_of_def content_raw_def raw_eta)
      with st eq' S(1) True have "rsObservedDesireUpdateTime (rdStatus d) = rkcSpecUpdateTime c"
        "mirrors f (Inr newRaw) ?before (rdStatus d)"
        by (auto simp: rd_status_def mirrors_def)
      with d Inr show ?thesis by simp
    next
      case False
      with eq Inr raw have eq': "st = rd_status (rkcSetCondition c) (rkcSpecUpdateTime c) None
          (\<lambda>_. map_option (\<lambda>raw. \<lparr>Raw = raw\<rparr>) newRaw) (status_at (docs w ?k))" by simp
      have "content_raw (map_option (\<lambda>raw. \<lparr>Raw = raw\<rparr>) newRaw) = bytes_of newRaw"
        by (simp add: content_raw_def bytes_of_def split: option.split)
      with st eq' S(1) have "rsObservedDesireUpdateTime (rdStatus d) = rkcSpecUpdateTime c"
        "mirrors f (Inr newRaw) ?before (rdStatus d)"
        by (auto simp: rd_status_def mirrors_def)
      with d Inr show ?thesis by simp
    qed
  qed
qed

section \<open>Passes in a row\<close>

lemma pass_content:
  assumes env: "read_env I docs N f c" and I: "I w" and synced: "uiHasSynced (rkcInformer c) w"
    and sync: "ReadDesire_SyncOnce c w = (None, w')" and obs: "observed c w = Inr newRaw"
    and canonical: "f (map_option (\<lambda>raw. \<lparr>Raw = raw\<rparr>) newRaw) = map_option (\<lambda>raw. \<lparr>Raw = raw\<rparr>) newRaw"
  shows "\<exists>d cs. docs w' (rkName (rkcKey c)) = Some d \<and> I w' \<and>
    rsConditions (rdStatus d) = SetSuccessful (rkcSetCondition c) cs None \<and>
    rsObservedDesireUpdateTime (rdStatus d) = rkcSpecUpdateTime c \<and>
    content_raw (rsKubeContent (rdStatus d)) = bytes_of newRaw"
proof -
  let ?k = "rkName (rkcKey c)" and ?c = "map_option (\<lambda>raw. \<lparr>Raw = raw\<rparr>) newRaw"
  let ?before = "rsKubeContent (status_at (docs w ?k))"
  from SyncOnce_pass [OF env I synced sync] obs obtain w1 where w1: "I w1" "docs w1 = docs w"
    and up: "UpdateStatus (read_writer c) (rkcKey c) (rd_mutation ?k
         (rd_status (rkcSetCondition c) (rkcSpecUpdateTime c) None
              (if bytes_of newRaw = existing_raw (docs w ?k) then (\<lambda>x. x) else (\<lambda>_. ?c)))) w1 = (None, w')"
    by auto
  have raw: "existing_raw (docs w ?k) = content_raw ?before"
    by (simp add: existing_raw_def content_raw_def status_at_def zero_ReadDesire_def split: option.split)
  have cc: "content_raw ?c = bytes_of newRaw"
    by (simp add: content_raw_def bytes_of_def split: option.split)
  have fixed: "content_raw (f ?before) = bytes_of newRaw" if same: "bytes_of newRaw = content_raw ?before"
  proof (cases "?before = ?c")
    case True
    then show ?thesis using canonical cc by simp
  next
    case False
    with same have "?before = None \<or> ?before = Some \<lparr>Raw = ''''\<rparr>" and "bytes_of newRaw = ''''"
      by (cases newRaw; cases ?before; auto simp: bytes_of_def content_raw_def raw_eta)+
    then show ?thesis using read_envD(3,4) [OF env] by (auto simp: content_raw_def)
  qed
  from read_update [OF env w1(1) up] obtain d st where d: "docs w' ?k = Some d" and I': "I w'"
    and st: "rdStatus d = st \<or> rdStatus d = st\<lparr>rsKubeContent := f (rsKubeContent st)\<rparr>"
    and eq: "st = rd_status (rkcSetCondition c) (rkcSpecUpdateTime c) None
        (if bytes_of newRaw = existing_raw (docs w ?k) then (\<lambda>x. x) else (\<lambda>_. ?c)) (status_at (docs w ?k))"
    by (auto simp: w1(2))
  from eq raw st fixed cc canonical have "content_raw (rsKubeContent (rdStatus d)) = bytes_of newRaw"
    by (auto simp: rd_status_def split: if_splits)
  moreover from eq st have "rsConditions (rdStatus d) =
      SetSuccessful (rkcSetCondition c) (rsConditions (status_at (docs w ?k))) None"
    and "rsObservedDesireUpdateTime (rdStatus d) = rkcSpecUpdateTime c"
    by (auto simp: rd_status_def)
  ultimately show ?thesis using d I' by blast
qed

lemma pass_settles:
  assumes env: "read_env I docs N f c" and I: "I w"
    and synced: "uiHasSynced (rkcInformer c) w" "uiHasSynced (rkcInformer c) w'"
    and sync: "ReadDesire_SyncOnce c w = (None, w')"
    and obs: "observed c w = Inr newRaw" "observed c w' = Inr newRaw"
    and canonical: "f (map_option (\<lambda>raw. \<lparr>Raw = raw\<rparr>) newRaw) = map_option (\<lambda>raw. \<lparr>Raw = raw\<rparr>) newRaw"
  shows "docs (snd (ReadDesire_SyncOnce c w')) = docs w'"
proof -
  let ?k = "rkName (rkcKey c)"
  note C = read_envD(1) [OF env]
  from pass_content [OF env I synced(1) sync obs(1) canonical] obtain d cs where
    d: "docs w' ?k = Some d" "I w'"
      "rsConditions (rdStatus d) = SetSuccessful (rkcSetCondition c) cs None"
      "rsObservedDesireUpdateTime (rdStatus d) = rkcSpecUpdateTime c"
      "content_raw (rsKubeContent (rdStatus d)) = bytes_of newRaw" by blast
  obtain r2 w2 where s2: "ReadDesire_SyncOnce c w' = (r2, w2)" by fastforce
  have ex: "existing_raw (docs w' ?k) = bytes_of newRaw"
    using d(1,5) by (simp add: existing_raw_def content_raw_def)
  let ?m = "rd_mutation ?k (rd_status (rkcSetCondition c) (rkcSpecUpdateTime c) None (\<lambda>x. x))"
  from SyncOnce_pass [OF env d(2) synced(2) s2] consider "docs w2 = docs w'"
    | w1 where "I w1" "docs w1 = docs w'"
        "UpdateStatus (read_writer c) (rkcKey c) ?m w1 = (r2, w2)"
    by (auto simp: obs(2) ex)
  then have "docs w2 = docs w'"
  proof cases
    case (2 w1)
    from resource_crud.docs_key [OF C d(2,1)] have id: "DocumentID d = ?k" .
    have "rd_status (rkcSetCondition c) (rkcSpecUpdateTime c) None (\<lambda>x. x) (rdStatus d) = rdStatus d"
      using setters_idem(1) [OF read_envD(8) [OF env], of cs None] d(3,4)
      by (simp add: rd_status_def)
    then have "?m d = d" using id by (simp add: rd_mutation_def)
    with resource_crud.update_status_cases [where nm = rkName and key = "rkcKey c", OF C 2(1)
        rd_mutation_names 2(3) [unfolded read_writer_eta]] d(1) 2(2)
    show ?thesis by (auto simp: resource_crud.wrote_def [OF C])
  qed
  with s2 show ?thesis by simp
qed

text \<open>
  The other side: when the content does not survive storing, a pass finds what the last one stored to
  be different, and writes again.
\<close>

lemma pass_rewrites:
  assumes env: "read_env I docs N f c" and I: "I w" and synced: "uiHasSynced (rkcInformer c) w"
    and sync: "ReadDesire_SyncOnce c w = (None, w')" and obs: "observed c w = Inr (Some raw)"
    and before: "docs w (rkName (rkcKey c)) = Some d" "rsKubeContent (rdStatus d) = f (Some \<lparr>Raw = raw\<rparr>)"
    and lossy: "content_raw (f (Some \<lparr>Raw = raw\<rparr>)) \<noteq> raw"
  shows "\<exists>d'. docs w' (rkName (rkcKey c)) = Some d' \<and> Version d' = Version d + 1 \<and>
    rsKubeContent (rdStatus d') = f (Some \<lparr>Raw = raw\<rparr>) \<and> I w'"
proof -
  let ?k = "rkName (rkcKey c)"
  note C = read_envD(1) [OF env]
  have ex: "existing_raw (docs w ?k) = content_raw (f (Some \<lparr>Raw = raw\<rparr>))"
    using before by (simp add: existing_raw_def content_raw_def)
  let ?m = "rd_mutation ?k (rd_status (rkcSetCondition c) (rkcSpecUpdateTime c) None
    (\<lambda>_. Some \<lparr>Raw = raw\<rparr>))"
  from SyncOnce_pass [OF env I synced sync] obtain w1 where w1: "I w1" "docs w1 = docs w"
    and up: "UpdateStatus (read_writer c) (rkcKey c) ?m w1 = (None, w')"
    using lossy by (auto simp: obs ex bytes_of_def)
  have ne: "?m d \<noteq> d"
  proof
    assume "?m d = d"
    then have "rsKubeContent (rdStatus (?m d)) = rsKubeContent (rdStatus d)" by simp
    then have "f (Some \<lparr>Raw = raw\<rparr>) = Some \<lparr>Raw = raw\<rparr>"
      by (simp add: rd_mutation_def rd_status_def before(2))
    with lossy show False by (simp add: content_raw_def)
  qed
  note cases = resource_crud.update_status_cases [where nm = rkName and key = "rkcKey c", OF C w1(1)
      rd_mutation_names up [unfolded read_writer_eta]]
  with ne before(1) w1(2) obtain d' where d': "replaced (?m d) d'" "docs w' = (docs w1)(?k \<mapsto> N d')"
    by (auto simp: resource_crud.wrote_def [OF C])
  have st: "rdStatus d' = rdStatus (?m d)"
    using d'(1) unfolding replaced_def by (elim exE) simp
  have "Version (N d') = Version d + 1"
    using replaced_meta(2) [OF d'(1)] resource_crud.norm_meta(2) [OF C, of d']
    by (simp add: rd_mutation_def)
  moreover have "rsKubeContent (rdStatus (N d')) = f (Some \<lparr>Raw = raw\<rparr>)"
    by (simp add: read_envD(2) [OF env] st rd_mutation_def rd_status_def)
  ultimately show ?thesis using d'(2) cases by auto
qed

end
