(* ===== verification/Samples.thy ===== *)
theory Samples
  imports DynamoCrud
begin

text \<open>
  Executable instances of the library parameters, on which the witnesses of the storage theorems
  are evaluated: an attributevalue codec for \<open>ApplyDesire\<close>, a JSON library, and an in-memory DynamoDB
  that serves one row a page. Each is shown to satisfy the predicate that states the library's
  documented behaviour, so that the theorems under those predicates are about something.
\<close>

section \<open>A codec\<close>

definition read_int :: "string \<Rightarrow> int" where
  "read_int s = (case s of [] \<Rightarrow> 0
     | c # cs \<Rightarrow> if c = CHR ''-'' then - int (read_digits cs) else int (read_digits s))"

lemma read_show_int [simp]: "read_int (show_int i) = i"
proof (cases "i < 0")
  case True
  then show ?thesis by (simp add: show_int_def read_int_def read_show_nat)
next
  case False
  obtain c cs where s: "show_nat (nat i) = c # cs" by (cases "show_nat (nat i)") simp_all
  then have "c \<noteq> CHR ''-''" using show_nat_not_minus [of "nat i"] by auto
  moreover have "read_digits (c # cs) = nat i" using read_show_nat [of "nat i"] s by simp
  ultimately show ?thesis using False s by (simp add: show_int_def read_int_def)
qed

definition av_int :: "int \<Rightarrow> AttributeValue" where "av_int i = AV_N (show_int i)"

fun av_get_int :: "AttributeValue \<Rightarrow> int" where
  "av_get_int (AV_N s) = read_int s" | "av_get_int _ = 0"

fun av_get_string :: "AttributeValue \<Rightarrow> string" where
  "av_get_string (AV_S s) = s" | "av_get_string _ = ''''"

fun av_get_list :: "AttributeValue \<Rightarrow> AttributeValue list" where
  "av_get_list (AV_L l) = l" | "av_get_list _ = []"

lemma av_get_int [simp]: "av_get_int (av_int i) = i"
  by (simp add: av_int_def)

definition av_ref :: "ResourceReference \<Rightarrow> AttributeValue" where
  "av_ref r = AV_L [AV_S (rrGroup r), AV_S (rrVersion r), AV_S (rrResource r),
     AV_S (rrNamespace r), AV_S (rrName r)]"

definition av_get_ref :: "AttributeValue \<Rightarrow> ResourceReference" where
  "av_get_ref v = (let l = map av_get_string (av_get_list v) in
     \<lparr>rrGroup = l ! 0, rrVersion = l ! 1, rrResource = l ! 2, rrNamespace = l ! 3, rrName = l ! 4\<rparr>)"

definition av_condition :: "Condition \<Rightarrow> AttributeValue" where
  "av_condition c = AV_L [AV_S (cType c), AV_S (cStatus c), AV_S (cReason c), AV_S (cMessage c),
     av_int (cLastTransitionTime c)]"

definition av_get_condition :: "AttributeValue \<Rightarrow> Condition" where
  "av_get_condition v = (let l = av_get_list v in
     \<lparr>cType = av_get_string (l ! 0), cStatus = av_get_string (l ! 1),
      cReason = av_get_string (l ! 2), cMessage = av_get_string (l ! 3),
      cLastTransitionTime = av_get_int (l ! 4)\<rparr>)"

definition av_ssa :: "ServerSideApplyConfig option \<Rightarrow> AttributeValue" where
  "av_ssa c = (case c of None \<Rightarrow> AV_NULL | Some _ \<Rightarrow> AV_BOOL True)"

definition av_get_ssa :: "AttributeValue \<Rightarrow> ServerSideApplyConfig option" where
  "av_get_ssa v = (case v of AV_BOOL _ \<Rightarrow> Some \<lparr>ssaKubeContent = None\<rparr> | _ \<Rightarrow> None)"

definition av_apply_spec :: "ApplyDesireSpec \<Rightarrow> AttributeValue" where
  "av_apply_spec s = AV_L [AV_S (asManagementCluster s), AV_S (asClusterID s),
     AV_S (asNodePoolName s), AV_S (asType s), av_ref (asTargetItem s), av_ssa (asServerSideApply s)]"

definition av_get_apply_spec :: "AttributeValue \<Rightarrow> ApplyDesireSpec" where
  "av_get_apply_spec v = (let l = av_get_list v in
     \<lparr>asManagementCluster = av_get_string (l ! 0), asClusterID = av_get_string (l ! 1),
      asNodePoolName = av_get_string (l ! 2), asType = av_get_string (l ! 3),
      asTargetItem = av_get_ref (l ! 4), asServerSideApply = av_get_ssa (l ! 5)\<rparr>)"

definition av_apply_status :: "ApplyDesireStatus \<Rightarrow> AttributeValue" where
  "av_apply_status s = AV_L [AV_L (map av_condition (asConditions s)),
     av_int (asObservedDesireUpdateTime s), av_int (sint (asAppliedResourceGeneration s))]"

definition av_get_apply_status :: "AttributeValue \<Rightarrow> ApplyDesireStatus" where
  "av_get_apply_status v = (let l = av_get_list v in
     \<lparr>asConditions = map av_get_condition (av_get_list (l ! 0)),
      asObservedDesireUpdateTime = av_get_int (l ! 1),
      asAppliedResourceGeneration = word_of_int (av_get_int (l ! 2))\<rparr>)"

definition sample_marshal :: "ApplyDesire \<Rightarrow> go_error + item" where
  "sample_marshal d = Inr [''version'' \<mapsto> av_int (sint (Version d)),
     ''updateTime'' \<mapsto> av_int (UpdateTime d), ''createTime'' \<mapsto> av_int (CreateTime d),
     ''spec'' \<mapsto> av_apply_spec (adSpec d), ''status'' \<mapsto> av_apply_status (adStatus d)]"

definition sample_unmarshal :: "item \<Rightarrow> go_error + ApplyDesire" where
  "sample_unmarshal it =
     (case (it ''version'', it ''updateTime'', it ''createTime'', it ''spec'', it ''status'') of
        (Some v, Some u, Some c, Some sp, Some st) \<Rightarrow>
          Inr \<lparr>DocumentID = '''', Version = word_of_int (av_get_int v), UpdateTime = av_get_int u,
            CreateTime = av_get_int c, adSpec = av_get_apply_spec sp,
            adStatus = av_get_apply_status st\<rparr>
      | _ \<Rightarrow> Inl (ErrorString ''unmarshal''))"

definition sample_codec :: "ApplyDesire attributevalue_codec" where
  "sample_codec = \<lparr>MarshalMap = sample_marshal, UnmarshalMap = sample_unmarshal\<rparr>"

lemma word_of_sint64 [simp]: "word_of_int (sint (v :: int64)) = v"
  by simp

lemma av_roundtrips [simp]:
  "av_get_ref (av_ref r) = r" "av_get_condition (av_condition c) = c"
  "av_get_ssa (av_ssa s) = map_option (\<lambda>c. c\<lparr>ssaKubeContent := None\<rparr>) s"
  "av_get_apply_status (av_apply_status st) = st"
proof -
  show c: "av_get_condition (av_condition c) = c" for c
    by (simp add: av_get_condition_def av_condition_def)
  show "av_get_ref (av_ref r) = r" by (simp add: av_get_ref_def av_ref_def numeral_eq_Suc)
  show "av_get_ssa (av_ssa s) = map_option (\<lambda>c. c\<lparr>ssaKubeContent := None\<rparr>) s"
    by (cases s) (simp_all add: av_get_ssa_def av_ssa_def)
  show "av_get_apply_status (av_apply_status st) = st"
    by (simp add: av_get_apply_status_def av_apply_status_def comp_def c)
qed

lemma sample_codec_ok: "codec_ok ApplyDesire_untagged sample_codec"
proof -
  have "sample_unmarshal (it ++ extra) = Inr (ApplyDesire_untagged d)"
    if it: "sample_marshal d = Inr it" and extra: "dom extra \<subseteq> added_attributes" for d it extra
  proof -
    have "extra k = None" if "k \<notin> added_attributes" for k using extra that by auto
    then have none: "extra ''version'' = None" "extra ''updateTime'' = None"
      "extra ''createTime'' = None" "extra ''spec'' = None" "extra ''status'' = None"
      by (simp_all add: added_attributes_def attribute_names)
    from it have "it = [''version'' \<mapsto> av_int (sint (Version d)),
     ''updateTime'' \<mapsto> av_int (UpdateTime d), ''createTime'' \<mapsto> av_int (CreateTime d),
     ''spec'' \<mapsto> av_apply_spec (adSpec d), ''status'' \<mapsto> av_apply_status (adStatus d)]"
      by (simp add: sample_marshal_def)
    with none show ?thesis
      by (simp add: sample_unmarshal_def map_add_def ApplyDesire_untagged_def
          av_get_apply_spec_def av_apply_spec_def numeral_eq_Suc)
  qed
  moreover have "dom it \<inter> added_attributes = {} \<and> it ''version'' = Some (AV_N (show_int (sint (Version d))))"
    if "sample_marshal d = Inr it" for d it
    using that by (auto simp: sample_marshal_def added_attributes_def attribute_names av_int_def)
  ultimately show ?thesis
    by (simp add: codec_ok_def sample_codec_def sample_marshal_def)
qed

section \<open>A JSON library\<close>

definition sample_json :: json_lib where
  "sample_json = \<lparr>json_Unmarshal = (\<lambda>s. if s = '''' then Inl (ErrorString ''unexpected end'')
       else Inr (JString s)),
     json_Marshal = (\<lambda>v. case v of JString s \<Rightarrow> Inr s | _ \<Rightarrow> Inl (ErrorString ''marshal'')),
     json_Valid = (\<lambda>s. s \<noteq> '''')\<rparr>"

lemma sample_json_ok: "json_ok sample_json"
  by (auto simp: json_ok_def sample_json_def split: json.splits if_splits)

section \<open>An in-memory DynamoDB\<close>

record memdb =
  mdRows :: "(string \<times> string \<times> item) list"
  mdClock :: int

definition mem_table :: "string \<Rightarrow> memdb \<Rightarrow> (string \<times> item) list" where
  "mem_table tbl w = map snd (filter (\<lambda>r. fst r = tbl) (mdRows w))"

definition mem_rows :: "string \<Rightarrow> memdb \<Rightarrow> string \<Rightarrow> item option" where
  "mem_rows tbl w = map_of (mem_table tbl w)"

definition mem_key :: "nat \<Rightarrow> item" where
  "mem_key i = [attributeDocumentID \<mapsto> AV_N (show_nat i)]"

definition mem_start :: "item option \<Rightarrow> nat" where
  "mem_start start = (case start of Some it \<Rightarrow>
       (case it attributeDocumentID of Some (AV_N s) \<Rightarrow> read_digits s | _ \<Rightarrow> 0) | None \<Rightarrow> 0)"

definition mem_client :: "memdb dynamo_client" where
  "mem_client = \<lparr>
     dc_GetItem = (\<lambda>tbl k w. (Inr (mem_rows tbl w k), w)),
     dc_PutItem = (\<lambda>tbl it c w.
       (case it attributeDocumentID of
          Some (AV_S k) \<Rightarrow>
            (if put_allowed c (mem_rows tbl w k)
             then (None, w\<lparr>mdRows := (tbl, k, it) # filter (\<lambda>r. (fst r, fst (snd r)) \<noteq> (tbl, k)) (mdRows w)\<rparr>)
             else (Some (ConditionalCheckFailedException ''The conditional request failed''), w))
        | _ \<Rightarrow> (Some (ErrorString ''ValidationException''), w))),
     dc_DeleteItem = (\<lambda>tbl k w.
       (None, w\<lparr>mdRows := filter (\<lambda>r. (fst r, fst (snd r)) \<noteq> (tbl, k)) (mdRows w)\<rparr>)),
     dc_Scan = (\<lambda>tbl start w.
       (let i = mem_start start; rest = drop i (mem_table tbl w)
        in (Inr (map snd (take 1 rest), if length rest \<le> 1 then None else Some (mem_key (Suc i))), w))),
     time_Now = (\<lambda>w. (mdClock w, w\<lparr>mdClock := mdClock w + 1\<rparr>))\<rparr>"

lemma mem_start_key [simp]: "mem_start (Some (mem_key i)) = i"
  by (simp add: mem_start_def mem_key_def read_show_nat)

lemma mem_rows_without:
  "map_of (map snd (filter (\<lambda>r. (fst r = tbl \<longrightarrow> fst (snd r) \<noteq> k) \<and> fst r = tbl) rs)) =
     (map_of (map snd (filter (\<lambda>r. fst r = tbl) rs)))(k := None)"
  by (induction rs) (auto simp: fun_eq_iff)

lemma library_error_lib [simp]: "library_error (ConditionalCheckFailedException m)"
  by (simp add: library_error_def db_error_defs)

lemma mem_client_table: "dynamo_table mem_client tbl (mem_rows tbl)"
  unfolding dynamo_table_def
  by (auto simp: mem_client_def mem_rows_def mem_table_def mem_rows_without
      isConditionalCheckFailed_def split: option.splits AttributeValue.splits if_splits)

lemma mem_client_scan:
  "scan_ok mem_client tbl (\<lambda>w start. map snd (drop (mem_start start) (mem_table tbl w)))"
  unfolding scan_ok_def
proof (intro allI impI)
  fix start w r w'
  assume s: "dc_Scan mem_client tbl start w = (r, w')"
  define rest where "rest = drop (mem_start start) (mem_table tbl w)"
  from s have w': "w' = w" and r: "r = Inr (map snd (take 1 rest),
      if length rest \<le> 1 then None else Some (mem_key (Suc (mem_start start))))"
    by (auto simp: mem_client_def Let_def rest_def)
  have "drop (Suc (mem_start start)) (mem_table tbl w) = drop 1 rest" by (simp add: rest_def)
  then show "(\<lambda>start. map snd (drop (mem_start start) (mem_table tbl w'))) =
      (\<lambda>start. map snd (drop (mem_start start) (mem_table tbl w))) \<and>
    (case r of Inl e \<Rightarrow> library_error e
     | Inr (page, lastKey) \<Rightarrow>
         map snd (drop (mem_start start) (mem_table tbl w)) =
           page @ (case lastKey of None \<Rightarrow> []
                   | Some k \<Rightarrow> map snd (drop (mem_start (Some k)) (mem_table tbl w))) \<and>
         (lastKey \<noteq> None \<longrightarrow> page \<noteq> []))"
    unfolding r w' rest_def [symmetric]
    by (cases rest) (auto simp: rest_def [symmetric])
qed

section \<open>The contract on the in-memory table\<close>

definition sample_crud :: "(memdb, ApplyDesire) dynamoDBDesireCRUD" where
  "sample_crud = \<lparr>crClient = mem_client, crTable = ''status-applydesires'',
     crCodec = sample_codec, crJson = sample_json, crAcc = ApplyDesire_accessor\<rparr>"

abbreviation sample_rows :: "memdb \<Rightarrow> string \<Rightarrow> item option" where
  "sample_rows \<equiv> mem_rows ''status-applydesires''"

lemma sample_crud_ok: "table_ok ApplyDesire_untagged sample_crud sample_rows"
  by (simp add: table_ok_def sample_crud_def sample_codec_ok sample_json_ok mem_client_table)

lemma sample_crud_acc: "crAcc sample_crud = ApplyDesire_accessor"
  by (simp add: sample_crud_def)

interpretation dyn: resource_crud "dyn_inv sample_crud sample_rows" "dyn_docs sample_crud sample_rows"
  "ad.dyn_norm sample_crud" "dyn_Get sample_crud" "dyn_Create sample_crud"
  "dyn_Replace sample_crud" "dyn_Delete sample_crud"
  by (rule ad.dyn_resource_crud [OF sample_crud_ok sample_crud_acc])

definition empty_memdb :: memdb where
  "empty_memdb = \<lparr>mdRows = [], mdClock = 100\<rparr>"

lemma empty_memdb_inv: "dyn_inv sample_crud sample_rows empty_memdb"
  by (simp add: dyn_inv_def mem_rows_def mem_table_def empty_memdb_def)

section \<open>The same for ReadDesires\<close>

definition av_read_spec :: "ReadDesireSpec \<Rightarrow> AttributeValue" where
  "av_read_spec s = AV_L [AV_S (rsManagementCluster s), AV_S (rsClusterID s),
     AV_S (rsNodePoolName s), av_ref (rsTargetItem s)]"

definition av_get_read_spec :: "AttributeValue \<Rightarrow> ReadDesireSpec" where
  "av_get_read_spec v = (let l = av_get_list v in
     \<lparr>rsManagementCluster = av_get_string (l ! 0), rsClusterID = av_get_string (l ! 1),
      rsNodePoolName = av_get_string (l ! 2), rsTargetItem = av_get_ref (l ! 3)\<rparr>)"

definition av_read_status :: "ReadDesireStatus \<Rightarrow> AttributeValue" where
  "av_read_status s = AV_L [AV_L (map av_condition (rsConditions s)),
     av_int (rsObservedDesireUpdateTime s)]"

definition av_get_read_status :: "AttributeValue \<Rightarrow> ReadDesireStatus" where
  "av_get_read_status v = (let l = av_get_list v in
     \<lparr>rsConditions = map av_get_condition (av_get_list (l ! 0)),
      rsObservedDesireUpdateTime = av_get_int (l ! 1), rsKubeContent = None\<rparr>)"

definition read_marshal :: "ReadDesire \<Rightarrow> go_error + item" where
  "read_marshal d = Inr [''version'' \<mapsto> av_int (sint (Version d)),
     ''updateTime'' \<mapsto> av_int (UpdateTime d), ''createTime'' \<mapsto> av_int (CreateTime d),
     ''spec'' \<mapsto> av_read_spec (rdSpec d), ''status'' \<mapsto> av_read_status (rdStatus d)]"

definition read_unmarshal :: "item \<Rightarrow> go_error + ReadDesire" where
  "read_unmarshal it =
     (case (it ''version'', it ''updateTime'', it ''createTime'', it ''spec'', it ''status'') of
        (Some v, Some u, Some c, Some sp, Some st) \<Rightarrow>
          Inr \<lparr>DocumentID = '''', Version = word_of_int (av_get_int v), UpdateTime = av_get_int u,
            CreateTime = av_get_int c, rdSpec = av_get_read_spec sp,
            rdStatus = av_get_read_status st\<rparr>
      | _ \<Rightarrow> Inl (ErrorString ''unmarshal''))"

definition read_codec :: "ReadDesire attributevalue_codec" where
  "read_codec = \<lparr>MarshalMap = read_marshal, UnmarshalMap = read_unmarshal\<rparr>"

lemma av_read_roundtrips [simp]:
  "av_get_read_spec (av_read_spec s) = s"
  "av_get_read_status (av_read_status st) = st\<lparr>rsKubeContent := None\<rparr>"
  by (simp_all add: av_get_read_spec_def av_read_spec_def numeral_eq_Suc)
    (simp_all add: av_get_read_status_def av_read_status_def comp_def)

lemma read_codec_ok: "codec_ok ReadDesire_untagged read_codec"
proof -
  have "read_unmarshal (it ++ extra) = Inr (ReadDesire_untagged d)"
    if it: "read_marshal d = Inr it" and extra: "dom extra \<subseteq> added_attributes" for d it extra
  proof -
    have "extra k = None" if "k \<notin> added_attributes" for k using extra that by auto
    then have none: "extra ''version'' = None" "extra ''updateTime'' = None"
      "extra ''createTime'' = None" "extra ''spec'' = None" "extra ''status'' = None"
      by (simp_all add: added_attributes_def attribute_names)
    from it have "it = [''version'' \<mapsto> av_int (sint (Version d)),
     ''updateTime'' \<mapsto> av_int (UpdateTime d), ''createTime'' \<mapsto> av_int (CreateTime d),
     ''spec'' \<mapsto> av_read_spec (rdSpec d), ''status'' \<mapsto> av_read_status (rdStatus d)]"
      by (simp add: read_marshal_def)
    with none show ?thesis
      by (simp add: read_unmarshal_def map_add_def ReadDesire_untagged_def)
  qed
  moreover have "dom it \<inter> added_attributes = {} \<and> it ''version'' = Some (AV_N (show_int (sint (Version d))))"
    if "read_marshal d = Inr it" for d it
    using that by (auto simp: read_marshal_def added_attributes_def attribute_names av_int_def)
  ultimately show ?thesis
    by (simp add: codec_ok_def read_codec_def read_marshal_def)
qed

definition read_crud :: "json_lib \<Rightarrow> (memdb, ReadDesire) dynamoDBDesireCRUD" where
  "read_crud J = \<lparr>crClient = mem_client, crTable = ''status-readdesires'',
     crCodec = read_codec, crJson = J, crAcc = ReadDesire_accessor\<rparr>"

abbreviation read_rows :: "memdb \<Rightarrow> string \<Rightarrow> item option" where
  "read_rows \<equiv> mem_rows ''status-readdesires''"

lemma read_crud_ok: "json_ok J \<Longrightarrow> table_ok ReadDesire_untagged (read_crud J) read_rows"
  by (simp add: table_ok_def read_crud_def read_codec_ok mem_client_table)

lemma read_crud_acc: "crAcc (read_crud J) = ReadDesire_accessor"
  by (simp add: read_crud_def)

interpretation dynr: resource_crud "dyn_inv (read_crud sample_json) read_rows"
  "dyn_docs (read_crud sample_json) read_rows" "rd.dyn_norm (read_crud sample_json)"
  "dyn_Get (read_crud sample_json)" "dyn_Create (read_crud sample_json)"
  "dyn_Replace (read_crud sample_json)" "dyn_Delete (read_crud sample_json)"
  by (rule rd.dyn_resource_crud [OF read_crud_ok [OF sample_json_ok] read_crud_acc])

lemma empty_read_inv: "dyn_inv (read_crud J) read_rows empty_memdb"
  by (simp add: dyn_inv_def mem_rows_def mem_table_def empty_memdb_def)

text \<open>
  \<open>encoding/json\<close> on two integers beyond the 53 bits of a \<open>float64\<close>: decoded into an \<open>interface{}\<close> they
  are the same number, which prints as the even one.
\<close>

definition float_json :: json_lib where
  "float_json = \<lparr>
     json_Unmarshal = (\<lambda>s. if s = ''9007199254740993'' \<or> s = ''9007199254740992''
       then Inr (JNumber 9007199254740992) else Inl (ErrorString ''invalid character'')),
     json_Marshal = (\<lambda>v. case v of JNumber _ \<Rightarrow> Inr ''9007199254740992'' | _ \<Rightarrow> Inl (ErrorString ''unsupported value'')),
     json_Valid = (\<lambda>s. s = ''9007199254740993'' \<or> s = ''9007199254740992'')\<rparr>"

lemma float_json_ok: "json_ok float_json"
  by (auto simp: json_ok_def float_json_def split: json.splits if_splits)

end
