(* ===== verification/ReadDesireClaims.thy ===== *)
theory ReadDesireClaims
  imports ReadDesireKube Samples
begin

text \<open>
  The properties of the read reflector, and the environment that the DynamoDB status table gives it
  (what it does to a content is \<open>norm_content\<close>).
\<close>

lemma dyn_read_status:
  "rdStatus (rd.dyn_norm sc d) =
     (rdStatus d)\<lparr>rsKubeContent := norm_content (crJson sc) (rsKubeContent (rdStatus d))\<rparr>"
  unfolding rd.stored_view_def
  by (simp add: restore_contents_def ReadDesire_accessor_def accessor_defs
      ReadDesire_untagged_def Let_def split: option.split)

lemma norm_content_empty: "norm_content J (Some \<lparr>Raw = ''''\<rparr>) = None"
  by (simp add: norm_content_def rawExtToString_def)

lemma dyn_read_env:
  assumes "table_ok ReadDesire_untagged sc rows" and "crAcc sc = ReadDesire_accessor"
    and "rkcStatusCRUD c = dyn_ops sc" and "status_condition_setter (rkcSetCondition c)"
    and "\<forall>k. ops_keep (\<lambda>w. uiGetByKey (rkcInformer c) k w) (dyn_ops sc)"
    and "ops_keep (uiHasSynced (rkcInformer c)) (dyn_ops sc)"
  shows "read_env (dyn_inv sc rows) (dyn_docs sc rows) (rd.dyn_norm sc) (norm_content (crJson sc)) c"
  using rd.dyn_contract [OF assms(1,2)] table_okD(2) [OF assms(1)] assms(3-6)
  by (simp add: read_env_def dyn_read_status norm_content_idem norm_content_empty content_raw_def)

definition sample_informer :: "unstructured option \<Rightarrow> string \<Rightarrow> memdb object_informer" where
  "sample_informer ob raw = \<lparr>uiHasSynced = (\<lambda>w. True),
     uiGetByKey = (\<lambda>k w. Inr (map_option StoredUnstructured ob)), uiMarshal = (\<lambda>o'. Inr raw)\<rparr>"

definition sample_reflector ::
  "json_lib \<Rightarrow> unstructured option \<Rightarrow> string \<Rightarrow> memdb ReadDesireKubernetesController" where
  "sample_reflector J ob raw =
     \<lparr>rkcKey = \<lparr>rkClusterID = ''c'', rkNodePoolName = '''', rkName = ''d''\<rparr>,
      rkcTarget = \<lparr>rrGroup = '''', rrVersion = ''v1'', rrResource = ''nodes'', rrNamespace = '''', rrName = ''n''\<rparr>,
      rkcSpecUpdateTime = 5, rkcGvr = \<lparr>gvrGroup = '''', gvrVersion = ''v1'', gvrResource = ''nodes''\<rparr>,
      rkcNamespaced = False, rkcInformer = sample_informer ob raw,
      rkcStatusCRUD = dyn_ops (read_crud J), rkcSetCondition = sample_ssc 7\<rparr>"

definition sample_node :: unstructured where
  "sample_node = \<lparr>uoUID = ''u'', uoDeletionTimestamp = None, uoGeneration = 0, uoJSON = JNull\<rparr>"

abbreviation rf_docs :: "json_lib \<Rightarrow> memdb \<Rightarrow> string \<Rightarrow> ReadDesire option" where
  "rf_docs J \<equiv> dyn_docs (read_crud J) read_rows"

lemma sample_read_env:
  assumes "json_ok J"
  shows "read_env (dyn_inv (read_crud J) read_rows) (rf_docs J) (rd.dyn_norm (read_crud J))
    (norm_content J) (sample_reflector J ob raw)"
proof -
  have "read_env (dyn_inv (read_crud J) read_rows) (rf_docs J) (rd.dyn_norm (read_crud J))
    (norm_content (crJson (read_crud J))) (sample_reflector J ob raw)"
    by (rule dyn_read_env [OF read_crud_ok [OF assms] read_crud_acc])
      (simp_all add: sample_reflector_def sample_ssc_ok ops_keep_def keeps_def sample_informer_def)
  then show ?thesis by (simp add: read_crud_def)
qed

lemma sample_reflector_simps:
  "rkcKey (sample_reflector J ob raw) = \<lparr>rkClusterID = ''c'', rkNodePoolName = '''', rkName = ''d''\<rparr>"
  "rkName (rkcKey (sample_reflector J ob raw)) = ''d''"
  "rkcSpecUpdateTime (sample_reflector J ob raw) = 5"
  "observed (sample_reflector J (Some n) raw) w = Inr (Some raw)"
  "observed (sample_reflector J None raw) w = Inr None"
  "uiHasSynced (rkcInformer (sample_reflector J ob raw)) w"
  by (simp_all add: sample_reflector_def observed_def sample_informer_def)

section \<open>Mirroring\<close>

text \<open>
  C27: a reflector pass that returns nil leaves a status document that mirrors the informer's store: it
  carries the update time of the spec the reflector was started for; Successful=True with the bytes
  of the observed object (up to what storing does to JSON) or with no content when the object does not
  exist; or, when the object could not be read, Successful=False with the reason for that and the
  content that was there before. No other status document changes.
\<close>

theorem read_pass_mirrors:
  assumes "read_env I docs N f c" and "I w" and "uiHasSynced (rkcInformer c) w"
    and "ReadDesire_SyncOnce c w = (None, w')"
  shows "\<exists>d. docs w' (rkName (rkcKey c)) = Some d \<and>
    rsObservedDesireUpdateTime (rdStatus d) = rkcSpecUpdateTime c \<and>
    mirrors f (observed c w) (rsKubeContent (status_at (docs w (rkName (rkcKey c))))) (rdStatus d) \<and>
    (\<forall>k. k \<noteq> rkName (rkcKey c) \<longrightarrow> docs w' k = docs w k)"
proof -
  have "docs w' k = docs w k" if "k \<noteq> rkName (rkcKey c)" for k
    using SyncOnce_pass [OF assms] read_update(2) [OF assms(1) _ _ that] by fastforce
  with read_pass [OF assms] show ?thesis by blast
qed

lemma read_pass_mirrors_witness:
  "\<exists>d. rf_docs sample_json (snd (ReadDesire_SyncOnce (sample_reflector sample_json (Some sample_node) ''obj'')
          empty_memdb)) ''d'' = Some d \<and>
     successful_is (rsConditions (rdStatus d)) ConditionTrue ConditionReasonNoErrors"
proof -
  let ?c = "sample_reflector sample_json (Some sample_node) ''obj''"
  have "fst (ReadDesire_SyncOnce ?c empty_memdb) = None" by code_simp
  then have sync: "ReadDesire_SyncOnce ?c empty_memdb = (None, snd (ReadDesire_SyncOnce ?c empty_memdb))"
    by (metis prod.collapse)
  from read_pass_mirrors [OF sample_read_env [OF sample_json_ok] empty_read_inv
      sample_reflector_simps(6) sync]
  show ?thesis by (auto simp: sample_reflector_simps mirrors_def)
qed

text \<open>
  Mirroring settles: when the observed bytes survive storing unchanged, a pass that succeeded
  is followed by passes that write nothing for as long as the object stays the same.
\<close>

theorem read_pass_settles:
  assumes "read_env I docs N f c" and "I w"
    and "uiHasSynced (rkcInformer c) w" and "uiHasSynced (rkcInformer c) w'"
    and "ReadDesire_SyncOnce c w = (None, w')"
    and "observed c w = Inr newRaw" and "observed c w' = Inr newRaw"
    and "f (map_option (\<lambda>raw. \<lparr>Raw = raw\<rparr>) newRaw) = map_option (\<lambda>raw. \<lparr>Raw = raw\<rparr>) newRaw"
  shows "docs (snd (ReadDesire_SyncOnce c w')) = docs w'"
  using assms by (rule pass_settles)

lemma read_pass_settles_witness:
  "let c = sample_reflector sample_json (Some sample_node) ''obj'';
       w' = snd (ReadDesire_SyncOnce c empty_memdb)
   in rf_docs sample_json (snd (ReadDesire_SyncOnce c w')) = rf_docs sample_json w'"
proof -
  let ?c = "sample_reflector sample_json (Some sample_node) ''obj''"
  have "fst (ReadDesire_SyncOnce ?c empty_memdb) = None" by code_simp
  then have sync: "ReadDesire_SyncOnce ?c empty_memdb = (None, snd (ReadDesire_SyncOnce ?c empty_memdb))"
    by (metis prod.collapse)
  have canonical: "norm_content sample_json (map_option (\<lambda>raw. \<lparr>Raw = raw\<rparr>) (Some ''obj'')) =
      map_option (\<lambda>raw. \<lparr>Raw = raw\<rparr>) (Some ''obj'')" by code_simp
  from read_pass_settles [OF sample_read_env [OF sample_json_ok] empty_read_inv
      sample_reflector_simps(6) sample_reflector_simps(6) sync sample_reflector_simps(4,4) canonical]
  show ?thesis by (simp only: Let_def)
qed

text \<open>
  It does not settle otherwise: when the observed bytes are not what storing them gives back (an
  integer beyond 53 bits is rounded through \<open>float64\<close>, for example), every pass that returns nil writes
  the same content again and increments the version of the status document, although nothing changed.
\<close>

theorem read_pass_rewrites:
  assumes "read_env I docs N f c" and "I w" and "uiHasSynced (rkcInformer c) w"
    and "ReadDesire_SyncOnce c w = (None, w')" and "observed c w = Inr (Some raw)"
    and "docs w (rkName (rkcKey c)) = Some d" and "rsKubeContent (rdStatus d) = f (Some \<lparr>Raw = raw\<rparr>)"
    and "content_raw (f (Some \<lparr>Raw = raw\<rparr>)) \<noteq> raw"
  shows "\<exists>d'. docs w' (rkName (rkcKey c)) = Some d' \<and> Version d' = Version d + 1 \<and>
    rsKubeContent (rdStatus d') = rsKubeContent (rdStatus d)"
  using pass_rewrites [OF assms] assms(7) by auto

lemma read_pass_rewrites_witness:
  "let c = sample_reflector float_json (Some sample_node) ''9007199254740993'';
       w = snd (ReadDesire_SyncOnce c empty_memdb);
       w' = snd (ReadDesire_SyncOnce c w)
   in \<exists>d d'. rf_docs float_json w ''d'' = Some d \<and> rf_docs float_json w' ''d'' = Some d' \<and>
        Version d = 1 \<and> Version d' = 2"
proof -
  let ?raw = "''9007199254740993''"
  let ?c = "sample_reflector float_json (Some sample_node) ?raw"
  let ?w = "snd (ReadDesire_SyncOnce ?c empty_memdb)"
  let ?w' = "snd (ReadDesire_SyncOnce ?c ?w)"
  note env = sample_read_env [OF float_json_ok, of "Some sample_node" ?raw]
  have r: "fst (ReadDesire_SyncOnce ?c empty_memdb) = None" "fst (ReadDesire_SyncOnce ?c ?w) = None"
    by code_simp+
  have doc: "map_option (\<lambda>d. (Version d, rsKubeContent (rdStatus d))) (rf_docs float_json ?w ''d'') =
      Some (1, norm_content float_json (Some \<lparr>Raw = ?raw\<rparr>))"
    and lossy: "content_raw (norm_content float_json (Some \<lparr>Raw = ?raw\<rparr>)) \<noteq> ?raw"
    by code_simp+
  from r have sync: "ReadDesire_SyncOnce ?c empty_memdb = (None, ?w)" "ReadDesire_SyncOnce ?c ?w = (None, ?w')"
    by (metis prod.collapse)+
  have I: "dyn_inv (read_crud float_json) read_rows ?w"
    by (rule pass_inv [OF env empty_read_inv sample_reflector_simps(6) sync(1)])
  from doc obtain d where d: "rf_docs float_json ?w (rkName (rkcKey ?c)) = Some d" "Version d = 1"
    "rsKubeContent (rdStatus d) = norm_content float_json (Some \<lparr>Raw = ?raw\<rparr>)"
    by (auto simp: sample_reflector_simps)
  have "\<exists>d'. rf_docs float_json ?w' (rkName (rkcKey ?c)) = Some d' \<and> Version d' = Version d + 1 \<and>
    rsKubeContent (rdStatus d') = rsKubeContent (rdStatus d)"
    by (rule read_pass_rewrites [where c = ?c and w = ?w and w' = ?w' and d = d, OF env I
          sample_reflector_simps(6) sync(2) sample_reflector_simps(4) d(1,3) lossy])
  with d show ?thesis unfolding Let_def sample_reflector_simps(2) by auto
qed

end
