(* ===== verification/ReadDesireManager.thy ===== *)
theory ReadDesireManager
  imports ReadDesireKube
begin

text \<open>
  \<open>pkg/controllers/read_desire_manager/controller.go\<close>: the manager that owns one reflector per
  ReadDesire. Its map of running instances is an association list, and what it does to the instances
  is a trace of starts, cancellations and waits. \<open>PerInstanceFactory\<close> is the locale
  \<open>per_instance_factory\<close>, interpreted on \<open>NewReadDesireKubernetesController\<close>.
\<close>

section \<open>State\<close>

record 'p runningInstance =
  riTarget :: ResourceReference
  riController :: 'p

datatype 'p instance_event =
    Started ReadDesireKey 'p
  | Canceled ReadDesireKey 'p
  | Awaited ReadDesireKey 'p

record ('w, 'p, 'c) ReadDesireManager =
  mgSpecFetch :: "ReadDesireKey \<Rightarrow> 'w \<Rightarrow> (go_error + ReadDesire option) \<times> 'w"
  mgBuild :: "ReadDesireKey \<Rightarrow> ResourceReference \<Rightarrow> gtime \<Rightarrow> go_error + 'p"
  mgStatusCRUD :: "('w, ReadDesire) crud_ops"
  mgSetCondition :: "Condition list \<Rightarrow> Condition \<Rightarrow> Condition list"
  mgCooldown :: "'c TimeBasedCooldownChecker"
  mgRunning :: "(ReadDesireKey \<times> 'p runningInstance) list"

record 'clock manager_config =
  mcCooldownPeriod :: duration
  mcClock :: "'clock option"

definition manager_withDefaults :: "'clock \<Rightarrow> 'clock manager_config \<Rightarrow> 'clock manager_config" where
  "manager_withDefaults realClock c =
     (let c = (if mcCooldownPeriod c = 0 then c\<lparr>mcCooldownPeriod := DefaultCooldownPeriod\<rparr> else c)
      in (if mcClock c = None then c\<lparr>mcClock := Some realClock\<rparr> else c))"

definition realBuild ::
  "(string \<Rightarrow> string) \<Rightarrow> ((ListOptions \<Rightarrow> resource_interface \<times> ListOptions) \<Rightarrow> 'w object_informer)
     \<Rightarrow> (Condition list \<Rightarrow> Condition \<Rightarrow> Condition list) \<Rightarrow> ('w, ReadDesire) crud_ops
     \<Rightarrow> ReadDesireKey \<Rightarrow> ResourceReference \<Rightarrow> gtime \<Rightarrow> go_error + 'w ReadDesireKubernetesController" where
  "realBuild singleObject informerFor ssc statusCRUD key target specUpdateTime =
     NewReadDesireKubernetesController singleObject informerFor ssc key target specUpdateTime statusCRUD"

definition NewReadDesireManager ::
  "(ReadDesireKey, 'c) lru_lib \<Rightarrow> 'clock \<Rightarrow> (string \<Rightarrow> string)
     \<Rightarrow> ((ListOptions \<Rightarrow> resource_interface \<times> ListOptions) \<Rightarrow> 'w object_informer)
     \<Rightarrow> (string \<Rightarrow> 'w \<Rightarrow> (go_error + ReadDesire) \<times> 'w) \<Rightarrow> ('w, ReadDesire) crud_ops
     \<Rightarrow> (Condition list \<Rightarrow> Condition \<Rightarrow> Condition list) \<Rightarrow> 'clock manager_config
     \<Rightarrow> ('w, 'w ReadDesireKubernetesController, 'c) ReadDesireManager" where
  "NewReadDesireManager lib realClock singleObject informerFor specGet statusCRUD ssc cfg =
     (let cfg = manager_withDefaults realClock cfg
      in \<lparr>mgSpecFetch = specFetcher specGet rkName,
          mgBuild = realBuild singleObject informerFor ssc statusCRUD,
          mgStatusCRUD = statusCRUD, mgSetCondition = ssc,
          mgCooldown = NewTimeBasedCooldownChecker lib (mcCooldownPeriod cfg), mgRunning = []\<rparr>)"

definition manager_writer ::
  "('w, 'p, 'c) ReadDesireManager \<Rightarrow> ('w, ReadDesire, ReadDesireKey) writer" where
  "manager_writer c = statusWriter (mgStatusCRUD c) show_ReadDesireKey rkName zero_ReadDesire"

section \<open>Operations\<close>

definition stopByKey ::
  "ReadDesireKey \<Rightarrow> ('w, 'p, 'c) ReadDesireManager
     \<Rightarrow> ('w, 'p, 'c) ReadDesireManager \<times> 'p instance_event list" where
  "stopByKey key c =
     (case map_of (mgRunning c) key of
        None \<Rightarrow> (c, [])
      | Some cur \<Rightarrow> (c\<lparr>mgRunning := AList.delete key (mgRunning c)\<rparr>,
          [Canceled key (riController cur), Awaited key (riController cur)]))"

fun stopKeys ::
  "ReadDesireKey list \<Rightarrow> ('w, 'p, 'c) ReadDesireManager
     \<Rightarrow> ('w, 'p, 'c) ReadDesireManager \<times> 'p instance_event list" where
  "stopKeys [] c = (c, [])"
| "stopKeys (k # ks) c =
     (let (c, evs) = stopByKey k c; (c, evs') = stopKeys ks c in (c, evs @ evs'))"

definition stopAll ::
  "('w, 'p, 'c) ReadDesireManager \<Rightarrow> ('w, 'p, 'c) ReadDesireManager \<times> 'p instance_event list" where
  "stopAll c = stopKeys (map fst (mgRunning c)) c"

definition Running :: "ReadDesireKey \<Rightarrow> ('w, 'p, 'c) ReadDesireManager \<Rightarrow> bool" where
  "Running key c = (map_of (mgRunning c) key \<noteq> None)"

definition Manager_SyncOnce ::
  "('w, 'p, 'c) ReadDesireManager \<Rightarrow> ReadDesireKey \<Rightarrow> 'w
     \<Rightarrow> (go_error option \<times> ('w, 'p, 'c) ReadDesireManager \<times> 'p instance_event list) \<times> 'w" where
  "Manager_SyncOnce c key w =
     (case mgSpecFetch c key w of (fetched, w) \<Rightarrow>
       (case (case fetched of
                Inl err \<Rightarrow> (if IsNotFoundError err then Inr None else Inl err)
              | Inr desire \<Rightarrow> Inr desire) of
          Inl err \<Rightarrow> ((Some err, c, []), w)
        | Inr None \<Rightarrow> (let (c, evs) = stopByKey key c in ((None, c, evs), w))
        | Inr (Some desire) \<Rightarrow>
            (let target = rsTargetItem (rdSpec desire);
                 cur = map_of (mgRunning c) key
             in if (case cur of None \<Rightarrow> False | Some inst \<Rightarrow> riTarget inst = target)
                then ((None, c, []), w)
                else
                  (let (c, evs) = (if cur \<noteq> None then stopByKey key c else (c, []))
                   in (case mgBuild c key target (UpdateTime desire) of
                         Inl err \<Rightarrow>
                           (let (r, w) = UpdateStatus (manager_writer c) key
                              (rd_outcome (mgSetCondition c) (Some err)
                                 \<circ> rd_observe (DocumentID desire) (UpdateTime desire)) w
                            in ((r, c, evs), w))
                       | Inr per \<Rightarrow>
                           ((None, c\<lparr>mgRunning := AList.update key
                                \<lparr>riTarget = target, riController = per\<rparr> (mgRunning c)\<rparr>,
                             evs @ [Started key per]), w))))))"

definition read_enqueue :: "ReadDesire \<Rightarrow> ReadDesireKey list" where
  "read_enqueue d = (case ReadDesireKeyFromDesire d of Inl _ \<Rightarrow> [] | Inr key \<Rightarrow> [key])"

definition manager_handleAdd :: "ReadDesire informer_obj \<Rightarrow> ReadDesireKey list" where
  "manager_handleAdd obj = (case obj of TypedObj d \<Rightarrow> read_enqueue d | _ \<Rightarrow> [])"

definition manager_handleUpdate ::
  "(ReadDesireKey, 'c) lru_lib \<Rightarrow> gtime \<Rightarrow> ReadDesire informer_obj \<Rightarrow> ReadDesire informer_obj
     \<Rightarrow> ('w, 'p, 'c) ReadDesireManager \<Rightarrow> ReadDesireKey list \<times> ('w, 'p, 'c) ReadDesireManager" where
  "manager_handleUpdate lib now oldObj newObj c =
     (case (oldObj, newObj) of
        (TypedObj oldD, TypedObj newD) \<Rightarrow>
          (if UpdateTime oldD \<noteq> UpdateTime newD then (read_enqueue newD, c)
           else (case ReadDesireKeyFromDesire newD of
                   Inl _ \<Rightarrow> ([], c)
                 | Inr key \<Rightarrow>
                     (let (ok, cd) = CanSync lib now key (mgCooldown c)
                      in (if ok then [key] else [], c\<lparr>mgCooldown := cd\<rparr>))))
      | _ \<Rightarrow> ([], c))"

definition manager_handleDelete ::
  "ReadDesire informer_obj \<Rightarrow> ('w, 'p, 'c) ReadDesireManager \<Rightarrow> 'w
     \<Rightarrow> (go_error option \<times> ('w, 'p, 'c) ReadDesireManager \<times> 'p instance_event list) \<times> 'w" where
  "manager_handleDelete obj c w =
     (case (case obj of TypedObj d \<Rightarrow> Some d | Tombstone od \<Rightarrow> od | OtherObj \<Rightarrow> None) of
        None \<Rightarrow> ((None, c, []), w)
      | Some d \<Rightarrow>
          (let (err, w) = opDelete (mgStatusCRUD c) (DocumentID d) w;
               logged = (case err of None \<Rightarrow> None
                         | Some e \<Rightarrow> if IsNotFoundError e then None else Some e);
               (c, evs) = stopByKey \<lparr>rkClusterID = rsClusterID (rdSpec d), rkNodePoolName = '''',
                            rkName = DocumentID d\<rparr> c
           in ((logged, c, evs), w)))"

definition manager_processNext ::
  "('w, 'p, 'c) ReadDesireManager \<Rightarrow> ReadDesireKey option \<Rightarrow> 'w
     \<Rightarrow> (bool \<times> ReadDesireKey queue_call list \<times> ('w, 'p, 'c) ReadDesireManager
          \<times> 'p instance_event list) \<times> 'w" where
  "manager_processNext c next w =
     (case next of
        None \<Rightarrow> ((False, [QGetShutdown], c, []), w)
      | Some key \<Rightarrow>
          (case Manager_SyncOnce c key w of
             ((Some err, c, evs), w) \<Rightarrow>
               ((True, [QGet key, QAddRateLimited key, QDone key], c, evs), w)
           | ((None, c, evs), w) \<Rightarrow> ((True, [QGet key, QForget key, QDone key], c, evs), w)))"

section \<open>The map of instances\<close>

definition instance_at ::
  "('w, 'p, 'c) ReadDesireManager \<Rightarrow> ReadDesireKey \<Rightarrow> 'p runningInstance option" where
  "instance_at c k = map_of (mgRunning c) k"

definition start_instance ::
  "ReadDesireKey \<Rightarrow> ResourceReference \<Rightarrow> 'p \<Rightarrow> ('w, 'p, 'c) ReadDesireManager
     \<Rightarrow> ('w, 'p, 'c) ReadDesireManager" where
  "start_instance key target p c = c\<lparr>mgRunning := AList.update key
     \<lparr>riTarget = target, riController = p\<rparr> (mgRunning c)\<rparr>"

lemma instance_at_start:
  "instance_at (start_instance key target p c) k =
     (if k = key then Some \<lparr>riTarget = target, riController = p\<rparr> else instance_at c k)"
  by (simp add: instance_at_def start_instance_def)

lemma stopByKey_effect:
  assumes "stopByKey key c = (c', evs)"
  shows "mgBuild c' = mgBuild c" and "mgStatusCRUD c' = mgStatusCRUD c"
    and "distinct (map fst (mgRunning c)) \<Longrightarrow> distinct (map fst (mgRunning c'))"
    and "instance_at c' k = (if k = key then None else instance_at c k)"
    and "evs = (case instance_at c key of None \<Rightarrow> []
           | Some cur \<Rightarrow> [Canceled key (riController cur), Awaited key (riController cur)])"
  using assms by (auto simp: stopByKey_def instance_at_def split: option.splits)

section \<open>The factory\<close>

text \<open>What the manager relies on: a built instance is for the key, the target and the revision it was
  asked for, and building fails only on the pre-check.\<close>

locale per_instance_factory =
  fixes build :: "ReadDesireKey \<Rightarrow> ResourceReference \<Rightarrow> gtime \<Rightarrow> go_error + 'p"
    and forKey :: "'p \<Rightarrow> ReadDesireKey" and forTarget :: "'p \<Rightarrow> ResourceReference"
    and forTime :: "'p \<Rightarrow> gtime"
  assumes build_ok: "build key target t = Inr p \<Longrightarrow> forKey p = key \<and> forTarget p = target \<and> forTime p = t"
    and build_err: "build key target t = Inl e \<Longrightarrow> target_incomplete target \<and> (\<exists>x. e = PreCheckError x)"
begin

definition manager_inv :: "('w, 'p, 'c) ReadDesireManager \<Rightarrow> bool" where
  "manager_inv c \<longleftrightarrow> mgBuild c = build \<and> distinct (map fst (mgRunning c)) \<and>
     (\<forall>k inst. instance_at c k = Some inst \<longrightarrow>
        forKey (riController inst) = k \<and> forTarget (riController inst) = riTarget inst)"

lemma manager_invD:
  assumes "manager_inv c" and "instance_at c k = Some inst"
  shows "forKey (riController inst) = k \<and> forTarget (riController inst) = riTarget inst"
  using assms unfolding manager_inv_def by blast

lemma inv_stopByKey:
  assumes "manager_inv c" and "stopByKey key c = (c', evs)"
  shows "manager_inv c'"
  using assms stopByKey_effect [OF assms(2)] by (auto simp: manager_inv_def split: if_splits)

lemma inv_start:
  assumes "manager_inv c" and "build key target t = Inr p"
  shows "manager_inv (start_instance key target p c)"
  using assms build_ok [OF assms(2)]
  by (auto simp: manager_inv_def instance_at_start split: if_splits) (simp add: start_instance_def)+

lemma inv_stopKeys: "manager_inv c \<Longrightarrow> stopKeys ks c = (c', evs) \<Longrightarrow> manager_inv c'"
  by (induction ks arbitrary: c c' evs) (auto simp: Let_def split: prod.splits dest: inv_stopByKey)

end

lemma realBuild_factory:
  "per_instance_factory (realBuild singleObject informerFor ssc statusCRUD) rkcKey rkcTarget rkcSpecUpdateTime"
  by unfold_locales
    (auto simp: realBuild_def NewReadDesireKubernetesController_def errTargetItem_def split: if_splits)

interpretation real_factory: per_instance_factory
  "realBuild singleObject informerFor ssc statusCRUD" rkcKey rkcTarget rkcSpecUpdateTime
  for singleObject informerFor ssc statusCRUD
  by (rule realBuild_factory)

section \<open>Lifecycles\<close>

text \<open>The instances that are alive after a trace: started, and not waited for since.\<close>

fun live_step :: "'p instance_event \<Rightarrow> (ReadDesireKey \<times> 'p) list \<Rightarrow> (ReadDesireKey \<times> 'p) list" where
  "live_step (Started k p) acc = (k, p) # acc"
| "live_step (Canceled k p) acc = acc"
| "live_step (Awaited k p) acc = remove1 (k, p) acc"

definition live :: "'p instance_event list \<Rightarrow> (ReadDesireKey \<times> 'p) list \<Rightarrow> (ReadDesireKey \<times> 'p) list" where
  "live evs acc = fold live_step evs acc"

text \<open>At every moment of the trace at most one instance is alive for each key.\<close>

fun single_live :: "(ReadDesireKey \<times> 'p) list \<Rightarrow> 'p instance_event list \<Rightarrow> bool" where
  "single_live acc [] = distinct (map fst acc)"
| "single_live acc (e # evs) = (distinct (map fst acc) \<and> single_live (live_step e acc) evs)"

lemma live_append: "live (a @ b) acc = live b (live a acc)"
  by (simp add: live_def)

lemma single_live_append:
  "single_live acc (a @ b) \<longleftrightarrow> single_live acc a \<and> single_live (live a acc) b"
  by (induction a arbitrary: acc) (auto simp: live_def elim: single_live.elims)

definition tracks :: "(ReadDesireKey \<times> 'p) list \<Rightarrow> ('w, 'p, 'c) ReadDesireManager \<Rightarrow> bool" where
  "tracks acc c \<longleftrightarrow> distinct (map fst acc) \<and>
     (\<forall>k. map_of acc k = map_option riController (instance_at c k))"

lemma map_of_remove1:
  "distinct (map fst acc) \<Longrightarrow> (k, p) \<in> set acc \<Longrightarrow>
   distinct (map fst (remove1 (k, p) acc)) \<and> map_of (remove1 (k, p) acc) = (map_of acc)(k := None)"
proof (induction acc)
  case (Cons x xs)
  show ?case
  proof (cases "x = (k, p)")
    case True
    with Cons.prems(1) have "map_of xs k = None" by (simp add: map_of_None_iff)
    with True Cons.prems(1) show ?thesis by (auto simp: fun_eq_iff)
  next
    case False
    with Cons.prems have mem: "(k, p) \<in> set xs" by auto
    with Cons.prems(1) have "fst x \<noteq> k" by (force simp: image_iff)
    with False Cons.IH Cons.prems(1) mem show ?thesis
      by (auto simp: fun_eq_iff dest: set_remove1_subset [THEN subsetD])
  qed
qed simp

lemma tracks_stop:
  assumes "tracks acc c" and "stopByKey key c = (c', evs)"
  shows "single_live acc evs \<and> tracks (live evs acc) c'"
proof (cases "instance_at c key")
  case None
  with assms stopByKey_effect(4,5) [OF assms(2)] show ?thesis
    by (auto simp: live_def tracks_def)
next
  case (Some inst)
  with assms(1) have "map_of acc key = Some (riController inst)" and d: "distinct (map fst acc)"
    by (simp_all add: tracks_def)
  from this(1) have "(key, riController inst) \<in> set acc" by (rule map_of_SomeD)
  from map_of_remove1 [OF d this] stopByKey_effect(4,5) [OF assms(2)] Some assms(1)
  show ?thesis by (auto simp: live_def tracks_def)
qed

lemma tracks_start:
  assumes "tracks acc c" and "instance_at c key = None"
  shows "single_live acc [Started key p] \<and> tracks (live [Started key p] acc) (start_instance key target p c)"
proof -
  have "map_of acc key = None" using assms by (simp add: tracks_def)
  then have "key \<notin> fst ` set acc" by (simp add: map_of_None_iff)
  with assms show ?thesis by (auto simp: live_def tracks_def instance_at_start)
qed

lemma tracks_stopKeys:
  "tracks acc c \<Longrightarrow> stopKeys ks c = (c', evs) \<Longrightarrow> single_live acc evs \<and> tracks (live evs acc) c'"
proof (induction ks arbitrary: acc c c' evs)
  case (Cons k ks)
  obtain c1 e1 where s: "stopByKey k c = (c1, e1)" by fastforce
  obtain c2 e2 where r: "stopKeys ks c1 = (c2, e2)" by fastforce
  from Cons.prems(2) s r have "c' = c2" "evs = e1 @ e2" by simp_all
  with tracks_stop [OF Cons.prems(1) s] Cons.IH [OF _ r] show ?case
    by (auto simp: single_live_append live_append)
qed (auto simp: live_def tracks_def)

lemma stopKeys_effect:
  "stopKeys ks c = (c', evs) \<Longrightarrow> instance_at c' k = (if k \<in> set ks then None else instance_at c k)"
proof (induction ks arbitrary: c c' evs)
  case (Cons x ks)
  obtain c1 e1 where s: "stopByKey x c = (c1, e1)" by fastforce
  obtain c2 e2 where r: "stopKeys ks c1 = (c2, e2)" by fastforce
  from Cons.prems s r have "c' = c2" by simp
  with Cons.IH [OF r] stopByKey_effect(4) [OF s, of k] show ?case by auto
qed simp

lemma stopAll_effect: "stopAll c = (c', evs) \<Longrightarrow> instance_at c' k = None"
proof -
  assume "stopAll c = (c', evs)"
  from stopKeys_effect [OF this [unfolded stopAll_def], of k] show ?thesis
    by (auto simp: instance_at_def map_of_None_iff)
qed

text \<open>What a pass of the manager does to the map and the instances, by its outcome.\<close>

lemma manager_pass_cases:
  assumes "Manager_SyncOnce c key w = ((r, c', evs), w')"
  obtains (failed) e where "r = Some e" and "c' = c" and "evs = []"
      and "fst (mgSpecFetch c key w) = Inl e" and "\<not> IsNotFoundError e"
  | (gone) "r = None" and "stopByKey key c = (c', evs)"
      and "\<forall>d. fst (mgSpecFetch c key w) \<noteq> Inr (Some d)"
  | (kept) desire inst where "r = None" and "c' = c" and "evs = []"
      and "fst (mgSpecFetch c key w) = Inr (Some desire)" and "instance_at c key = Some inst"
      and "riTarget inst = rsTargetItem (rdSpec desire)"
  | (started) desire p c1 evs1 where "r = None"
      and "fst (mgSpecFetch c key w) = Inr (Some desire)" and "stopByKey key c = (c1, evs1)"
      and "mgBuild c key (rsTargetItem (rdSpec desire)) (UpdateTime desire) = Inr p"
      and "c' = start_instance key (rsTargetItem (rdSpec desire)) p c1" and "evs = evs1 @ [Started key p]"
  | (unbuilt) desire e where "fst (mgSpecFetch c key w) = Inr (Some desire)"
      and "stopByKey key c = (c', evs)"
      and "mgBuild c key (rsTargetItem (rdSpec desire)) (UpdateTime desire) = Inl e"
      and "UpdateStatus (manager_writer c) key (rd_outcome (mgSetCondition c) (Some e)
             \<circ> rd_observe (DocumentID desire) (UpdateTime desire)) (snd (mgSpecFetch c key w)) = (r, w')"
proof -
  obtain f w1 where f: "mgSpecFetch c key w = (f, w1)" by fastforce
  have stop: "(if map_of (mgRunning c) key \<noteq> None then stopByKey key c else (c, [])) = stopByKey key c"
    by (simp add: stopByKey_def split: option.split)
  obtain c1 e1 where s: "stopByKey key c = (c1, e1)" by fastforce
  have same: "mgBuild c1 = mgBuild c" "manager_writer c1 = manager_writer c" "mgSetCondition c1 = mgSetCondition c"
    using s by (auto simp: stopByKey_def manager_writer_def split: option.splits)
  show ?thesis
  proof (cases f)
    case (Inl e)
    with assms f s failed gone show ?thesis
      by (auto simp: Manager_SyncOnce_def split: if_splits)
  next
    case (Inr d)
    show ?thesis
    proof (cases d)
      case None
      with assms f s Inr gone show ?thesis by (simp add: Manager_SyncOnce_def)
    next
      case (Some desire)
      let ?t = "rsTargetItem (rdSpec desire)"
      have fetch: "fst (mgSpecFetch c key w) = Inr (Some desire)" using f Inr Some by simp
      show ?thesis
      proof (cases "\<exists>inst. map_of (mgRunning c) key = Some inst \<and> riTarget inst = ?t")
        case True
        then obtain inst where i: "instance_at c key = Some inst" "riTarget inst = ?t"
          by (auto simp: instance_at_def)
        with assms f Inr Some have "r = None" "c' = c" "evs = []"
          by (simp_all add: Manager_SyncOnce_def instance_at_def)
        with kept fetch i show ?thesis by blast
      next
        case False
        then have neq: "\<not> (case map_of (mgRunning c) key of None \<Rightarrow> False | Some inst \<Rightarrow> riTarget inst = ?t)"
          by (auto split: option.splits)
        show ?thesis
        proof (cases "mgBuild c key ?t (UpdateTime desire)")
          case built: (Inl e)
          obtain ur uw where u: "UpdateStatus (manager_writer c) key (rd_outcome (mgSetCondition c) (Some e)
             \<circ> rd_observe (DocumentID desire) (UpdateTime desire)) w1 = (ur, uw)" by fastforce
          from assms f Inr Some neq built s u same
          have "r = ur" "c' = c1" "evs = e1" "w' = uw"
            by (simp_all add: Manager_SyncOnce_def stop Let_def del: not_None_eq)
          with unbuilt fetch s built u f show ?thesis by simp
        next
          case built: (Inr p)
          from assms f Inr Some neq built s same
          have "r = None" "c' = start_instance key ?t p c1" "evs = e1 @ [Started key p]"
            by (simp_all add: Manager_SyncOnce_def stop start_instance_def Let_def del: not_None_eq)
          with started fetch s built show ?thesis by blast
        qed
      qed
    qed
  qed
qed

lemma tracks_pass:
  assumes "tracks acc c" and "Manager_SyncOnce c key w = ((r, c', evs), w')"
  shows "single_live acc evs \<and> tracks (live evs acc) c'"
  using assms(2)
proof (cases rule: manager_pass_cases)
  case (started desire p c1 evs1)
  from stopByKey_effect(4) [OF started(3), of key] have none: "instance_at c1 key = None" by simp
  from tracks_stop [OF assms(1) started(3)] tracks_start [OF _ none] started(5,6) show ?thesis
    by (auto simp: single_live_append live_append)
next
  case gone
  from tracks_stop [OF assms(1) gone(2)] show ?thesis .
next
  case (unbuilt desire e)
  from tracks_stop [OF assms(1) unbuilt(2)] show ?thesis .
qed (use assms(1) in \<open>simp_all add: live_def tracks_def\<close>)

section \<open>Runs of the manager\<close>

text \<open>
  Whatever happens around it (each operation starts in any world), the manager goes through passes,
  update and delete events, and in the end stops everything.
\<close>

inductive manager_run ::
  "(ReadDesireKey, 'c) lru_lib \<Rightarrow> ('w, 'p, 'c) ReadDesireManager \<Rightarrow> ('w, 'p, 'c) ReadDesireManager
     \<Rightarrow> 'p instance_event list \<Rightarrow> bool"
  for lib :: "(ReadDesireKey, 'c) lru_lib" and c0 :: "('w, 'p, 'c) ReadDesireManager" where
  run_init: "manager_run lib c0 c0 []"
| run_sync: "manager_run lib c0 c tr \<Longrightarrow> Manager_SyncOnce c key w = ((r, c', evs), w') \<Longrightarrow>
     manager_run lib c0 c' (tr @ evs)"
| run_update: "manager_run lib c0 c tr \<Longrightarrow> manager_handleUpdate lib now oldObj newObj c = (ks, c') \<Longrightarrow>
     manager_run lib c0 c' tr"
| run_delete: "manager_run lib c0 c tr \<Longrightarrow> manager_handleDelete obj c w = ((r, c', evs), w') \<Longrightarrow>
     manager_run lib c0 c' (tr @ evs)"
| run_stop: "manager_run lib c0 c tr \<Longrightarrow> stopAll c = (c', evs) \<Longrightarrow> manager_run lib c0 c' (tr @ evs)"

lemma handleUpdate_effect:
  assumes "manager_handleUpdate lib now oldObj newObj c = (ks, c')"
  shows "mgRunning c' = mgRunning c" and "mgBuild c' = mgBuild c"
  using assms
  by (auto simp: manager_handleUpdate_def split: informer_obj.splits if_splits sum.splits prod.splits)

lemma handleDelete_effect:
  assumes "manager_handleDelete obj c w = ((r, c', evs), w')"
  obtains "c' = c" "evs = []" | k where "stopByKey k c = (c', evs)"
  using assms
  by (auto simp: manager_handleDelete_def Let_def split: option.splits prod.splits informer_obj.splits)

lemma manager_run_tracks:
  assumes "manager_run lib c0 c tr" and "tracks acc c0"
  shows "single_live acc tr \<and> tracks (live tr acc) c"
  using assms
proof (induction rule: manager_run.induct)
  case run_init
  then show ?case by (simp add: live_def tracks_def)
next
  case (run_sync c tr key w r c' evs w')
  with tracks_pass [of "live tr acc" c key w r c' evs w'] show ?case
    by (simp add: single_live_append live_append)
next
  case (run_update c tr now oldObj newObj ks c')
  with handleUpdate_effect(1) [OF run_update(2)] show ?case
    by (simp add: tracks_def instance_at_def)
next
  case (run_delete c tr obj w r c' evs w')
  from run_delete(2) show ?case
  proof (cases rule: handleDelete_effect)
    case 1
    with run_delete show ?thesis by simp
  next
    case (2 k)
    with run_delete tracks_stop [of "live tr acc" c k c' evs] show ?thesis
      by (simp add: single_live_append live_append)
  qed
next
  case (run_stop c tr c' evs)
  with tracks_stopKeys [of "live tr acc" c "map fst (mgRunning c)" c' evs] show ?case
    by (simp add: single_live_append live_append stopAll_def)
qed

context per_instance_factory begin

lemma inv_pass:
  assumes "manager_inv c" and "Manager_SyncOnce c key w = ((r, c', evs), w')"
  shows "manager_inv c'"
  using assms(2)
proof (cases rule: manager_pass_cases)
  case (started desire p c1 evs1)
  from inv_stopByKey [OF assms(1) started(3)] started(4) assms(1)
  show ?thesis unfolding started(5) by (intro inv_start) (simp_all add: manager_inv_def)
next
  case gone
  from inv_stopByKey [OF assms(1) gone(2)] show ?thesis by simp
next
  case (unbuilt desire e)
  from inv_stopByKey [OF assms(1) unbuilt(2)] show ?thesis .
qed (use assms(1) in simp_all)

lemma inv_run:
  assumes "manager_run lib c0 c tr" and "manager_inv c0"
  shows "manager_inv c"
  using assms
proof (induction rule: manager_run.induct)
  case (run_sync c tr key w r c' evs w')
  from inv_pass [OF run_sync.IH [OF run_sync.prems] run_sync.hyps(2)] show ?case .
next
  case (run_update c tr now oldObj newObj ks c')
  have "manager_inv c" using run_update.IH run_update.prems by blast
  moreover have "instance_at c' = instance_at c"
    using handleUpdate_effect(1) [OF run_update(2)] by (simp add: instance_at_def fun_eq_iff)
  ultimately show ?case
    using handleUpdate_effect [OF run_update(2)] unfolding manager_inv_def by metis
next
  case (run_delete c tr obj w r c' evs w')
  from run_delete(2) show ?case
    by (cases rule: handleDelete_effect) (use run_delete inv_stopByKey in auto)
next
  case (run_stop c tr c' evs)
  from inv_stopKeys [OF run_stop.IH [OF run_stop.prems] run_stop.hyps(2) [unfolded stopAll_def]]
  show ?case .
qed simp

text \<open>After a pass for an existing spec, the instance that runs for the key reads the spec's target;
  there is none exactly when the target is incomplete.\<close>

lemma pass_converges:
  assumes "manager_inv c" and "Manager_SyncOnce c key w = ((r, c', evs), w')"
    and "fst (mgSpecFetch c key w) = Inr (Some desire)"
  shows "case instance_at c' key of
      None \<Rightarrow> target_incomplete (rsTargetItem (rdSpec desire))
    | Some inst \<Rightarrow> forKey (riController inst) = key \<and>
        forTarget (riController inst) = rsTargetItem (rdSpec desire)"
proof -
  note inv' = inv_pass [OF assms(1,2)]
  from assms(2) show ?thesis
  proof (cases rule: manager_pass_cases)
    case (failed e)
    with assms(3) show ?thesis by simp
  next
    case gone
    with assms(3) show ?thesis by simp
  next
    case (kept d inst)
    with assms(3) manager_invD [OF assms(1) kept(5)] show ?thesis by simp
  next
    case (started d p c1 evs1)
    then have "instance_at c' key = Some \<lparr>riTarget = rsTargetItem (rdSpec d), riController = p\<rparr>"
      by (simp add: instance_at_start)
    from manager_invD [OF inv' this] this started(2) assms(3) show ?thesis by simp
  next
    case (unbuilt d e)
    have "mgBuild c = build" using assms(1) by (simp add: manager_inv_def)
    with unbuilt(3) have "target_incomplete (rsTargetItem (rdSpec d))"
      using build_err [of key "rsTargetItem (rdSpec d)" "UpdateTime d" e] by simp
    with stopByKey_effect(4) [OF unbuilt(2), of key] unbuilt(1) assms(3) show ?thesis by simp
  qed
qed

end

end
