(* ===== verification/ReadManagerClaims.thy ===== *)
theory ReadManagerClaims
  imports ReadDesireManager
begin

text \<open>The properties of the manager of the read reflectors, with its real factory.\<close>

section \<open>Instances\<close>

lemma new_manager:
  "tracks [] (NewReadDesireManager lib clk so informers specGet statusCRUD ssc cfg)"
  "real_factory.manager_inv so informers ssc statusCRUD (NewReadDesireManager lib clk so informers specGet statusCRUD ssc cfg)"
  by (simp_all add: tracks_def real_factory.manager_inv_def NewReadDesireManager_def Let_def instance_at_def)


text \<open>
  C26: a pass makes the running reflectors match the specs: after a pass that read the spec of a key,
  the reflector that runs for the key mirrors the spec's target, and there is none only when that
  target is incomplete; after a pass that found the spec gone there is none.
\<close>

theorem manager_pass_converges:
  assumes "manager_run lib (NewReadDesireManager lib clk so informers specGet statusCRUD ssc cfg) c tr"
    and "Manager_SyncOnce c key w = ((r, c', evs), w')"
  shows "case fst (mgSpecFetch c key w) of
      Inr (Some desire) \<Rightarrow>
        (case instance_at c' key of
           None \<Rightarrow> target_incomplete (rsTargetItem (rdSpec desire))
         | Some inst \<Rightarrow> rkcKey (riController inst) = key \<and>
             rkcTarget (riController inst) = rsTargetItem (rdSpec desire))
    | Inr None \<Rightarrow> instance_at c' key = None
    | Inl e \<Rightarrow> IsNotFoundError e \<longrightarrow> instance_at c' key = None"
proof -
  note inv' = real_factory.inv_run [OF assms(1) new_manager(2)]
  show ?thesis
  proof (cases "\<exists>desire. fst (mgSpecFetch c key w) = Inr (Some desire)")
    case True
    then obtain desire where d: "fst (mgSpecFetch c key w) = Inr (Some desire)" ..
    from real_factory.pass_converges [OF inv' assms(2) d] show ?thesis by (simp add: d)
  next
    case False
    from assms(2) show ?thesis
    proof (cases rule: manager_pass_cases)
      case (failed e)
      then show ?thesis by simp
    next
      case gone
      from stopByKey_effect(4) [OF gone(2), of key] False show ?thesis
        by (auto split: sum.split option.split)
    qed (use False in auto)
  qed
qed

section \<open>Two divergences\<close>

text \<open>
  The delete event of a ReadDesire stops its reflector only when the desire is cluster-scoped. The
  handler builds the key without the node pool, so the reflector of a node-pool-scoped desire stays in
  the map and alive (and its next resync writes a status document for the spec that is gone).
\<close>

theorem manager_delete_scope:
  assumes "ReadDesireKeyFromDesire d = Inr key" and "obj = TypedObj d \<or> obj = Tombstone (Some d)"
    and "manager_handleDelete obj c w = ((r, c', evs), w')"
  shows "instance_at c' key = (if ReadDesireKey_IsNodePoolScoped key then instance_at c key else None)"
proof -
  from assms(1) have key: "key = \<lparr>rkClusterID = rsClusterID (rdSpec d),
      rkNodePoolName = rsNodePoolName (rdSpec d), rkName = DocumentID d\<rparr>"
    by (auto simp: ReadDesireKeyFromDesire_def split: if_splits)
  let ?k = "\<lparr>rkClusterID = rsClusterID (rdSpec d), rkNodePoolName = '''', rkName = DocumentID d\<rparr>"
  have "stopByKey ?k c = (c', evs)"
    using assms(2,3) by (auto simp: manager_handleDelete_def Let_def split: prod.splits option.splits)
  from stopByKey_effect(4) [OF this, of key] show ?thesis
    by (simp add: key ReadDesireKey_IsNodePoolScoped_def)
qed

definition sample_read_desire :: "string \<Rightarrow> gtime \<Rightarrow> ReadDesire" where
  "sample_read_desire pool t = zero_ReadDesire\<lparr>DocumentID := ''d'', UpdateTime := t,
     rdSpec := \<lparr>rsManagementCluster = ''m'', rsClusterID = ''c'', rsNodePoolName = pool,
       rsTargetItem = \<lparr>rrGroup = '''', rrVersion = ''v1'', rrResource = ''nodes'',
         rrNamespace = '''', rrName = ''n''\<rparr>\<rparr>\<rparr>"

definition idle_informer :: "(ListOptions \<Rightarrow> resource_interface \<times> ListOptions) \<Rightarrow> ReadDesire FakeCRUD object_informer" where
  "idle_informer lw = \<lparr>uiHasSynced = (\<lambda>w. True), uiGetByKey = (\<lambda>k w. Inr None),
     uiMarshal = (\<lambda>ob. Inl (ErrorString ''marshal''))\<rparr>"

definition sample_manager ::
  "(ReadDesire FakeCRUD, ReadDesire FakeCRUD ReadDesireKubernetesController,
    nat \<times> (ReadDesireKey \<times> gtime) list) ReadDesireManager" where
  "sample_manager = NewReadDesireManager sample_lru () (\<lambda>n. ''metadata.name='' @ n) idle_informer
     fake_Get fake_ops (sample_ssc 7) \<lparr>mcCooldownPeriod = 0, mcClock = None\<rparr>"

definition specs_with :: "ReadDesire \<Rightarrow> ReadDesire FakeCRUD" where
  "specs_with d = \<lparr>fkStore = [(''d'', d)], fkSeq = 0\<rparr>"

definition pool_key :: "string \<Rightarrow> ReadDesireKey" where
  "pool_key pool = \<lparr>rkClusterID = ''c'', rkNodePoolName = pool, rkName = ''d''\<rparr>"

definition sample_instance ::
  "string \<Rightarrow> gtime \<Rightarrow> ReadDesire FakeCRUD ReadDesireKubernetesController" where
  "sample_instance pool t = \<lparr>rkcKey = pool_key pool,
     rkcTarget = rsTargetItem (rdSpec (sample_read_desire pool t)), rkcSpecUpdateTime = t,
     rkcGvr = \<lparr>gvrGroup = '''', gvrVersion = ''v1'', gvrResource = ''nodes''\<rparr>,
     rkcNamespaced = False,
     rkcInformer = idle_informer (singleObjectListWatch (\<lambda>n. ''metadata.name='' @ n)
       (rsTargetItem (rdSpec (sample_read_desire pool t)))),
     rkcStatusCRUD = fake_ops, rkcSetCondition = sample_ssc 7\<rparr>"

definition started_manager where
  "started_manager pool t = sample_manager\<lparr>mgRunning :=
     [(pool_key pool, \<lparr>riTarget = rsTargetItem (rdSpec (sample_read_desire pool t)),
        riController = sample_instance pool t\<rparr>)]\<rparr>"

lemma sample_start:
  "Manager_SyncOnce sample_manager (pool_key pool) (specs_with (sample_read_desire pool t)) =
     ((None, started_manager pool t, [Started (pool_key pool) (sample_instance pool t)]),
      specs_with (sample_read_desire pool t))"
  by (simp add: Manager_SyncOnce_def started_manager_def sample_manager_def NewReadDesireManager_def
      sample_instance_def specFetcher_def fake_Get_def specs_with_def pool_key_def
      realBuild_def NewReadDesireKubernetesController_def target_incomplete_def sample_read_desire_def
      Let_def)

lemma sample_run:
  "manager_run sample_lru sample_manager (started_manager pool t)
     [Started (pool_key pool) (sample_instance pool t)]"
  using run_sync [OF run_init sample_start] by simp


lemma manager_pass_converges_witness:
  "case instance_at (fst (snd (fst (Manager_SyncOnce sample_manager (pool_key ''np'')
       (specs_with (sample_read_desire ''np'' 5)))))) (pool_key ''np'') of
     None \<Rightarrow> False
   | Some inst \<Rightarrow> rkcTarget (riController inst) = rsTargetItem (rdSpec (sample_read_desire ''np'' 5))"
proof -
  have f: "fst (mgSpecFetch sample_manager (pool_key ''np'') (specs_with (sample_read_desire ''np'' 5))) =
      Inr (Some (sample_read_desire ''np'' 5))"
    by (simp add: sample_manager_def NewReadDesireManager_def Let_def specFetcher_def fake_Get_def
        specs_with_def pool_key_def)
  have "\<not> target_incomplete (rsTargetItem (rdSpec (sample_read_desire ''np'' 5)))"
    by (simp add: target_incomplete_def sample_read_desire_def)
  with manager_pass_converges [OF run_init [of sample_lru sample_manager, unfolded sample_manager_def]
      sample_start [of "''np''" 5, unfolded sample_manager_def], folded sample_manager_def, unfolded f]
  show ?thesis by (simp add: sample_start split: option.splits)
qed

lemma manager_delete_scope_witness:
  "instance_at (fst (snd (fst (manager_handleDelete (TypedObj (sample_read_desire ''np'' 5))
       (started_manager ''np'' 5) (specs_with (sample_read_desire ''np'' 5)))))) (pool_key ''np'') \<noteq> None"
proof -
  have k: "ReadDesireKeyFromDesire (sample_read_desire ''np'' 5) = Inr (pool_key ''np'')"
    by (simp add: ReadDesireKeyFromDesire_def sample_read_desire_def pool_key_def)
  obtain r c' evs w' where hd: "manager_handleDelete (TypedObj (sample_read_desire ''np'' 5))
      (started_manager ''np'' 5) (specs_with (sample_read_desire ''np'' 5)) = ((r, c', evs), w')"
    by (metis prod.collapse)
  from manager_delete_scope [OF k disjI1 [OF refl] hd] have "instance_at c' (pool_key ''np'') \<noteq> None"
    by (simp add: ReadDesireKey_IsNodePoolScoped_def pool_key_def started_manager_def instance_at_def)
  then show ?thesis by (simp only: hd fst_conv snd_conv not_False_eq_True)
qed

text \<open>
  A new revision of a ReadDesire that keeps its target never reaches the reflector: the pass for it
  returns nil and changes nothing, so the reflector goes on reporting the update time of the revision
  it was started for, and a reader that waits for the status to show the new revision waits in vain.
\<close>

theorem manager_keeps_revision:
  assumes "Manager_SyncOnce c key w = ((None, c1, evs @ [Started key p]), w1)"
    and "mgBuild c = realBuild so informers ssc statusCRUD"
    and "fst (mgSpecFetch c key w) = Inr (Some desire)"
    and "fst (mgSpecFetch c1 key w2) = Inr (Some desire2)"
    and "rsTargetItem (rdSpec desire2) = rsTargetItem (rdSpec desire)"
    and "Manager_SyncOnce c1 key w2 = ((r, c2, evs2), w2')"
  shows "r = None \<and> c2 = c1 \<and> evs2 = [] \<and>
    map_option (\<lambda>inst. rkcSpecUpdateTime (riController inst)) (instance_at c2 key)
      = Some (UpdateTime desire)"
proof -
  from assms(1) obtain p' where i: "instance_at c1 key = Some \<lparr>riTarget = rsTargetItem (rdSpec desire), riController = p'\<rparr>"
    and b: "mgBuild c key (rsTargetItem (rdSpec desire)) (UpdateTime desire) = Inr p'"
  proof (cases rule: manager_pass_cases)
    case (started d q c' evs')
    with assms(3) that [of q] show ?thesis by (simp add: instance_at_start)
  next
    case gone
    then show ?thesis using stopByKey_effect(5) [OF gone(2)] by (auto split: option.splits)
  next
    case (unbuilt d e)
    then show ?thesis using stopByKey_effect(5) [OF unbuilt(2)] by (auto split: option.splits)
  qed simp_all
  have t: "rkcSpecUpdateTime p' = UpdateTime desire"
    using b assms(2) by (auto simp: realBuild_def NewReadDesireKubernetesController_def split: if_splits)
  have "r = None \<and> c2 = c1 \<and> evs2 = []"
    using assms(4,5,6) i
    by (cases "mgSpecFetch c1 key w2") (auto simp: Manager_SyncOnce_def instance_at_def)
  with i t show ?thesis by simp
qed

lemma manager_keeps_revision_witness:
  "map_option (\<lambda>inst. rkcSpecUpdateTime (riController inst))
     (instance_at (fst (snd (fst (Manager_SyncOnce (started_manager '''' 5) (pool_key '''')
        (specs_with (sample_read_desire '''' 9)))))) (pool_key '''')) = Some 5"
proof -
  have b: "mgBuild sample_manager = realBuild (\<lambda>n. ''metadata.name='' @ n) idle_informer (sample_ssc 7) fake_ops"
    by (simp add: sample_manager_def NewReadDesireManager_def Let_def)
  have f: "fst (mgSpecFetch sample_manager (pool_key '''') (specs_with (sample_read_desire '''' 5))) =
      Inr (Some (sample_read_desire '''' 5))"
    "fst (mgSpecFetch (started_manager '''' 5) (pool_key '''') (specs_with (sample_read_desire '''' 9))) =
      Inr (Some (sample_read_desire '''' 9))"
    by (simp_all add: started_manager_def sample_manager_def NewReadDesireManager_def Let_def
        specFetcher_def fake_Get_def specs_with_def pool_key_def)
  have t: "rsTargetItem (rdSpec (sample_read_desire '''' 9)) = rsTargetItem (rdSpec (sample_read_desire '''' 5))"
    by (simp add: sample_read_desire_def)
  obtain r c2 evs2 w' where s: "Manager_SyncOnce (started_manager '''' 5) (pool_key '''')
      (specs_with (sample_read_desire '''' 9)) = ((r, c2, evs2), w')"
    by (metis prod.collapse)
  from manager_keeps_revision [where evs = "[]", simplified, OF sample_start b f t s]
  have "map_option (\<lambda>inst. rkcSpecUpdateTime (riController inst)) (instance_at c2 (pool_key ''''))
      = Some (UpdateTime (sample_read_desire '''' 5))" by auto
  moreover have "UpdateTime (sample_read_desire '''' 5) = 5" by (simp add: sample_read_desire_def)
  ultimately show ?thesis by (simp only: s fst_conv snd_conv)
qed

end
