(* ===== verification/StorageClaims.thy ===== *)
theory StorageClaims
  imports StatusWriter Samples
begin

text \<open>
  The properties of the storage layer: the DynamoDB tables of \<open>internal/database\<close>, the document
  identifiers and their shards, the in-memory table of the tests, and the status writer on them.
  The theorems on tables instantiate the lemmas of the locale \<open>resource_crud\<close> through
  \<open>ad.dyn_resource_crud\<close>.
\<close>

section \<open>Items\<close>

lemma ad_stored_view:
  "ad.stored_view f d = d\<lparr>adSpec := (adSpec d)\<lparr>asServerSideApply :=
     (case f (ApplyDesire_GetSpecKubeContent d) of
        None \<Rightarrow> map_option (\<lambda>c. c\<lparr>ssaKubeContent := None\<rparr>) (asServerSideApply (adSpec d))
      | Some e \<Rightarrow> Some \<lparr>ssaKubeContent = Some e\<rparr>)\<rparr>\<rparr>"
  if "f None = None"
  using that unfolding ad.stored_view_def
  by (auto simp: restore_contents_def ApplyDesire_accessor_def accessor_defs
      ApplyDesire_untagged_def Let_def split: option.split)

text \<open>
  C32: an ApplyDesire that was encoded as a DynamoDB item decodes, and every field comes back as it was
  (the document identifier included, which the marshaller leaves out), except that its content is the
  re-encoded JSON of the one that went in; a second trip through the table changes nothing any more.
\<close>

theorem apply_item_roundtrip:
  assumes "codec_ok ApplyDesire_untagged lib" and "json_ok J"
    and "desireToItem lib J ApplyDesire_accessor d = Inr it"
  shows "\<exists>d'. itemToDesire lib J ApplyDesire_accessor it = Inr d' \<and>
     d'\<lparr>adSpec := (adSpec d')\<lparr>asServerSideApply := None\<rparr>\<rparr> =
       d\<lparr>adSpec := (adSpec d)\<lparr>asServerSideApply := None\<rparr>\<rparr> \<and>
     ApplyDesire_GetSpecKubeContent d' = norm_content J (ApplyDesire_GetSpecKubeContent d) \<and>
     (\<forall>it'. desireToItem lib J ApplyDesire_accessor d' = Inr it' \<longrightarrow>
        itemToDesire lib J ApplyDesire_accessor it' = Inr d')"
proof -
  define v where "v = ad.stored_view (norm_content J) d"
  have v: "v = d\<lparr>adSpec := (adSpec d)\<lparr>asServerSideApply :=
     (case norm_content J (ApplyDesire_GetSpecKubeContent d) of
        None \<Rightarrow> map_option (\<lambda>c. c\<lparr>ssaKubeContent := None\<rparr>) (asServerSideApply (adSpec d))
      | Some e \<Rightarrow> Some \<lparr>ssaKubeContent = Some e\<rparr>)\<rparr>\<rparr>"
    unfolding v_def by (rule ad_stored_view) simp
  have content: "ApplyDesire_GetSpecKubeContent v = norm_content J (ApplyDesire_GetSpecKubeContent d)"
    by (simp add: v ApplyDesire_GetSpecKubeContent_def split: option.split)
  have "ad.stored_view (norm_content J) v = v"
    by (rule ad.stored_view_id)
      (simp_all add: ApplyDesire_accessor_def content norm_content_idem [OF assms(2)]
        ApplyDesire_GetStatusKubeContent_def)
  then have "itemToDesire lib J ApplyDesire_accessor it' = Inr v"
    if "desireToItem lib J ApplyDesire_accessor v = Inr it'" for it'
    using ad.item_roundtrip [OF assms(1,2) that] by simp
  moreover have "itemToDesire lib J ApplyDesire_accessor it = Inr v"
    using ad.item_roundtrip [OF assms] by (simp add: v_def)
  ultimately show ?thesis
    using content by (intro exI [of _ v]) (simp add: v)
qed

definition sample_apply :: "string \<Rightarrow> string \<Rightarrow> ApplyDesire" where
  "sample_apply docID content = zero_ApplyDesire\<lparr>DocumentID := docID,
     adSpec := zero_ApplyDesireSpec\<lparr>asServerSideApply := Some \<lparr>ssaKubeContent = Some \<lparr>Raw = content\<rparr>\<rparr>\<rparr>\<rparr>"

lemma sample_apply_item:
  "\<exists>it. desireToItem sample_codec sample_json ApplyDesire_accessor (sample_apply ''d'' ''{}'') = Inr it"
  by (simp add: desireToItem_def sample_codec_def sample_marshal_def kubeContentAttributeValues_def
      sample_apply_def ApplyDesire_accessor_def accessor_defs rawExtToString_def sample_json_def Let_def)

lemma apply_item_roundtrip_witness:
  "\<exists>it d'. desireToItem sample_codec sample_json ApplyDesire_accessor (sample_apply ''d'' ''{}'') = Inr it \<and>
     itemToDesire sample_codec sample_json ApplyDesire_accessor it = Inr d' \<and> DocumentID d' = ''d''"
proof -
  from sample_apply_item obtain it where
    it: "desireToItem sample_codec sample_json ApplyDesire_accessor (sample_apply ''d'' ''{}'') = Inr it" ..
  from apply_item_roundtrip [OF sample_codec_ok sample_json_ok it] obtain d' where
    dec: "itemToDesire sample_codec sample_json ApplyDesire_accessor it = Inr d'"
    and eq: "d'\<lparr>adSpec := (adSpec d')\<lparr>asServerSideApply := None\<rparr>\<rparr> =
      (sample_apply ''d'' ''{}'')\<lparr>adSpec := (adSpec (sample_apply ''d'' ''{}''))\<lparr>asServerSideApply := None\<rparr>\<rparr>"
    by blast
  from arg_cong [OF eq, of DocumentID] have "DocumentID d' = ''d''" by (simp add: sample_apply_def)
  with it dec show ?thesis by blast
qed

section \<open>Tables\<close>

text \<open>
  C7: two writers that read the same version of a document cannot both replace it: after the first
  replacement the second one returns an error and leaves the table as it is, at every value of the
  64-bit version, so no update is lost.
\<close>

theorem dyn_replace_race:
  assumes "table_ok ApplyDesire_untagged c rows" and "crAcc c = ApplyDesire_accessor"
    and "dyn_inv c rows w"
    and "dyn_Replace c d1 w = (Inr d1', w1)"
    and "DocumentID d2 = DocumentID d1" and "Version d2 = Version d1"
    and "dyn_Replace c d2 w1 = (r, w2)"
  shows "(\<exists>e. r = Inl e) \<and> dyn_docs c rows w2 = dyn_docs c rows w1 \<and>
    Version d1' = Version d1 + 1 \<and>
    (\<exists>d. dyn_docs c rows w1 (DocumentID d1) = Some d \<and> Version d = Version d1')"
proof -
  note crud = ad.dyn_resource_crud [OF assms(1,2)]
  have "replaced d1 d1' \<and> dyn_docs c rows w1 = (dyn_docs c rows w)(DocumentID d1 \<mapsto> ad.dyn_norm c d1')"
    using resource_crud.replace_ok [OF crud assms(3,4)] by simp
  with resource_crud.replace_race [OF crud assms(3-7)] show ?thesis by auto
qed

lemma sample_created:
  obtains d' w where "dyn_Create sample_crud (sample_apply ''d'' ''{}'') empty_memdb = (Inr d', w)"
    and "DocumentID d' = ''d''" and "Version d' = 1" and "dyn_inv sample_crud sample_rows w"
    and "sample_rows w ''d'' \<noteq> None"
proof -
  define d' where "d' = (sample_apply ''d'' ''{}'')\<lparr>Version := 1, UpdateTime := 100, CreateTime := 100\<rparr>"
  obtain it where it: "desireToItem sample_codec sample_json ApplyDesire_accessor d' = Inr it"
    by (simp add: desireToItem_def sample_codec_def sample_marshal_def kubeContentAttributeValues_def
      sample_apply_def ApplyDesire_accessor_def accessor_defs rawExtToString_def sample_json_def Let_def d'_def)
  from desireToItem_attributes(1) [OF sample_codec_ok it] have id: "it attributeDocumentID = Some (AV_S ''d'')"
    by (simp add: d'_def sample_apply_def)
  define w where "w = \<lparr>mdRows = [(''status-applydesires'', ''d'', it)], mdClock = 101\<rparr>"
  have doc: "DocumentID (sample_apply ''d'' ''{}'') = ''d''" by (simp add: sample_apply_def)
  have cr: "dyn_Create sample_crud (sample_apply ''d'' ''{}'') empty_memdb = (Inr d', w)"
    using it id
    by (simp add: dyn_Create_def doc sample_crud_def mem_client_def empty_memdb_def d'_def [symmetric]
        Let_def mem_rows_def mem_table_def w_def)
  have "dyn_inv sample_crud sample_rows w"
    using dyn.inv_ops(2) [OF empty_memdb_inv, of "sample_apply ''d'' ''{}''"] cr by simp
  then show ?thesis
    using cr by (intro that [of d' w]) (simp_all add: d'_def doc w_def mem_rows_def mem_table_def)
qed

lemma sample_get:
  assumes "dyn_inv sample_crud sample_rows w" and "sample_rows w k \<noteq> None"
  shows "\<exists>d. dyn_Get sample_crud k w = (Inr d, w)"
proof -
  from assms(2) obtain it where it: "sample_rows w k = Some it" by blast
  then have g: "dc_GetItem (crClient sample_crud) (crTable sample_crud) k w = (Inr (Some it), w)"
    by (simp add: sample_crud_def mem_client_def)
  show ?thesis
  proof (rule ad.dyn_docs_row [where c = sample_crud and rows = sample_rows, OF sample_crud_ok
        sample_crud_acc assms(1) it])
    fix d
    assume "itemToDesire (crCodec sample_crud) (crJson sample_crud) (crAcc sample_crud) it =
      Inr (ad.dyn_norm sample_crud d)"
    with g show ?thesis by (simp add: dyn_Get_def)
  qed
qed

lemma sample_replaced:
  assumes "dyn_inv sample_crud sample_rows w" and "sample_rows w ''d'' \<noteq> None"
    and "DocumentID d = ''d''" and "holds_version (dyn_docs sample_crud sample_rows w ''d'') (Version d)"
    and "\<exists>c. adSpec d = adSpec (sample_apply ''d'' c) \<and> c \<noteq> ''''"
  obtains d' w' where "dyn_Replace sample_crud d w = (Inr d', w')"
proof -
  define d' where "d' = d\<lparr>Version := Version d + 1, UpdateTime := mdClock w\<rparr>"
  obtain it where it: "desireToItem sample_codec sample_json ApplyDesire_accessor d' = Inr it"
    using assms(5) by (auto simp: desireToItem_def sample_codec_def sample_marshal_def
      kubeContentAttributeValues_def sample_apply_def ApplyDesire_accessor_def accessor_defs
      rawExtToString_def sample_json_def Let_def d'_def)
  from desireToItem_attributes(1) [OF sample_codec_ok it] assms(3)
  have id: "it attributeDocumentID = Some (AV_S ''d'')" by (simp add: d'_def)
  have "put_allowed (AttributeEquals ''version'' (AV_N (show_int (sint (Version d))))) (sample_rows w ''d'')"
    using ad.put_allowed_version [OF sample_crud_ok sample_crud_acc assms(1)] assms(4) by simp
  then have "\<exists>w'. dyn_Replace sample_crud d w = (Inr d', w')"
    using it id by (auto simp: dyn_Replace_def sample_crud_def mem_client_def Let_def d'_def [symmetric]
        mem_rows_def mem_table_def)
  with that show ?thesis by blast
qed

lemma dyn_replace_race_witness:
  "\<exists>d1 d2 d1' w w1. dyn_inv sample_crud sample_rows w \<and>
     dyn_Replace sample_crud d1 w = (Inr d1', w1) \<and> d1 \<noteq> d2 \<and> Version d2 = Version d1 \<and>
     (\<exists>e. fst (dyn_Replace sample_crud d2 w1) = Inl e)"
proof -
  obtain d w where cr: "dyn_Create sample_crud (sample_apply ''d'' ''{}'') empty_memdb = (Inr d, w)"
    and d: "DocumentID d = ''d''" "Version d = 1" and w: "dyn_inv sample_crud sample_rows w"
      "sample_rows w ''d'' \<noteq> None"
    by (rule sample_created)
  note made = dyn.create_ok [OF empty_memdb_inv cr]
  define d1 where "d1 = (sample_apply ''d'' ''1'')\<lparr>Version := 1\<rparr>"
  define d2 where "d2 = (sample_apply ''d'' ''2'')\<lparr>Version := 1\<rparr>"
  have "holds_version (dyn_docs sample_crud sample_rows w ''d'') (Version d1)"
    using made d by (auto simp: holds_version_def d1_def sample_apply_def dyn.norm_meta)
  then obtain d1' w1 where r: "dyn_Replace sample_crud d1 w = (Inr d1', w1)"
    using sample_replaced [OF w, of d1] by (auto simp: d1_def sample_apply_def)
  have same: "DocumentID d2 = DocumentID d1" "Version d2 = Version d1" "d1 \<noteq> d2"
    by (simp_all add: d1_def d2_def sample_apply_def zero_ApplyDesire_def zero_ApplyDesireSpec_def)
  obtain r2 w2 where r2: "dyn_Replace sample_crud d2 w1 = (r2, w2)" by fastforce
  from dyn_replace_race [OF sample_crud_ok sample_crud_acc w(1) r same(1,2) r2] have "\<exists>e. r2 = Inl e" ..
  with r r2 same w(1) show ?thesis by (metis fst_conv)
qed

text \<open>
  A document that was created is there: a later read that answers gives the document that the
  call returned, at version 1 and with its content re-encoded, and a second creation under the same
  identifier fails and changes nothing.
\<close>

theorem dyn_create_then_get:
  assumes "table_ok ApplyDesire_untagged c rows" and "crAcc c = ApplyDesire_accessor"
    and "dyn_inv c rows w" and "dyn_Create c d w = (Inr d', w1)"
  shows "(\<forall>d'' w2. dyn_Get c (DocumentID d) w1 = (Inr d'', w2) \<longrightarrow>
            d'' = ad.stored_view (norm_content (crJson c)) d' \<and> Version d'' = 1) \<and>
    (\<forall>e. DocumentID e = DocumentID d \<longrightarrow>
       (\<exists>err. fst (dyn_Create c e w1) = Inl err) \<and>
       dyn_docs c rows (snd (dyn_Create c e w1)) = dyn_docs c rows w1)"
proof (intro conjI allI impI)
  note crud = ad.dyn_resource_crud [OF assms(1,2)]
  note made = resource_crud.create_ok [OF crud assms(3,4)]
  note w1 = resource_crud.inv_ops(2) [OF crud assms(3), of d, unfolded assms(4) snd_conv]
  fix d'' w2 assume "dyn_Get c (DocumentID d) w1 = (Inr d'', w2)"
  from resource_crud.create_then_get [OF crud assms(3,4) this]
  show "d'' = ad.stored_view (norm_content (crJson c)) d'" "Version d'' = 1" by blast+
next
  note crud = ad.dyn_resource_crud [OF assms(1,2)]
  note made = resource_crud.create_ok [OF crud assms(3,4)]
  note w1 = resource_crud.inv_ops(2) [OF crud assms(3), of d, unfolded assms(4) snd_conv]
  fix e :: ApplyDesire assume id: "DocumentID e = DocumentID d"
  from resource_crud.create_twice [OF crud assms(3,4) id]
  obtain err where "fst (dyn_Create c e w1) = Inl err" by blast
  then have err: "dyn_Create c e w1 = (Inl err, snd (dyn_Create c e w1))" by (metis prod.collapse)
  then show "\<exists>err. fst (dyn_Create c e w1) = Inl err" by (metis fst_conv)
  from resource_crud.create_err [OF crud w1 err] made id
  show "dyn_docs c rows (snd (dyn_Create c e w1)) = dyn_docs c rows w1" by auto
qed

lemma dyn_create_then_get_witness:
  "\<exists>d' w1. dyn_Create sample_crud (sample_apply ''d'' ''{}'') empty_memdb = (Inr d', w1) \<and>
     (\<exists>d'' w2. dyn_Get sample_crud ''d'' w1 = (Inr d'', w2) \<and> Version d'' = 1)"
proof -
  obtain d w where cr: "dyn_Create sample_crud (sample_apply ''d'' ''{}'') empty_memdb = (Inr d, w)"
    and w: "dyn_inv sample_crud sample_rows w" "sample_rows w ''d'' \<noteq> None"
    by (rule sample_created)
  from sample_get [OF w] obtain d'' where g: "dyn_Get sample_crud ''d'' w = (Inr d'', w)" ..
  have "DocumentID (sample_apply ''d'' ''{}'') = ''d''" by (simp add: sample_apply_def)
  with dyn_create_then_get [OF sample_crud_ok sample_crud_acc empty_memdb_inv cr] g
  have "Version d'' = 1" by metis
  with cr g show ?thesis by blast
qed

text \<open>
  C34: listing a table ends, whatever the number of pages; when no request fails it returns every
  document of the table exactly once and nothing else, each as a read of its identifier returns it.
\<close>

theorem dyn_list_complete:
  assumes "table_ok ApplyDesire_untagged c rows" and "crAcc c = ApplyDesire_accessor"
    and "dyn_inv c rows w" and "scan_ok (crClient c) (crTable c) remaining"
    and "distinct ks" and "set ks = dom (rows w)" and "remaining w None = map (\<lambda>k. the (rows w k)) ks"
  shows "\<exists>r w'. dyn_List c w = Some (r, w') \<and>
     (\<forall>ds. r = Inr ds \<longrightarrow> distinct (map DocumentID ds) \<and>
        (\<forall>k d. d \<in> set ds \<and> DocumentID d = k \<longleftrightarrow> dyn_docs c rows w k = Some d))"
proof -
  from ad.dyn_List_documents [OF assms] obtain r w' where l: "dyn_List c w = Some (r, w')"
    and ds: "\<And>ds. r = Inr ds \<Longrightarrow> map DocumentID ds = ks \<and>
        (\<forall>d. d \<in> set ds \<longleftrightarrow> dyn_docs c rows w (DocumentID d) = Some d)" by blast
  have key: "dyn_docs c rows w k = Some d \<Longrightarrow> DocumentID d = k" for k d
    by (rule resource_crud.docs_key [OF ad.dyn_resource_crud [OF assms(1,2)] assms(3)])
  have "distinct (map DocumentID ds) \<and>
      (\<forall>k d. d \<in> set ds \<and> DocumentID d = k \<longleftrightarrow> dyn_docs c rows w k = Some d)" if "r = Inr ds" for ds
  proof (intro conjI allI)
    note all = ds [OF that]
    show "distinct (map DocumentID ds)" using all assms(5) by simp
    fix k d
    show "d \<in> set ds \<and> DocumentID d = k \<longleftrightarrow> dyn_docs c rows w k = Some d"
      using all key [of k d] by metis
  qed
  with l show ?thesis by blast
qed

lemma dyn_list_complete_witness:
  "\<exists>d w r w'. dyn_Create sample_crud (sample_apply ''d'' ''{}'') empty_memdb = (Inr d, w) \<and>
     dyn_List sample_crud w = Some (r, w')"
proof -
  obtain d w where cr: "dyn_Create sample_crud (sample_apply ''d'' ''{}'') empty_memdb = (Inr d, w)"
    and w: "dyn_inv sample_crud sample_rows w" "sample_rows w ''d'' \<noteq> None"
    by (rule sample_created)
  from cr have "\<exists>it. mdRows w = [(''status-applydesires'', ''d'', it)]"
    by (auto simp: dyn_Create_def sample_apply_def sample_crud_def mem_client_def empty_memdb_def Let_def
        mem_rows_def mem_table_def split: sum.splits option.splits AttributeValue.splits if_splits
        dest!: desireToItem_attributes(1) [OF sample_codec_ok])
  then obtain it where it: "mdRows w = [(''status-applydesires'', ''d'', it)]" ..
  have s: "scan_ok (crClient sample_crud) (crTable sample_crud)
      (\<lambda>w start. map snd (drop (mem_start start) (mem_table ''status-applydesires'' w)))"
    using mem_client_scan by (simp add: sample_crud_def)
  from dyn_list_complete [OF sample_crud_ok sample_crud_acc w(1) s, of "[''d'']"] it
  obtain r w' where "dyn_List sample_crud w = Some (r, w')"
    by (auto simp: mem_rows_def mem_table_def mem_start_def)
  with cr show ?thesis by blast
qed

section \<open>Status writes\<close>



section \<open>Identifiers and shards\<close>

text \<open>
  The document identifier of a target is determined by it and determines it: provided the hash
  does not collide on the two inputs, two targets whose first five components hold no slash get the
  same identifier exactly when they and their task keys are the same.
\<close>

theorem document_id_injective:
  assumes "\<forall>s \<in> {k, g, v, r, n, k', g', v', r', n'}. slash_free s"
    and "\<And>a b. hash NamespaceUUID a = hash NamespaceUUID b \<Longrightarrow> a = b"
  shows "NewDocumentID hash k g v r n m = NewDocumentID hash k' g' v' r' n' m' \<longleftrightarrow>
    k = k' \<and> g = g' \<and> v = v' \<and> r = r' \<and> n = n' \<and> m = m'"
  using documentIDInput_inject [OF assms(1)] assms(2) unfolding NewDocumentID_def by blast

lemma document_id_injective_witness:
  "NewDocumentID (\<lambda>ns s. ns @ s) ''apply'' '''' ''v1'' ''pods'' ''ns'' ''a/b'' \<noteq>
   NewDocumentID (\<lambda>ns s. ns @ s) ''read'' '''' ''v1'' ''pods'' ''ns'' ''a/b''"
proof -
  have "\<forall>s \<in> {''apply'', '''', ''v1'', ''pods'', ''ns'', ''read'', '''', ''v1'', ''pods'', ''ns''}. slash_free s"
    by (simp add: slash_free_def)
  from document_id_injective [OF this, where hash = "\<lambda>ns s. ns @ s"] show ?thesis by simp
qed

text \<open>
  Every item that the code writes can be found by the fast poll: its shard attribute is one of the
  \<open>GSIShardCount\<close> buckets that the poll queries, and is a function of the document identifier.
\<close>

theorem item_shard_queried:
  assumes "codec_ok untagged lib" and "desireToItem lib J acc d = Inr it"
  shows "\<exists>s < GSIShardCount. it ''shard'' = Some (AV_S (show_nat s)) \<and>
    show_nat s = ComputeShard (DocumentID d) 0"
proof -
  have "ComputeShardDefault (DocumentID d) \<in> show_nat ` {0..<GSIShardCount}"
    unfolding ComputeShardDefault_def by (rule ComputeShard_bucket) (simp add: GSIShardCount_def)
  then obtain s where "s < GSIShardCount" "ComputeShardDefault (DocumentID d) = show_nat s" by auto
  with desireToItem_attributes(2) [OF assms] ComputeShard_default_count [of 0 "DocumentID d"]
  show ?thesis by (intro exI [of _ s]) simp
qed

lemma item_shard_queried_witness:
  "\<exists>it s. desireToItem sample_codec sample_json ApplyDesire_accessor (sample_apply ''d'' ''{}'') = Inr it \<and>
     s < GSIShardCount \<and> it ''shard'' = Some (AV_S (show_nat s))"
  using sample_apply_item item_shard_queried [OF sample_codec_ok] by blast

section \<open>The in-memory table\<close>

text \<open>
  The in-memory \<open>List\<close> returns every stored document exactly once, ordered by document identifier,
  and leaves the table as it is.
\<close>

theorem fake_list_documents:
  assumes "fake_inv f"
  shows "\<exists>ds. fake_List f = (Inr ds, f) \<and> sorted (map DocumentID ds) \<and> distinct (map DocumentID ds) \<and>
     (\<forall>d. d \<in> set ds \<longleftrightarrow> fake_docs f (DocumentID d) = Some d)"
proof -
  from fake_List_sorted [OF assms] obtain ds where "fake_List f = (Inr ds, f)"
    and "map DocumentID ds = sort (map fst (fkStore f))"
    and "\<forall>d. d \<in> set ds \<longleftrightarrow> fake_docs f (DocumentID d) = Some d" by blast
  with assms show ?thesis by (auto simp: fake_inv_def)
qed

lemma fake_list_documents_witness:
  "\<exists>ds. fake_List (snd (fake_Create (sample_apply ''b'' '''') (snd (fake_Create (sample_apply ''a'' '''') NewFakeCRUD))))
     = (Inr ds, snd (fake_Create (sample_apply ''b'' '''') (snd (fake_Create (sample_apply ''a'' '''') NewFakeCRUD))))
     \<and> sorted (map DocumentID ds)"
  using fake_list_documents [OF fake_inv_Create [OF fake_inv_Create [OF fake_inv_new]]] by blast

text \<open>
  The in-memory table of the tests does not answer like DynamoDB where the document is missing:
  its \<open>Replace\<close> reports not found and its \<open>Delete\<close> fails, while on DynamoDB no error of \<open>Replace\<close> is a
  not-found error (a missing document is a failed precondition) and \<open>Delete\<close> never reports not found.
\<close>

theorem fake_differs_when_missing:
  assumes "table_ok ApplyDesire_untagged c rows" and "crAcc c = ApplyDesire_accessor"
    and "dyn_inv c rows w" and "dyn_docs c rows w (DocumentID d) = None"
    and "fake_docs f (DocumentID d) = None"
  shows "fake_Replace d f = (Inl ErrNotFound, f) \<and> fake_Delete (DocumentID d) f = (Some ErrNotFound, f) \<and>
    (\<exists>e. fst (dyn_Replace c d w) = Inl e \<and> \<not> IsNotFoundError e) \<and>
    (\<forall>e. fst (dyn_Delete c (DocumentID d) w) = Some e \<longrightarrow> \<not> IsNotFoundError e)"
proof (intro conjI allI impI)
  show "fake_Replace d f = (Inl ErrNotFound, f)" "fake_Delete (DocumentID d) f = (Some ErrNotFound, f)"
    using assms(5) by (simp_all add: fake_Replace_def fake_Delete_def fake_docs_def)
next
  note crud = ad.dyn_resource_crud [OF assms(1,2)]
  obtain r w' where r: "dyn_Replace c d w = (r, w')" by fastforce
  show "\<exists>e. fst (dyn_Replace c d w) = Inl e \<and> \<not> IsNotFoundError e"
  proof (cases r)
    case (Inr d')
    with resource_crud.replace_ok [OF crud assms(3), of d d' w'] r assms(4) show ?thesis
      by (simp add: holds_version_def)
  next
    case (Inl e)
    with r dyn_Replace_not_found [OF assms(1), of d w e w'] show ?thesis by simp
  qed
next
  fix e assume "fst (dyn_Delete c (DocumentID d) w) = Some e"
  then have "dyn_Delete c (DocumentID d) w = (Some e, snd (dyn_Delete c (DocumentID d) w))"
    by (metis prod.collapse)
  from dyn_Delete_not_found [OF assms(1) this] show "\<not> IsNotFoundError e" .
qed

lemma fake_differs_when_missing_witness:
  "fake_Replace (sample_apply ''d'' ''{}'') NewFakeCRUD = (Inl ErrNotFound, NewFakeCRUD) \<and>
   (\<exists>e. fst (dyn_Replace sample_crud (sample_apply ''d'' ''{}'') empty_memdb) = Inl e \<and> \<not> IsNotFoundError e)"
proof -
  have "dyn_docs sample_crud sample_rows empty_memdb k = None"
    "fake_docs (NewFakeCRUD :: ApplyDesire FakeCRUD) k = None" for k
    by (simp_all add: dyn_docs_def mem_rows_def mem_table_def empty_memdb_def fake_docs_def NewFakeCRUD_def)
  from fake_differs_when_missing [where rows = sample_rows and c = sample_crud, OF sample_crud_ok
      sample_crud_acc empty_memdb_inv this] show ?thesis by blast
qed

end
