(* ===== verification/DbClient.thy ===== *)
theory DbClient
  imports StatusWriter
begin

text \<open>
  The interface \<open>KubeApplierDBClient\<close> of \<open>internal/database/types.go\<close> as a record of its tables, the
  in-memory client of \<open>listertesting/fake_client.go\<close> and the one on DynamoDB of \<open>client.go\<close>. What a
  client with write access to the desires relies on is the locale \<open>desire_tables\<close>: the two tables keep
  the contract of \<open>ResourceCRUD\<close> and are apart from each other.
\<close>

section \<open>The interface\<close>

record ('w, 'd) spec_reader =
  srGet :: "string \<Rightarrow> 'w \<Rightarrow> (go_error + 'd) \<times> 'w"
  srList :: "'w \<Rightarrow> ((go_error + 'd list) \<times> 'w) option"

record 'w KubeApplierDBClient =
  dbApplySpecs :: "('w, ApplyDesire) spec_reader"
  dbReadSpecs :: "('w, ReadDesire) spec_reader"
  dbApplyStatus :: "('w, ApplyDesire) crud_ops"
  dbReadStatus :: "('w, ReadDesire) crud_ops"

section \<open>DynamoDB\<close>

definition dyn_reader ::
  "('w, 'a DynamoDBMetadata_scheme) dynamoDBDesireCRUD \<Rightarrow> ('w, 'a DynamoDBMetadata_scheme) spec_reader" where
  "dyn_reader r = \<lparr>srGet = specReader_Get r, srList = specReader_List r\<rparr>"

text \<open>\<open>NewDynamoDBKubeApplierDBClient\<close>, seen through the interface.\<close>

definition dynamo_db :: "'w dynamoDBKubeApplierDBClient \<Rightarrow> 'w KubeApplierDBClient" where
  "dynamo_db c = \<lparr>dbApplySpecs = dyn_reader (ApplyDesireSpecs c), dbReadSpecs = dyn_reader (ReadDesireSpecs c),
     dbApplyStatus = dyn_ops (ApplyDesireStatusTable c), dbReadStatus = dyn_ops (ReadDesireStatusTable c)\<rparr>"

section \<open>In memory\<close>

record FakeKubeApplierDBClient =
  fcApplySpecs :: "ApplyDesire FakeCRUD"
  fcReadSpecs :: "ReadDesire FakeCRUD"
  fcApplyStatus :: "ApplyDesire FakeCRUD"
  fcReadStatus :: "ReadDesire FakeCRUD"

definition NewFakeKubeApplierDBClient :: FakeKubeApplierDBClient where
  "NewFakeKubeApplierDBClient = \<lparr>fcApplySpecs = NewFakeCRUD, fcReadSpecs = NewFakeCRUD,
     fcApplyStatus = NewFakeCRUD, fcReadStatus = NewFakeCRUD\<rparr>"

definition fake_reader ::
  "('v \<Rightarrow> 'd FakeCRUD) \<Rightarrow> ('d FakeCRUD \<Rightarrow> 'v \<Rightarrow> 'v) \<Rightarrow> ('v, 'd) spec_reader" where
  "fake_reader get put = \<lparr>srGet = (\<lambda>k. zoom get put (fake_Get k)), srList = (\<lambda>v. Some (zoom get put fake_List v))\<rparr>"

abbreviation put_apply_status :: "ApplyDesire FakeCRUD \<Rightarrow> FakeKubeApplierDBClient \<Rightarrow> FakeKubeApplierDBClient" where
  "put_apply_status t w \<equiv> w\<lparr>fcApplyStatus := t\<rparr>"
abbreviation put_read_status :: "ReadDesire FakeCRUD \<Rightarrow> FakeKubeApplierDBClient \<Rightarrow> FakeKubeApplierDBClient" where
  "put_read_status t w \<equiv> w\<lparr>fcReadStatus := t\<rparr>"

definition fake_db :: "FakeKubeApplierDBClient KubeApplierDBClient" where
  "fake_db = \<lparr>dbApplySpecs = fake_reader fcApplySpecs (\<lambda>t w. w\<lparr>fcApplySpecs := t\<rparr>),
     dbReadSpecs = fake_reader fcReadSpecs (\<lambda>t w. w\<lparr>fcReadSpecs := t\<rparr>),
     dbApplyStatus = zoom_ops fcApplyStatus put_apply_status fake_ops,
     dbReadStatus = zoom_ops fcReadStatus put_read_status fake_ops\<rparr>"

section \<open>The contract of a pair of tables\<close>

definition ops_frame :: "('w \<Rightarrow> bool) \<Rightarrow> ('w \<Rightarrow> 'v) \<Rightarrow> ('w, 'd) crud_ops \<Rightarrow> bool" where
  "ops_frame I view ops \<longleftrightarrow> (\<forall>w. I w \<longrightarrow>
     (\<forall>k. I (snd (opGet ops k w)) \<and> view (snd (opGet ops k w)) = view w) \<and>
     (\<forall>d. I (snd (opCreate ops d w)) \<and> view (snd (opCreate ops d w)) = view w) \<and>
     (\<forall>d. I (snd (opReplace ops d w)) \<and> view (snd (opReplace ops d w)) = view w) \<and>
     (\<forall>k. I (snd (opDelete ops k w)) \<and> view (snd (opDelete ops k w)) = view w))"

locale desire_tables =
  fixes I :: "'w \<Rightarrow> bool"
    and adocs :: "'w \<Rightarrow> string \<Rightarrow> ApplyDesire option"
    and rdocs :: "'w \<Rightarrow> string \<Rightarrow> ReadDesire option"
    and N :: "ApplyDesire \<Rightarrow> ApplyDesire"
    and M :: "ReadDesire \<Rightarrow> ReadDesire"
    and db :: "'w KubeApplierDBClient"
  assumes apply_contract: "crud_contract I adocs N (dbApplyStatus db)"
    and read_contract: "crud_contract I rdocs M (dbReadStatus db)"
    and apply_frame: "ops_frame I rdocs (dbApplyStatus db)"
    and read_frame: "ops_frame I adocs (dbReadStatus db)"
begin

lemmas apply_crud = apply_contract [unfolded crud_contract_def]
lemmas read_crud = read_contract [unfolded crud_contract_def]

lemmas apply_inv = resource_crud.inv_ops [OF apply_crud]
lemmas apply_get = resource_crud.get_ok [OF apply_crud] resource_crud.get_docs [OF apply_crud]
lemmas apply_writes = resource_crud.create_ok [OF apply_crud] resource_crud.replace_ok [OF apply_crud]

lemma read_keeps:
  "I w \<Longrightarrow> I (snd (opDelete (dbReadStatus db) k w))"
  "I w \<Longrightarrow> adocs (snd (opDelete (dbReadStatus db) k w)) = adocs w"
  using read_frame by (auto simp: ops_frame_def)

end

text \<open>An invariant that the operations keep may be added to a contract.\<close>

lemma crud_contract_and:
  assumes "crud_contract I docs N ops" and "ops_frame (\<lambda>w. I w \<and> J w) view ops"
  shows "crud_contract (\<lambda>w. I w \<and> J w) docs N ops"
proof -
  note C = assms(1) [unfolded crud_contract_def]
  have keep: "I w \<Longrightarrow> J w \<Longrightarrow> J (snd (opGet ops k w))" "I w \<Longrightarrow> J w \<Longrightarrow> J (snd (opCreate ops d w))"
    "I w \<Longrightarrow> J w \<Longrightarrow> J (snd (opReplace ops d w))" "I w \<Longrightarrow> J w \<Longrightarrow> J (snd (opDelete ops k w))" for w k d
    using assms(2) by (simp_all add: ops_frame_def)
  note meta = resource_crud.norm_meta [OF C] and key = resource_crud.docs_key [OF C]
    and ops = resource_crud.inv_ops [OF C] and docs = resource_crud.get_docs [OF C]
    and get1 = resource_crud.get_ok [OF C] and get2 = resource_crud.get_not_found [OF C]
    and cr1 = resource_crud.create_ok [OF C] and cr2 = resource_crud.create_exists [OF C]
    and cr3 = resource_crud.create_err [OF C] and rp1 = resource_crud.replace_ok [OF C]
    and rp2 = resource_crud.replace_conflict [OF C] and rp3 = resource_crud.replace_err [OF C]
    and dl1 = resource_crud.delete_ok [OF C] and dl2 = resource_crud.delete_err [OF C]
    and dl3 = resource_crud.delete_not_found [OF C]
  show ?thesis
    unfolding crud_contract_def
    by unfold_locales
      ((simp_all only: meta ops docs keep simp_thms)?,
       (elim conjE,
        (erule (1) key | erule (1) get1 | erule (2) get2 | erule (1) cr1 | erule (2) cr2 | erule (1) cr3 |
         erule (1) rp1 | erule (2) rp2 | erule (1) rp3 | erule (1) dl1 | erule (1) dl2 | erule (2) dl3))+)
qed

lemma fake_ops_inv: "fake_inv w \<Longrightarrow> fake_inv (snd (opGet fake_ops k w))"
  "fake_inv w \<Longrightarrow> fake_inv (snd (opCreate fake_ops d w))"
  "fake_inv w \<Longrightarrow> fake_inv (snd (opReplace fake_ops d w))"
  "fake_inv w \<Longrightarrow> fake_inv (snd (opDelete fake_ops k w))"
  by (simp_all add: fake_ops_def fake.inv_ops)

interpretation fake_tables: desire_tables
  "\<lambda>w. (fake_inv \<circ> fcApplyStatus) w \<and> (fake_inv \<circ> fcReadStatus) w"
  "fake_docs \<circ> fcApplyStatus" "fake_docs \<circ> fcReadStatus" "\<lambda>d. d" "\<lambda>d. d" fake_db
proof unfold_locales
  let ?A = "fake_inv \<circ> fcApplyStatus" and ?R = "fake_inv \<circ> fcReadStatus"
  have a: "dbApplyStatus fake_db = zoom_ops fcApplyStatus put_apply_status fake_ops"
    and r: "dbReadStatus fake_db = zoom_ops fcReadStatus put_read_status fake_ops" by (simp_all add: fake_db_def)
  note z = zoom_ops_def zoom_snd fake_ops_inv
  show fa: "ops_frame (\<lambda>w. ?A w \<and> ?R w) (fake_docs \<circ> fcReadStatus) (dbApplyStatus fake_db)"
    by (simp add: ops_frame_def a z)
  show fr: "ops_frame (\<lambda>w. ?A w \<and> ?R w) (fake_docs \<circ> fcApplyStatus) (dbReadStatus fake_db)"
    by (simp add: ops_frame_def r z)
  have "crud_contract ?A (fake_docs \<circ> fcApplyStatus) (\<lambda>d. d) (dbApplyStatus fake_db)"
    unfolding a by (rule zoom_contract [OF fake_contract]) simp
  from crud_contract_and [OF this fa]
  show "crud_contract (\<lambda>w. ?A w \<and> ?R w) (fake_docs \<circ> fcApplyStatus) (\<lambda>d. d) (dbApplyStatus fake_db)" .
  have "crud_contract ?R (fake_docs \<circ> fcReadStatus) (\<lambda>d. d) (dbReadStatus fake_db)"
    unfolding r by (rule zoom_contract [OF fake_contract]) simp
  from crud_contract_and [OF this, of ?A] fr
  show "crud_contract (\<lambda>w. ?A w \<and> ?R w) (fake_docs \<circ> fcReadStatus) (\<lambda>d. d) (dbReadStatus fake_db)"
    by (simp only: conj_commute) 
qed

text \<open>
  On DynamoDB, where each table is laid out as \<open>table_ok\<close> says and the requests on one table leave the
  rows of the other as they are.
\<close>

lemma dynamo_tables:
  fixes arows rrows and c :: "'w dynamoDBKubeApplierDBClient"
  defines "A \<equiv> ApplyDesireStatusTable c" and "R \<equiv> ReadDesireStatusTable c"
  assumes "table_ok ApplyDesire_untagged A arows" and "table_ok ReadDesire_untagged R rrows"
    and a: "ops_frame (\<lambda>w. dyn_inv A arows w \<and> dyn_inv R rrows w) (dyn_docs R rrows) (dyn_ops A)"
    and r: "ops_frame (\<lambda>w. dyn_inv A arows w \<and> dyn_inv R rrows w) (dyn_docs A arows) (dyn_ops R)"
  shows "desire_tables (\<lambda>w. dyn_inv A arows w \<and> dyn_inv R rrows w)
     (dyn_docs A arows) (dyn_docs R rrows) (ad.dyn_norm A) (rd.dyn_norm R) (dynamo_db c)"
proof
  have acc: "crAcc A = ApplyDesire_accessor" "crAcc R = ReadDesire_accessor"
    by (simp_all add: A_def R_def db_client_defs)
  have db: "dbApplyStatus (dynamo_db c) = dyn_ops A" "dbReadStatus (dynamo_db c) = dyn_ops R"
    by (simp_all add: dynamo_db_def A_def R_def)
  show "crud_contract (\<lambda>w. dyn_inv A arows w \<and> dyn_inv R rrows w) (dyn_docs A arows) (ad.dyn_norm A)
      (dbApplyStatus (dynamo_db c))"
    unfolding db by (rule crud_contract_and [OF ad.dyn_contract [OF assms(3) acc(1)] a])
  from crud_contract_and [OF rd.dyn_contract [OF assms(4) acc(2)], of "dyn_inv A arows"] r
  show "crud_contract (\<lambda>w. dyn_inv A arows w \<and> dyn_inv R rrows w) (dyn_docs R rrows) (rd.dyn_norm R)
      (dbReadStatus (dynamo_db c))"
    unfolding db by (simp only: conj_commute)
qed (simp_all add: dynamo_db_def a [unfolded A_def R_def] r [unfolded A_def R_def] A_def R_def)

end
