(* ===== verification/CliResources.thy ===== *)
theory CliResources
  imports StatusWriter ShardId
begin

text \<open>
  The pure parts of the command line client \<open>cmd/desirectl\<close>: resource types
  (\<open>resource_types.go\<close>), manifests (\<open>helpers.go\<close>) and what it uses of Go's \<open>strings\<close>, \<open>bytes\<close> and
  \<open>path/filepath\<close> on byte strings. The JSON library is the parameter \<open>json_lib\<close>; the file system is the
  parameter \<open>file_system\<close>.
\<close>

section \<open>Strings\<close>

definition lower_char :: "char \<Rightarrow> char" where
  "lower_char c = (let n = (of_char c :: nat) in if 65 \<le> n \<and> n \<le> 90 then char_of (n + 32) else c)"

text \<open>
  A map of runes: the listed encodings become one byte, an ASCII letter its lower case. Other runes are
  left alone: no other rune maps to ASCII, and the results are only compared with ASCII names.
\<close>

function map_runes :: "(string \<times> char) list \<Rightarrow> string \<Rightarrow> string" where
  "map_runes special s =
     (case s of
        [] \<Rightarrow> []
      | c # cs \<Rightarrow>
          (case find (\<lambda>(r, x). r \<noteq> [] \<and> take (length r) s = r) special of
             Some (r, x) \<Rightarrow> x # map_runes special (drop (length r - 1) cs)
           | None \<Rightarrow> lower_char c # map_runes special cs))"
  by pat_completeness auto
termination by (relation "measure (\<lambda>(special, s). length s)") auto

declare map_runes.simps [simp del]

text \<open>\<open>strings.ToLower\<close> also sends the Kelvin sign to k and the dotted capital I to i.\<close>

definition ToLower :: "string \<Rightarrow> string" where
  "ToLower = map_runes [([CHR 0xE2, CHR 0x84, CHR 0xAA], CHR ''k''), ([CHR 0xC4, CHR 0xB0], CHR ''i'')]"

text \<open>\<open>strings.EqualFold\<close>: simple folding identifies the Kelvin sign with k and the long s with s.\<close>

definition fold_case :: "string \<Rightarrow> string" where
  "fold_case = map_runes [([CHR 0xE2, CHR 0x84, CHR 0xAA], CHR ''k''), ([CHR 0xC5, CHR 0xBF], CHR ''s'')]"

definition EqualFold :: "string \<Rightarrow> string \<Rightarrow> bool" where
  "EqualFold s t = (fold_case s = fold_case t)"

definition has_suffix :: "string \<Rightarrow> string \<Rightarrow> bool" where
  "has_suffix s suf = (length suf \<le> length s \<and> drop (length s - length suf) s = suf)"

definition TrimSuffix :: "string \<Rightarrow> string \<Rightarrow> string" where
  "TrimSuffix s suf = (if has_suffix s suf then take (length s - length suf) s else s)"

text \<open>\<open>%q\<close>: escapes of the ASCII bytes; the other bytes are left as they are, as for printable runes.\<close>

definition hex_char :: "nat \<Rightarrow> char" where
  "hex_char n = (if n < 10 then char_of (48 + n) else char_of (87 + n))"

definition quote_char :: "char \<Rightarrow> string" where
  "quote_char c =
     (let n = (of_char c :: nat) in
      if c = CHR 0x22 \<or> c = CHR 0x5C then [CHR 0x5C, c]
      else if n = 7 then CHR 0x5C # ''a'' else if n = 8 then CHR 0x5C # ''b''
      else if n = 9 then CHR 0x5C # ''t'' else if n = 10 then CHR 0x5C # ''n''
      else if n = 11 then CHR 0x5C # ''v'' else if n = 12 then CHR 0x5C # ''f''
      else if n = 13 then CHR 0x5C # ''r''
      else if n < 32 \<or> n = 127 then [CHR 0x5C, CHR ''x'', hex_char (n div 16), hex_char (n mod 16)]
      else [c])"

definition go_quote :: "string \<Rightarrow> string" where
  "go_quote s = [CHR 0x22] @ concat (map quote_char s) @ [CHR 0x22]"

text \<open>\<open>bytes.TrimSpace\<close>: the encodings of the runes that \<open>unicode.IsSpace\<close> accepts.\<close>

definition space_runes :: "string list" where
  "space_runes = [[CHR 0x09], [CHR 0x0A], [CHR 0x0B], [CHR 0x0C], [CHR 0x0D], [CHR 0x20],
     [CHR 0xC2, CHR 0x85], [CHR 0xC2, CHR 0xA0], [CHR 0xE1, CHR 0x9A, CHR 0x80],
     [CHR 0xE2, CHR 0x80, CHR 0x80], [CHR 0xE2, CHR 0x80, CHR 0x81], [CHR 0xE2, CHR 0x80, CHR 0x82],
     [CHR 0xE2, CHR 0x80, CHR 0x83], [CHR 0xE2, CHR 0x80, CHR 0x84], [CHR 0xE2, CHR 0x80, CHR 0x85],
     [CHR 0xE2, CHR 0x80, CHR 0x86], [CHR 0xE2, CHR 0x80, CHR 0x87], [CHR 0xE2, CHR 0x80, CHR 0x88],
     [CHR 0xE2, CHR 0x80, CHR 0x89], [CHR 0xE2, CHR 0x80, CHR 0x8A], [CHR 0xE2, CHR 0x80, CHR 0xA8],
     [CHR 0xE2, CHR 0x80, CHR 0xA9], [CHR 0xE2, CHR 0x80, CHR 0xAF], [CHR 0xE2, CHR 0x81, CHR 0x9F],
     [CHR 0xE3, CHR 0x80, CHR 0x80]]"

function strip_front :: "string list \<Rightarrow> string \<Rightarrow> string" where
  "strip_front runes s =
     (case find (\<lambda>r. r \<noteq> [] \<and> take (length r) s = r) runes of
        Some r \<Rightarrow> strip_front runes (drop (length r) s)
      | None \<Rightarrow> s)"
  by pat_completeness auto
termination
proof (relation "measure (\<lambda>(runes, s). length s)")
  fix runes s r
  assume "find (\<lambda>r. r \<noteq> [] \<and> take (length r) s = r) runes = Some (r :: string)"
  then have "r \<noteq> []" "take (length r) s = r" by (auto simp: find_Some_iff)
  then have "s \<noteq> []" by auto
  with \<open>r \<noteq> []\<close> show "((runes, drop (length r) s), runes, s) \<in> measure (\<lambda>(runes, s). length s)" by simp
qed simp

declare strip_front.simps [simp del]

definition TrimSpace :: "string \<Rightarrow> string" where
  "TrimSpace s = rev (strip_front (map rev space_runes) (rev (strip_front space_runes s)))"

text \<open>\<open>bytes.Index\<close> and \<open>bytes.Split\<close> with a separator that is not empty.\<close>

fun index_of :: "string \<Rightarrow> string \<Rightarrow> nat option" where
  "index_of sep [] = None"
| "index_of sep (c # cs) = (if take (length sep) (c # cs) = sep then Some 0 else map_option Suc (index_of sep cs))"

lemma index_of_Some:
  "index_of sep s = Some i \<Longrightarrow> i < length s \<and> take (length sep) (drop i s) = sep"
  by (induction s arbitrary: i) (auto split: if_splits)

function split_at :: "char \<Rightarrow> string \<Rightarrow> string \<Rightarrow> string list" where
  "split_at x xs s =
     (case index_of (x # xs) s of
        None \<Rightarrow> [s]
      | Some i \<Rightarrow> take i s # split_at x xs (drop (i + length (x # xs)) s))"
  by pat_completeness auto
termination
  by (relation "measure (\<lambda>(x, xs, s). length s)") (auto dest!: index_of_Some)

declare split_at.simps [simp del]

text \<open>\<open>filepath.Ext\<close>.\<close>

definition path_ext :: "string \<Rightarrow> string" where
  "path_ext path =
     (let base = takeWhile (\<lambda>c. c \<noteq> CHR ''/'') (rev path)
      in if CHR ''.'' \<in> set base then CHR ''.'' # rev (takeWhile (\<lambda>c. c \<noteq> CHR ''.'') base) else '''')"

section \<open>Resource types\<close>

record ResourceInfo =
  riGroup :: string
  riVersion :: string
  riResource :: string
  riKind :: string
  riAliases :: "string list"

definition knownResources :: "ResourceInfo list" where
  "knownResources = map (\<lambda>(g, r, k, al). \<lparr>riGroup = g, riVersion = ''v1'', riResource = r, riKind = k, riAliases = al\<rparr>)
     [('''', ''configmaps'', ''ConfigMap'', [''cm'']),
      ('''', ''secrets'', ''Secret'', []),
      ('''', ''namespaces'', ''Namespace'', [''ns'']),
      ('''', ''services'', ''Service'', [''svc'']),
      ('''', ''serviceaccounts'', ''ServiceAccount'', [''sa'']),
      ('''', ''pods'', ''Pod'', [''po'']),
      (''apps'', ''deployments'', ''Deployment'', [''deploy'', ''dep'']),
      (''apps'', ''statefulsets'', ''StatefulSet'', [''sts'']),
      (''apps'', ''daemonsets'', ''DaemonSet'', [''ds'']),
      (''batch'', ''jobs'', ''Job'', []),
      (''batch'', ''cronjobs'', ''CronJob'', [''cj'']),
      (''rbac.authorization.k8s.io'', ''clusterroles'', ''ClusterRole'', []),
      (''rbac.authorization.k8s.io'', ''clusterrolebindings'', ''ClusterRoleBinding'', []),
      (''rbac.authorization.k8s.io'', ''roles'', ''Role'', []),
      (''rbac.authorization.k8s.io'', ''rolebindings'', ''RoleBinding'', [])]"

definition resolveResourceType :: "string \<Rightarrow> go_error + ResourceInfo" where
  "resolveResourceType input =
     (let lower = ToLower input
      in (case find (\<lambda>r. ToLower (riResource r) = lower \<or> ToLower (riKind r) = lower \<or>
                      lower \<in> set (riAliases r)) knownResources of
            Some r \<Rightarrow> Inr r
          | None \<Rightarrow> Inl (ErrorString (''unknown resource type '' @ go_quote input))))"

definition resourceTypeFromManifest :: "string \<Rightarrow> string \<Rightarrow> go_error + ResourceInfo" where
  "resourceTypeFromManifest apiVersion kind =
     (case find (\<lambda>r. EqualFold (riKind r) kind) knownResources of
        Some r \<Rightarrow> Inr r
      | None \<Rightarrow> Inl (ErrorString (''unknown kind '' @ go_quote kind)))"

definition formatResourceName :: "ResourceInfo \<Rightarrow> string \<Rightarrow> string" where
  "formatResourceName info name =
     (let singular = TrimSuffix (riResource info) ''s''
      in if riGroup info \<noteq> '''' then singular @ ''.'' @ riGroup info @ ''/'' @ name
         else singular @ ''/'' @ name)"

definition resourceRefFromGVR :: "ResourceInfo \<Rightarrow> string \<Rightarrow> string \<Rightarrow> ResourceReference" where
  "resourceRefFromGVR info namespace name =
     \<lparr>rrGroup = riGroup info, rrVersion = riVersion info, rrResource = riResource info,
      rrNamespace = namespace, rrName = name\<rparr>"

section \<open>Manifests\<close>

definition taskKey :: string where "taskKey = ''desirectl''"

text \<open>Reading a JSON object as \<open>map[string]any\<close>: \<open>null\<close> leaves the map nil.\<close>

definition unmarshal_object :: "json_lib \<Rightarrow> string \<Rightarrow> go_error + (string \<Rightarrow> json option)" where
  "unmarshal_object J raw =
     (case json_Unmarshal J raw of
        Inl err \<Rightarrow> Inl err
      | Inr (JObject kvs) \<Rightarrow> Inr (map_of kvs)
      | Inr JNull \<Rightarrow> Inr Map.empty
      | Inr _ \<Rightarrow> Inl (ErrorString ''json: cannot unmarshal value into Go value of type map[string]interface {}''))"

text \<open>\<open>v, _ := m[key].(string)\<close> and \<open>v, _ := m[key].(map[string]any)\<close>.\<close>

definition field_string :: "(string \<Rightarrow> json option) \<Rightarrow> string \<Rightarrow> string" where
  "field_string m key = (case m key of Some (JString s) \<Rightarrow> s | _ \<Rightarrow> '''')"

definition field_object :: "(string \<Rightarrow> json option) \<Rightarrow> string \<Rightarrow> (string \<times> json) list" where
  "field_object m key = (case m key of Some (JObject kvs) \<Rightarrow> kvs | _ \<Rightarrow> [])"

definition field_map :: "(string \<Rightarrow> json option) \<Rightarrow> string \<Rightarrow> (string \<Rightarrow> json option)" where
  "field_map m key = map_of (field_object m key)"

definition resourceRefFromManifest :: "json_lib \<Rightarrow> string \<Rightarrow> go_error + ResourceReference" where
  "resourceRefFromManifest J raw =
     (case unmarshal_object J raw of
        Inl err \<Rightarrow> Inl (WrapError ''manifest must be JSON: '' err)
      | Inr obj \<Rightarrow>
          (let apiVersion = field_string obj ''apiVersion''; kind = field_string obj ''kind'';
               metadata = field_map obj ''metadata''
           in if apiVersion = '''' \<or> kind = ''''
              then Inl (ErrorString ''manifest must have apiVersion and kind'')
              else (case resourceTypeFromManifest apiVersion kind of
                      Inl err \<Rightarrow> Inl err
                    | Inr info \<Rightarrow>
                        (let ref = \<lparr>rrGroup = riGroup info, rrVersion = riVersion info,
                               rrResource = riResource info, rrNamespace = field_string metadata ''namespace'',
                               rrName = field_string metadata ''name''\<rparr>
                         in if rrName ref = '''' then Inl (ErrorString ''manifest must have metadata.name'')
                            else Inr ref))))"

definition splitYAMLDocuments :: "string \<Rightarrow> string list" where
  "splitYAMLDocuments data = filter (\<lambda>d. d \<noteq> []) (map TrimSpace (split_at (CHR 0x0A) ''---'' data))"

text \<open>
  The file system: \<open>fsStat\<close> tells whether a path is a directory; \<open>fsWalk\<close> lists the calls that
  \<open>filepath.WalkDir\<close> makes of its callback while the callback returns no error.
\<close>

record 'w file_system =
  fsStat :: "string \<Rightarrow> 'w \<Rightarrow> (go_error + bool) \<times> 'w"
  fsWalk :: "string \<Rightarrow> 'w \<Rightarrow> (string \<times> (go_error + bool)) list \<times> 'w"
  fsReadFile :: "string \<Rightarrow> 'w \<Rightarrow> (go_error + string) \<times> 'w"
  fsMkdirAll :: "string \<Rightarrow> 'w \<Rightarrow> go_error option \<times> 'w"
  fsWriteFile :: "string \<Rightarrow> string \<Rightarrow> 'w \<Rightarrow> go_error option \<times> 'w"
  osIsNotExist :: "go_error \<Rightarrow> bool"

fun walk_manifests ::
  "'w file_system \<Rightarrow> (string \<times> (go_error + bool)) list \<Rightarrow> string list \<Rightarrow> 'w
     \<Rightarrow> (go_error + string list) \<times> 'w" where
  "walk_manifests fs [] docs w = (Inr docs, w)"
| "walk_manifests fs ((path, Inl err) # calls) docs w = (Inl err, w)"
| "walk_manifests fs ((path, Inr isDir) # calls) docs w =
     (let ext = ToLower (path_ext path) in
      if isDir \<or> ext \<notin> {''.yaml'', ''.yml'', ''.json''} then walk_manifests fs calls docs w
      else (case fsReadFile fs path w of
              (Inl err, w) \<Rightarrow> (Inl (WrapError (''reading '' @ path @ '': '') err), w)
            | (Inr data, w) \<Rightarrow> walk_manifests fs calls (docs @ splitYAMLDocuments data) w))"

fun readManifestsFrom ::
  "'w file_system \<Rightarrow> string list \<Rightarrow> string list \<Rightarrow> 'w \<Rightarrow> (go_error + string list) \<times> 'w" where
  "readManifestsFrom fs [] allDocs w = (Inr allDocs, w)"
| "readManifestsFrom fs (p # paths) allDocs w =
     (case fsStat fs p w of
        (Inl err, w) \<Rightarrow> (Inl (WrapError (''accessing '' @ p @ '': '') err), w)
      | (Inr True, w) \<Rightarrow>
          (case fsWalk fs p w of (calls, w) \<Rightarrow>
             (case walk_manifests fs calls allDocs w of
                (Inl err, w) \<Rightarrow> (Inl err, w)
              | (Inr allDocs, w) \<Rightarrow> readManifestsFrom fs paths allDocs w))
      | (Inr False, w) \<Rightarrow>
          (case fsReadFile fs p w of
             (Inl err, w) \<Rightarrow> (Inl (WrapError (''reading '' @ p @ '': '') err), w)
           | (Inr data, w) \<Rightarrow> readManifestsFrom fs paths (allDocs @ splitYAMLDocuments data) w))"

definition readManifestFiles :: "'w file_system \<Rightarrow> string list \<Rightarrow> 'w \<Rightarrow> (go_error + string list) \<times> 'w" where
  "readManifestFiles fs paths w = readManifestsFrom fs paths [] w"

section \<open>Splitting and trimming\<close>

lemma find_front_None:
  "find (\<lambda>r. r \<noteq> [] \<and> take (length r) s = r) runes = None \<longleftrightarrow>
   (\<forall>r\<in>set runes. r \<noteq> [] \<longrightarrow> take (length r) s \<noteq> r)"
  by (auto simp: find_None_iff)

definition no_front :: "string list \<Rightarrow> string \<Rightarrow> bool" where
  "no_front runes s \<longleftrightarrow> (\<forall>r\<in>set runes. r \<noteq> [] \<longrightarrow> take (length r) s \<noteq> r)"

lemma strip_front_id: "no_front runes s \<Longrightarrow> strip_front runes s = s"
  unfolding no_front_def by (subst strip_front.simps) (simp add: find_front_None [THEN iffD2])

lemma strip_front_no_front: "no_front runes (strip_front runes s)"
proof (induction runes s rule: strip_front.induct)
  case (1 runes s)
  show ?case
  proof (cases "find (\<lambda>r. r \<noteq> [] \<and> take (length r) s = r) runes")
    case None
    then have "no_front runes s" by (simp only: no_front_def find_front_None [symmetric])
    then show ?thesis by (simp only: strip_front_id)
  next
    case (Some r)
    with 1 [OF Some] show ?thesis by (simp add: strip_front.simps [of runes s])
  qed
qed

lemma strip_front_suffix: "\<exists>p. s = p @ strip_front runes s"
proof (induction runes s rule: strip_front.induct)
  case (1 runes s)
  show ?case
  proof (cases "find (\<lambda>r. r \<noteq> [] \<and> take (length r) s = r) runes")
    case None
    then show ?thesis by (simp add: strip_front.simps [of runes s])
  next
    case (Some r)
    with 1 [OF Some] obtain p where "drop (length r) s = p @ strip_front runes (drop (length r) s)" by blast
    then have "s = (take (length r) s @ p) @ strip_front runes (drop (length r) s)"
      by (metis append.assoc append_take_drop_id)
    moreover from Some have "strip_front runes s = strip_front runes (drop (length r) s)"
      by (simp add: strip_front.simps [of runes s])
    ultimately show ?thesis by metis
  qed
qed

lemma no_front_prefix: "no_front runes (a @ b) \<Longrightarrow> no_front runes a"
  unfolding no_front_def by (metis append_take_drop_id append.right_neutral take_all_iff take_append nat_le_linear
      diff_is_0_eq take0)

definition trimmed :: "string \<Rightarrow> bool" where
  "trimmed s \<longleftrightarrow> no_front space_runes s \<and> no_front (map rev space_runes) (rev s)"

lemma TrimSpace_trimmed: "trimmed (TrimSpace s)"
proof -
  let ?l = "strip_front space_runes s"
  obtain p where p: "rev ?l = p @ strip_front (map rev space_runes) (rev ?l)" using strip_front_suffix by blast
  then have "?l = TrimSpace s @ rev p" by (simp add: TrimSpace_def) (metis rev_append rev_rev_ident)
  with strip_front_no_front [of space_runes s] have "no_front space_runes (TrimSpace s)"
    using no_front_prefix by metis
  moreover have "no_front (map rev space_runes) (rev (TrimSpace s))"
    by (simp add: TrimSpace_def strip_front_no_front)
  ultimately show ?thesis by (simp add: trimmed_def)
qed

lemma TrimSpace_id: "trimmed s \<Longrightarrow> TrimSpace s = s"
  by (simp add: trimmed_def TrimSpace_def strip_front_id)

lemma TrimSpace_newline: "TrimSpace (CHR 0x0A # s) = TrimSpace s"
proof -
  have "find (\<lambda>r. r \<noteq> [] \<and> take (length r) (CHR 0x0A # s) = r) space_runes = Some [CHR 0x0A]"
    by (simp add: space_runes_def)
  then show ?thesis
    by (simp add: TrimSpace_def strip_front.simps [of space_runes "CHR 0x0A # s"])
qed

text \<open>
  The separator \<open>x # xs\<close> where \<open>x\<close> is not in \<open>xs\<close> cannot overlap itself, so a piece without it followed
  by it is split off.
\<close>

definition free_of :: "string \<Rightarrow> string \<Rightarrow> bool" where
  "free_of sep s \<longleftrightarrow> index_of sep s = None"

lemma index_of_first:
  assumes "x \<notin> set xs" and "free_of (x # xs) a"
  shows "index_of (x # xs) (a @ (x # xs) @ b) = Some (length a)"
  using assms(2)
proof (induction a)
  case Nil
  then show ?case by simp
next
  case (Cons c a)
  from Cons.prems have no: "take (length (x # xs)) (c # a) \<noteq> x # xs" and a: "free_of (x # xs) a"
    by (auto simp: free_of_def split: if_splits)
  have "take (length (x # xs)) ((c # a) @ (x # xs) @ b) \<noteq> x # xs"
  proof
    assume eq: "take (length (x # xs)) ((c # a) @ (x # xs) @ b) = x # xs"
    show False
    proof (cases "length xs \<le> length a")
      case True
      with eq no show False by simp
    next
      case False
      then have "x = ((c # a) @ (x # xs) @ b) ! Suc (length a)" by simp
      also have "\<dots> = (take (length (x # xs)) ((c # a) @ (x # xs) @ b)) ! Suc (length a)"
        by (rule nth_take [symmetric]) (use False in simp)
      also have "\<dots> = xs ! length a" by (simp only: eq nth_Cons_Suc)
      finally show False using assms(1) False by (metis not_le_imp_less nth_mem)
    qed
  qed
  with Cons.IH [OF a] show ?case by simp
qed

lemma split_at_first:
  assumes "x \<notin> set xs" and "free_of (x # xs) a"
  shows "split_at x xs (a @ (x # xs) @ b) = a # split_at x xs b"
  by (subst split_at.simps) (simp only: index_of_first [OF assms] option.case, simp)

lemma split_at_last: "free_of (x # xs) a \<Longrightarrow> split_at x xs a = [a]"
  by (subst split_at.simps) (simp add: free_of_def)

text \<open>The documents joined by separator lines.\<close>

fun join_documents :: "string list \<Rightarrow> string" where
  "join_documents [] = []"
| "join_documents [d] = d"
| "join_documents (d # e # ds) = d @ (CHR 0x0A # ''---'') @ CHR 0x0A # join_documents (e # ds)"

definition yaml_document :: "string \<Rightarrow> bool" where
  "yaml_document d \<longleftrightarrow> d \<noteq> [] \<and> trimmed d \<and> free_of (CHR 0x0A # ''---'') (CHR 0x0A # d)"

lemma yaml_document_free: "yaml_document d \<Longrightarrow> free_of (CHR 0x0A # ''---'') d"
  by (auto simp: yaml_document_def free_of_def split: if_splits)

lemma split_joined:
  assumes "\<forall>d\<in>set ds. yaml_document d" and "yaml_document d" and "p = [] \<or> p = [CHR 0x0A]"
  shows "split_at (CHR 0x0A) ''---'' (p @ join_documents (d # ds)) = (p @ d) # map ((#) (CHR 0x0A)) ds"
  using assms
proof (induction ds arbitrary: d p)
  case Nil
  then have "free_of (CHR 0x0A # ''---'') (p @ d)"
    using yaml_document_free [of d] by (auto simp: yaml_document_def)
  then show ?case by (simp add: split_at_last)
next
  case (Cons e ds)
  then have f: "free_of (CHR 0x0A # ''---'') (p @ d)"
    using yaml_document_free [of d] by (auto simp: yaml_document_def)
  have x: "CHR 0x0A \<notin> set ''---''" by simp
  have "split_at (CHR 0x0A) ''---'' ((p @ d) @ (CHR 0x0A # ''---'') @ ([CHR 0x0A] @ join_documents (e # ds)))
      = (p @ d) # split_at (CHR 0x0A) ''---'' ([CHR 0x0A] @ join_documents (e # ds))"
    by (rule split_at_first [OF x f])
  also have "split_at (CHR 0x0A) ''---'' ([CHR 0x0A] @ join_documents (e # ds)) =
      ([CHR 0x0A] @ e) # map ((#) (CHR 0x0A)) ds"
    by (rule Cons.IH) (use Cons.prems in auto)
  finally show ?case by simp
qed

lemma split_documents_joined:
  assumes "\<forall>d\<in>set ds. yaml_document d"
  shows "splitYAMLDocuments (join_documents ds) = ds"
proof (cases ds)
  case Nil
  have "TrimSpace [] = []" by code_simp
  then show ?thesis using Nil by (simp add: splitYAMLDocuments_def split_at.simps [of _ _ "[]"])
next
  case (Cons d es)
  with assms have y: "yaml_document d" "\<forall>d\<in>set es. yaml_document d" by simp_all
  have t: "\<forall>d\<in>set es. TrimSpace (CHR 0x0A # d) = d \<and> d \<noteq> []"
    using y(2) by (simp add: TrimSpace_newline TrimSpace_id yaml_document_def)
  have "map (\<lambda>d. TrimSpace (CHR 0x0A # d)) es = es" "filter (\<lambda>d. d \<noteq> []) es = es"
    using t by (simp_all add: map_idI)
  with split_joined [OF y(2,1), of "[]"] y(1) show ?thesis
    by (simp add: splitYAMLDocuments_def Cons TrimSpace_id yaml_document_def comp_def)
qed

lemma split_documents_trimmed: "d \<in> set (splitYAMLDocuments data) \<Longrightarrow> d \<noteq> [] \<and> trimmed d"
  by (auto simp: splitYAMLDocuments_def TrimSpace_trimmed)

end
