(* ===== verification/CliConfig.thy ===== *)
theory CliConfig
  imports CliResources
begin

text \<open>
  The contexts of \<open>cmd/desirectl\<close>: \<open>config.go\<close> and the commands of \<open>config_cmd.go\<close> on the path of the
  configuration file. The YAML library is the parameter \<open>yaml_lib\<close>, the file system \<open>file_system\<close>. A
  command gives its error and what it prints.
\<close>

record CliContext =
  cxAWSRegion :: string
  cxEndpointURL :: string
  cxManagementCluster :: string
  cxClusterID :: string
  cxNodePool :: string
  cxNamespace :: string
  cxSpecsTablePrefix :: string
  cxStatusTablePrefix :: string

type_synonym NamedContext = "string \<times> CliContext"

record CliConfig =
  APIVersion :: string
  ConfigKind :: string
  CurrentContext :: string
  Contexts :: "NamedContext list"

record yaml_lib =
  yamlUnmarshal :: "string \<Rightarrow> go_error + CliConfig"
  yamlMarshal :: "CliConfig \<Rightarrow> go_error + string"

definition zero_CliContext :: CliContext where
  "zero_CliContext = \<lparr>cxAWSRegion = '''', cxEndpointURL = '''', cxManagementCluster = '''', cxClusterID = '''',
     cxNodePool = '''', cxNamespace = '''', cxSpecsTablePrefix = '''', cxStatusTablePrefix = ''''\<rparr>"

definition EffectiveSpecsPrefix :: "CliContext \<Rightarrow> string" where
  "EffectiveSpecsPrefix c =
     (if cxSpecsTablePrefix c \<noteq> '''' then cxSpecsTablePrefix c else ''mc-'' @ cxManagementCluster c @ ''-specs'')"

definition EffectiveStatusPrefix :: "CliContext \<Rightarrow> string" where
  "EffectiveStatusPrefix c =
     (if cxStatusTablePrefix c \<noteq> '''' then cxStatusTablePrefix c else ''mc-'' @ cxManagementCluster c @ ''-status'')"

definition EffectiveNamespace :: "CliContext \<Rightarrow> string \<Rightarrow> string" where
  "EffectiveNamespace c override =
     (if override \<noteq> '''' then override else if cxNamespace c \<noteq> '''' then cxNamespace c else ''default'')"

definition LoadConfig :: "'w file_system \<Rightarrow> yaml_lib \<Rightarrow> string \<Rightarrow> 'w \<Rightarrow> (go_error + CliConfig) \<times> 'w" where
  "LoadConfig fs y path w =
     (case fsReadFile fs path w of
        (Inl err, w) \<Rightarrow>
          (if osIsNotExist fs err
           then (Inr \<lparr>APIVersion = ''desirectl/v1'', ConfigKind = ''Config'', CurrentContext = '''', Contexts = []\<rparr>, w)
           else (Inl (WrapError ''reading config: '' err), w))
      | (Inr data, w) \<Rightarrow>
          (case yamlUnmarshal y data of
             Inl err \<Rightarrow> (Inl (WrapError ''parsing config: '' err), w)
           | Inr cfg \<Rightarrow> (Inr cfg, w)))"

definition config_header :: "CliConfig \<Rightarrow> CliConfig" where
  "config_header cfg =
     (let cfg = (if APIVersion cfg = '''' then cfg\<lparr>APIVersion := ''desirectl/v1''\<rparr> else cfg)
      in if ConfigKind cfg = '''' then cfg\<lparr>ConfigKind := ''Config''\<rparr> else cfg)"

text \<open>\<open>dir\<close> is \<open>filepath.Dir(path)\<close>.\<close>

definition SaveConfig ::
  "'w file_system \<Rightarrow> yaml_lib \<Rightarrow> string \<Rightarrow> string \<Rightarrow> CliConfig \<Rightarrow> 'w \<Rightarrow> go_error option \<times> 'w" where
  "SaveConfig fs y dir path cfg w =
     (let cfg = config_header cfg in
      case yamlMarshal y cfg of
        Inl err \<Rightarrow> (Some (WrapError ''marshaling config: '' err), w)
      | Inr data \<Rightarrow>
          (case fsMkdirAll fs dir w of
             (Some err, w) \<Rightarrow> (Some (WrapError ''creating config directory: '' err), w)
           | (None, w) \<Rightarrow> fsWriteFile fs path data w))"

definition GetContext :: "CliConfig \<Rightarrow> string \<Rightarrow> CliContext option" where
  "GetContext c name = map_of (Contexts c) name"

fun set_first :: "string \<Rightarrow> CliContext \<Rightarrow> NamedContext list \<Rightarrow> NamedContext list" where
  "set_first name ctx [] = [(name, ctx)]"
| "set_first name ctx ((n, c) # cs) = (if n = name then (n, ctx) # cs else (n, c) # set_first name ctx cs)"

definition SetContext :: "string \<Rightarrow> CliContext \<Rightarrow> CliConfig \<Rightarrow> CliConfig" where
  "SetContext name ctx c = c\<lparr>Contexts := set_first name ctx (Contexts c)\<rparr>"

fun remove_first :: "string \<Rightarrow> NamedContext list \<Rightarrow> NamedContext list option" where
  "remove_first name [] = None"
| "remove_first name ((n, c) # cs) =
     (if n = name then Some cs else map_option ((#) (n, c)) (remove_first name cs))"

definition DeleteContext :: "string \<Rightarrow> CliConfig \<Rightarrow> bool \<times> CliConfig" where
  "DeleteContext name c =
     (case remove_first name (Contexts c) of
        None \<Rightarrow> (False, c)
      | Some cs \<Rightarrow>
          (let c = c\<lparr>Contexts := cs\<rparr>
           in (True, if CurrentContext c = name then c\<lparr>CurrentContext := ''''\<rparr> else c)))"

definition ResolveActiveContext :: "CliConfig \<Rightarrow> string \<Rightarrow> go_error + CliContext" where
  "ResolveActiveContext c override =
     (let name = (if override = '''' then CurrentContext c else override) in
      if name = '''' then Inl (ErrorString
        ''no context configured; run: desirectl config set-context <name> --aws-region=... --management-cluster=... --cluster-id=...'')
      else (case GetContext c name of
              None \<Rightarrow> Inl (ErrorString (''context '' @ go_quote name @ '' not found''))
            | Some ctx \<Rightarrow> Inr ctx))"

section \<open>Commands\<close>

text \<open>The flags of \<open>set-context\<close>; \<open>None\<close> where \<open>Flags().Changed\<close> is false.\<close>

record context_flags =
  cfAWSRegion :: "string option"
  cfEndpointURL :: "string option"
  cfManagementCluster :: "string option"
  cfClusterID :: "string option"
  cfNodePool :: "string option"
  cfNamespace :: "string option"
  cfSpecsTable :: "string option"
  cfStatusTable :: "string option"

abbreviation changed :: "'a option \<Rightarrow> 'a \<Rightarrow> 'a" where
  "changed flag old \<equiv> (case flag of None \<Rightarrow> old | Some new \<Rightarrow> new)"

definition merge_flags :: "context_flags \<Rightarrow> CliContext \<Rightarrow> CliContext" where
  "merge_flags f c = \<lparr>cxAWSRegion = changed (cfAWSRegion f) (cxAWSRegion c),
     cxEndpointURL = changed (cfEndpointURL f) (cxEndpointURL c),
     cxManagementCluster = changed (cfManagementCluster f) (cxManagementCluster c),
     cxClusterID = changed (cfClusterID f) (cxClusterID c),
     cxNodePool = changed (cfNodePool f) (cxNodePool c),
     cxNamespace = changed (cfNamespace f) (cxNamespace c),
     cxSpecsTablePrefix = changed (cfSpecsTable f) (cxSpecsTablePrefix c),
     cxStatusTablePrefix = changed (cfStatusTable f) (cxStatusTablePrefix c)\<rparr>"

abbreviation newline :: string where "newline \<equiv> [CHR 0x0A]"

definition setContextCmd ::
  "'w file_system \<Rightarrow> yaml_lib \<Rightarrow> string \<Rightarrow> string \<Rightarrow> string \<Rightarrow> context_flags \<Rightarrow> 'w
     \<Rightarrow> (go_error option \<times> string) \<times> 'w" where
  "setContextCmd fs y dir path name flags w =
     (case LoadConfig fs y path w of
        (Inl err, w) \<Rightarrow> ((Some err, ''''), w)
      | (Inr cfg, w) \<Rightarrow>
          (let existing = GetContext cfg name;
               ctx = merge_flags flags (case existing of None \<Rightarrow> zero_CliContext | Some c \<Rightarrow> c);
               cfg = SetContext name ctx cfg;
               cfg = (if CurrentContext cfg = '''' then cfg\<lparr>CurrentContext := name\<rparr> else cfg)
           in (case SaveConfig fs y dir path cfg w of
                 (Some err, w) \<Rightarrow> ((Some err, ''''), w)
               | (None, w) \<Rightarrow>
                   ((None, ''Context '' @ go_quote name @ (if existing \<noteq> None then '' updated.'' else '' created.'') @ newline @
                      (if CurrentContext cfg = name then ''Current context is '' @ go_quote name @ ''.'' @ newline
                       else '''')), w))))"

definition useContextCmd ::
  "'w file_system \<Rightarrow> yaml_lib \<Rightarrow> string \<Rightarrow> string \<Rightarrow> string \<Rightarrow> 'w
     \<Rightarrow> (go_error option \<times> string) \<times> 'w" where
  "useContextCmd fs y dir path name w =
     (case LoadConfig fs y path w of
        (Inl err, w) \<Rightarrow> ((Some err, ''''), w)
      | (Inr cfg, w) \<Rightarrow>
          (if GetContext cfg name = None
           then ((Some (ErrorString (''context '' @ go_quote name @ '' not found'')), ''''), w)
           else (case SaveConfig fs y dir path (cfg\<lparr>CurrentContext := name\<rparr>) w of
                   (Some err, w) \<Rightarrow> ((Some err, ''''), w)
                 | (None, w) \<Rightarrow> ((None, ''Switched to context '' @ go_quote name @ ''.'' @ newline), w))))"

text \<open>\<open>tabs\<close> stands for the \<open>tabwriter\<close> that lays out the lines.\<close>

definition getContextsCmd ::
  "'w file_system \<Rightarrow> yaml_lib \<Rightarrow> (string \<Rightarrow> string) \<Rightarrow> string \<Rightarrow> 'w
     \<Rightarrow> (go_error option \<times> string) \<times> 'w" where
  "getContextsCmd fs y tabs path w =
     (case LoadConfig fs y path w of
        (Inl err, w) \<Rightarrow> ((Some err, ''''), w)
      | (Inr cfg, w) \<Rightarrow>
          (if Contexts cfg = [] then ((None, ''No contexts configured.'' @ newline), w)
           else (let tab = [CHR 0x09];
                     line = (\<lambda>(name, c). (if name = CurrentContext cfg then ''*'' else '''') @ tab @ name @ tab @
                        cxAWSRegion c @ tab @ cxClusterID c @ tab @ cxNamespace c @ newline)
                 in ((None, tabs (''CURRENT'' @ tab @ ''NAME'' @ tab @ ''AWS-REGION'' @ tab @ ''CLUSTER'' @ tab @
                        ''NAMESPACE'' @ newline @ concat (map line (Contexts cfg)))), w))))"

definition currentContextCmd ::
  "'w file_system \<Rightarrow> yaml_lib \<Rightarrow> string \<Rightarrow> 'w \<Rightarrow> (go_error option \<times> string) \<times> 'w" where
  "currentContextCmd fs y path w =
     (case LoadConfig fs y path w of
        (Inl err, w) \<Rightarrow> ((Some err, ''''), w)
      | (Inr cfg, w) \<Rightarrow>
          (if CurrentContext cfg = '''' then ((Some (ErrorString ''no current context set''), ''''), w)
           else ((None, CurrentContext cfg @ newline), w)))"

definition deleteContextCmd ::
  "'w file_system \<Rightarrow> yaml_lib \<Rightarrow> string \<Rightarrow> string \<Rightarrow> string \<Rightarrow> 'w
     \<Rightarrow> (go_error option \<times> string) \<times> 'w" where
  "deleteContextCmd fs y dir path name w =
     (case LoadConfig fs y path w of
        (Inl err, w) \<Rightarrow> ((Some err, ''''), w)
      | (Inr cfg, w) \<Rightarrow>
          (case DeleteContext name cfg of
             (False, cfg) \<Rightarrow> ((Some (ErrorString (''context '' @ go_quote name @ '' not found'')), ''''), w)
           | (True, cfg) \<Rightarrow>
               (case SaveConfig fs y dir path cfg w of
                  (Some err, w) \<Rightarrow> ((Some err, ''''), w)
                | (None, w) \<Rightarrow> ((None, ''Context '' @ go_quote name @ '' deleted.'' @ newline), w))))"

section \<open>The configuration stays consistent\<close>

text \<open>No name twice, and the current context, where there is one, is one of them.\<close>

definition config_ok :: "CliConfig \<Rightarrow> bool" where
  "config_ok c \<longleftrightarrow> distinct (map fst (Contexts c)) \<and>
     (CurrentContext c = '''' \<or> GetContext c (CurrentContext c) \<noteq> None)"

lemma map_of_set_first: "map_of (set_first name ctx cs) = (map_of cs)(name \<mapsto> ctx)"
  by (induction name ctx cs rule: set_first.induct) (auto simp: fun_eq_iff)

lemma names_set_first: "fst ` set (set_first name ctx cs) = insert name (fst ` set cs)"
  by (induction name ctx cs rule: set_first.induct) auto

lemma distinct_set_first: "distinct (map fst cs) \<Longrightarrow> distinct (map fst (set_first name ctx cs))"
  by (induction name ctx cs rule: set_first.induct) (auto simp: names_set_first)

lemma remove_first_Some:
  "remove_first name cs = Some cs' \<Longrightarrow> distinct (map fst cs) \<Longrightarrow>
   distinct (map fst cs') \<and> fst ` set cs' \<subseteq> fst ` set cs \<and> map_of cs name \<noteq> None \<and> map_of cs' = (map_of cs)(name := None)"
proof (induction name cs arbitrary: cs' rule: remove_first.induct)
  case (2 name n c cs)
  show ?case
  proof (cases "n = name")
    case True
    then have "map_of cs name = None" using 2 by (simp add: map_of_None_iff)
    with True 2 show ?thesis by (auto simp: fun_eq_iff)
  next
    case False
    with 2 obtain ds where ds: "remove_first name cs = Some ds" "cs' = (n, c) # ds" by auto
    from 2(1) [OF False ds(1)] 2(3) False ds(2) show ?thesis by (auto simp: fun_eq_iff)
  qed
qed simp

lemma remove_first_None: "remove_first name cs = None \<longleftrightarrow> map_of cs name = None"
  by (induction name cs rule: remove_first.induct) auto

lemma GetContext_SetContext: "GetContext (SetContext name ctx c) n = (if n = name then Some ctx else GetContext c n)"
  by (simp add: GetContext_def SetContext_def map_of_set_first)

lemma config_ok_SetContext:
  "config_ok c \<Longrightarrow> config_ok (SetContext name ctx c)"
  by (auto simp: config_ok_def GetContext_SetContext) (simp_all add: SetContext_def distinct_set_first)

lemma config_ok_DeleteContext:
  assumes "config_ok c" and "DeleteContext name c = (True, c')"
  shows "config_ok c' \<and> GetContext c' = (GetContext c)(name := None)"
proof -
  from assms(2) obtain cs where r: "remove_first name (Contexts c) = Some cs"
    and c': "c' = (let d = c\<lparr>Contexts := cs\<rparr> in if CurrentContext d = name then d\<lparr>CurrentContext := ''''\<rparr> else d)"
    by (auto simp: DeleteContext_def Let_def split: option.splits)
  from remove_first_Some [OF r] assms(1) have cs: "distinct (map fst cs)" "map_of cs = (map_of (Contexts c))(name := None)"
    by (simp_all add: config_ok_def)
  have c'': "Contexts c' = cs" "CurrentContext c' = (if CurrentContext c = name then '''' else CurrentContext c)"
    by (simp_all add: c' Let_def)
  then have get: "GetContext c' = (GetContext c)(name := None)" by (simp add: GetContext_def fun_eq_iff cs(2))
  with assms(1) c'' cs(1) show ?thesis by (simp add: config_ok_def)
qed

lemma config_header_simps [simp]: "GetContext (config_header c) = GetContext c"
  "CurrentContext (config_header c) = CurrentContext c" "Contexts (config_header c) = Contexts c"
  by (simp_all add: config_header_def GetContext_def Let_def fun_eq_iff)

lemma config_ok_header [simp]: "config_ok (config_header c) = config_ok c"
  by (simp add: config_ok_def)

text \<open>What a command leaves in the file.\<close>

definition config_store_ok :: "'w file_system \<Rightarrow> yaml_lib \<Rightarrow> string \<Rightarrow> bool" where
  "config_store_ok fs y path \<longleftrightarrow>
     (\<forall>c s. yamlMarshal y c = Inr s \<longrightarrow> yamlUnmarshal y s = Inr c) \<and>
     (\<forall>w. fst (fsReadFile fs path (snd (fsReadFile fs path w))) = fst (fsReadFile fs path w)) \<and>
     (\<forall>data w w'. fsWriteFile fs path data w = (None, w') \<longrightarrow> fst (fsReadFile fs path w') = Inr data)"

lemma SaveConfig_stores:
  assumes "config_store_ok fs y path" and "SaveConfig fs y dir path cfg w = (None, w')"
  shows "fst (LoadConfig fs y path w') = Inr (config_header cfg)"
proof -
  from assms(2) obtain data w1 where m: "yamlMarshal y (config_header cfg) = Inr data"
    and w: "fsWriteFile fs path data w1 = (None, w')"
    by (auto simp: SaveConfig_def Let_def split: sum.splits prod.splits option.splits)
  from assms(1) m w have "yamlUnmarshal y data = Inr (config_header cfg)" "fst (fsReadFile fs path w') = Inr data"
    unfolding config_store_ok_def by blast+
  then show ?thesis by (cases "fsReadFile fs path w'") (simp add: LoadConfig_def)
qed

datatype config_command =
    SetContextCommand string context_flags
  | UseContextCommand string
  | DeleteContextCommand string

fun run_config ::
  "'w file_system \<Rightarrow> yaml_lib \<Rightarrow> string \<Rightarrow> string \<Rightarrow> config_command \<Rightarrow> 'w
     \<Rightarrow> (go_error option \<times> string) \<times> 'w" where
  "run_config fs y dir path (SetContextCommand name flags) w = setContextCmd fs y dir path name flags w"
| "run_config fs y dir path (UseContextCommand name) w = useContextCmd fs y dir path name w"
| "run_config fs y dir path (DeleteContextCommand name) w = deleteContextCmd fs y dir path name w"

lemma run_config_saves:
  assumes "fst (LoadConfig fs y path w) = Inr cfg"
    and "run_config fs y dir path cmd w = ((None, out), w')"
  obtains cfg' w1 where "SaveConfig fs y dir path cfg' w1 = (None, w')"
    and "case cmd of
           SetContextCommand name flags \<Rightarrow>
             (let c = SetContext name (merge_flags flags (case GetContext cfg name of None \<Rightarrow> zero_CliContext | Some c \<Rightarrow> c)) cfg
              in cfg' = (if CurrentContext c = '''' then c\<lparr>CurrentContext := name\<rparr> else c))
         | UseContextCommand name \<Rightarrow> GetContext cfg name \<noteq> None \<and> cfg' = cfg\<lparr>CurrentContext := name\<rparr>
         | DeleteContextCommand name \<Rightarrow> DeleteContext name cfg = (True, cfg')"
proof -
  obtain w0 where l: "LoadConfig fs y path w = (Inr cfg, w0)" using assms(1) by (metis prod.collapse)
  show ?thesis
  proof (cases cmd)
    case (SetContextCommand name flags)
    let ?c = "SetContext name (merge_flags flags (case GetContext cfg name of None \<Rightarrow> zero_CliContext | Some c \<Rightarrow> c)) cfg"
    let ?cfg = "if CurrentContext ?c = '''' then ?c\<lparr>CurrentContext := name\<rparr> else ?c"
    from assms(2) l SetContextCommand have "SaveConfig fs y dir path ?cfg w0 = (None, w')"
      by (auto simp: setContextCmd_def Let_def split: prod.splits option.splits if_splits)
    with SetContextCommand that show ?thesis by (simp add: Let_def)
  next
    case (UseContextCommand name)
    with assms(2) l that show ?thesis
      by (auto simp: useContextCmd_def split: prod.splits option.splits if_splits)
  next
    case (DeleteContextCommand name)
    with assms(2) l that show ?thesis
      by (auto simp: deleteContextCmd_def split: prod.splits option.splits bool.splits)
  qed
qed

end
