(* ===== verification/CliOutput.thy ===== *)
theory CliOutput
  imports CliResources
begin

text \<open>
  \<open>cmd/desirectl/output.go\<close>: what \<open>get\<close> prints, as text. \<open>json.MarshalIndent\<close>, \<open>sigsyaml.JSONToYAML\<close>
  and the \<open>tabwriter\<close> that aligns the columns are the parameter \<open>print_lib\<close>. Writing to the output does
  not fail.
\<close>

record print_lib =
  plMarshalIndent :: "json \<Rightarrow> go_error + string"
  plJSONToYAML :: "string \<Rightarrow> go_error + string"
  plTabs :: "string \<Rightarrow> string"

datatype OutputFormat = OutputTable | OutputJSON | OutputYAML | OutputWide

definition parseOutputFormat :: "string \<Rightarrow> OutputFormat" where
  "parseOutputFormat s =
     (if s = ''json'' then OutputJSON else if s = ''yaml'' then OutputYAML
      else if s = ''wide'' then OutputWide else OutputTable)"

definition line_end :: string where "line_end = [CHR 0x0A]"
definition tab :: string where "tab = [CHR 0x09]"

definition printResourceJSON :: "json_lib \<Rightarrow> print_lib \<Rightarrow> string \<Rightarrow> string" where
  "printResourceJSON J pl kubeContent =
     (case json_Unmarshal J kubeContent of
        Inl err \<Rightarrow> kubeContent @ line_end
      | Inr obj \<Rightarrow>
          (case plMarshalIndent pl obj of Inl err \<Rightarrow> kubeContent @ line_end | Inr formatted \<Rightarrow> formatted @ line_end))"

definition printResourceYAML :: "print_lib \<Rightarrow> string \<Rightarrow> string" where
  "printResourceYAML pl kubeContent =
     (case plJSONToYAML pl kubeContent of Inl err \<Rightarrow> kubeContent @ line_end | Inr yamlBytes \<Rightarrow> yamlBytes)"

text \<open>A nil slice is marshalled as \<open>null\<close>.\<close>

definition printResourceListJSON :: "json_lib \<Rightarrow> print_lib \<Rightarrow> string list \<Rightarrow> go_error option \<times> string" where
  "printResourceListJSON J pl items =
     (let objects = map (\<lambda>item. case json_Unmarshal J item of Inl err \<Rightarrow> JString item | Inr obj \<Rightarrow> obj) items
      in (case plMarshalIndent pl (if objects = [] then JNull else JArray objects) of
            Inl err \<Rightarrow> (Some err, '''')
          | Inr formatted \<Rightarrow> (None, formatted @ line_end)))"

fun printResourceListYAML :: "print_lib \<Rightarrow> nat \<Rightarrow> string list \<Rightarrow> string" where
  "printResourceListYAML pl i [] = ''''"
| "printResourceListYAML pl i (item # items) =
     (if i > 0 then ''---'' @ line_end else '''') @
     (case plJSONToYAML pl item of Inl err \<Rightarrow> item @ line_end | Inr yamlBytes \<Rightarrow> yamlBytes) @
     printResourceListYAML pl (i + 1) items"

section \<open>Tables\<close>

record tableRow =
  trName :: string
  trNamespace :: string
  trExtra :: "string \<Rightarrow> string"

definition genericColumns :: "string list" where
  "genericColumns = [''NAME'', ''NAMESPACE'']"

definition typeColumns :: "string \<Rightarrow> string list option" where
  "typeColumns = map_of
     [(''deployments'', [''NAME'', ''NAMESPACE'', ''READY'', ''UP-TO-DATE'', ''AVAILABLE'']),
      (''pods'', [''NAME'', ''NAMESPACE'', ''STATUS'', ''RESTARTS'']),
      (''services'', [''NAME'', ''NAMESPACE'', ''TYPE'', ''CLUSTER-IP'']),
      (''configmaps'', [''NAME'', ''NAMESPACE'', ''DATA'']),
      (''secrets'', [''NAME'', ''NAMESPACE'', ''TYPE'', ''DATA'']),
      (''statefulsets'', [''NAME'', ''NAMESPACE'', ''READY'']),
      (''daemonsets'', [''NAME'', ''NAMESPACE'', ''DESIRED'', ''CURRENT'', ''READY''])]"

definition cell :: "tableRow \<Rightarrow> string \<Rightarrow> string" where
  "cell row col =
     (if col = ''NAME'' then trName row
      else if col = ''NAMESPACE'' then trNamespace row
      else (let v = trExtra row col in if v = '''' then ''<none>'' else v))"

definition printResourceTable :: "print_lib \<Rightarrow> string \<Rightarrow> tableRow list \<Rightarrow> string" where
  "printResourceTable pl resType rows =
     (let columns = (case typeColumns resType of None \<Rightarrow> genericColumns | Some cols \<Rightarrow> cols)
      in plTabs pl (concat (map (\<lambda>col. col @ tab) columns) @ line_end @
           concat (map (\<lambda>row. concat (map (\<lambda>col. cell row col @ tab) columns) @ line_end) rows)))"

text \<open>\<open>int(v)\<close> of a \<open>float64\<close>: towards zero; a value out of range gives the least integer, as on amd64.\<close>

definition float_to_int :: "rat \<Rightarrow> int64" where
  "float_to_int v =
     (let n = (if v < 0 then - floor (- v) else floor v)
      in if - (2 ^ 63) \<le> n \<and> n < 2 ^ 63 then word_of_int n else word_of_int (- (2 ^ 63)))"

definition jsonInt :: "(string \<Rightarrow> json option) \<Rightarrow> string \<Rightarrow> int64" where
  "jsonInt m key = (case m key of Some (JNumber v) \<Rightarrow> float_to_int v | _ \<Rightarrow> 0)"

abbreviation show_int64 :: "int64 \<Rightarrow> string" where "show_int64 n \<equiv> show_int (sint n)"

abbreviation set_extra :: "string \<Rightarrow> string \<Rightarrow> tableRow \<Rightarrow> tableRow" where
  "set_extra col v row \<equiv> row\<lparr>trExtra := (trExtra row)(col := v)\<rparr>"

text \<open>\<open>len\<close> of a map: the association list has every key once.\<close>

definition extractDeploymentFields :: "(string \<Rightarrow> json option) \<Rightarrow> tableRow \<Rightarrow> tableRow" where
  "extractDeploymentFields obj row =
     (let status = field_map obj ''status''; spec = field_map obj ''spec'';
          replicas = jsonInt spec ''replicas''; ready = jsonInt status ''readyReplicas'';
          updated = jsonInt status ''updatedReplicas''; available = jsonInt status ''availableReplicas'';
          row = set_extra ''READY'' (show_int64 ready @ ''/'' @ show_int64 replicas) row;
          row = set_extra ''UP-TO-DATE'' (show_int64 updated) row
      in set_extra ''AVAILABLE'' (show_int64 available) row)"

definition extractConfigMapFields :: "(string \<Rightarrow> json option) \<Rightarrow> tableRow \<Rightarrow> tableRow" where
  "extractConfigMapFields obj row = set_extra ''DATA'' (show_nat (length (field_object obj ''data''))) row"

definition extractSecretFields :: "(string \<Rightarrow> json option) \<Rightarrow> tableRow \<Rightarrow> tableRow" where
  "extractSecretFields obj row =
     (let data = field_object obj ''data''; typ = field_string obj ''type'';
          typ = (if typ = '''' then ''Opaque'' else typ);
          row = set_extra ''TYPE'' typ row
      in set_extra ''DATA'' (show_nat (length data)) row)"

definition extractServiceFields :: "(string \<Rightarrow> json option) \<Rightarrow> tableRow \<Rightarrow> tableRow" where
  "extractServiceFields obj row =
     (let spec = field_map obj ''spec'';
          row = set_extra ''TYPE'' (field_string spec ''type'') row
      in set_extra ''CLUSTER-IP'' (field_string spec ''clusterIP'') row)"

definition restarts :: "json list \<Rightarrow> int64" where
  "restarts containerStatuses =
     foldl (\<lambda>total cs. case cs of JObject kvs \<Rightarrow> total + jsonInt (map_of kvs) ''restartCount'' | _ \<Rightarrow> total)
       0 containerStatuses"

definition extractPodFields :: "(string \<Rightarrow> json option) \<Rightarrow> tableRow \<Rightarrow> tableRow" where
  "extractPodFields obj row =
     (let status = field_map obj ''status'';
          row = set_extra ''STATUS'' (field_string status ''phase'') row;
          row = set_extra ''RESTARTS'' ''0'' row
      in (case status ''containerStatuses'' of
            Some (JArray containerStatuses) \<Rightarrow> set_extra ''RESTARTS'' (show_int64 (restarts containerStatuses)) row
          | _ \<Rightarrow> row))"

definition extractStatefulSetFields :: "(string \<Rightarrow> json option) \<Rightarrow> tableRow \<Rightarrow> tableRow" where
  "extractStatefulSetFields obj row =
     (let status = field_map obj ''status''; spec = field_map obj ''spec'';
          replicas = jsonInt spec ''replicas''; ready = jsonInt status ''readyReplicas''
      in set_extra ''READY'' (show_int64 ready @ ''/'' @ show_int64 replicas) row)"

definition extractDaemonSetFields :: "(string \<Rightarrow> json option) \<Rightarrow> tableRow \<Rightarrow> tableRow" where
  "extractDaemonSetFields obj row =
     (let status = field_map obj ''status'';
          row = set_extra ''DESIRED'' (show_int64 (jsonInt status ''desiredNumberScheduled'')) row;
          row = set_extra ''CURRENT'' (show_int64 (jsonInt status ''currentNumberScheduled'')) row
      in set_extra ''READY'' (show_int64 (jsonInt status ''numberReady'')) row)"

definition extractTableRow :: "json_lib \<Rightarrow> string \<Rightarrow> string \<Rightarrow> tableRow" where
  "extractTableRow J resType kubeContent =
     (let row = \<lparr>trName = '''', trNamespace = '''', trExtra = (\<lambda>_. '''')\<rparr>
      in (case unmarshal_object J kubeContent of
            Inl err \<Rightarrow> row
          | Inr obj \<Rightarrow>
              (let metadata = field_map obj ''metadata'';
                   row = row\<lparr>trName := field_string metadata ''name'', trNamespace := field_string metadata ''namespace''\<rparr>
               in if resType = ''deployments'' then extractDeploymentFields obj row
                  else if resType = ''configmaps'' then extractConfigMapFields obj row
                  else if resType = ''secrets'' then extractSecretFields obj row
                  else if resType = ''services'' then extractServiceFields obj row
                  else if resType = ''pods'' then extractPodFields obj row
                  else if resType = ''statefulsets'' then extractStatefulSetFields obj row
                  else if resType = ''daemonsets'' then extractDaemonSetFields obj row
                  else row)))"

lemmas extract_defs = extractDeploymentFields_def extractConfigMapFields_def extractSecretFields_def
  extractServiceFields_def extractPodFields_def extractStatefulSetFields_def extractDaemonSetFields_def

end
