(* ===== verification/CliDesires.thy ===== *)
theory CliDesires
  imports DbClient CliConfig CliOutput
begin

text \<open>
  What \<open>cmd/desirectl\<close> does with desires: \<open>dynamodb.go\<close>, \<open>apply.go\<close>, \<open>delete.go\<close> and \<open>get.go\<close>. The
  commands work on the two database clients of theory \<open>DbClient\<close>. Parameters are the JSON library,
  \<open>uuid.NewSHA1\<close> (\<open>uuid\<close>), \<open>sigsyaml.YAMLToJSON\<close> (\<open>yamlToJSON\<close>) and the clock. A command starts
  from its configuration; how it gets there from its flags is theory \<open>CtlCommands\<close>.
\<close>

record 'w clientPair =
  cpSpecs :: "'w KubeApplierDBClient"
  cpStatus :: "'w KubeApplierDBClient"

text \<open>\<open>loadAWS\<close> stands for \<open>awsconfig.LoadDefaultConfig\<close> followed by \<open>dynamodb.NewFromConfig\<close>.\<close>

datatype aws_option =
    WithRegion string
  | WithBaseEndpoint string
  | WithStaticCredentials string string

definition newClientPair ::
  "(aws_option list \<Rightarrow> go_error + 'w dynamo_client) \<Rightarrow> ApplyDesire attributevalue_codec
     \<Rightarrow> ReadDesire attributevalue_codec \<Rightarrow> json_lib \<Rightarrow> CliContext \<Rightarrow> go_error + 'w clientPair" where
  "newClientPair loadAWS ac rc J activeCtx =
     (let opts = [WithRegion (cxAWSRegion activeCtx)] @
            (if cxEndpointURL activeCtx \<noteq> ''''
             then [WithBaseEndpoint (cxEndpointURL activeCtx), WithStaticCredentials ''test'' ''test''] else [])
      in (case loadAWS opts of
            Inl err \<Rightarrow> Inl (WrapError ''loading AWS config: '' err)
          | Inr client \<Rightarrow>
              (let db = (\<lambda>prefix. dynamo_db \<lparr>specsClient = client, statusClient = client, specsPrefix = prefix,
                      statusPrefix = prefix, applyCodec = ac, readCodec = rc, dbJson = J\<rparr>)
               in Inr \<lparr>cpSpecs = db (EffectiveSpecsPrefix activeCtx),
                    cpStatus = db (EffectiveStatusPrefix activeCtx)\<rparr>)))"

definition ref_document :: "(string \<Rightarrow> string \<Rightarrow> string) \<Rightarrow> ResourceReference \<Rightarrow> string" where
  "ref_document uuid ref =
     NewDocumentID uuid taskKey (rrGroup ref) (rrVersion ref) (rrResource ref) (rrNamespace ref) (rrName ref)"

section \<open>apply\<close>

definition manifest_desire :: "CliContext \<Rightarrow> ResourceReference \<Rightarrow> string \<Rightarrow> string \<Rightarrow> ApplyDesire" where
  "manifest_desire activeCtx ref raw docID =
     zero_ApplyDesire\<lparr>adSpec := \<lparr>asManagementCluster = cxManagementCluster activeCtx,
        asClusterID = cxClusterID activeCtx, asNodePoolName = cxNodePool activeCtx, asType = '''',
        asTargetItem = ref, asServerSideApply = Some \<lparr>ssaKubeContent = Some \<lparr>Raw = raw\<rparr>\<rparr>\<rparr>,
      DocumentID := docID\<rparr>"

definition manifest_update :: "CliContext \<Rightarrow> ResourceReference \<Rightarrow> string \<Rightarrow> ApplyDesire \<Rightarrow> ApplyDesire" where
  "manifest_update activeCtx ref raw existing =
     existing\<lparr>adSpec := (adSpec existing)\<lparr>asServerSideApply := Some \<lparr>ssaKubeContent = Some \<lparr>Raw = raw\<rparr>\<rparr>,
        asTargetItem := ref, asManagementCluster := cxManagementCluster activeCtx,
        asClusterID := cxClusterID activeCtx, asNodePoolName := cxNodePool activeCtx\<rparr>\<rparr>"

text \<open>The action, the display name and the error.\<close>

definition applyManifest ::
  "json_lib \<Rightarrow> (string \<Rightarrow> string \<Rightarrow> string) \<Rightarrow> 'w clientPair \<Rightarrow> CliContext \<Rightarrow> string \<Rightarrow> 'w
     \<Rightarrow> (string \<times> string \<times> go_error option) \<times> 'w" where
  "applyManifest J uuid clients activeCtx raw w =
     (case resourceRefFromManifest J raw of
        Inl err \<Rightarrow> (('''', '''', Some (WrapError ''parsing manifest: '' err)), w)
      | Inr ref \<Rightarrow>
          (let displayName = (case resolveResourceType (rrResource ref) of
                 Inr info \<Rightarrow> formatResourceName info (rrName ref)
               | Inl _ \<Rightarrow> rrResource ref @ ''/'' @ rrName ref);
               docID = ref_document uuid ref;
               crud = dbApplyStatus (cpSpecs clients)
           in (case opCreate crud (manifest_desire activeCtx ref raw docID) w of
                 (Inr _, w) \<Rightarrow> ((''created'', displayName, None), w)
               | (Inl err, w) \<Rightarrow>
                   (if \<not> IsAlreadyExistsError err
                    then (('''', displayName, Some (WrapError (''creating '' @ displayName @ '': '') err)), w)
                    else (case opGet crud docID w of
                            (Inl err, w) \<Rightarrow>
                              (('''', displayName, Some (WrapError (''getting '' @ displayName @ '' for update: '') err)), w)
                          | (Inr existing, w) \<Rightarrow>
                              (case opReplace crud (manifest_update activeCtx ref raw existing) w of
                                 (Inl err, w) \<Rightarrow>
                                   (('''', displayName, Some (WrapError (''updating '' @ displayName @ '': '') err)), w)
                               | (Inr _, w) \<Rightarrow> ((''configured'', displayName, None), w)))))))"

text \<open>The loops over the documents collect their errors and go on.\<close>

fun applyDocuments ::
  "json_lib \<Rightarrow> (string \<Rightarrow> string \<Rightarrow> string) \<Rightarrow> (string \<Rightarrow> go_error + string) \<Rightarrow> 'w clientPair \<Rightarrow> CliContext
     \<Rightarrow> string list \<Rightarrow> 'w \<Rightarrow> (go_error list \<times> string) \<times> 'w" where
  "applyDocuments J uuid yamlToJSON clients activeCtx [] w = (([], ''''), w)"
| "applyDocuments J uuid yamlToJSON clients activeCtx (doc # docs) w =
     (let (errs, out, w) =
        (case yamlToJSON doc of
           Inl err \<Rightarrow> ([WrapError ''converting manifest: '' err], '''', w)
         | Inr jsonData \<Rightarrow>
             (case applyManifest J uuid clients activeCtx jsonData w of
                ((action, name, Some err), w) \<Rightarrow> ([err], '''', w)
              | ((action, name, None), w) \<Rightarrow> ([], name @ '' '' @ action @ newline, w)));
          ((errs', out'), w) = applyDocuments J uuid yamlToJSON clients activeCtx docs w
      in ((errs @ errs', out @ out'), w))"

definition report_errors :: "go_error list \<Rightarrow> go_error option \<times> string" where
  "report_errors errs =
     (if errs = [] then (None, '''')
      else (Some (ErrorString (show_nat (length errs) @ '' error(s) occurred'')),
            concat (map (\<lambda>e. ''error: '' @ error_text e @ newline) errs)))"

text \<open>The body of the \<open>apply\<close> command after its flags: the error, standard output and standard error.\<close>

definition runApply ::
  "'w file_system \<Rightarrow> json_lib \<Rightarrow> (string \<Rightarrow> string \<Rightarrow> string) \<Rightarrow> (string \<Rightarrow> go_error + string) \<Rightarrow> 'w clientPair
     \<Rightarrow> CliContext \<Rightarrow> string list \<Rightarrow> 'w \<Rightarrow> (go_error option \<times> string \<times> string) \<times> 'w" where
  "runApply fs J uuid yamlToJSON clients activeCtx files w =
     (case readManifestFiles fs files w of
        (Inl err, w) \<Rightarrow> ((Some err, '''', ''''), w)
      | (Inr docs, w) \<Rightarrow>
          (if docs = [] then ((Some (ErrorString ''no manifests found in specified files''), '''', ''''), w)
           else (case applyDocuments J uuid yamlToJSON clients activeCtx docs w of
                   ((errs, out), w) \<Rightarrow>
                     (case report_errors errs of (e, errout) \<Rightarrow> ((e, out, errout), w)))))"

section \<open>delete\<close>

definition cleanupRelatedDesires :: "'w KubeApplierDBClient \<Rightarrow> string \<Rightarrow> 'w \<Rightarrow> 'w" where
  "cleanupRelatedDesires specsDB docID w =
     (let (_, w) = opDelete (dbApplyStatus specsDB) docID w;
          (_, w) = opDelete (dbReadStatus specsDB) docID w
      in w)"

definition delete_desire :: "CliContext \<Rightarrow> ResourceReference \<Rightarrow> string \<Rightarrow> ApplyDesire" where
  "delete_desire activeCtx ref docID =
     zero_ApplyDesire\<lparr>adSpec := \<lparr>asManagementCluster = cxManagementCluster activeCtx,
        asClusterID = cxClusterID activeCtx, asNodePoolName = cxNodePool activeCtx,
        asType = ApplyDesireTypeDelete, asTargetItem = ref, asServerSideApply = None\<rparr>,
      DocumentID := docID\<rparr>"

definition runDelete ::
  "(string \<Rightarrow> string \<Rightarrow> string) \<Rightarrow> 'w clientPair \<Rightarrow> CliContext \<Rightarrow> ResourceInfo \<Rightarrow> string \<Rightarrow> string \<Rightarrow> 'w
     \<Rightarrow> (go_error option \<times> string) \<times> 'w" where
  "runDelete uuid clients activeCtx resInfo name namespace w =
     (let ref = resourceRefFromGVR resInfo namespace name;
          docID = ref_document uuid ref;
          desire = delete_desire activeCtx ref docID;
          crud = dbApplyStatus (cpSpecs clients);
          done = (\<lambda>w. ((None, formatResourceName resInfo name @ '' deleted'' @ newline),
                   cleanupRelatedDesires (cpSpecs clients) docID w))
      in (case opCreate crud desire w of
            (Inr _, w) \<Rightarrow> done w
          | (Inl err, w) \<Rightarrow>
              (if IsAlreadyExistsError err
               then (case opGet crud docID w of
                       (Inl getErr, w) \<Rightarrow>
                         ((Some (WrapError ''getting existing delete desire: '' getErr), ''''), w)
                     | (Inr existing, w) \<Rightarrow>
                         (case opReplace crud (existing\<lparr>adSpec := adSpec desire\<rparr>) w of
                            (Inl replaceErr, w) \<Rightarrow>
                              ((Some (WrapError ''updating delete desire: '' replaceErr), ''''), w)
                          | (Inr _, w) \<Rightarrow> done w))
               else ((Some (WrapError ''creating delete desire: '' err), ''''), w))))"

text \<open>One document of \<open>delete -f\<close>: where the type is not known only its names are filled in.\<close>

definition deleteDocument ::
  "json_lib \<Rightarrow> (string \<Rightarrow> string \<Rightarrow> string) \<Rightarrow> 'w clientPair \<Rightarrow> CliContext \<Rightarrow> string \<Rightarrow> string \<Rightarrow> 'w
     \<Rightarrow> (go_error option \<times> string) \<times> 'w" where
  "deleteDocument J uuid clients activeCtx flagNamespace jsonData w =
     (case resourceRefFromManifest J jsonData of
        Inl err \<Rightarrow> ((Some (WrapError ''parsing manifest: '' err), ''''), w)
      | Inr ref \<Rightarrow>
          (let info = (case resourceTypeFromManifest '''' (rrResource ref) of
                 Inr info \<Rightarrow> info
               | Inl _ \<Rightarrow> \<lparr>riGroup = rrGroup ref, riVersion = rrVersion ref, riResource = rrResource ref,
                   riKind = '''', riAliases = []\<rparr>);
               namespace = (if rrNamespace ref = '''' then EffectiveNamespace activeCtx flagNamespace
                            else rrNamespace ref)
           in runDelete uuid clients activeCtx info (rrName ref) namespace w))"

fun deleteDocuments ::
  "json_lib \<Rightarrow> (string \<Rightarrow> string \<Rightarrow> string) \<Rightarrow> (string \<Rightarrow> go_error + string) \<Rightarrow> 'w clientPair \<Rightarrow> CliContext
     \<Rightarrow> string \<Rightarrow> string list \<Rightarrow> 'w \<Rightarrow> (go_error list \<times> string) \<times> 'w" where
  "deleteDocuments J uuid yamlToJSON clients activeCtx ns [] w = (([], ''''), w)"
| "deleteDocuments J uuid yamlToJSON clients activeCtx ns (doc # docs) w =
     (let (errs, out, w) =
        (case yamlToJSON doc of
           Inl err \<Rightarrow> ([WrapError ''converting manifest: '' err], '''', w)
         | Inr jsonData \<Rightarrow>
             (case deleteDocument J uuid clients activeCtx ns jsonData w of
                ((Some err, out), w) \<Rightarrow> ([err], out, w)
              | ((None, out), w) \<Rightarrow> ([], out, w)));
          ((errs', out'), w) = deleteDocuments J uuid yamlToJSON clients activeCtx ns docs w
      in ((errs @ errs', out @ out'), w))"

definition runDeleteFromFile ::
  "'w file_system \<Rightarrow> json_lib \<Rightarrow> (string \<Rightarrow> string \<Rightarrow> string) \<Rightarrow> (string \<Rightarrow> go_error + string) \<Rightarrow> 'w clientPair
     \<Rightarrow> CliContext \<Rightarrow> string \<Rightarrow> string list \<Rightarrow> 'w \<Rightarrow> (go_error option \<times> string \<times> string) \<times> 'w" where
  "runDeleteFromFile fs J uuid yamlToJSON clients activeCtx ns files w =
     (case readManifestFiles fs files w of
        (Inl err, w) \<Rightarrow> ((Some err, '''', ''''), w)
      | (Inr docs, w) \<Rightarrow>
          (if docs = [] then ((Some (ErrorString ''no manifests found in specified files''), '''', ''''), w)
           else (case deleteDocuments J uuid yamlToJSON clients activeCtx ns docs w of
                   ((errs, out), w) \<Rightarrow>
                     (case report_errors errs of (e, errout) \<Rightarrow> ((e, out, errout), w)))))"

section \<open>get\<close>

definition read_desire_for :: "CliContext \<Rightarrow> ResourceReference \<Rightarrow> string \<Rightarrow> ReadDesire" where
  "read_desire_for activeCtx ref docID =
     zero_ReadDesire\<lparr>rdSpec := \<lparr>rsManagementCluster = cxManagementCluster activeCtx,
        rsClusterID = cxClusterID activeCtx, rsNodePoolName = cxNodePool activeCtx, rsTargetItem = ref\<rparr>,
      DocumentID := docID\<rparr>"

definition ensureReadDesire ::
  "'w KubeApplierDBClient \<Rightarrow> CliContext \<Rightarrow> ResourceReference \<Rightarrow> string \<Rightarrow> 'w \<Rightarrow> (go_error + gtime) \<times> 'w" where
  "ensureReadDesire specsDB activeCtx ref docID w =
     (let crud = dbReadStatus specsDB in
      case opGet crud docID w of
        (Inr existing, w) \<Rightarrow>
          (case opReplace crud existing w of
             (Inl err, w) \<Rightarrow> (Inl (WrapError ''refreshing read desire: '' err), w)
           | (Inr _, w) \<Rightarrow>
               (case opGet crud docID w of
                  (Inl err, w) \<Rightarrow> (Inl (WrapError ''getting updated read desire: '' err), w)
                | (Inr updated, w) \<Rightarrow> (Inr (UpdateTime updated), w)))
      | (Inl err, w) \<Rightarrow>
          (if \<not> IsNotFoundError err then (Inl (WrapError ''checking read desire: '' err), w)
           else (case opCreate crud (read_desire_for activeCtx ref docID) w of
                   (Inr stored, w) \<Rightarrow> (Inr (UpdateTime stored), w)
                 | (Inl err, w) \<Rightarrow>
                     (if IsAlreadyExistsError err
                      then (case opGet crud docID w of
                              (Inl err, w) \<Rightarrow> (Inl (WrapError ''getting existing read desire: '' err), w)
                            | (Inr existing, w) \<Rightarrow> (Inr (UpdateTime existing), w))
                      else (Inl (WrapError ''creating read desire: '' err), w)))))"

record 'w wall_clock =
  clNow :: "'w \<Rightarrow> gtime \<times> 'w"
  clSleep :: "duration \<Rightarrow> 'w \<Rightarrow> 'w"

definition status_fresh :: "gtime \<Rightarrow> ReadDesire \<Rightarrow> bool" where
  "status_fresh afterTime rd = (rsObservedDesireUpdateTime (rdStatus rd) \<noteq> 0 \<and>
     \<not> rsObservedDesireUpdateTime (rdStatus rd) < afterTime)"

definition has_content :: "ReadDesire \<Rightarrow> bool" where
  "has_content rd = (case rsKubeContent (rdStatus rd) of None \<Rightarrow> False | Some e \<Rightarrow> 0 < length (Raw e))"

definition failed_read :: "ReadDesire \<Rightarrow> Condition option" where
  "failed_read rd =
     find (\<lambda>c. cType c = ConditionTypeSuccessful \<and> cStatus c = ''False'') (rsConditions (rdStatus rd))"

definition maxInterval :: duration where "maxInterval = 2 * second"

text \<open>\<open>None\<close> is a loop that goes on for ever.\<close>

partial_function (option) pollFrom ::
  "(string \<Rightarrow> 'w \<Rightarrow> (go_error + ReadDesire) \<times> 'w) \<Rightarrow> 'w wall_clock \<Rightarrow> string \<Rightarrow> gtime \<Rightarrow> gtime \<Rightarrow> duration \<Rightarrow> 'w
     \<Rightarrow> ((go_error + ReadDesireStatus) \<times> 'w) option" where
  "pollFrom get clock docID afterTime deadline interval w =
     (case get docID w of (r, w) \<Rightarrow>
        (case r of
           Inl err \<Rightarrow>
             (if IsNotFoundError err
              then (case clNow clock w of (t, w) \<Rightarrow>
                      (if t > deadline
                       then Some (Inl (ErrorString ''timed out waiting for status (no status document yet)''), w)
                       else pollFrom get clock docID afterTime deadline (min (interval * 2) maxInterval)
                              (clSleep clock interval w)))
              else Some (Inl (WrapError ''getting status: '' err), w))
         | Inr readDesire \<Rightarrow>
             (if status_fresh afterTime readDesire \<or> has_content readDesire
              then (case failed_read readDesire of
                      Some c \<Rightarrow> Some (Inl (ErrorString (''read failed: '' @ cReason c @ '': '' @ cMessage c)), w)
                    | None \<Rightarrow> Some (Inr (rdStatus readDesire), w))
              else (case clNow clock w of (t, w) \<Rightarrow>
                      (if t > deadline then Some (Inl (ErrorString ''timed out waiting for fresh status''), w)
                       else pollFrom get clock docID afterTime deadline (min (interval * 2) maxInterval)
                              (clSleep clock interval w))))))"

definition pollReadDesireStatus ::
  "'w wall_clock \<Rightarrow> 'w KubeApplierDBClient \<Rightarrow> string \<Rightarrow> gtime \<Rightarrow> duration \<Rightarrow> 'w
     \<Rightarrow> ((go_error + ReadDesireStatus) \<times> 'w) option" where
  "pollReadDesireStatus clock statusDB docID afterTime timeout w =
     (let (t, w) = clNow clock w
      in pollFrom (opGet (dbReadStatus statusDB)) clock docID afterTime (t + timeout) (200 * millisecond) w)"

definition status_raw :: "ReadDesireStatus \<Rightarrow> string option" where
  "status_raw st = map_option Raw (rsKubeContent st)"

text \<open>The status read for one target, as both forms of \<open>get\<close> obtain it.\<close>

definition read_target ::
  "(string \<Rightarrow> string \<Rightarrow> string) \<Rightarrow> 'w wall_clock \<Rightarrow> 'w clientPair \<Rightarrow> CliContext \<Rightarrow> duration \<Rightarrow> ResourceReference \<Rightarrow> 'w
     \<Rightarrow> ((go_error + ReadDesireStatus) \<times> 'w) option" where
  "read_target uuid clock clients activeCtx timeout ref w =
     (let docID = ref_document uuid ref in
      case ensureReadDesire (cpSpecs clients) activeCtx ref docID w of
        (Inl err, w) \<Rightarrow> Some (Inl err, w)
      | (Inr specTime, w) \<Rightarrow> pollReadDesireStatus clock (cpStatus clients) docID specTime timeout w)"

definition runGetNamed ::
  "json_lib \<Rightarrow> print_lib \<Rightarrow> (string \<Rightarrow> string \<Rightarrow> string) \<Rightarrow> 'w wall_clock \<Rightarrow> 'w clientPair \<Rightarrow> CliContext \<Rightarrow> ResourceInfo
     \<Rightarrow> string \<Rightarrow> string \<Rightarrow> duration \<Rightarrow> OutputFormat \<Rightarrow> 'w \<Rightarrow> ((go_error option \<times> string) \<times> 'w) option" where
  "runGetNamed J pl uuid clock clients activeCtx resInfo name namespace timeout format w =
     (case read_target uuid clock clients activeCtx timeout (resourceRefFromGVR resInfo namespace name) w of
        None \<Rightarrow> None
      | Some (Inl err, w) \<Rightarrow> Some ((Some err, ''''), w)
      | Some (Inr readStatus, w) \<Rightarrow>
          (let raw = (case status_raw readStatus of None \<Rightarrow> '''' | Some raw \<Rightarrow> raw) in
           if raw = '''' then Some ((Some (ErrorString (''no data returned for '' @ formatResourceName resInfo name)), ''''), w)
           else Some ((None,
                  case format of
                    OutputJSON \<Rightarrow> printResourceJSON J pl raw
                  | OutputYAML \<Rightarrow> printResourceYAML pl raw
                  | _ \<Rightarrow> printResourceTable pl (riResource resInfo) [extractTableRow J (riResource resInfo) raw]), w)))"

record get_result =
  grName :: string
  grNamespace :: string
  grContent :: "string option"
  grErr :: "go_error option"

fun get_each ::
  "(string \<Rightarrow> string \<Rightarrow> string) \<Rightarrow> 'w wall_clock \<Rightarrow> 'w clientPair \<Rightarrow> CliContext \<Rightarrow> duration \<Rightarrow> ApplyDesire list \<Rightarrow> 'w
     \<Rightarrow> (get_result list \<times> 'w) option" where
  "get_each uuid clock clients activeCtx timeout [] w = Some ([], w)"
| "get_each uuid clock clients activeCtx timeout (d # matching) w =
     (let ref = asTargetItem (adSpec d) in
      case read_target uuid clock clients activeCtx timeout ref w of
        None \<Rightarrow> None
      | Some (r, w) \<Rightarrow>
          (case get_each uuid clock clients activeCtx timeout matching w of
             None \<Rightarrow> None
           | Some (results, w) \<Rightarrow>
               Some (\<lparr>grName = rrName ref, grNamespace = rrNamespace ref,
                      grContent = (case r of Inl _ \<Rightarrow> None | Inr st \<Rightarrow> status_raw st),
                      grErr = (case r of Inl err \<Rightarrow> Some err | Inr _ \<Rightarrow> None)\<rparr> # results, w)))"

definition get_matches :: "ResourceInfo \<Rightarrow> string \<Rightarrow> ApplyDesire list \<Rightarrow> ApplyDesire list" where
  "get_matches resInfo namespace =
     filter (\<lambda>d. let t = asTargetItem (adSpec d) in
        rrResource t = riResource resInfo \<and> rrGroup t = riGroup resInfo \<and>
        (namespace = '''' \<or> rrNamespace t = namespace))"

definition result_rows :: "json_lib \<Rightarrow> string \<Rightarrow> get_result list \<Rightarrow> tableRow list" where
  "result_rows J resType results =
     concat (map (\<lambda>r. if grErr r \<noteq> None then []
        else (case grContent r of
                Some content \<Rightarrow> [extractTableRow J resType content]
              | None \<Rightarrow> [\<lparr>trName = grName r, trNamespace = grNamespace r, trExtra = (\<lambda>_. '''')\<rparr>])) results)"

definition result_warnings :: "get_result list \<Rightarrow> string" where
  "result_warnings results =
     concat (map (\<lambda>r. case grErr r of
        None \<Rightarrow> ''''
      | Some err \<Rightarrow> ''warning: '' @ grNamespace r @ ''/'' @ grName r @ '': '' @ error_text err @ newline) results)"

definition runGetList ::
  "json_lib \<Rightarrow> print_lib \<Rightarrow> (string \<Rightarrow> string \<Rightarrow> string) \<Rightarrow> 'w wall_clock \<Rightarrow> 'w clientPair \<Rightarrow> CliContext \<Rightarrow> ResourceInfo
     \<Rightarrow> string \<Rightarrow> duration \<Rightarrow> OutputFormat \<Rightarrow> 'w \<Rightarrow> ((go_error option \<times> string \<times> string) \<times> 'w) option" where
  "runGetList J pl uuid clock clients activeCtx resInfo namespace timeout format w =
     (case srList (dbApplySpecs (cpSpecs clients)) w of
        None \<Rightarrow> None
      | Some (Inl err, w) \<Rightarrow> Some ((Some (WrapError ''listing resources: '' err), '''', ''''), w)
      | Some (Inr applyDesires, w) \<Rightarrow>
          (let matching = get_matches resInfo namespace applyDesires in
           if matching = [] then Some ((None, ''No resources found.'' @ newline, ''''), w)
           else (case get_each uuid clock clients activeCtx timeout matching w of
                   None \<Rightarrow> None
                 | Some (results, w) \<Rightarrow>
                     (let items = concat (map (\<lambda>r. case grContent r of None \<Rightarrow> [] | Some c \<Rightarrow> [c]) results)
                      in (case format of
                            OutputJSON \<Rightarrow>
                              (case printResourceListJSON J pl items of (e, out) \<Rightarrow> Some ((e, out, ''''), w))
                          | OutputYAML \<Rightarrow> Some ((None, printResourceListYAML pl 0 items, ''''), w)
                          | _ \<Rightarrow>
                              (let rows = result_rows J (riResource resInfo) results
                               in Some ((None, if rows = [] then ''No resources found.'' @ newline
                                    else printResourceTable pl (riResource resInfo) rows,
                                    result_warnings results), w)))))))"

end
