(* ===== verification/GoTime.thy ===== *)
theory GoTime
  imports KA_Prelude "HOL-Library.Monad_Syntax"
begin

text \<open>
  What the sources use of Go's package \<open>time\<close> on instants in UTC: \<open>Format\<close> with the layouts
  \<open>time.RFC3339\<close> and \<open>time.RFC3339Nano\<close>, and \<open>time.Parse(time.RFC3339, s)\<close>, which also accepts a
  fraction of a second and a zone offset. An instant is counted in nanoseconds from
  0001-01-01T00:00:00Z.
\<close>

section \<open>Calendar\<close>

definition leap :: "int \<Rightarrow> bool" where
  "leap y = (y mod 4 = 0 \<and> (y mod 100 \<noteq> 0 \<or> y mod 400 = 0))"

definition month_days :: "int \<Rightarrow> int list" where
  "month_days y = [31, if leap y then 29 else 28, 31, 30, 31, 30, 31, 31, 30, 31, 30, 31]"

definition days_before_year :: "int \<Rightarrow> int" where
  "days_before_year y = 365 * (y - 1) + (y - 1) div 4 - (y - 1) div 100 + (y - 1) div 400"

text \<open>The year and the day of the year, by cycles of 400, 100, 4 and 1 years.\<close>

definition year_of_days :: "int \<Rightarrow> int \<times> int" where
  "year_of_days d =
     (let n400 = d div 146097; d = d mod 146097;
          n100 = min 3 (d div 36524); d = d - 36524 * n100;
          n4 = d div 1461; d = d mod 1461;
          n1 = min 3 (d div 365); d = d - 365 * n1
      in (400 * n400 + 100 * n100 + 4 * n4 + n1 + 1, d))"

fun month_of_day :: "int list \<Rightarrow> int \<Rightarrow> int \<Rightarrow> int \<times> int" where
  "month_of_day [] m d = (m, d + 1)"
| "month_of_day (n # ns) m d = (if d < n then (m, d + 1) else month_of_day ns (m + 1) (d - n))"

section \<open>Formatting\<close>

primrec fixed_digits :: "nat \<Rightarrow> int \<Rightarrow> string" where
  "fixed_digits 0 i = []"
| "fixed_digits (Suc w) i = fixed_digits w (i div 10) @ [digit_char (nat (i mod 10))]"

definition pad_int :: "nat \<Rightarrow> int \<Rightarrow> string" where
  "pad_int width i =
     (if i < 0 then CHR ''-'' # (if - i < 10 ^ width then fixed_digits width (- i) else show_int (- i))
      else if i < 10 ^ width then fixed_digits width i else show_int i)"

definition format_seconds :: "int \<Rightarrow> string" where
  "format_seconds s =
     (let (y, yd) = year_of_days (s div 86400); sod = s mod 86400;
          (m, d) = month_of_day (month_days y) 1 yd
      in pad_int 4 y @ ''-'' @ pad_int 2 m @ ''-'' @ pad_int 2 d @ ''T'' @
         pad_int 2 (sod div 3600) @ '':'' @ pad_int 2 (sod div 60 mod 60) @ '':'' @ pad_int 2 (sod mod 60))"

definition format_RFC3339 :: "gtime \<Rightarrow> string" where
  "format_RFC3339 t = format_seconds (t div second) @ ''Z''"

definition trim_zeros :: "string \<Rightarrow> string" where
  "trim_zeros s = rev (dropWhile (\<lambda>c. c = CHR ''0'') (rev s))"

definition format_RFC3339Nano :: "gtime \<Rightarrow> string" where
  "format_RFC3339Nano t =
     (let f = trim_zeros (pad_int 9 (t mod second))
      in format_seconds (t div second) @ (if f = '''' then '''' else CHR ''.'' # f) @ ''Z'')"

section \<open>Parsing\<close>

definition is_digit :: "char \<Rightarrow> bool" where
  "is_digit c = (48 \<le> (of_char c :: nat) \<and> (of_char c :: nat) < 58)"

definition digits_int :: "string \<Rightarrow> int" where
  "digits_int s = foldl (\<lambda>a c. 10 * a + (of_char c - 48)) 0 s"

text \<open>Exactly \<open>n\<close> digits, and the rest of the input; and the expected character.\<close>

definition take_digits :: "nat \<Rightarrow> string \<Rightarrow> (int \<times> string) option" where
  "take_digits n s =
     (if n \<le> length s \<and> list_all is_digit (take n s)
      then Some (digits_int (take n s), drop n s) else None)"

text \<open>The hour may have a single digit.\<close>

definition take_hour :: "string \<Rightarrow> (int \<times> string) option" where
  "take_hour s = (case take_digits 2 s of None \<Rightarrow> take_digits 1 s | r \<Rightarrow> r)"

fun expect :: "char \<Rightarrow> string \<Rightarrow> string option" where
  "expect c [] = None"
| "expect c (x # xs) = (if x = c then Some xs else None)"

text \<open>\<open>parseNanoseconds\<close>: nine digits count, the others are dropped.\<close>

definition take_fraction :: "string \<Rightarrow> int \<times> string" where
  "take_fraction s =
     (case s of
        c # d # rest \<Rightarrow>
          (if (c = CHR ''.'' \<or> c = CHR '','') \<and> is_digit d
           then (let ds = takeWhile is_digit (d # rest); ns = take 9 ds
                 in (digits_int (ns @ replicate (9 - length ns) (CHR ''0'')),
                     dropWhile is_digit (d # rest)))
           else (0, s))
      | _ \<Rightarrow> (0, s))"

definition take_zone :: "string \<Rightarrow> int option" where
  "take_zone s =
     (if s = ''Z'' then Some 0
      else (case s of
          [] \<Rightarrow> None
        | sign # rest \<Rightarrow>
            (if sign = CHR ''+'' \<or> sign = CHR ''-'' then
               do { (h, rest) \<leftarrow> take_digits 2 rest; rest \<leftarrow> expect (CHR '':'') rest;
                    (m, rest) \<leftarrow> take_digits 2 rest;
                    if rest = [] \<and> h \<le> 24 \<and> m \<le> 60
                    then Some ((if sign = CHR ''-'' then -1 else 1) * (3600 * h + 60 * m)) else None }
             else None)))"

definition parse_RFC3339 :: "string \<Rightarrow> gtime option" where
  "parse_RFC3339 s =
     do { (y, s) \<leftarrow> take_digits 4 s; s \<leftarrow> expect (CHR ''-'') s;
          (m, s) \<leftarrow> take_digits 2 s; s \<leftarrow> expect (CHR ''-'') s;
          (d, s) \<leftarrow> take_digits 2 s; s \<leftarrow> expect (CHR ''T'') s;
          (hh, s) \<leftarrow> take_hour s; s \<leftarrow> expect (CHR '':'') s;
          (mm, s) \<leftarrow> take_digits 2 s; s \<leftarrow> expect (CHR '':'') s;
          (ss, s) \<leftarrow> take_digits 2 s;
          (let (ns, s) = take_fraction s in
           do { off \<leftarrow> take_zone s;
                if 1 \<le> m \<and> m \<le> 12 \<and> 1 \<le> d \<and> d \<le> month_days y ! nat (m - 1)
                   \<and> hh < 24 \<and> mm < 60 \<and> ss < 60
                then Some (second * (86400 * (days_before_year y
                        + sum_list (take (nat (m - 1)) (month_days y)) + d - 1)
                      + 3600 * hh + 60 * mm + ss - off) + ns)
                else None }) }"

end
