(* ===== verification/DesireTool.thy ===== *)
theory DesireTool
  imports CliDesires GoTime
begin

text \<open>
  The second command line client, \<open>cmd/desire-tool/main.go\<close>: the bodies of its commands on the two
  database clients, and its own reading of manifests. The values of flags are arguments here, taken from the
  command line in theory \<open>ToolCommands\<close>, and what a command prints is part of its result.
\<close>

section \<open>Manifests\<close>

definition toLowerFirst :: "string \<Rightarrow> string" where
  "toLowerFirst s = (case s of [] \<Rightarrow> [] | c # cs \<Rightarrow> lower_char c # cs)"

definition guessResource :: "string \<Rightarrow> string" where
  "guessResource kind =
     (case map_of
        [(''ConfigMap'', ''configmaps''), (''Secret'', ''secrets''), (''Namespace'', ''namespaces''),
         (''Service'', ''services''), (''ServiceAccount'', ''serviceaccounts''), (''Deployment'', ''deployments''),
         (''StatefulSet'', ''statefulsets''), (''DaemonSet'', ''daemonsets''), (''Job'', ''jobs''),
         (''CronJob'', ''cronjobs''), (''Pod'', ''pods''), (''ClusterRole'', ''clusterroles''),
         (''ClusterRoleBinding'', ''clusterrolebindings''), (''Role'', ''roles''), (''RoleBinding'', ''rolebindings'')]
        kind of
        Some r \<Rightarrow> r
      | None \<Rightarrow> toLowerFirst kind @ ''s'')"

text \<open>\<open>strings.SplitN(s, "/", 2)\<close> for an API version: the group and the version.\<close>

definition split_api_version :: "string \<Rightarrow> string \<times> string" where
  "split_api_version s =
     (if CHR ''/'' \<in> set s
      then (takeWhile (\<lambda>c. c \<noteq> CHR ''/'') s, tl (dropWhile (\<lambda>c. c \<noteq> CHR ''/'') s))
      else ('''', s))"

definition tool_resourceRefFromManifest :: "json_lib \<Rightarrow> string \<Rightarrow> go_error + ResourceReference" where
  "tool_resourceRefFromManifest J raw =
     (case unmarshal_object J raw of
        Inl err \<Rightarrow> Inl (WrapError ''manifest must be JSON: '' err)
      | Inr obj \<Rightarrow>
          (let apiVersion = field_string obj ''apiVersion''; kind = field_string obj ''kind'';
               metadata = field_map obj ''metadata''
           in if apiVersion = '''' \<or> kind = ''''
              then Inl (ErrorString ''manifest must have apiVersion and kind'')
              else (let (group, version) = split_api_version apiVersion
                    in Inr \<lparr>rrGroup = group, rrVersion = version, rrResource = guessResource kind,
                         rrNamespace = field_string metadata ''namespace'',
                         rrName = field_string metadata ''name''\<rparr>)))"

section \<open>Identifiers\<close>

record docIDFlags =
  dfDocID :: string
  dfTaskKey :: string
  dfGroup :: string
  dfVersion :: string
  dfResource :: string
  dfNamespace :: string
  dfResourceName :: string

definition resolve_doc :: "(string \<Rightarrow> string \<Rightarrow> string) \<Rightarrow> docIDFlags \<Rightarrow> go_error + string" where
  "resolve_doc uuid f =
     (if dfDocID f \<noteq> '''' then Inr (dfDocID f)
      else if dfTaskKey f = '''' \<or> dfVersion f = '''' \<or> dfResource f = '''' \<or> dfResourceName f = ''''
      then Inl (ErrorString ''provide either --doc-id or all of --task-key, --version, --resource, --resource-name'')
      else Inr (NewDocumentID uuid (dfTaskKey f) (dfGroup f) (dfVersion f) (dfResource f) (dfNamespace f)
             (dfResourceName f)))"

definition tool_document :: "(string \<Rightarrow> string \<Rightarrow> string) \<Rightarrow> string \<Rightarrow> ResourceReference \<Rightarrow> string" where
  "tool_document uuid key ref =
     NewDocumentID uuid key (rrGroup ref) (rrVersion ref) (rrResource ref) (rrNamespace ref) (rrName ref)"

definition show_target :: "ResourceReference \<Rightarrow> string" where
  "show_target ref = rrVersion ref @ ''/'' @ rrResource ref @ '' '' @ rrNamespace ref @ ''/'' @ rrName ref"

section \<open>Create\<close>

text \<open>The manifest of \<open>--file\<close>, as JSON, with its target.\<close>

definition load_manifest ::
  "'w file_system \<Rightarrow> json_lib \<Rightarrow> (string \<Rightarrow> go_error + string) \<Rightarrow> string \<Rightarrow> 'w
     \<Rightarrow> (go_error + string \<times> ResourceReference) \<times> 'w" where
  "load_manifest fs J yamlToJSON filePath w =
     (case fsReadFile fs filePath w of
        (Inl err, w) \<Rightarrow> (Inl (WrapError ''reading manifest file: '' err), w)
      | (Inr data, w) \<Rightarrow>
          (case yamlToJSON data of
             Inl err \<Rightarrow> (Inl (WrapError ''converting manifest to JSON: '' err), w)
           | Inr raw \<Rightarrow>
               (case tool_resourceRefFromManifest J raw of
                  Inl err \<Rightarrow> (Inl (WrapError ''parsing manifest: '' err), w)
                | Inr ref \<Rightarrow> (Inr (raw, ref), w))))"

definition tool_apply_desire :: "string \<Rightarrow> string \<Rightarrow> ResourceReference \<Rightarrow> string \<Rightarrow> string \<Rightarrow> ApplyDesire" where
  "tool_apply_desire clusterID nodePool ref raw docID =
     zero_ApplyDesire\<lparr>adSpec := \<lparr>asManagementCluster = ''dev-local'', asClusterID = clusterID,
        asNodePoolName = nodePool, asType = '''', asTargetItem = ref,
        asServerSideApply = Some \<lparr>ssaKubeContent = Some \<lparr>Raw = raw\<rparr>\<rparr>\<rparr>, DocumentID := docID\<rparr>"

definition createApply ::
  "'w file_system \<Rightarrow> json_lib \<Rightarrow> (string \<Rightarrow> go_error + string) \<Rightarrow> (string \<Rightarrow> string \<Rightarrow> string)
     \<Rightarrow> 'w KubeApplierDBClient \<Rightarrow> string \<Rightarrow> string \<Rightarrow> string \<Rightarrow> string \<Rightarrow> 'w
     \<Rightarrow> (go_error option \<times> string) \<times> 'w" where
  "createApply fs J yamlToJSON uuid specsDB key clusterID nodePool filePath w =
     (case load_manifest fs J yamlToJSON filePath w of
        (Inl err, w) \<Rightarrow> ((Some err, ''''), w)
      | (Inr (raw, ref), w) \<Rightarrow>
          (case opCreate (dbApplyStatus specsDB)
                  (tool_apply_desire clusterID nodePool ref raw (tool_document uuid key ref)) w of
             (Inl err, w) \<Rightarrow> ((Some (WrapError ''creating ApplyDesire: '' err), ''''), w)
           | (Inr stored, w) \<Rightarrow>
               ((None, ''Created ApplyDesire: '' @ DocumentID stored @ newline @
                   ''  Target: '' @ show_target ref @ newline), w)))"

definition tool_delete_desire :: "string \<Rightarrow> string \<Rightarrow> ResourceReference \<Rightarrow> string \<Rightarrow> ApplyDesire" where
  "tool_delete_desire clusterID nodePool ref docID =
     zero_ApplyDesire\<lparr>adSpec := \<lparr>asManagementCluster = ''dev-local'', asClusterID = clusterID,
        asNodePoolName = nodePool, asType = ApplyDesireTypeDelete, asTargetItem = ref,
        asServerSideApply = None\<rparr>, DocumentID := docID\<rparr>"

definition createDelete ::
  "(string \<Rightarrow> string \<Rightarrow> string) \<Rightarrow> 'w KubeApplierDBClient \<Rightarrow> string \<Rightarrow> string \<Rightarrow> string \<Rightarrow> ResourceReference \<Rightarrow> 'w
     \<Rightarrow> (go_error option \<times> string) \<times> 'w" where
  "createDelete uuid specsDB key clusterID nodePool ref w =
     (case opCreate (dbApplyStatus specsDB)
             (tool_delete_desire clusterID nodePool ref (tool_document uuid key ref)) w of
        (Inl err, w) \<Rightarrow> ((Some (WrapError ''creating ApplyDesire (Delete): '' err), ''''), w)
      | (Inr stored, w) \<Rightarrow>
          ((None, ''Created ApplyDesire (Type=Delete): '' @ DocumentID stored @ newline @
              ''  Target: '' @ show_target ref @ newline), w))"

definition tool_read_desire :: "string \<Rightarrow> string \<Rightarrow> ResourceReference \<Rightarrow> string \<Rightarrow> ReadDesire" where
  "tool_read_desire clusterID nodePool ref docID =
     zero_ReadDesire\<lparr>rdSpec := \<lparr>rsManagementCluster = ''dev-local'', rsClusterID = clusterID,
        rsNodePoolName = nodePool, rsTargetItem = ref\<rparr>, DocumentID := docID\<rparr>"

definition createRead ::
  "(string \<Rightarrow> string \<Rightarrow> string) \<Rightarrow> 'w KubeApplierDBClient \<Rightarrow> string \<Rightarrow> string \<Rightarrow> string \<Rightarrow> ResourceReference \<Rightarrow> 'w
     \<Rightarrow> (go_error option \<times> string) \<times> 'w" where
  "createRead uuid specsDB key clusterID nodePool ref w =
     (case opCreate (dbReadStatus specsDB)
             (tool_read_desire clusterID nodePool ref (tool_document uuid key ref)) w of
        (Inl err, w) \<Rightarrow> ((Some (WrapError ''creating ReadDesire: '' err), ''''), w)
      | (Inr stored, w) \<Rightarrow>
          ((None, ''Created ReadDesire: '' @ DocumentID stored @ newline @
              ''  Target: '' @ show_target ref @ newline), w))"

section \<open>Update\<close>

definition updateApply ::
  "'w file_system \<Rightarrow> json_lib \<Rightarrow> (string \<Rightarrow> go_error + string) \<Rightarrow> (string \<Rightarrow> string \<Rightarrow> string)
     \<Rightarrow> 'w KubeApplierDBClient \<Rightarrow> docIDFlags \<Rightarrow> string \<Rightarrow> 'w \<Rightarrow> (go_error option \<times> string) \<times> 'w" where
  "updateApply fs J yamlToJSON uuid specsDB f filePath w =
     (case resolve_doc uuid f of
        Inl err \<Rightarrow> ((Some err, ''''), w)
      | Inr docID \<Rightarrow>
          (case opGet (dbApplyStatus specsDB) docID w of
             (Inl err, w) \<Rightarrow> ((Some (WrapError (''getting ApplyDesire '' @ docID @ '': '') err), ''''), w)
           | (Inr existing, w) \<Rightarrow>
               (case load_manifest fs J yamlToJSON filePath w of
                  (Inl err, w) \<Rightarrow> ((Some err, ''''), w)
                | (Inr (raw, ref), w) \<Rightarrow>
                    (let existing = ApplyDesire_SetSpecKubeContent (Some \<lparr>Raw = raw\<rparr>) existing;
                         existing = existing\<lparr>adSpec := (adSpec existing)\<lparr>asTargetItem := ref\<rparr>\<rparr>
                     in (case opReplace (dbApplyStatus specsDB) existing w of
                           (Inl err, w) \<Rightarrow> ((Some (WrapError ''updating ApplyDesire: '' err), ''''), w)
                         | (Inr updated, w) \<Rightarrow>
                             ((None, ''Updated ApplyDesire: '' @ DocumentID updated @ newline @
                                 ''  Target: '' @ show_target ref @ newline), w))))))"

definition updateRead ::
  "(string \<Rightarrow> string \<Rightarrow> string) \<Rightarrow> 'w KubeApplierDBClient \<Rightarrow> docIDFlags \<Rightarrow> ResourceReference \<Rightarrow> 'w
     \<Rightarrow> (go_error option \<times> string) \<times> 'w" where
  "updateRead uuid specsDB f newTarget w =
     (case resolve_doc uuid f of
        Inl err \<Rightarrow> ((Some err, ''''), w)
      | Inr docID \<Rightarrow>
          (case opGet (dbReadStatus specsDB) docID w of
             (Inl err, w) \<Rightarrow> ((Some (WrapError (''getting ReadDesire '' @ docID @ '': '') err), ''''), w)
           | (Inr existing, w) \<Rightarrow>
               (case opReplace (dbReadStatus specsDB)
                       (existing\<lparr>rdSpec := (rdSpec existing)\<lparr>rsTargetItem := newTarget\<rparr>\<rparr>) w of
                  (Inl err, w) \<Rightarrow> ((Some (WrapError ''updating ReadDesire: '' err), ''''), w)
                | (Inr updated, w) \<Rightarrow>
                    ((None, ''Updated ReadDesire: '' @ DocumentID updated @ newline @
                        ''  Target: '' @ show_target newTarget @ newline), w))))"

section \<open>Get\<close>

text \<open>\<open>time.Time.String\<close> of an instant in UTC.\<close>

definition time_String :: "gtime \<Rightarrow> string" where
  "time_String t =
     (let f = trim_zeros (pad_int 9 (t mod second))
      in map (\<lambda>c. if c = CHR ''T'' then CHR '' '' else c) (format_seconds (t div second)) @
         (if f = '''' then '''' else CHR ''.'' # f) @ '' +0000 UTC'')"

abbreviation out_line :: "string \<Rightarrow> string" where "out_line s \<equiv> s @ newline"

definition printDesireHeader :: "string \<Rightarrow> string \<Rightarrow> string \<Rightarrow> string \<Rightarrow> string" where
  "printDesireHeader kind docID updateTime createTime =
     out_line (kind @ '': '' @ docID) @ out_line (''  Created:      '' @ createTime) @
     out_line (''  Updated:      '' @ updateTime)"

definition printTargetItem :: "ResourceReference \<Rightarrow> string" where
  "printTargetItem ref =
     out_line ''  Target Item:'' @
     (if rrGroup ref \<noteq> '''' then out_line (''    Group:      '' @ rrGroup ref) else '''') @
     out_line (''    Version:    '' @ rrVersion ref) @ out_line (''    Resource:   '' @ rrResource ref) @
     (if rrNamespace ref \<noteq> '''' then out_line (''    Namespace:  '' @ rrNamespace ref) else '''') @
     out_line (''    Name:       '' @ rrName ref)"

definition printConditions :: "Condition list \<Rightarrow> string" where
  "printConditions conditions =
     (if conditions = [] then out_line ''  Conditions:   (none)''
      else out_line ''  Conditions:'' @
        concat (map (\<lambda>c.
          out_line (''    - Type: '' @ cType c @ '', Status: '' @ cStatus c @ '', Reason: '' @ cReason c) @
          (if cMessage c \<noteq> '''' then out_line (''      Message: '' @ cMessage c) else '''') @
          (if cLastTransitionTime c \<noteq> 0
           then out_line (''      LastTransition: '' @ time_String (cLastTransitionTime c)) else '''')) conditions))"

text \<open>\<open>marshalPrefix p v\<close> stands for \<open>json.MarshalIndent(v, p, "  ")\<close>.\<close>

definition printIndentedJSON ::
  "json_lib \<Rightarrow> (string \<Rightarrow> json \<Rightarrow> go_error + string) \<Rightarrow> string \<Rightarrow> nat \<Rightarrow> string" where
  "printIndentedJSON J marshalPrefix raw indent =
     (let pad = replicate indent (CHR '' '') in
      case json_Unmarshal J raw of
        Inl err \<Rightarrow> out_line (pad @ raw)
      | Inr obj \<Rightarrow>
          (case marshalPrefix pad obj of
             Inl err \<Rightarrow> out_line (pad @ raw)
           | Inr formatted \<Rightarrow> out_line (pad @ formatted)))"

text \<open>What the three \<open>get\<close> commands share: the cluster and the node pool, and a time that is set.\<close>

definition print_cluster :: "string \<Rightarrow> string \<Rightarrow> string" where
  "print_cluster clusterID nodePool = out_line (''  Cluster ID:   '' @ clusterID) @
     (if nodePool \<noteq> '''' then out_line (''  Node Pool:    '' @ nodePool) else '''')"

definition print_observed :: "gtime \<Rightarrow> string" where
  "print_observed t = (if t \<noteq> 0 then out_line (''  ObservedDesireUpdateTime: '' @ time_String t) else '''')"

definition no_status_line :: string where
  "no_status_line = out_line ''  Status:       (no status document yet)''"

definition getApply ::
  "json_lib \<Rightarrow> (string \<Rightarrow> json \<Rightarrow> go_error + string) \<Rightarrow> 'w clientPair \<Rightarrow> string \<Rightarrow> 'w
     \<Rightarrow> (go_error option \<times> string) \<times> 'w" where
  "getApply J marshalPrefix clients docID w =
     (case srGet (dbApplySpecs (cpSpecs clients)) docID w of
        (Inl err, w) \<Rightarrow> ((Some (WrapError ''getting ApplyDesire spec: '' err), ''''), w)
      | (Inr spec, w) \<Rightarrow>
          (let out = printDesireHeader ''ApplyDesire'' (DocumentID spec) (time_String (UpdateTime spec))
                   (time_String (CreateTime spec)) @
                 print_cluster (asClusterID (adSpec spec)) (asNodePoolName (adSpec spec)) @
                 printTargetItem (asTargetItem (adSpec spec)) @
                 (case ApplyDesire_GetSpecKubeContent spec of
                    None \<Rightarrow> ''''
                  | Some content \<Rightarrow> out_line ''  KubeContent:'' @ printIndentedJSON J marshalPrefix (Raw content) 4)
           in (case opGet (dbApplyStatus (cpStatus clients)) docID w of
                 (Inl err, w) \<Rightarrow>
                   (if IsNotFoundError err then ((None, out @ no_status_line), w)
                    else ((Some (WrapError ''getting ApplyDesire status: '' err), out), w))
               | (Inr status, w) \<Rightarrow>
                   ((None, out @ print_observed (asObservedDesireUpdateTime (adStatus status)) @
                       (if asAppliedResourceGeneration (adStatus status) \<noteq> 0
                        then out_line (''  AppliedResourceGeneration: '' @
                               show_int64 (asAppliedResourceGeneration (adStatus status))) else '''') @
                       printConditions (asConditions (adStatus status))), w))))"

definition getDelete ::
  "'w clientPair \<Rightarrow> string \<Rightarrow> 'w \<Rightarrow> (go_error option \<times> string) \<times> 'w" where
  "getDelete clients docID w =
     (case srGet (dbApplySpecs (cpSpecs clients)) docID w of
        (Inl err, w) \<Rightarrow> ((Some (WrapError ''getting ApplyDesire (Delete) spec: '' err), ''''), w)
      | (Inr spec, w) \<Rightarrow>
          (let out = printDesireHeader ''ApplyDesire (Type=Delete)'' (DocumentID spec)
                   (time_String (UpdateTime spec)) (time_String (CreateTime spec)) @
                 print_cluster (asClusterID (adSpec spec)) (asNodePoolName (adSpec spec)) @
                 printTargetItem (asTargetItem (adSpec spec))
           in (case opGet (dbApplyStatus (cpStatus clients)) docID w of
                 (Inl err, w) \<Rightarrow>
                   (if IsNotFoundError err then ((None, out @ no_status_line), w)
                    else ((Some (WrapError ''getting ApplyDesire (Delete) status: '' err), out), w))
               | (Inr status, w) \<Rightarrow>
                   ((None, out @ print_observed (asObservedDesireUpdateTime (adStatus status)) @
                       printConditions (asConditions (adStatus status))), w))))"

definition getRead ::
  "json_lib \<Rightarrow> (string \<Rightarrow> json \<Rightarrow> go_error + string) \<Rightarrow> 'w clientPair \<Rightarrow> string \<Rightarrow> 'w
     \<Rightarrow> (go_error option \<times> string) \<times> 'w" where
  "getRead J marshalPrefix clients docID w =
     (case srGet (dbReadSpecs (cpSpecs clients)) docID w of
        (Inl err, w) \<Rightarrow> ((Some (WrapError ''getting ReadDesire spec: '' err), ''''), w)
      | (Inr spec, w) \<Rightarrow>
          (let out = printDesireHeader ''ReadDesire'' (DocumentID spec) (time_String (UpdateTime spec))
                   (time_String (CreateTime spec)) @
                 print_cluster (rsClusterID (rdSpec spec)) (rsNodePoolName (rdSpec spec)) @
                 printTargetItem (rsTargetItem (rdSpec spec))
           in (case opGet (dbReadStatus (cpStatus clients)) docID w of
                 (Inl err, w) \<Rightarrow>
                   (if IsNotFoundError err then ((None, out @ no_status_line), w)
                    else ((Some (WrapError ''getting ReadDesire status: '' err), out), w))
               | (Inr status, w) \<Rightarrow>
                   ((None, out @ print_observed (rsObservedDesireUpdateTime (rdStatus status)) @
                       printConditions (rsConditions (rdStatus status)) @
                       (case rsKubeContent (rdStatus status) of
                          Some content \<Rightarrow>
                            (if 0 < length (Raw content)
                             then out_line ''  KubeContent (observed):'' @
                                  printIndentedJSON J marshalPrefix (Raw content) 4 else '''')
                        | None \<Rightarrow> '''')), w))))"

section \<open>List\<close>

text \<open>\<open>%-Ns\<close> pads with spaces to the right, counting runes: bytes that do not continue one.\<close>

definition rune_count :: "string \<Rightarrow> nat" where
  "rune_count s = length (filter (\<lambda>c. \<not> (128 \<le> (of_char c :: nat) \<and> (of_char c :: nat) < 192)) s)"

definition pad_right :: "nat \<Rightarrow> string \<Rightarrow> string" where
  "pad_right n s = s @ replicate (n - rune_count s) (CHR '' '')"

definition list_row :: "string \<Rightarrow> string \<Rightarrow> string" where
  "list_row docID target = out_line (pad_right 40 docID @ '' '' @ pad_right 30 target)"

definition list_table :: "(string \<times> ResourceReference) list \<Rightarrow> string" where
  "list_table rows = list_row ''DOCUMENT ID'' ''TARGET'' @
     concat (map (\<lambda>(docID, ref). list_row docID (show_target ref)) rows)"

definition listApply :: "'w KubeApplierDBClient \<Rightarrow> 'w \<Rightarrow> ((go_error option \<times> string) \<times> 'w) option" where
  "listApply specsDB w =
     (case srList (dbApplySpecs specsDB) w of
        None \<Rightarrow> None
      | Some (Inl err, w) \<Rightarrow> Some ((Some (WrapError ''listing ApplyDesires: '' err), ''''), w)
      | Some (Inr desires, w) \<Rightarrow>
          Some ((None, if desires = [] then out_line ''No ApplyDesires found.''
                 else list_table (map (\<lambda>d. (DocumentID d, asTargetItem (adSpec d))) desires)), w))"

definition listDelete :: "'w KubeApplierDBClient \<Rightarrow> 'w \<Rightarrow> ((go_error option \<times> string) \<times> 'w) option" where
  "listDelete specsDB w =
     (case srList (dbApplySpecs specsDB) w of
        None \<Rightarrow> None
      | Some (Inl err, w) \<Rightarrow> Some ((Some (WrapError ''listing ApplyDesires: '' err), ''''), w)
      | Some (Inr all, w) \<Rightarrow>
          (let desires = filter (\<lambda>d. asType (adSpec d) = ApplyDesireTypeDelete) all
           in Some ((None, if desires = [] then out_line ''No ApplyDesires (Type=Delete) found.''
                 else list_table (map (\<lambda>d. (DocumentID d, asTargetItem (adSpec d))) desires)), w)))"

definition listRead :: "'w KubeApplierDBClient \<Rightarrow> 'w \<Rightarrow> ((go_error option \<times> string) \<times> 'w) option" where
  "listRead specsDB w =
     (case srList (dbReadSpecs specsDB) w of
        None \<Rightarrow> None
      | Some (Inl err, w) \<Rightarrow> Some ((Some (WrapError ''listing ReadDesires: '' err), ''''), w)
      | Some (Inr desires, w) \<Rightarrow>
          Some ((None, if desires = [] then out_line ''No ReadDesires found.''
                 else list_table (map (\<lambda>d. (DocumentID d, rsTargetItem (rdSpec d))) desires)), w))"

section \<open>Delete\<close>

fun join_with :: "string \<Rightarrow> string list \<Rightarrow> string" where
  "join_with sep [] = ''''"
| "join_with sep [s] = s"
| "join_with sep (s # t # ss) = s @ sep @ join_with sep (t # ss)"

definition delete_part :: "string \<Rightarrow> go_error option \<Rightarrow> string list" where
  "delete_part label r =
     (case r of None \<Rightarrow> []
      | Some err \<Rightarrow> if \<not> IsNotFoundError err then [label @ '': '' @ error_text err] else [])"

text \<open>The body of the three \<open>delete\<close> commands, which differ in the table and in the name they print.\<close>

definition delete_both ::
  "string \<Rightarrow> string \<Rightarrow> (string \<Rightarrow> 'w \<Rightarrow> go_error option \<times> 'w) \<Rightarrow> (string \<Rightarrow> 'w \<Rightarrow> go_error option \<times> 'w)
     \<Rightarrow> string \<Rightarrow> 'w \<Rightarrow> (go_error option \<times> string) \<times> 'w" where
  "delete_both failing deleted delSpecs delStatus docID w =
     (let (r1, w) = delSpecs docID w;
          (r2, w) = delStatus docID w;
          errs = delete_part ''specs-table'' r1 @ delete_part ''status-table'' r2
      in if errs \<noteq> [] then ((Some (ErrorString (''deleting '' @ failing @ '': '' @ join_with ''; '' errs)), ''''), w)
         else ((None, out_line (''Deleted '' @ deleted @ '' '' @ docID)), w))"

definition deleteApply ::
  "(string \<Rightarrow> string \<Rightarrow> string) \<Rightarrow> 'w clientPair \<Rightarrow> docIDFlags \<Rightarrow> 'w \<Rightarrow> (go_error option \<times> string) \<times> 'w" where
  "deleteApply uuid clients f w =
     (case resolve_doc uuid f of
        Inl err \<Rightarrow> ((Some err, ''''), w)
      | Inr docID \<Rightarrow> delete_both ''ApplyDesire'' ''ApplyDesire'' (opDelete (dbApplyStatus (cpSpecs clients)))
          (opDelete (dbApplyStatus (cpStatus clients))) docID w)"

definition deleteDelete ::
  "(string \<Rightarrow> string \<Rightarrow> string) \<Rightarrow> 'w clientPair \<Rightarrow> docIDFlags \<Rightarrow> 'w \<Rightarrow> (go_error option \<times> string) \<times> 'w" where
  "deleteDelete uuid clients f w =
     (case resolve_doc uuid f of
        Inl err \<Rightarrow> ((Some err, ''''), w)
      | Inr docID \<Rightarrow> delete_both ''ApplyDesire (Delete)'' ''ApplyDesire (Type=Delete)''
          (opDelete (dbApplyStatus (cpSpecs clients))) (opDelete (dbApplyStatus (cpStatus clients))) docID w)"

definition deleteRead ::
  "(string \<Rightarrow> string \<Rightarrow> string) \<Rightarrow> 'w clientPair \<Rightarrow> docIDFlags \<Rightarrow> 'w \<Rightarrow> (go_error option \<times> string) \<times> 'w" where
  "deleteRead uuid clients f w =
     (case resolve_doc uuid f of
        Inl err \<Rightarrow> ((Some err, ''''), w)
      | Inr docID \<Rightarrow> delete_both ''ReadDesire'' ''ReadDesire'' (opDelete (dbReadStatus (cpSpecs clients)))
          (opDelete (dbReadStatus (cpStatus clients))) docID w)"

end
