(* ===== verification/CliClaims.thy ===== *)
theory CliClaims
  imports CliDesires
begin

text \<open>
  The properties of \<open>desirectl\<close>: its lemmas on desires are proved in the locale \<open>desire_tables\<close> and used
  on the in-memory client by the witnesses.
\<close>

section \<open>Facts on the tables\<close>

lemma created_adSpec: "created (d :: ApplyDesire) d' \<Longrightarrow> adSpec d' = adSpec d"
  unfolding created_def by (elim exE) simp

lemma replaced_adSpec: "replaced (d :: ApplyDesire) d' \<Longrightarrow> adSpec d' = adSpec d"
  unfolding replaced_def by (elim exE) simp

context desire_tables begin

lemma apply_create:
  assumes "I w" and "opCreate (dbApplyStatus db) d w = (r, w')"
  shows "I w'" and "k \<noteq> DocumentID d \<Longrightarrow> adocs w' k = adocs w k"
    and "r = Inr d' \<Longrightarrow> adocs w (DocumentID d) = None \<and> created d d' \<and> adocs w' (DocumentID d) = Some (N d')"
    and "r = Inl e \<Longrightarrow> IsAlreadyExistsError e \<Longrightarrow> adocs w' = adocs w"
proof -
  show "I w'" using resource_crud.inv_ops(2) [OF apply_crud assms(1), of d] assms(2) by simp
  show "k \<noteq> DocumentID d \<Longrightarrow> adocs w' k = adocs w k"
    using resource_crud.create_frame [OF apply_crud assms(1), of k d] assms(2) by simp
  show "r = Inr d' \<Longrightarrow> adocs w (DocumentID d) = None \<and> created d d' \<and> adocs w' (DocumentID d) = Some (N d')"
    using resource_crud.create_ok [OF apply_crud assms(1), of d d' w'] assms(2) by simp
  show "r = Inl e \<Longrightarrow> IsAlreadyExistsError e \<Longrightarrow> adocs w' = adocs w"
    using resource_crud.create_exists [OF apply_crud assms(1), of d e w'] assms(2) by simp
qed

lemma apply_read:
  assumes "I w" and "opGet (dbApplyStatus db) k w = (r, w')"
  shows "I w'" and "adocs w' = adocs w" and "r = Inr d \<Longrightarrow> adocs w k = Some d \<and> DocumentID d = k"
proof -
  show "I w'" and "adocs w' = adocs w" using resource_crud.get_ok_inv [OF apply_crud assms] by simp_all
  show "r = Inr d \<Longrightarrow> adocs w k = Some d \<and> DocumentID d = k"
    using resource_crud.get_ok [OF apply_crud assms(1), of k d w'] resource_crud.docs_key [OF apply_crud assms(1)]
      assms(2) by blast
qed

lemma apply_replace:
  assumes "I w" and "opReplace (dbApplyStatus db) d w = (r, w')"
  shows "I w'" and "k \<noteq> DocumentID d \<Longrightarrow> adocs w' k = adocs w k"
    and "r = Inr d' \<Longrightarrow> replaced d d' \<and> adocs w' (DocumentID d) = Some (N d')"
proof -
  show "I w'" using resource_crud.inv_ops(3) [OF apply_crud assms(1), of d] assms(2) by simp
  show "k \<noteq> DocumentID d \<Longrightarrow> adocs w' k = adocs w k"
    using resource_crud.replace_frame [OF apply_crud assms(1), of k d] assms(2) by simp
  show "r = Inr d' \<Longrightarrow> replaced d d' \<and> adocs w' (DocumentID d) = Some (N d')"
    using resource_crud.replace_ok [OF apply_crud assms(1), of d d' w'] assms(2) by simp
qed

text \<open>What \<open>applyManifest\<close> leaves in the table.\<close>

lemma applyManifest_effect:
  assumes "cpSpecs clients = db" and "I w" and "resourceRefFromManifest J raw = Inr ref"
    and "applyManifest J uuid clients ctx raw w = ((action, name, e), w')"
  defines "doc \<equiv> ref_document uuid ref"
  shows "I w' \<and> (\<forall>k. k \<noteq> doc \<longrightarrow> adocs w' k = adocs w k) \<and>
    (e = None \<longrightarrow>
       action = ''created'' \<and> adocs w doc = None \<and>
         (\<exists>new. created (manifest_desire ctx ref raw doc) new \<and> adocs w' doc = Some (N new)) \<or>
       action = ''configured'' \<and>
         (\<exists>old new. adocs w doc = Some old \<and> replaced (manifest_update ctx ref raw old) new \<and> adocs w' doc = Some (N new)))"
proof -
  let ?ops = "dbApplyStatus db" and ?d = "manifest_desire ctx ref raw doc"
  have id: "DocumentID ?d = doc" by (simp add: manifest_desire_def)
  have uid: "DocumentID (manifest_update ctx ref raw old) = DocumentID old" for old
    by (simp add: manifest_update_def)
  obtain cr w1 where c: "opCreate ?ops ?d w = (cr, w1)" by fastforce
  note create = apply_create [OF assms(2) c]
  show ?thesis
  proof (cases cr)
    case (Inr new)
    with assms(1,3,4) c have "action = ''created''" "w' = w1"
      by (auto simp: applyManifest_def Let_def doc_def)
    with create Inr id show ?thesis by auto
  next
    case (Inl err)
    show ?thesis
    proof (cases "IsAlreadyExistsError err")
      case False
      with assms(1,3,4) c Inl obtain x where "e = Some x" "w' = w1"
        by (auto simp: applyManifest_def Let_def doc_def)
      with create(1,2) id show ?thesis by simp
    next
      case True
      obtain gr w2 where g: "opGet ?ops doc w1 = (gr, w2)" by fastforce
      note get = apply_read [OF create(1) g]
      have same: "adocs w2 = adocs w" using create(4) [OF Inl True] get(2) by simp
      show ?thesis
      proof (cases gr)
        case (Inl err')
        with assms(1,3,4) c \<open>cr = Inl err\<close> True g obtain x where "e = Some x" "w' = w2"
          by (auto simp: applyManifest_def Let_def doc_def)
        with get(1) same show ?thesis by simp
      next
        case (Inr old)
        let ?u = "manifest_update ctx ref raw old"
        obtain rr w3 where r: "opReplace ?ops ?u w2 = (rr, w3)" by fastforce
        note rep = apply_replace [OF get(1) r, unfolded uid]
        from get(3) [OF Inr] create(4) [OF \<open>cr = Inl err\<close> True]
        have old: "adocs w doc = Some old" "DocumentID old = doc" by simp_all
        from assms(1,3,4) c \<open>cr = Inl err\<close> True g Inr r have w': "w' = w3"
          and e: "case rr of Inl _ \<Rightarrow> e \<noteq> None | Inr _ \<Rightarrow> e = None \<and> action = ''configured''"
          by (auto simp: applyManifest_def Let_def doc_def split: sum.splits)
        show ?thesis using w' e rep(1,2) rep(3) same old by (cases rr) auto
      qed
    qed
  qed
qed

text \<open>What \<open>runDelete\<close> leaves.\<close>

lemma cleanup_effect:
  assumes "I w"
  shows "I (cleanupRelatedDesires db doc w)"
    and "k \<noteq> doc \<Longrightarrow> adocs (cleanupRelatedDesires db doc w) k = adocs w k"
    and "fst (opDelete (dbApplyStatus db) doc w) = None \<Longrightarrow> adocs (cleanupRelatedDesires db doc w) doc = None"
proof -
  obtain e w1 where d: "opDelete (dbApplyStatus db) doc w = (e, w1)" by fastforce
  have w1: "I w1" using resource_crud.inv_ops(4) [OF apply_crud assms, of doc] d by simp
  have c: "cleanupRelatedDesires db doc w = snd (opDelete (dbReadStatus db) doc w1)"
    by (simp add: cleanupRelatedDesires_def d split: prod.split)
  show "I (cleanupRelatedDesires db doc w)" unfolding c by (rule read_keeps(1) [OF w1])
  show "k \<noteq> doc \<Longrightarrow> adocs (cleanupRelatedDesires db doc w) k = adocs w k"
    using resource_crud.delete_frame [OF apply_crud assms, of k doc] d by (simp add: c read_keeps(2) [OF w1])
  show "fst (opDelete (dbApplyStatus db) doc w) = None \<Longrightarrow> adocs (cleanupRelatedDesires db doc w) doc = None"
    using resource_crud.delete_ok [OF apply_crud assms, of doc w1] d by (simp add: c read_keeps(2) [OF w1])
qed

lemma runDelete_effect:
  assumes "cpSpecs clients = db" and "I w"
    and "runDelete uuid clients ctx info name ns w = ((e, out), w')"
  defines "doc \<equiv> ref_document uuid (resourceRefFromGVR info ns name)"
  shows "I w' \<and> (\<forall>k. k \<noteq> doc \<longrightarrow> adocs w' k = adocs w k) \<and>
    (e = None \<longrightarrow> adocs w' doc = None \<or> (\<exists>v. I v \<and> fst (opDelete (dbApplyStatus db) doc v) \<noteq> None))"
proof -
  let ?ops = "dbApplyStatus db" and ?ref = "resourceRefFromGVR info ns name"
  let ?d = "delete_desire ctx ?ref doc"
  have id: "DocumentID ?d = doc" by (simp add: delete_desire_def)
  have fin: ?thesis if v: "I v" "\<forall>k. k \<noteq> doc \<longrightarrow> adocs v k = adocs w k" "w' = cleanupRelatedDesires db doc v" for v
  proof -
    note cl = cleanup_effect [OF v(1), where doc = doc]
    have "\<forall>k. k \<noteq> doc \<longrightarrow> adocs w' k = adocs w k" using cl(2) v(2) by (simp add: v(3))
    moreover have "adocs w' doc = None \<or> (\<exists>v. I v \<and> fst (opDelete ?ops doc v) \<noteq> None)"
      using cl(3) v(1) unfolding v(3) by (cases "fst (opDelete ?ops doc v) = None") blast+
    ultimately show ?thesis using cl(1) by (simp only: v(3) simp_thms)
  qed
  obtain cr w1 where c: "opCreate ?ops ?d w = (cr, w1)" by fastforce
  note create = apply_create [OF assms(2) c, unfolded id]
  note unfold = assms(3) [unfolded runDelete_def Let_def assms(1), folded doc_def]
  show ?thesis
  proof (cases cr)
    case (Inr d)
    with unfold c have "w' = cleanupRelatedDesires db doc w1"
      by (simp only: prod.case sum.case prod.inject)
    from fin [OF create(1) _ this] create(2) show ?thesis by blast
  next
    case (Inl err)
    show ?thesis
    proof (cases "IsAlreadyExistsError err")
      case False
      with unfold c Inl obtain x where "e = Some x" "w' = w1" by auto
      with create(1,2) show ?thesis by simp
    next
      case True
      obtain gr w2 where g: "opGet ?ops doc w1 = (gr, w2)" by fastforce
      note get = apply_read [OF create(1) g]
      have same: "adocs w2 = adocs w" using create(4) [OF Inl True] get(2) by simp
      show ?thesis
      proof (cases gr)
        case (Inl err')
        with unfold c \<open>cr = Inl err\<close> True g obtain x where "e = Some x" "w' = w2"
          by auto
        with get(1) same show ?thesis by simp
      next
        case (Inr old)
        let ?u = "old\<lparr>adSpec := adSpec ?d\<rparr>"
        obtain rr w3 where r: "opReplace ?ops ?u w2 = (rr, w3)" by fastforce
        have "DocumentID ?u = doc" using get(3) [OF Inr] by simp
        note rep = apply_replace [OF get(1) r, unfolded this]
        show ?thesis
        proof (cases rr)
          case (Inl e')
          with unfold c \<open>cr = Inl err\<close> True g Inr r obtain x where "e = Some x" "w' = w3"
            by auto
          with rep(1,2) same show ?thesis by simp
        next
          case rr: (Inr d)
          with unfold c \<open>cr = Inl err\<close> True g Inr r have "w' = cleanupRelatedDesires db doc w3"
            by (simp only: prod.case sum.case prod.inject if_True)
          from fin [OF rep(1) _ this] rep(2) same show ?thesis by simp
        qed
      qed
    qed
  qed
qed

end

section \<open>Document identifiers of manifests\<close>

lemma folded_kinds:
  "map (\<lambda>r. fold_case (riKind r)) knownResources =
     [''configmap'', ''secret'', ''namespace'', ''service'', ''serviceaccount'', ''pod'', ''deployment'',
      ''statefulset'', ''daemonset'', ''job'', ''cronjob'', ''clusterrole'', ''clusterrolebinding'', ''role'', ''rolebinding'']"
  by code_simp

lemma folded_resources:
  "map (\<lambda>r. fold_case (riResource r)) knownResources =
     [''configmaps'', ''secrets'', ''namespaces'', ''services'', ''serviceaccounts'', ''pods'', ''deployments'',
      ''statefulsets'', ''daemonsets'', ''jobs'', ''cronjobs'', ''clusterroles'', ''clusterrolebindings'', ''roles'',
      ''rolebindings'']"
  by code_simp

lemma resource_is_no_kind:
  assumes "r \<in> set knownResources"
  shows "\<exists>e. resourceTypeFromManifest '''' (riResource r) = Inl e"
proof -
  have "set (map (\<lambda>r. fold_case (riResource r)) knownResources) \<inter> set (map (\<lambda>r. fold_case (riKind r)) knownResources) = {}"
    unfolding folded_kinds folded_resources by simp
  with assms have "\<not> EqualFold (riKind q) (riResource r)" if "q \<in> set knownResources" for q
    using that by (auto simp: EqualFold_def disjoint_iff)
  then have "find (\<lambda>q. EqualFold (riKind q) (riResource r)) knownResources = None"
    by (simp add: find_None_iff)
  then show ?thesis by (simp add: resourceTypeFromManifest_def)
qed

lemma manifest_resource:
  assumes "resourceRefFromManifest J raw = Inr ref"
  obtains r where "r \<in> set knownResources" and "rrResource ref = riResource r"
    and "rrGroup ref = riGroup r" and "rrVersion ref = riVersion r"
proof -
  from assms obtain kind r where t: "resourceTypeFromManifest kind' kind = Inr r" and
    "rrResource ref = riResource r" "rrGroup ref = riGroup r" "rrVersion ref = riVersion r" for kind'
    by (fastforce simp: resourceRefFromManifest_def resourceTypeFromManifest_def Let_def
        split: sum.splits if_splits option.splits)
  moreover from t [of kind] have "r \<in> set knownResources"
    by (auto simp: resourceTypeFromManifest_def find_Some_iff split: option.splits)
  ultimately show ?thesis using that by blast
qed

lemma ref_document_namespace:
  assumes "inj (uuid NamespaceUUID)" and "ref_document uuid ref = ref_document uuid ref'"
    and "rrGroup ref = rrGroup ref'" and "rrVersion ref = rrVersion ref'"
    and "rrResource ref = rrResource ref'" and "rrName ref = rrName ref'"
  shows "rrNamespace ref = rrNamespace ref'"
  using assms(2) injD [OF assms(1)] assms(3-6)
  by (auto simp: ref_document_def NewDocumentID_def documentIDInput_def dest!: injD [OF assms(1)])

section \<open>A sample\<close>

definition sample_manifest :: "string \<Rightarrow> json" where
  "sample_manifest ns = JObject [(''apiVersion'', JString ''v1''), (''kind'', JString ''ConfigMap''),
     (''metadata'', JObject [(''name'', JString ''c''), (''namespace'', JString ns)])]"

definition manifest_json :: json_lib where
  "manifest_json = \<lparr>json_Unmarshal = (\<lambda>s. Inr (sample_manifest s)),
     json_Marshal = (\<lambda>v. Inr ''x''), json_Valid = (\<lambda>s. True)\<rparr>"

definition sample_clients :: "FakeKubeApplierDBClient clientPair" where
  "sample_clients = \<lparr>cpSpecs = fake_db, cpStatus = fake_db\<rparr>"

definition sample_ref :: "string \<Rightarrow> ResourceReference" where
  "sample_ref ns = \<lparr>rrGroup = '''', rrVersion = ''v1'', rrResource = ''configmaps'', rrNamespace = ns, rrName = ''c''\<rparr>"

lemma sample_ref: "resourceRefFromManifest manifest_json ns = Inr (sample_ref ns)"
proof -
  have "EqualFold ''ConfigMap'' ''ConfigMap''" by (simp add: EqualFold_def)
  then have "resourceTypeFromManifest ''v1'' ''ConfigMap'' = Inr (hd knownResources)"
    by (simp add: resourceTypeFromManifest_def knownResources_def)
  then show ?thesis
    by (simp add: resourceRefFromManifest_def unmarshal_object_def manifest_json_def sample_manifest_def
        field_string_def field_map_def field_object_def sample_ref_def knownResources_def Let_def)
qed

abbreviation plain_uuid :: "string \<Rightarrow> string \<Rightarrow> string" where "plain_uuid \<equiv> \<lambda>ns s. s"

lemma sample_tables:
  "desire_tables (\<lambda>w. (fake_inv \<circ> fcApplyStatus) w \<and> (fake_inv \<circ> fcReadStatus) w)
     (fake_docs \<circ> fcApplyStatus) (fake_docs \<circ> fcReadStatus) (\<lambda>d. d) (\<lambda>d. d) (cpSpecs sample_clients)"
  by (simp only: sample_clients_def clientPair.simps fake_tables.desire_tables_axioms)

lemma new_fake_inv: "(fake_inv \<circ> fcApplyStatus) NewFakeKubeApplierDBClient \<and>
    (fake_inv \<circ> fcReadStatus) NewFakeKubeApplierDBClient"
  by (simp add: NewFakeKubeApplierDBClient_def fake_inv_new)

lemma sample_document: "ref_document plain_uuid (sample_ref ns) \<noteq> ''''"
  by (simp add: ref_document_def NewDocumentID_def documentIDInput_def)

lemma sample_apply:
  "\<exists>name w. applyManifest manifest_json plain_uuid sample_clients zero_CliContext ns NewFakeKubeApplierDBClient =
     ((''created'', name, None), w)"
  using sample_document [of ns]
  by (simp add: applyManifest_def sample_ref Let_def sample_clients_def fake_db_def zoom_ops_def zoom_def
      fake_ops_def fake_Create_def manifest_desire_def NewFakeKubeApplierDBClient_def NewFakeCRUD_def fake_nextSeq_def)

section \<open>Applying and deleting\<close>

text \<open>
  C35: applying a manifest without an error either creates the desire for its target, or replaces the one
  that is there, with the manifest as its content and the target and cluster of this run; no other
  document changes. The type of a desire that is there is kept, so applying a manifest to a target whose
  desire is a Delete leaves it a Delete.
\<close>

theorem apply_manifest_effect:
  assumes "desire_tables I adocs rdocs N M (cpSpecs clients)" and "I w"
    and "resourceRefFromManifest J raw = Inr ref"
    and "applyManifest J uuid clients ctx raw w = ((action, name, None), w')"
  defines "doc \<equiv> ref_document uuid ref"
  shows "(\<forall>k. k \<noteq> doc \<longrightarrow> adocs w' k = adocs w k) \<and>
    (\<exists>new. adocs w' doc = Some (N new) \<and> asTargetItem (adSpec new) = ref \<and>
       ApplyDesire_GetSpecKubeContent new = Some \<lparr>Raw = raw\<rparr> \<and> asClusterID (adSpec new) = cxClusterID ctx \<and>
       (case adocs w doc of
          None \<Rightarrow> action = ''created'' \<and> created (manifest_desire ctx ref raw doc) new
        | Some old \<Rightarrow> action = ''configured'' \<and> Version new = Version old + 1 \<and>
            asType (adSpec new) = asType (adSpec old)))"
proof -
  from desire_tables.applyManifest_effect [OF assms(1) refl assms(2-4), folded doc_def]
  consider (new) new where "action = ''created''" "adocs w doc = None"
      "created (manifest_desire ctx ref raw doc) new" "adocs w' doc = Some (N new)"
    | (old) old new where "action = ''configured''" "adocs w doc = Some old"
      "replaced (manifest_update ctx ref raw old) new" "adocs w' doc = Some (N new)" by blast
  moreover have frame: "\<forall>k. k \<noteq> doc \<longrightarrow> adocs w' k = adocs w k"
    using desire_tables.applyManifest_effect [OF assms(1) refl assms(2-4), folded doc_def] by blast
  ultimately show ?thesis
  proof cases
    case new
    from created_adSpec [OF new(3)] have "asTargetItem (adSpec new) = ref" "asClusterID (adSpec new) = cxClusterID ctx"
      "ApplyDesire_GetSpecKubeContent new = Some \<lparr>Raw = raw\<rparr>"
      by (simp_all add: manifest_desire_def ApplyDesire_GetSpecKubeContent_def)
    with new show ?thesis by (intro conjI frame exI [of _ new]) simp_all
  next
    case old
    from replaced_adSpec [OF old(3)] have "asTargetItem (adSpec new) = ref" "asClusterID (adSpec new) = cxClusterID ctx"
      "ApplyDesire_GetSpecKubeContent new = Some \<lparr>Raw = raw\<rparr>" "asType (adSpec new) = asType (adSpec old)"
      by (simp_all add: manifest_update_def ApplyDesire_GetSpecKubeContent_def)
    moreover from replaced_meta(2) [OF old(3)] have "Version new = Version old + 1" by (simp add: manifest_update_def)
    ultimately have "asTargetItem (adSpec new) = ref" "asClusterID (adSpec new) = cxClusterID ctx"
      "ApplyDesire_GetSpecKubeContent new = Some \<lparr>Raw = raw\<rparr>" "asType (adSpec new) = asType (adSpec old)"
      "Version new = Version old + 1" by blast+
    with old show ?thesis by (intro conjI frame exI [of _ new]) simp_all
  qed
qed

lemma apply_manifest_effect_witness:
  "\<exists>action name w new. applyManifest manifest_json plain_uuid sample_clients zero_CliContext ''n'' NewFakeKubeApplierDBClient =
     ((action, name, None), w) \<and> fake_docs (fcApplyStatus w) (ref_document plain_uuid (sample_ref ''n'')) = Some new \<and>
     ApplyDesire_GetSpecKubeContent new = Some \<lparr>Raw = ''n''\<rparr>"
proof -
  from sample_apply [of "''n''"] obtain name w where
    a: "applyManifest manifest_json plain_uuid sample_clients zero_CliContext ''n'' NewFakeKubeApplierDBClient =
     ((''created'', name, None), w)" by blast
  from apply_manifest_effect [OF sample_tables new_fake_inv sample_ref a] a show ?thesis by auto
qed



text \<open>
  \<open>delete -f\<close> of a manifest without a namespace misses what \<open>apply -f\<close> of the same manifest created:
  apply files the desire under the empty namespace, delete under the default one, so after both commands
  the desire that apply wrote is still there as it was.
\<close>

theorem delete_file_misses:
  assumes "desire_tables I adocs rdocs N M (cpSpecs clients)" and "I w" and "inj (uuid NamespaceUUID)"
    and "resourceRefFromManifest J raw = Inr ref" and "rrNamespace ref = ''''"
    and "applyManifest J uuid clients ctx raw w = ((action, name, None), w1)"
    and "deleteDocument J uuid clients ctx flagNamespace raw w1 = ((e, out), w2)"
  shows "\<exists>d. adocs w1 (ref_document uuid ref) = Some d \<and> adocs w2 (ref_document uuid ref) = Some d"
proof -
  note a = desire_tables.applyManifest_effect [OF assms(1) refl assms(2,4,6)]
  from manifest_resource [OF assms(4)] obtain r where r: "r \<in> set knownResources" "rrResource ref = riResource r" by blast
  from resource_is_no_kind [OF r(1)] obtain err where "resourceTypeFromManifest '''' (rrResource ref) = Inl err"
    by (auto simp: r(2))
  with assms(4,5,7) obtain info where del: "runDelete uuid clients ctx info (rrName ref)
      (EffectiveNamespace ctx flagNamespace) w1 = ((e, out), w2)"
    and info: "riGroup info = rrGroup ref" "riVersion info = rrVersion ref" "riResource info = rrResource ref"
    by (auto simp: deleteDocument_def Let_def)
  let ?ref = "resourceRefFromGVR info (EffectiveNamespace ctx flagNamespace) (rrName ref)"
  have "rrNamespace ?ref \<noteq> ''''" by (simp add: resourceRefFromGVR_def EffectiveNamespace_def)
  moreover have "rrGroup ref = rrGroup ?ref" "rrVersion ref = rrVersion ?ref" "rrResource ref = rrResource ?ref"
    "rrName ref = rrName ?ref" by (simp_all add: resourceRefFromGVR_def info)
  ultimately have "ref_document uuid ref \<noteq> ref_document uuid ?ref"
    using ref_document_namespace [where uuid = uuid and ref = ref and ref' = ?ref, OF assms(3)] assms(5) by metis
  moreover from a have "I w1" by blast
  note desire_tables.runDelete_effect [OF assms(1) refl this del]
  ultimately have "adocs w2 (ref_document uuid ref) = adocs w1 (ref_document uuid ref)" by blast
  with a show ?thesis by auto
qed

lemma delete_file_misses_witness:
  "\<exists>action name w e out w' d. applyManifest manifest_json plain_uuid sample_clients zero_CliContext ''''
       NewFakeKubeApplierDBClient = ((action, name, None), w) \<and>
     deleteDocument manifest_json plain_uuid sample_clients zero_CliContext '''' '''' w = ((e, out), w') \<and>
     fake_docs (fcApplyStatus w') (ref_document plain_uuid (sample_ref '''')) = Some d"
proof -
  from sample_apply [of "''''"] obtain name w where
    a: "applyManifest manifest_json plain_uuid sample_clients zero_CliContext '''' NewFakeKubeApplierDBClient =
     ((''created'', name, None), w)" by blast
  obtain e out w' where d: "deleteDocument manifest_json plain_uuid sample_clients zero_CliContext '''' '''' w = ((e, out), w')"
    by (metis prod.collapse)
  have "inj (plain_uuid NamespaceUUID)" by (simp add: inj_def)
  moreover have "rrNamespace (sample_ref '''') = ''''" by (simp add: sample_ref_def)
  ultimately show ?thesis
    using delete_file_misses [OF sample_tables new_fake_inv _ sample_ref _ a d] a d by auto
qed

section \<open>Reading\<close>

text \<open>
  \<open>get\<close> first makes sure of the read desire: without an error the desire for the target is in the
  specs table and the time it returns is its update time; one that was there has a new version, one that
  was not is the desire for this target and cluster.
\<close>

theorem get_touches_read_desire:
  assumes "desire_tables I adocs rdocs N M db" and "I w"
    and "ensureReadDesire db ctx ref doc w = (Inr t, w')" and "doc \<noteq> ''''"
  shows "\<exists>d. rdocs w' doc = Some d \<and> UpdateTime d = t \<and>
    (case rdocs w doc of
       Some old \<Rightarrow> Version d = Version old + 1
     | None \<Rightarrow> \<exists>new. created (read_desire_for ctx ref doc) new \<and> d = M new)"
proof -
  note C = desire_tables.read_crud [OF assms(1)]
  let ?ops = "dbReadStatus db"
  obtain gr w1 where g: "opGet ?ops doc w = (gr, w1)" by fastforce
  note w1 = resource_crud.get_ok_inv [OF C assms(2) g]
  show ?thesis
  proof (cases gr)
    case (Inr old)
    then have old: "rdocs w doc = Some old" using resource_crud.get_ok [OF C assms(2)] g by simp
    then have id: "DocumentID old = doc" by (rule resource_crud.docs_key [OF C assms(2)])
    obtain rr w2 where r: "opReplace ?ops old w1 = (rr, w2)" by fastforce
    from assms(3) g Inr r obtain new where rr: "rr = Inr new" by (auto simp: ensureReadDesire_def Let_def split: sum.splits)
    from resource_crud.replace_ok [OF C conjunct1 [OF w1] r [unfolded rr]] id
    have new: "replaced old new" "rdocs w2 doc = Some (M new)" by simp_all
    have w2: "I w2" using resource_crud.inv_ops(3) [OF C conjunct1 [OF w1], of old] r by simp
    obtain gr' w3 where g': "opGet ?ops doc w2 = (gr', w3)" by fastforce
    from assms(3) g Inr r rr g' obtain upd where "gr' = Inr upd" "t = UpdateTime upd" "w' = w3"
      by (auto simp: ensureReadDesire_def Let_def split: sum.splits)
    with resource_crud.get_ok [OF C w2] resource_crud.get_ok_inv [OF C w2 g'] g' new(2)
    have "rdocs w' doc = Some (M new)" "t = UpdateTime (M new)" by auto
    with old new(1) show ?thesis by (auto simp: resource_crud.norm_meta [OF C])
  next
    case (Inl e)
    with assms(3) g have nf: "IsNotFoundError e" by (auto simp: ensureReadDesire_def Let_def split: if_splits)
    then have none: "rdocs w doc = None" using resource_crud.get_not_found [OF C assms(2)] g Inl by blast
    let ?d = "read_desire_for ctx ref doc"
    have id: "DocumentID ?d = doc" by (simp add: read_desire_for_def)
    obtain cr w2 where c: "opCreate ?ops ?d w1 = (cr, w2)" by fastforce
    show ?thesis
    proof (cases cr)
      case (Inr new)
      from resource_crud.create_ok [OF C conjunct1 [OF w1] c [unfolded Inr]] id
      have new: "created ?d new" "rdocs w2 doc = Some (M new)" by simp_all
      with assms(3) g Inl nf c Inr have "t = UpdateTime (M new)" "w' = w2"
        by (auto simp: ensureReadDesire_def Let_def resource_crud.norm_meta [OF C])
      with none new show ?thesis by auto
    next
      case cr: (Inl e')
      with assms(3) g Inl nf c have "IsAlreadyExistsError e'"
        by (auto simp: ensureReadDesire_def Let_def split: if_splits)
      with resource_crud.create_exists [OF C conjunct1 [OF w1] c [unfolded cr]] id none w1 show ?thesis by simp
    qed
  qed
qed

lemma get_touches_read_desire_witness:
  "\<exists>t w d. ensureReadDesire fake_db zero_CliContext (sample_ref ''n'') ''d'' NewFakeKubeApplierDBClient = (Inr t, w) \<and>
     fake_docs (fcReadStatus w) ''d'' = Some d \<and> UpdateTime d = t"
proof -
  have "\<exists>t w. ensureReadDesire fake_db zero_CliContext (sample_ref ''n'') ''d'' NewFakeKubeApplierDBClient = (Inr t, w)"
    by (simp add: ensureReadDesire_def Let_def fake_db_def zoom_ops_def zoom_def fake_ops_def fake_Get_def
        fake_Create_def read_desire_for_def NewFakeKubeApplierDBClient_def NewFakeCRUD_def fake_nextSeq_def)
  then obtain t w where e: "ensureReadDesire fake_db zero_CliContext (sample_ref ''n'') ''d''
      NewFakeKubeApplierDBClient = (Inr t, w)" by blast
  from get_touches_read_desire [OF sample_tables [unfolded sample_clients_def clientPair.simps] new_fake_inv e] e
  show ?thesis by auto
qed

text \<open>A clock that moves on at least by the time slept, and never back while a request runs.\<close>

definition clock_ok ::
  "'w wall_clock \<Rightarrow> ('w \<Rightarrow> gtime) \<Rightarrow> (string \<Rightarrow> 'w \<Rightarrow> (go_error + ReadDesire) \<times> 'w) \<Rightarrow> bool" where
  "clock_ok c time get \<longleftrightarrow>
     (\<forall>w. fst (clNow c w) = time w \<and> time w \<le> time (snd (clNow c w))) \<and>
     (\<forall>d w. 0 \<le> d \<longrightarrow> time w + d \<le> time (clSleep c d w)) \<and> (\<forall>k w. time w \<le> time (snd (get k w)))"

definition answers :: "(string \<Rightarrow> 'w \<Rightarrow> (go_error + ReadDesire) \<times> 'w) \<Rightarrow> string \<Rightarrow> gtime \<Rightarrow> ReadDesireStatus \<Rightarrow> bool" where
  "answers get docID afterTime st \<longleftrightarrow> (\<exists>v rd v'. get docID v = (Inr rd, v') \<and> st = rdStatus rd \<and>
     (status_fresh afterTime rd \<or> has_content rd) \<and> failed_read rd = None)"

lemma pollFrom_returns:
  assumes "clock_ok c time get" and "0 < interval"
  shows "\<exists>r w'. pollFrom get c docID afterTime deadline interval w = Some (r, w') \<and>
    (\<forall>st. r = Inr st \<longrightarrow> answers get docID afterTime st)"
  using assms(2)
proof (induction "nat (deadline + 1 - time w)" arbitrary: w interval rule: less_induct)
  case less
  obtain r w1 where g: "get docID w = (r, w1)" by fastforce
  obtain t w2 where n: "clNow c w1 = (t, w2)" by fastforce
  let ?i = "min (interval * 2) maxInterval"
  have "0 < ?i" using less.prems by (simp add: maxInterval_def)
  have "fst (clNow c w1) = time w1" "time w1 \<le> time (snd (clNow c w1))" "time w \<le> time (snd (get docID w))"
    "time w2 + interval \<le> time (clSleep c interval w2)"
    using assms(1) less.prems by (simp_all add: clock_ok_def)
  then have t: "t = time w1" "time w \<le> time w1" "time w1 + interval \<le> time (clSleep c interval w2)"
    using g n by simp_all
  have again: "\<exists>r w'. pollFrom get c docID afterTime deadline ?i (clSleep c interval w2) = Some (r, w') \<and>
      (\<forall>st. r = Inr st \<longrightarrow> answers get docID afterTime st)" if "\<not> t > deadline"
    by (rule less.hyps) (use that t less.prems \<open>0 < ?i\<close> in linarith)+
  show ?case
  proof (cases r)
    case (Inl e)
    then show ?thesis using again g n
      by (auto simp: pollFrom.simps [of get c docID afterTime deadline interval w])
  next
    case (Inr rd)
    have "failed_read rd = None \<Longrightarrow> status_fresh afterTime rd \<or> has_content rd \<Longrightarrow> answers get docID afterTime (rdStatus rd)"
      using g Inr unfolding answers_def by blast
    then show ?thesis using again g n Inr
      by (auto simp: pollFrom.simps [of get c docID afterTime deadline interval w] split: option.split)
  qed
qed

text \<open>
  C37: waiting for the status always ends, by the deadline if nothing else, and a status it returns was
  read from the table, is of this version of the desire or carries content, and reports no failed read.
\<close>

theorem poll_status_returns:
  assumes "clock_ok c time (opGet (dbReadStatus db))"
  shows "\<exists>r w'. pollReadDesireStatus c db docID afterTime timeout w = Some (r, w') \<and>
    (\<forall>st. r = Inr st \<longrightarrow> answers (opGet (dbReadStatus db)) docID afterTime st)"
  using pollFrom_returns [OF assms, of "200 * millisecond"]
  by (simp add: pollReadDesireStatus_def Let_def split: prod.split)

definition tick_clock :: "(FakeKubeApplierDBClient \<times> int) wall_clock" where
  "tick_clock = \<lparr>clNow = (\<lambda>(w, t). (t, (w, t))), clSleep = (\<lambda>d (w, t). (w, t + d))\<rparr>"

definition ticking_db :: "(FakeKubeApplierDBClient \<times> int) KubeApplierDBClient" where
  "ticking_db = \<lparr>dbApplySpecs = \<lparr>srGet = \<lambda>k. zoom fst (\<lambda>v w. (v, snd w)) (srGet (dbApplySpecs fake_db) k), srList = \<lambda>w. None\<rparr>,
     dbReadSpecs = \<lparr>srGet = \<lambda>k. zoom fst (\<lambda>v w. (v, snd w)) (srGet (dbReadSpecs fake_db) k), srList = \<lambda>w. None\<rparr>,
     dbApplyStatus = zoom_ops fst (\<lambda>v w. (v, snd w)) (dbApplyStatus fake_db),
     dbReadStatus = zoom_ops fst (\<lambda>v w. (v, snd w)) (dbReadStatus fake_db)\<rparr>"

lemma poll_status_returns_witness:
  "\<exists>r w'. pollReadDesireStatus tick_clock ticking_db ''d'' 5 (30 * second) (NewFakeKubeApplierDBClient, 0) = Some (r, w')"
proof -
  have "clock_ok tick_clock snd (opGet (dbReadStatus ticking_db))"
    by (auto simp: clock_ok_def tick_clock_def ticking_db_def zoom_ops_def zoom_snd split: prod.split)
  from poll_status_returns [OF this] show ?thesis by blast
qed

section \<open>Manifests and contexts\<close>

text \<open>
  Splitting a file into documents undoes joining them with separator lines, for documents that are
  trimmed and contain no line that starts with three dashes; and every document split off is trimmed and
  not empty.
\<close>

theorem split_documents_roundtrip:
  assumes "\<forall>d\<in>set docs. yaml_document d"
  shows "splitYAMLDocuments (join_documents docs) = docs \<and>
    (\<forall>data. \<forall>d\<in>set (splitYAMLDocuments data). d \<noteq> [] \<and> TrimSpace d = d)"
  using split_documents_joined [OF assms] split_documents_trimmed TrimSpace_id by blast

lemma split_documents_roundtrip_witness:
  "splitYAMLDocuments (''a: 1'' @ newline @ ''---'' @ newline @ ''b: 2'') = [''a: 1'', ''b: 2'']"
proof -
  have "\<forall>d\<in>set [''a: 1'', ''b: 2'']. yaml_document d" by code_simp
  from split_documents_roundtrip [OF this] show ?thesis by simp
qed

text \<open>
  The commands on contexts keep the configuration consistent, no name twice and the current context
  one of them, and do what they say: set changes just that context, use makes it the one that the other
  commands resolve, delete removes just that one.
\<close>

theorem config_commands_effect:
  assumes "config_store_ok fs y path" and "fst (LoadConfig fs y path w) = Inr cfg" and "config_ok cfg"
    and "run_config fs y dir path cmd w = ((None, out), w')"
  shows "\<exists>cfg'. fst (LoadConfig fs y path w') = Inr cfg' \<and> config_ok cfg' \<and>
    (case cmd of
       SetContextCommand name flags \<Rightarrow> GetContext cfg' = (GetContext cfg)(name \<mapsto>
         merge_flags flags (case GetContext cfg name of None \<Rightarrow> zero_CliContext | Some c \<Rightarrow> c))
     | UseContextCommand name \<Rightarrow> GetContext cfg' = GetContext cfg \<and>
         (name \<noteq> '''' \<longrightarrow> ResolveActiveContext cfg' '''' = Inr (the (GetContext cfg name)))
     | DeleteContextCommand name \<Rightarrow> GetContext cfg name \<noteq> None \<and> GetContext cfg' = (GetContext cfg)(name := None))"
proof -
  from run_config_saves [OF assms(2,4)] obtain new w1 where s: "SaveConfig fs y dir path new w1 = (None, w')"
    and new: "case cmd of
           SetContextCommand name flags \<Rightarrow>
             (let c = SetContext name (merge_flags flags (case GetContext cfg name of None \<Rightarrow> zero_CliContext | Some c \<Rightarrow> c)) cfg
              in new = (if CurrentContext c = '''' then c\<lparr>CurrentContext := name\<rparr> else c))
         | UseContextCommand name \<Rightarrow> GetContext cfg name \<noteq> None \<and> new = cfg\<lparr>CurrentContext := name\<rparr>
         | DeleteContextCommand name \<Rightarrow> DeleteContext name cfg = (True, new)" by blast
  note load = SaveConfig_stores [OF assms(1) s]
  have current: "GetContext (c\<lparr>CurrentContext := n\<rparr>) = GetContext c" for c n
    by (simp add: GetContext_def fun_eq_iff)
  have use: "config_ok c \<Longrightarrow> GetContext c n \<noteq> None \<Longrightarrow> config_ok (c\<lparr>CurrentContext := n\<rparr>)" for c n
    by (simp add: config_ok_def current)
  show ?thesis
  proof (cases cmd)
    case (SetContextCommand name flags)
    let ?x = "merge_flags flags (case GetContext cfg name of None \<Rightarrow> zero_CliContext | Some c \<Rightarrow> c)"
    let ?c = "SetContext name ?x cfg"
    have "config_ok ?c" "GetContext ?c = (GetContext cfg)(name \<mapsto> ?x)"
      using config_ok_SetContext [OF assms(3)] by (auto simp: GetContext_SetContext)
    moreover from this use [of ?c name] have "config_ok (?c\<lparr>CurrentContext := name\<rparr>)" by simp
    moreover have "new = (if CurrentContext ?c = '''' then ?c\<lparr>CurrentContext := name\<rparr> else ?c)"
      using new SetContextCommand by (simp add: Let_def)
    ultimately show ?thesis using load SetContextCommand by (auto simp: current)
  next
    case (UseContextCommand name)
    with new load use [OF assms(3), of name] show ?thesis
      by (auto simp: current ResolveActiveContext_def split: option.split)
  next
    case (DeleteContextCommand name)
    with new config_ok_DeleteContext [OF assms(3), of name new] load
    show ?thesis by (auto simp: DeleteContext_def GetContext_def remove_first_None [symmetric] split: option.splits)
  qed
qed

definition two_contexts :: "string \<Rightarrow> CliConfig" where
  "two_contexts current = \<lparr>APIVersion = ''desirectl/v1'', ConfigKind = ''Config'', CurrentContext = current,
     Contexts = [(''a'', zero_CliContext), (''b'', zero_CliContext\<lparr>cxNamespace := ''n''\<rparr>)]\<rparr>"

definition sample_yaml :: yaml_lib where
  "sample_yaml = \<lparr>yamlUnmarshal = (\<lambda>s. Inr (two_contexts s)),
     yamlMarshal = (\<lambda>c. if c = two_contexts (CurrentContext c) then Inr (CurrentContext c) else Inl (ErrorString ''''))\<rparr>"

definition one_file :: "string file_system" where
  "one_file = \<lparr>fsStat = (\<lambda>p w. (Inr False, w)), fsWalk = (\<lambda>p w. ([], w)), fsReadFile = (\<lambda>p w. (Inr w, w)),
     fsMkdirAll = (\<lambda>p w. (None, w)), fsWriteFile = (\<lambda>p d w. (None, d)), osIsNotExist = (\<lambda>e. False)\<rparr>"

lemma config_commands_effect_witness:
  "\<exists>out w cfg. run_config one_file sample_yaml ''.'' ''f'' (UseContextCommand ''b'') ''a'' = ((None, out), w) \<and>
     fst (LoadConfig one_file sample_yaml ''f'' w) = Inr cfg \<and>
     ResolveActiveContext cfg '''' = Inr (zero_CliContext\<lparr>cxNamespace := ''n''\<rparr>)"
proof -
  have store: "config_store_ok one_file sample_yaml ''f''"
    by (auto simp: config_store_ok_def one_file_def sample_yaml_def split: if_splits)
  have load: "fst (LoadConfig one_file sample_yaml ''f'' ''a'') = Inr (two_contexts ''a'')"
    by (simp add: LoadConfig_def one_file_def sample_yaml_def)
  have ok: "config_ok (two_contexts ''a'')" by (simp add: config_ok_def two_contexts_def GetContext_def)
  have run: "\<exists>out w. run_config one_file sample_yaml ''.'' ''f'' (UseContextCommand ''b'') ''a'' = ((None, out), w)"
    by (simp add: useContextCmd_def LoadConfig_def one_file_def sample_yaml_def two_contexts_def GetContext_def
        SaveConfig_def config_header_def)
  then obtain out w where r: "run_config one_file sample_yaml ''.'' ''f'' (UseContextCommand ''b'') ''a'' = ((None, out), w)"
    by blast
  from config_commands_effect [OF store load ok r] r show ?thesis
    by (auto simp: two_contexts_def GetContext_def)
qed

end
