(* ===== verification/ToolClaims.thy ===== *)
theory ToolClaims
  imports DesireTool CliClaims
begin

text \<open>
  The two command line clients side by side: where they agree on the target of a manifest and where they
  do not, and what an update of \<open>desire-tool\<close> does to a document whose identifier was derived from
  another target.
\<close>

section \<open>The resource table\<close>

lemma distinct_kinds: "distinct (map (\<lambda>r. fold_case (riKind r)) knownResources)"
  unfolding folded_kinds by simp

lemma find_distinct_key:
  assumes "distinct (map f xs)" and "x \<in> set xs"
  shows "find (\<lambda>y. f y = f x) xs = Some x"
  using assms
proof (induction xs)
  case (Cons a xs)
  then show ?case by (cases "a = x") (auto simp: image_iff)
qed simp

lemma resourceTypeFromManifest_known:
  assumes "r \<in> set knownResources"
  shows "resourceTypeFromManifest apiVersion (riKind r) = Inr r"
  using find_distinct_key [OF distinct_kinds assms]
  by (simp add: resourceTypeFromManifest_def EqualFold_def)

lemma guess_known: "list_all (\<lambda>r. guessResource (riKind r) = riResource r \<and> riVersion r = ''v1'') knownResources"
  by (simp add: knownResources_def guessResource_def)

lemma guess_misses: "guessResource ''Ingress'' = ''ingresss'' \<and> guessResource ''NetworkPolicy'' = ''networkPolicys''"
  by code_simp

definition api_version_of :: "ResourceInfo \<Rightarrow> string" where
  "api_version_of r = (if riGroup r = '''' then riVersion r else riGroup r @ ''/'' @ riVersion r)"

lemma split_known: "list_all (\<lambda>r. split_api_version (api_version_of r) = (riGroup r, riVersion r) \<and>
    api_version_of r \<noteq> '''' \<and> riKind r \<noteq> '''') knownResources"
  by (simp add: knownResources_def api_version_of_def split_api_version_def)

text \<open>
  Both clients derive the same target from a manifest whose kind and API version are those of an entry
  of the resource table, so a desire that one of them files is found by the other under the same task key.
\<close>

theorem tools_agree:
  assumes "unmarshal_object J raw = Inr obj" and "r \<in> set knownResources"
    and "field_string obj ''kind'' = riKind r" and "field_string obj ''apiVersion'' = api_version_of r"
    and "field_string (field_map obj ''metadata'') ''name'' \<noteq> ''''"
  shows "\<exists>ref. resourceRefFromManifest J raw = Inr ref \<and> tool_resourceRefFromManifest J raw = Inr ref \<and>
    rrResource ref = riResource r \<and> ref_document uuid ref = tool_document uuid taskKey ref"
proof -
  from assms(2) guess_known split_known have g: "guessResource (riKind r) = riResource r"
    "split_api_version (api_version_of r) = (riGroup r, riVersion r)" "api_version_of r \<noteq> ''''" "riKind r \<noteq> ''''"
    by (auto simp: list_all_iff)
  with assms resourceTypeFromManifest_known [OF assms(2), of "api_version_of r"] show ?thesis
    by (simp add: resourceRefFromManifest_def tool_resourceRefFromManifest_def Let_def ref_document_def
        tool_document_def)
qed

lemma tools_agree_witness:
  "\<exists>ref. resourceRefFromManifest manifest_json ''n'' = Inr ref \<and> tool_resourceRefFromManifest manifest_json ''n'' = Inr ref"
proof -
  let ?obj = "map_of [(''apiVersion'', JString ''v1''), (''kind'', JString ''ConfigMap''),
     (''metadata'', JObject [(''name'', JString ''c''), (''namespace'', JString ''n'')])]"
  let ?r = "hd knownResources"
  have u: "unmarshal_object manifest_json ''n'' = Inr ?obj"
    by (simp add: unmarshal_object_def manifest_json_def sample_manifest_def)
  have m: "?r \<in> set knownResources" by (simp add: knownResources_def)
  have k: "field_string ?obj ''kind'' = riKind ?r"
    by (simp add: field_string_def knownResources_def)
  have a: "field_string ?obj ''apiVersion'' = api_version_of ?r"
    by (simp add: field_string_def knownResources_def api_version_of_def)
  have n: "field_string (field_map ?obj ''metadata'') ''name'' \<noteq> ''''"
    by (simp add: field_string_def field_map_def field_object_def)
  show ?thesis using tools_agree [OF u m k a n, of plain_uuid] by blast
qed

text \<open>
  \<open>desirectl\<close> looks at the kind only: an object of another group with a kind of the table is filed as the
  resource of the table, where \<open>desire-tool\<close> takes the group and the version from the manifest.
\<close>

lemma api_group_ignored:
  assumes "unmarshal_object J raw = Inr obj" and "r \<in> set knownResources" and "field_string obj ''kind'' = riKind r"
    and "resourceRefFromManifest J raw = Inr ref" and "tool_resourceRefFromManifest J raw = Inr ref'"
  shows "rrGroup ref = riGroup r \<and> rrVersion ref = riVersion r \<and>
    (rrGroup ref', rrVersion ref') = split_api_version (field_string obj ''apiVersion'')"
  using assms resourceTypeFromManifest_known [OF assms(2), of "field_string obj ''apiVersion''"]
  by (auto simp: resourceRefFromManifest_def tool_resourceRefFromManifest_def Let_def split: if_splits prod.splits)

section \<open>Updates\<close>

lemma load_manifest_ref:
  "load_manifest fs J yamlToJSON path w = (Inr (raw, ref), w') \<Longrightarrow> tool_resourceRefFromManifest J raw = Inr ref"
  by (auto simp: load_manifest_def split: prod.splits sum.splits)

text \<open>
  \<open>update-apply\<close> sets the target from the new manifest but the document stays under the identifier that
  was given or derived from the flags, so after an update to another target the identifier is not that of
  the target any more.
\<close>

lemma update_apply_effect:
  assumes "desire_tables I adocs rdocs N M specsDB" and "I w"
    and "\<And>v v' r. fsReadFile fs path v = (r, v') \<Longrightarrow> I v \<Longrightarrow> I v' \<and> adocs v' = adocs v"
    and "resolve_doc uuid f = Inr docID"
    and "updateApply fs J yamlToJSON uuid specsDB f path w = ((None, out), w')"
  shows "\<exists>raw ref new. tool_resourceRefFromManifest J raw = Inr ref \<and> adocs w' docID = Some (N new) \<and>
    asTargetItem (adSpec new) = ref \<and> (\<forall>k. k \<noteq> docID \<longrightarrow> adocs w' k = adocs w k)"
proof -
  obtain gr w1 where g: "opGet (dbApplyStatus specsDB) docID w = (gr, w1)" by fastforce
  note get = desire_tables.apply_read [OF assms(1,2) g]
  from assms(4,5) g obtain old where gr: "gr = Inr old" by (auto simp: updateApply_def split: sum.splits)
  obtain lr w2 where l: "load_manifest fs J yamlToJSON path w1 = (lr, w2)" by fastforce
  from assms(4,5) g gr l obtain raw ref where lr: "lr = Inr (raw, ref)"
    by (auto simp: updateApply_def split: sum.splits)
  obtain d v where d: "fsReadFile fs path w1 = (d, v)" by fastforce
  have "I v \<and> adocs v = adocs w1" by (rule assms(3) [OF d get(1)])
  moreover have "w2 = v" using l [unfolded lr] d by (auto simp: load_manifest_def split: prod.splits sum.splits)
  ultimately have w2: "I w2" "adocs w2 = adocs w" using get(2) by simp_all
  let ?u = "(ApplyDesire_SetSpecKubeContent (Some \<lparr>Raw = raw\<rparr>) old)"
  let ?v = "?u\<lparr>adSpec := (adSpec ?u)\<lparr>asTargetItem := ref\<rparr>\<rparr>"
  obtain rr w3 where r: "opReplace (dbApplyStatus specsDB) ?v w2 = (rr, w3)" by fastforce
  note rep = desire_tables.apply_replace [OF assms(1) w2(1) r]
  from assms(4,5) g gr l lr r obtain new where rr: "rr = Inr new" "w' = w3"
    by (auto simp: updateApply_def Let_def split: sum.splits)
  have "DocumentID ?v = docID"
    using get(3) [OF gr] by (simp add: ApplyDesire_SetSpecKubeContent_def Let_def)
  with rep(2) rep(3) [OF rr(1)] w2(2) replaced_adSpec [of ?v new] load_manifest_ref [OF l [unfolded lr]] rr(2)
  show ?thesis by (intro exI [of _ raw] exI [of _ ref] exI [of _ new]) simp
qed

end
