(* ===== verification/GoHeap.thy ===== *)
theory GoHeap
  imports DesireTypes
begin

text \<open>
  Go values with pointers and slices on an explicit heap, as far as the structs of \<open>api/kubeapplier\<close> need
  it. A heap is a list of cells and an address a position in it, so an allocation appends and nothing is
  freed. A slice has a backing array, an offset and a length. What a deep copy promises is the locale
  \<open>deep_copy\<close>: the copy denotes the same value, lives in fresh cells only, and nothing that is written to
  one of the two is seen through the other; pointers, slices and structs of copied parts keep the promise.
\<close>

section \<open>Heaps\<close>

type_synonym addr = nat

datatype go_slice = NilSlice | Slice addr nat nat

text \<open>The structs as they lie in memory: embedded structs in place, pointers and slices as references.\<close>

record apply_spec_mem =
  amManagementCluster :: string
  amClusterID :: string
  amNodePoolName :: string
  amType :: ApplyDesireType
  amTargetItem :: ResourceReference
  amServerSideApply :: "addr option"

record apply_status_mem =
  amConditions :: go_slice
  amObservedDesireUpdateTime :: gtime
  amAppliedResourceGeneration :: int64

record apply_mem =
  amMetadata :: DynamoDBMetadata
  amSpec :: apply_spec_mem
  amStatus :: apply_status_mem

record read_status_mem =
  rmConditions :: go_slice
  rmObservedDesireUpdateTime :: gtime
  rmKubeContent :: "addr option"

record read_mem =
  rmMetadata :: DynamoDBMetadata
  rmSpec :: ReadDesireSpec
  rmStatus :: read_status_mem

text \<open>The list types of \<open>types_runtime.go\<close>; \<open>ListMeta\<close> is of apimachinery, and its fields are taken as values.\<close>

record ListMeta =
  lmSelfLink :: string
  lmResourceVersion :: string
  lmContinue :: string
  lmRemainingItemCount :: "int64 option"

record list_mem =
  lmTypeMeta :: "string \<times> string"
  lmListMeta :: ListMeta
  lmItems :: go_slice

datatype cell =
    BytesCell string
  | RawCell go_slice
  | ConfigCell "addr option"
  | ConditionsCell "Condition list"
  | ApplyCell apply_mem
  | AppliesCell "apply_mem list"
  | ReadCell read_mem
  | ReadsCell "read_mem list"
  | MetadataCell DynamoDBMetadata
  | ReferenceCell ResourceReference
  | ApplySpecCell apply_spec_mem
  | ApplyStatusCell apply_status_mem
  | ApplyListCell list_mem
  | ReadSpecCell ReadDesireSpec
  | ReadStatusCell read_status_mem
  | ReadListCell list_mem

type_synonym heap = "cell list"

definition cell_at :: "heap \<Rightarrow> addr \<Rightarrow> cell option" where
  "cell_at h a = (if a < length h then Some (h ! a) else None)"

lemma cell_at_append [simp]: "a < length h \<Longrightarrow> cell_at (h @ t) a = cell_at h a"
  by (simp add: cell_at_def nth_append)

lemma cell_at_new [simp]: "cell_at (h @ [c]) (length h) = Some c"
  by (simp add: cell_at_def)

lemma cell_at_new2 [simp]: "cell_at (h @ t @ [c]) (length h + length t) = Some c"
  by (simp add: cell_at_def nth_append)

lemma cell_at_bound: "cell_at h a = Some c \<Longrightarrow> a < length h"
  by (simp add: cell_at_def split: if_splits)

definition deref :: "(cell \<Rightarrow> 's option) \<Rightarrow> heap \<Rightarrow> addr \<Rightarrow> 's option" where
  "deref U h a = (case cell_at h a of None \<Rightarrow> None | Some c \<Rightarrow> U c)"

definition elems :: "(cell \<Rightarrow> 's list option) \<Rightarrow> heap \<Rightarrow> go_slice \<Rightarrow> 's list option" where
  "elems U h sl =
     (case sl of
        NilSlice \<Rightarrow> Some []
      | Slice a off n \<Rightarrow>
          (case deref U h a of
             None \<Rightarrow> None
           | Some xs \<Rightarrow> if off + n \<le> length xs then Some (take n (drop off xs)) else None))"

section \<open>Copying pointers and slices\<close>

text \<open>
  \<open>if in.P != nil { *out = new(T); (*in).DeepCopyInto(*out) }\<close>. The new cell gets its address when its
  contents are complete. A pointer to a cell of another type cannot occur in a Go program; such a pointer
  is left as it is.
\<close>

definition copy_pointer ::
  "('s \<Rightarrow> cell) \<Rightarrow> (cell \<Rightarrow> 's option) \<Rightarrow> ('s \<Rightarrow> heap \<Rightarrow> 's \<times> heap) \<Rightarrow> addr option \<Rightarrow> heap \<Rightarrow> addr option \<times> heap" where
  "copy_pointer K U copyInto p h =
     (case p of
        None \<Rightarrow> (None, h)
      | Some a \<Rightarrow>
          (case deref U h a of
             None \<Rightarrow> (p, h)
           | Some s \<Rightarrow> (let (s', h) = copyInto s h in (Some (length h), h @ [K s']))))"

text \<open>\<open>if in.S != nil { *out = make([]T, len(*in)); for i := range *in { (*in)[i].DeepCopyInto(&(*out)[i]) } }\<close>.\<close>

fun copy_each :: "('s \<Rightarrow> heap \<Rightarrow> 's \<times> heap) \<Rightarrow> 's list \<Rightarrow> heap \<Rightarrow> 's list \<times> heap" where
  "copy_each copyInto [] h = ([], h)"
| "copy_each copyInto (x # xs) h =
     (let (y, h) = copyInto x h; (ys, h) = copy_each copyInto xs h in (y # ys, h))"

definition copy_slice ::
  "('s list \<Rightarrow> cell) \<Rightarrow> (cell \<Rightarrow> 's list option) \<Rightarrow> ('s \<Rightarrow> heap \<Rightarrow> 's \<times> heap) \<Rightarrow> go_slice \<Rightarrow> heap \<Rightarrow> go_slice \<times> heap" where
  "copy_slice K U copyInto sl h =
     (case sl of
        NilSlice \<Rightarrow> (NilSlice, h)
      | Slice a off n \<Rightarrow>
          (case elems U h sl of
             None \<Rightarrow> (sl, h)
           | Some xs \<Rightarrow> (let (ys, h) = copy_each copyInto xs h in (Slice (length h) 0 (length ys), h @ [K ys]))))"

section \<open>What the references denote, and the cells that they use\<close>

definition pointer_val :: "(cell \<Rightarrow> 's option) \<Rightarrow> (heap \<Rightarrow> 's \<Rightarrow> 'v option) \<Rightarrow> heap \<Rightarrow> addr option \<Rightarrow> 'v option option" where
  "pointer_val U val h p =
     (case p of
        None \<Rightarrow> Some None
      | Some a \<Rightarrow> (case deref U h a of None \<Rightarrow> None | Some s \<Rightarrow> map_option Some (val h s)))"

definition pointer_reach :: "(cell \<Rightarrow> 's option) \<Rightarrow> (heap \<Rightarrow> 's \<Rightarrow> addr set) \<Rightarrow> heap \<Rightarrow> addr option \<Rightarrow> addr set" where
  "pointer_reach U reach h p =
     (case p of None \<Rightarrow> {} | Some a \<Rightarrow> insert a (case deref U h a of None \<Rightarrow> {} | Some s \<Rightarrow> reach h s))"

fun vals :: "('s \<Rightarrow> 'v option) \<Rightarrow> 's list \<Rightarrow> 'v list option" where
  "vals f [] = Some []"
| "vals f (x # xs) = (case f x of None \<Rightarrow> None | Some v \<Rightarrow> map_option (Cons v) (vals f xs))"

definition slice_val :: "(cell \<Rightarrow> 's list option) \<Rightarrow> (heap \<Rightarrow> 's \<Rightarrow> 'v option) \<Rightarrow> heap \<Rightarrow> go_slice \<Rightarrow> 'v list option" where
  "slice_val U val h sl = (case elems U h sl of None \<Rightarrow> None | Some xs \<Rightarrow> vals (val h) xs)"

definition slice_reach :: "(cell \<Rightarrow> 's list option) \<Rightarrow> (heap \<Rightarrow> 's \<Rightarrow> addr set) \<Rightarrow> heap \<Rightarrow> go_slice \<Rightarrow> addr set" where
  "slice_reach U reach h sl =
     (case sl of
        NilSlice \<Rightarrow> {}
      | Slice a off n \<Rightarrow> insert a (case elems U h sl of None \<Rightarrow> {} | Some xs \<Rightarrow> \<Union> (reach h ` set xs)))"

section \<open>The contract\<close>

text \<open>All that happens to a heap is in the cells \<open>A\<close> and in new ones.\<close>

definition writes_only :: "addr set \<Rightarrow> heap \<Rightarrow> heap \<Rightarrow> bool" where
  "writes_only A h h2 \<longleftrightarrow> (\<forall>a < length h. a \<notin> A \<longrightarrow> cell_at h2 a = cell_at h a)"

locale deep_copy =
  fixes val :: "heap \<Rightarrow> 's \<Rightarrow> 'v option"
    and reach :: "heap \<Rightarrow> 's \<Rightarrow> addr set"
    and copy :: "'s \<Rightarrow> heap \<Rightarrow> 's \<times> heap"
  assumes copy_ok: "val h s = Some v \<Longrightarrow> copy s h = (s', h') \<Longrightarrow>
      val h' s' = Some v \<and> (\<exists>t. h' = h @ t) \<and> reach h' s' \<subseteq> {length h..<length h'}"
    and frame: "val h s = Some v \<Longrightarrow> (\<And>a. a \<in> reach h s \<Longrightarrow> cell_at h2 a = cell_at h a) \<Longrightarrow>
      val h2 s = Some v \<and> reach h2 s = reach h s"
    and bound: "val h s = Some v \<Longrightarrow> reach h s \<subseteq> {..<length h}"
begin

lemma grown: "val h s = Some v \<Longrightarrow> val (h @ t) s = Some v \<and> reach (h @ t) s = reach h s"
  by (rule frame) (use bound in \<open>fastforce+\<close>)

text \<open>The original keeps its value and its cells, and the copy has none of them.\<close>

lemma apart:
  assumes "val h s = Some v" and "copy s h = (s', h')"
  shows "val h' s = Some v" and "reach h' s = reach h s" and "reach h' s' \<inter> reach h' s = {}"
proof -
  from copy_ok [OF assms] obtain t where t: "h' = h @ t" "reach h' s' \<subseteq> {length h..<length h'}" by blast
  show "val h' s = Some v" "reach h' s = reach h s" using grown [OF assms(1), of t] t(1) by simp_all
  with t(2) bound [OF assms(1)] show "reach h' s' \<inter> reach h' s = {}" by fastforce
qed

text \<open>Writes to the cells of the copy, and to new ones, do not show in the original, nor the other way round.\<close>

lemma isolated:
  assumes "val h s = Some v" and "copy s h = (s', h')"
  shows "writes_only (reach h' s') h' h2 \<Longrightarrow> val h2 s = Some v"
    and "writes_only (reach h' s) h' h2 \<Longrightarrow> val h2 s' = Some v"
proof -
  note a = apart [OF assms] and c = copy_ok [OF assms]
  have b: "reach h' s \<subseteq> {..<length h'}" "reach h' s' \<subseteq> {..<length h'}"
    using bound [OF a(1)] bound [of h' s' v] c by auto
  show "writes_only (reach h' s') h' h2 \<Longrightarrow> val h2 s = Some v"
    using frame [OF a(1), of h2] a(3) b(1) by (auto simp: writes_only_def subset_iff disjoint_iff)
  show "writes_only (reach h' s) h' h2 \<Longrightarrow> val h2 s' = Some v"
    using frame [of h' s' v h2] c a(3) b(2) by (auto simp: writes_only_def subset_iff disjoint_iff)
qed

end

section \<open>Structs, pointers and slices of parts that are copied deeply\<close>

text \<open>A struct without references, and one that is seen through its only part with references.\<close>

lemma deep_copy_plain:
  assumes "\<And>s h. copy s h = (s, h)"
  shows "deep_copy (\<lambda>h s. Some (f s)) (\<lambda>h s. {}) copy"
  using assms by unfold_locales auto

lemma deep_copy_part:
  assumes "deep_copy val reach part"
    and copy: "\<And>s h. copy s h = (case part (get s) h of (x, h) \<Rightarrow> (put x s, h))"
    and get_put: "\<And>x s. get (put x s) = x" and show_put: "\<And>x s v. shown (put x s) v = shown s v"
  shows "deep_copy (\<lambda>h s. map_option (shown s) (val h (get s))) (\<lambda>h s. reach h (get s)) copy"
proof
  note C = deep_copy.copy_ok [OF assms(1)] and F = deep_copy.frame [OF assms(1)] and B = deep_copy.bound [OF assms(1)]
  fix h s v
  assume v: "map_option (shown s) (val h (get s)) = Some v"
  then obtain u where u: "val h (get s) = Some u" "v = shown s u" by auto
  show "reach h (get s) \<subseteq> {..<length h}" by (rule B [OF u(1)])
  show "map_option (shown s) (val h2 (get s)) = Some v \<and> reach h2 (get s) = reach h (get s)"
    if "\<And>a. a \<in> reach h (get s) \<Longrightarrow> cell_at h2 a = cell_at h a" for h2
    using F [OF u(1), of h2] that u(2) by auto
  fix s' h'
  assume "copy s h = (s', h')"
  then obtain x where p: "part (get s) h = (x, h')" "s' = put x s" by (auto simp: copy split: prod.splits)
  from C [OF u(1) p(1)] u(2) p(2) show "map_option (shown s') (val h' (get s')) = Some v \<and>
      (\<exists>t. h' = h @ t) \<and> reach h' (get s') \<subseteq> {length h..<length h'}"
    by (simp add: get_put show_put)
qed

text \<open>A struct with two such parts, copied one after the other.\<close>

lemma copied_twice:
  assumes "deep_copy v1 r1 c1" and "deep_copy v2 r2 c2" and "v1 h s1 = Some a" and "v2 h s2 = Some b"
    and "c1 s1 h = (x, h1)" and "c2 s2 h1 = (y, h2)"
  shows "v1 h2 x = Some a \<and> v2 h2 y = Some b \<and> (\<exists>t. h2 = h @ t) \<and> length h \<le> length h1 \<and>
    r1 h2 x \<subseteq> {length h..<length h2} \<and> r2 h2 y \<subseteq> {length h..<length h2}"
proof -
  from deep_copy.copy_ok [OF assms(1,3,5)] obtain t1 where
    x: "v1 h1 x = Some a" "h1 = h @ t1" "r1 h1 x \<subseteq> {length h..<length h1}" by blast
  have "v2 h1 s2 = Some b" using deep_copy.grown [OF assms(2,4), of t1] x(2) by simp
  from deep_copy.copy_ok [OF assms(2) this assms(6)] obtain t2 where
    y: "v2 h2 y = Some b" "h2 = h1 @ t2" "r2 h2 y \<subseteq> {length h1..<length h2}" by blast
  from deep_copy.grown [OF assms(1) x(1), of t2] y(2) have "v1 h2 x = Some a" "r1 h2 x = r1 h1 x" by simp_all
  with x y show ?thesis by fastforce
qed

lemma deep_copy_parts:
  assumes "deep_copy v1 r1 c1" and "deep_copy v2 r2 c2"
    and copy: "\<And>s h. copy s h = (case c1 (g1 s) h of (x, h) \<Rightarrow> case c2 (g2 s) h of (y, h) \<Rightarrow> (put x y s, h))"
    and get_put: "\<And>x y s. g1 (put x y s) = x" "\<And>x y s. g2 (put x y s) = y"
    and show_put: "\<And>x y s v u. shown (put x y s) v u = shown s v u"
  shows "deep_copy (\<lambda>h s. case v1 h (g1 s) of None \<Rightarrow> None | Some a \<Rightarrow> map_option (shown s a) (v2 h (g2 s)))
    (\<lambda>h s. r1 h (g1 s) \<union> r2 h (g2 s)) copy"
proof
  note F = deep_copy.frame [OF assms(1)] deep_copy.frame [OF assms(2)]
    and B = deep_copy.bound [OF assms(1)] deep_copy.bound [OF assms(2)]
  fix h s v
  assume v: "(case v1 h (g1 s) of None \<Rightarrow> None | Some a \<Rightarrow> map_option (shown s a) (v2 h (g2 s))) = Some v"
  then obtain a b where ab: "v1 h (g1 s) = Some a" "v2 h (g2 s) = Some b" "v = shown s a b"
    by (auto split: option.splits)
  show "r1 h (g1 s) \<union> r2 h (g2 s) \<subseteq> {..<length h}" using B(1) [OF ab(1)] B(2) [OF ab(2)] by blast
  show "(case v1 h2 (g1 s) of None \<Rightarrow> None | Some a \<Rightarrow> map_option (shown s a) (v2 h2 (g2 s))) = Some v \<and>
      r1 h2 (g1 s) \<union> r2 h2 (g2 s) = r1 h (g1 s) \<union> r2 h (g2 s)"
    if "\<And>a. a \<in> r1 h (g1 s) \<union> r2 h (g2 s) \<Longrightarrow> cell_at h2 a = cell_at h a" for h2
    using F(1) [OF ab(1), of h2] F(2) [OF ab(2), of h2] that ab(3) by auto
  fix s' h'
  assume "copy s h = (s', h')"
  then obtain x h1 y where c: "c1 (g1 s) h = (x, h1)" "c2 (g2 s) h1 = (y, h')" "s' = put x y s"
    by (auto simp: copy split: prod.splits)
  from copied_twice [OF assms(1,2) ab(1,2) c(1,2)] ab(3) c(3)
  show "(case v1 h' (g1 s') of None \<Rightarrow> None | Some a \<Rightarrow> map_option (shown s' a) (v2 h' (g2 s'))) = Some v \<and>
      (\<exists>t. h' = h @ t) \<and> r1 h' (g1 s') \<union> r2 h' (g2 s') \<subseteq> {length h..<length h'}"
    by (simp add: get_put show_put)
qed

lemma deep_copy_pointer:
  assumes "deep_copy val reach into" and UK: "\<And>s. U (K s) = Some s"
  shows "deep_copy (pointer_val U val) (pointer_reach U reach) (copy_pointer K U into)"
proof
  fix h p v
  assume v: "pointer_val U val h p = Some v"
  show "pointer_reach U reach h p \<subseteq> {..<length h}"
  proof (cases p)
    case (Some a)
    with v obtain s u where s: "deref U h a = Some s" "val h s = Some u"
      by (auto simp: pointer_val_def split: option.splits)
    then have "a < length h" by (auto simp: deref_def split: option.splits dest: cell_at_bound)
    with deep_copy.bound [OF assms(1) s(2)] s(1) Some show ?thesis by (simp add: pointer_reach_def)
  qed (simp add: pointer_reach_def)
  show "pointer_val U val h2 p = Some v \<and> pointer_reach U reach h2 p = pointer_reach U reach h p"
    if "\<And>a. a \<in> pointer_reach U reach h p \<Longrightarrow> cell_at h2 a = cell_at h a" for h2
  proof (cases p)
    case None
    with v show ?thesis by (simp add: pointer_val_def pointer_reach_def)
  next
    case (Some a)
    with v obtain s u where s: "deref U h a = Some s" "val h s = Some u" "v = Some u"
      by (auto simp: pointer_val_def split: option.splits)
    have r: "pointer_reach U reach h p = insert a (reach h s)" by (simp add: pointer_reach_def Some s(1))
    from that have "deref U h2 a = Some s" using s(1) by (simp add: r deref_def)
    moreover from deep_copy.frame [OF assms(1) s(2), of h2] that have "val h2 s = Some u" "reach h2 s = reach h s"
      by (simp_all add: r)
    ultimately show ?thesis using s by (simp add: pointer_val_def pointer_reach_def Some)
  qed
  fix q h'
  assume c: "copy_pointer K U into p h = (q, h')"
  show "pointer_val U val h' q = Some v \<and> (\<exists>t. h' = h @ t) \<and> pointer_reach U reach h' q \<subseteq> {length h..<length h'}"
  proof (cases p)
    case None
    with v c show ?thesis by (simp add: pointer_val_def pointer_reach_def copy_pointer_def)
  next
    case (Some a)
    with v obtain s u where s: "deref U h a = Some s" "val h s = Some u" "v = Some u"
      by (auto simp: pointer_val_def split: option.splits)
    with c Some obtain s' h1 where p: "into s h = (s', h1)" "q = Some (length h1)" "h' = h1 @ [K s']"
      by (auto simp: copy_pointer_def split: prod.splits)
    from deep_copy.copy_ok [OF assms(1) s(2) p(1)] obtain t where
      t: "val h1 s' = Some u" "h1 = h @ t" "reach h1 s' \<subseteq> {length h..<length h1}" by blast
    from deep_copy.grown [OF assms(1) t(1), of "[K s']"] t p(2,3) s(3) UK show ?thesis
      by (auto simp: pointer_val_def pointer_reach_def deref_def)
  qed
qed

lemma vals_frame:
  assumes "deep_copy val reach into" and "vals (val h) xs = Some vs"
    and "\<And>a. a \<in> \<Union> (reach h ` set xs) \<Longrightarrow> cell_at h2 a = cell_at h a"
  shows "vals (val h2) xs = Some vs \<and> (\<forall>x \<in> set xs. reach h2 x = reach h x)"
  using assms(2,3)
proof (induction xs arbitrary: vs)
  case (Cons x xs)
  from Cons.prems(1) obtain u us where x: "val h x = Some u" "vals (val h) xs = Some us" "vs = u # us"
    by (auto split: option.splits)
  from deep_copy.frame [OF assms(1) x(1), of h2] Cons.prems(2) Cons.IH [OF x(2)] x show ?case by auto
qed simp

lemma vals_bound:
  assumes "deep_copy val reach into" and "vals (val h) xs = Some vs"
  shows "\<Union> (reach h ` set xs) \<subseteq> {..<length h}"
  using assms(2)
proof (induction xs arbitrary: vs)
  case (Cons x xs)
  then obtain u us where "val h x = Some u" "vals (val h) xs = Some us" by (auto split: option.splits)
  with deep_copy.bound [OF assms(1) this(1)] Cons.IH show ?case by simp
qed simp

lemma copy_each_ok:
  assumes "deep_copy val reach into" and "vals (val h) xs = Some vs" and "copy_each into xs h = (ys, h')"
  shows "vals (val h') ys = Some vs \<and> (\<exists>t. h' = h @ t) \<and> \<Union> (reach h' ` set ys) \<subseteq> {length h..<length h'}"
  using assms(2,3)
proof (induction xs arbitrary: h vs ys h')
  case (Cons x xs)
  from Cons.prems(1) obtain u us where x: "val h x = Some u" "vals (val h) xs = Some us" "vs = u # us"
    by (auto split: option.splits)
  from Cons.prems(2) obtain y h1 zs where c: "into x h = (y, h1)" "copy_each into xs h1 = (zs, h')" "ys = y # zs"
    by (auto split: prod.splits)
  from deep_copy.copy_ok [OF assms(1) x(1) c(1)] obtain t where
    y: "val h1 y = Some u" "h1 = h @ t" "reach h1 y \<subseteq> {length h..<length h1}" by blast
  have "vals (val h1) xs = Some us"
    using vals_frame [OF assms(1) x(2), of h1] vals_bound [OF assms(1) x(2)] y(2) by fastforce
  from Cons.IH [OF this c(2)] obtain t' where
    z: "vals (val h') zs = Some us" "h' = h1 @ t'" "\<Union> (reach h' ` set zs) \<subseteq> {length h1..<length h'}" by blast
  from deep_copy.grown [OF assms(1) y(1), of t'] y z x(3) c(3) show ?case by fastforce
qed simp

lemma deep_copy_slice:
  assumes "deep_copy val reach into" and UK: "\<And>xs. U (K xs) = Some xs"
  shows "deep_copy (slice_val U val) (slice_reach U reach) (copy_slice K U into)"
proof
  fix h sl v
  assume v: "slice_val U val h sl = Some v"
  then obtain xs where xs: "elems U h sl = Some xs" "vals (val h) xs = Some v"
    by (auto simp: slice_val_def split: option.splits)
  show "slice_reach U reach h sl \<subseteq> {..<length h}"
    using xs vals_bound [OF assms(1) xs(2)]
    by (auto simp: slice_reach_def elems_def deref_def split: go_slice.splits option.splits dest: cell_at_bound)
  show "slice_val U val h2 sl = Some v \<and> slice_reach U reach h2 sl = slice_reach U reach h sl"
    if "\<And>a. a \<in> slice_reach U reach h sl \<Longrightarrow> cell_at h2 a = cell_at h a" for h2
  proof (cases sl)
    case NilSlice
    with v show ?thesis by (simp add: slice_val_def slice_reach_def elems_def)
  next
    case (Slice a off n)
    have r: "slice_reach U reach h sl = insert a (\<Union> (reach h ` set xs))" by (simp add: slice_reach_def Slice xs(1) [unfolded Slice])
    have "cell_at h2 a = cell_at h a" by (rule that) (simp add: r)
    with xs(1) have "elems U h2 sl = Some xs" by (simp add: elems_def Slice deref_def)
    with vals_frame [OF assms(1) xs(2), of h2] that show ?thesis
      unfolding r by (auto simp: slice_val_def slice_reach_def Slice)
  qed
  fix sl' h'
  assume c: "copy_slice K U into sl h = (sl', h')"
  show "slice_val U val h' sl' = Some v \<and> (\<exists>t. h' = h @ t) \<and> slice_reach U reach h' sl' \<subseteq> {length h..<length h'}"
  proof (cases sl)
    case NilSlice
    with v c show ?thesis by (simp add: slice_val_def slice_reach_def copy_slice_def elems_def)
  next
    case (Slice a off n)
    with c xs(1) obtain ys h1 where y: "copy_each into xs h = (ys, h1)" "sl' = Slice (length h1) 0 (length ys)"
        "h' = h1 @ [K ys]" by (auto simp: copy_slice_def split: prod.splits)
    from copy_each_ok [OF assms(1) xs(2) y(1)] obtain t where
      t: "vals (val h1) ys = Some v" "h1 = h @ t" "\<Union> (reach h1 ` set ys) \<subseteq> {length h..<length h1}" by blast
    have "vals (val h') ys = Some v \<and> (\<forall>y \<in> set ys. reach h' y = reach h1 y)"
      using vals_frame [OF assms(1) t(1), of h'] vals_bound [OF assms(1) t(1)] y(3) by fastforce
    with t y(2,3) UK show ?thesis
      by (auto simp: slice_val_def slice_reach_def elems_def deref_def)
  qed
qed

end
