(* ===== verification/DeepCopy.thy ===== *)
theory DeepCopy
  imports GoHeap StatusWriter
begin

text \<open>
  \<open>api/kubeapplier/deepcopy.go\<close> on the heap of theory \<open>GoHeap\<close>, and the one place where aliasing decides
  what the program does: the status writer mutates a deep copy in place and compares it with the original.
  A \<open>DeepCopyInto\<close> takes the struct that \<open>in\<close> points to and gives the one it leaves behind \<open>out\<close>. The copies
  of apimachinery, of a \<open>RawExtension\<close> and of a \<open>Condition\<close>, are parameters. Everywhere else in the
  development a desire is the value it denotes.
\<close>

section \<open>Cells\<close>

definition un_bytes :: "cell \<Rightarrow> string option" where
  "un_bytes c = (case c of BytesCell s \<Rightarrow> Some s | _ \<Rightarrow> None)"
definition un_raw :: "cell \<Rightarrow> go_slice option" where
  "un_raw c = (case c of RawCell s \<Rightarrow> Some s | _ \<Rightarrow> None)"
definition un_config :: "cell \<Rightarrow> addr option option" where
  "un_config c = (case c of ConfigCell p \<Rightarrow> Some p | _ \<Rightarrow> None)"
definition un_conditions :: "cell \<Rightarrow> Condition list option" where
  "un_conditions c = (case c of ConditionsCell cs \<Rightarrow> Some cs | _ \<Rightarrow> None)"
definition un_apply :: "cell \<Rightarrow> apply_mem option" where
  "un_apply c = (case c of ApplyCell m \<Rightarrow> Some m | _ \<Rightarrow> None)"
definition un_applies :: "cell \<Rightarrow> apply_mem list option" where
  "un_applies c = (case c of AppliesCell ms \<Rightarrow> Some ms | _ \<Rightarrow> None)"
definition un_read :: "cell \<Rightarrow> read_mem option" where
  "un_read c = (case c of ReadCell m \<Rightarrow> Some m | _ \<Rightarrow> None)"
definition un_reads :: "cell \<Rightarrow> read_mem list option" where
  "un_reads c = (case c of ReadsCell ms \<Rightarrow> Some ms | _ \<Rightarrow> None)"
definition un_metadata :: "cell \<Rightarrow> DynamoDBMetadata option" where
  "un_metadata c = (case c of MetadataCell m \<Rightarrow> Some m | _ \<Rightarrow> None)"
definition un_reference :: "cell \<Rightarrow> ResourceReference option" where
  "un_reference c = (case c of ReferenceCell r \<Rightarrow> Some r | _ \<Rightarrow> None)"
definition un_apply_spec :: "cell \<Rightarrow> apply_spec_mem option" where
  "un_apply_spec c = (case c of ApplySpecCell s \<Rightarrow> Some s | _ \<Rightarrow> None)"
definition un_apply_status :: "cell \<Rightarrow> apply_status_mem option" where
  "un_apply_status c = (case c of ApplyStatusCell s \<Rightarrow> Some s | _ \<Rightarrow> None)"
definition un_apply_list :: "cell \<Rightarrow> list_mem option" where
  "un_apply_list c = (case c of ApplyListCell l \<Rightarrow> Some l | _ \<Rightarrow> None)"
definition un_read_spec :: "cell \<Rightarrow> ReadDesireSpec option" where
  "un_read_spec c = (case c of ReadSpecCell s \<Rightarrow> Some s | _ \<Rightarrow> None)"
definition un_read_status :: "cell \<Rightarrow> read_status_mem option" where
  "un_read_status c = (case c of ReadStatusCell s \<Rightarrow> Some s | _ \<Rightarrow> None)"
definition un_read_list :: "cell \<Rightarrow> list_mem option" where
  "un_read_list c = (case c of ReadListCell l \<Rightarrow> Some l | _ \<Rightarrow> None)"

lemmas un_defs = un_bytes_def un_raw_def un_config_def un_conditions_def un_apply_def un_applies_def
  un_read_def un_reads_def un_metadata_def un_reference_def un_apply_spec_def un_apply_status_def un_apply_list_def
  un_read_spec_def un_read_status_def un_read_list_def

section \<open>Values\<close>

definition raw_val :: "heap \<Rightarrow> go_slice \<Rightarrow> RawExtension option" where
  "raw_val h sl = map_option (\<lambda>s. \<lparr>Raw = s\<rparr>) (slice_val un_bytes (\<lambda>h c. Some c) h sl)"
definition raw_reach :: "heap \<Rightarrow> go_slice \<Rightarrow> addr set" where
  "raw_reach = slice_reach un_bytes (\<lambda>h c. {})"

abbreviation "content_val \<equiv> pointer_val un_raw raw_val"
abbreviation "content_reach \<equiv> pointer_reach un_raw raw_reach"

definition config_val :: "heap \<Rightarrow> addr option \<Rightarrow> ServerSideApplyConfig option" where
  "config_val h k = map_option (\<lambda>c. \<lparr>ssaKubeContent = c\<rparr>) (content_val h k)"

definition apply_spec_val :: "heap \<Rightarrow> apply_spec_mem \<Rightarrow> ApplyDesireSpec option" where
  "apply_spec_val h s =
     map_option (\<lambda>c. \<lparr>asManagementCluster = amManagementCluster s, asClusterID = amClusterID s,
         asNodePoolName = amNodePoolName s, asType = amType s, asTargetItem = amTargetItem s,
         asServerSideApply = c\<rparr>)
       (pointer_val un_config config_val h (amServerSideApply s))"
definition apply_spec_reach :: "heap \<Rightarrow> apply_spec_mem \<Rightarrow> addr set" where
  "apply_spec_reach h s = pointer_reach un_config content_reach h (amServerSideApply s)"

abbreviation "conditions_val \<equiv> slice_val un_conditions (\<lambda>h c. Some c)"
abbreviation "conditions_reach \<equiv> slice_reach un_conditions (\<lambda>h c. {})"

definition apply_status_val :: "heap \<Rightarrow> apply_status_mem \<Rightarrow> ApplyDesireStatus option" where
  "apply_status_val h s =
     map_option (\<lambda>cs. \<lparr>asConditions = cs, asObservedDesireUpdateTime = amObservedDesireUpdateTime s,
         asAppliedResourceGeneration = amAppliedResourceGeneration s\<rparr>) (conditions_val h (amConditions s))"
definition apply_status_reach :: "heap \<Rightarrow> apply_status_mem \<Rightarrow> addr set" where
  "apply_status_reach h s = conditions_reach h (amConditions s)"

definition desire_of :: "apply_mem \<Rightarrow> ApplyDesireSpec \<Rightarrow> ApplyDesireStatus \<Rightarrow> ApplyDesire" where
  "desire_of m sp st = (let d = amMetadata m in \<lparr>DocumentID = DocumentID d, Version = Version d,
     UpdateTime = UpdateTime d, CreateTime = CreateTime d, adSpec = sp, adStatus = st\<rparr>)"

definition apply_val :: "heap \<Rightarrow> apply_mem \<Rightarrow> ApplyDesire option" where
  "apply_val h m = (case apply_spec_val h (amSpec m) of None \<Rightarrow> None
     | Some sp \<Rightarrow> map_option (desire_of m sp) (apply_status_val h (amStatus m)))"
definition apply_reach :: "heap \<Rightarrow> apply_mem \<Rightarrow> addr set" where
  "apply_reach h m = apply_spec_reach h (amSpec m) \<union> apply_status_reach h (amStatus m)"

definition read_status_val :: "heap \<Rightarrow> read_status_mem \<Rightarrow> ReadDesireStatus option" where
  "read_status_val h s = (case conditions_val h (rmConditions s) of None \<Rightarrow> None
     | Some cs \<Rightarrow> map_option (\<lambda>k. \<lparr>rsConditions = cs, rsObservedDesireUpdateTime = rmObservedDesireUpdateTime s,
         rsKubeContent = k\<rparr>) (content_val h (rmKubeContent s)))"
definition read_status_reach :: "heap \<Rightarrow> read_status_mem \<Rightarrow> addr set" where
  "read_status_reach h s = conditions_reach h (rmConditions s) \<union> content_reach h (rmKubeContent s)"

definition read_val :: "heap \<Rightarrow> read_mem \<Rightarrow> ReadDesire option" where
  "read_val h m = map_option (\<lambda>st. let d = rmMetadata m in \<lparr>DocumentID = DocumentID d, Version = Version d,
     UpdateTime = UpdateTime d, CreateTime = CreateTime d, rdSpec = rmSpec m, rdStatus = st\<rparr>)
     (read_status_val h (rmStatus m))"
definition read_reach :: "heap \<Rightarrow> read_mem \<Rightarrow> addr set" where
  "read_reach h m = read_status_reach h (rmStatus m)"

definition apply_list_val :: "heap \<Rightarrow> list_mem \<Rightarrow> ((string \<times> string) \<times> ListMeta \<times> ApplyDesire list) option" where
  "apply_list_val h l =
     map_option (\<lambda>ds. (lmTypeMeta l, lmListMeta l, ds)) (slice_val un_applies apply_val h (lmItems l))"
definition read_list_val :: "heap \<Rightarrow> list_mem \<Rightarrow> ((string \<times> string) \<times> ListMeta \<times> ReadDesire list) option" where
  "read_list_val h l =
     map_option (\<lambda>ds. (lmTypeMeta l, lmListMeta l, ds)) (slice_val un_reads read_val h (lmItems l))"

abbreviation "apply_list_reach h l \<equiv> slice_reach un_applies apply_reach h (lmItems l)"
abbreviation "read_list_reach h l \<equiv> slice_reach un_reads read_reach h (lmItems l)"

abbreviation "apply_at \<equiv> pointer_val un_apply apply_val"
abbreviation "apply_cells \<equiv> pointer_reach un_apply apply_reach"
abbreviation "read_at \<equiv> pointer_val un_read read_val"
abbreviation "read_cells \<equiv> pointer_reach un_read read_reach"

section \<open>The copies\<close>

record copy_lib =
  clRawInto :: "go_slice \<Rightarrow> heap \<Rightarrow> go_slice \<times> heap"
  clConditionInto :: "Condition \<Rightarrow> heap \<Rightarrow> Condition \<times> heap"

definition copy_lib_ok :: "copy_lib \<Rightarrow> bool" where
  "copy_lib_ok lib \<longleftrightarrow> deep_copy raw_val raw_reach (clRawInto lib) \<and> (\<forall>c h. clConditionInto lib c h = (c, h))"

definition ServerSideApplyConfig_DeepCopyInto :: "copy_lib \<Rightarrow> addr option \<Rightarrow> heap \<Rightarrow> addr option \<times> heap" where
  "ServerSideApplyConfig_DeepCopyInto lib k h = copy_pointer RawCell un_raw (clRawInto lib) k h"

definition ApplyDesireSpec_DeepCopyInto :: "copy_lib \<Rightarrow> apply_spec_mem \<Rightarrow> heap \<Rightarrow> apply_spec_mem \<times> heap" where
  "ApplyDesireSpec_DeepCopyInto lib s h =
     (let (p, h) = copy_pointer ConfigCell un_config (ServerSideApplyConfig_DeepCopyInto lib) (amServerSideApply s) h
      in (s\<lparr>amServerSideApply := p\<rparr>, h))"

definition ApplyDesireStatus_DeepCopyInto :: "copy_lib \<Rightarrow> apply_status_mem \<Rightarrow> heap \<Rightarrow> apply_status_mem \<times> heap" where
  "ApplyDesireStatus_DeepCopyInto lib s h =
     (let (cs, h) = copy_slice ConditionsCell un_conditions (clConditionInto lib) (amConditions s) h
      in (s\<lparr>amConditions := cs\<rparr>, h))"

definition ApplyDesire_DeepCopyInto :: "copy_lib \<Rightarrow> apply_mem \<Rightarrow> heap \<Rightarrow> apply_mem \<times> heap" where
  "ApplyDesire_DeepCopyInto lib m h =
     (let (sp, h) = ApplyDesireSpec_DeepCopyInto lib (amSpec m) h;
          (st, h) = ApplyDesireStatus_DeepCopyInto lib (amStatus m) h
      in (m\<lparr>amSpec := sp, amStatus := st\<rparr>, h))"

definition ApplyDesire_DeepCopy :: "copy_lib \<Rightarrow> addr option \<Rightarrow> heap \<Rightarrow> addr option \<times> heap" where
  "ApplyDesire_DeepCopy lib d h = copy_pointer ApplyCell un_apply (ApplyDesire_DeepCopyInto lib) d h"

definition ReadDesireStatus_DeepCopyInto :: "copy_lib \<Rightarrow> read_status_mem \<Rightarrow> heap \<Rightarrow> read_status_mem \<times> heap" where
  "ReadDesireStatus_DeepCopyInto lib s h =
     (let (cs, h) = copy_slice ConditionsCell un_conditions (clConditionInto lib) (rmConditions s) h;
          (k, h) = copy_pointer RawCell un_raw (clRawInto lib) (rmKubeContent s) h
      in (s\<lparr>rmConditions := cs, rmKubeContent := k\<rparr>, h))"

definition ReadDesire_DeepCopyInto :: "copy_lib \<Rightarrow> read_mem \<Rightarrow> heap \<Rightarrow> read_mem \<times> heap" where
  "ReadDesire_DeepCopyInto lib m h =
     (let (st, h) = ReadDesireStatus_DeepCopyInto lib (rmStatus m) h in (m\<lparr>rmStatus := st\<rparr>, h))"

definition ReadDesire_DeepCopy :: "copy_lib \<Rightarrow> addr option \<Rightarrow> heap \<Rightarrow> addr option \<times> heap" where
  "ReadDesire_DeepCopy lib d h = copy_pointer ReadCell un_read (ReadDesire_DeepCopyInto lib) d h"

text \<open>The \<open>Items\<close> of the two list types.\<close>

definition ApplyDesireList_Items :: "copy_lib \<Rightarrow> go_slice \<Rightarrow> heap \<Rightarrow> go_slice \<times> heap" where
  "ApplyDesireList_Items lib items h = copy_slice AppliesCell un_applies (ApplyDesire_DeepCopyInto lib) items h"

definition ReadDesireList_Items :: "copy_lib \<Rightarrow> go_slice \<Rightarrow> heap \<Rightarrow> go_slice \<times> heap" where
  "ReadDesireList_Items lib items h = copy_slice ReadsCell un_reads (ReadDesire_DeepCopyInto lib) items h"

definition ApplyDesireList_DeepCopyInto :: "copy_lib \<Rightarrow> list_mem \<Rightarrow> heap \<Rightarrow> list_mem \<times> heap" where
  "ApplyDesireList_DeepCopyInto lib l h = (let (items, h) = ApplyDesireList_Items lib (lmItems l) h in (l\<lparr>lmItems := items\<rparr>, h))"

definition ReadDesireList_DeepCopyInto :: "copy_lib \<Rightarrow> list_mem \<Rightarrow> heap \<Rightarrow> list_mem \<times> heap" where
  "ReadDesireList_DeepCopyInto lib l h = (let (items, h) = ReadDesireList_Items lib (lmItems l) h in (l\<lparr>lmItems := items\<rparr>, h))"

text \<open>The structs without references are copied by assignment.\<close>

definition DynamoDBMetadata_DeepCopyInto :: "DynamoDBMetadata \<Rightarrow> heap \<Rightarrow> DynamoDBMetadata \<times> heap" where
  "DynamoDBMetadata_DeepCopyInto m h = (m, h)"
definition ResourceReference_DeepCopyInto :: "ResourceReference \<Rightarrow> heap \<Rightarrow> ResourceReference \<times> heap" where
  "ResourceReference_DeepCopyInto r h = (r, h)"
definition ReadDesireSpec_DeepCopyInto :: "ReadDesireSpec \<Rightarrow> heap \<Rightarrow> ReadDesireSpec \<times> heap" where
  "ReadDesireSpec_DeepCopyInto s h = (s, h)"

text \<open>\<open>DeepCopy\<close> of the parts and of the lists: a new struct, filled by \<open>DeepCopyInto\<close>, and nil for nil.\<close>

definition DynamoDBMetadata_DeepCopy :: "addr option \<Rightarrow> heap \<Rightarrow> addr option \<times> heap" where
  "DynamoDBMetadata_DeepCopy p h = copy_pointer MetadataCell un_metadata DynamoDBMetadata_DeepCopyInto p h"
definition ResourceReference_DeepCopy :: "addr option \<Rightarrow> heap \<Rightarrow> addr option \<times> heap" where
  "ResourceReference_DeepCopy p h = copy_pointer ReferenceCell un_reference ResourceReference_DeepCopyInto p h"
definition ServerSideApplyConfig_DeepCopy :: "copy_lib \<Rightarrow> addr option \<Rightarrow> heap \<Rightarrow> addr option \<times> heap" where
  "ServerSideApplyConfig_DeepCopy lib p h = copy_pointer ConfigCell un_config (ServerSideApplyConfig_DeepCopyInto lib) p h"
definition ApplyDesireSpec_DeepCopy :: "copy_lib \<Rightarrow> addr option \<Rightarrow> heap \<Rightarrow> addr option \<times> heap" where
  "ApplyDesireSpec_DeepCopy lib p h = copy_pointer ApplySpecCell un_apply_spec (ApplyDesireSpec_DeepCopyInto lib) p h"
definition ApplyDesireStatus_DeepCopy :: "copy_lib \<Rightarrow> addr option \<Rightarrow> heap \<Rightarrow> addr option \<times> heap" where
  "ApplyDesireStatus_DeepCopy lib p h = copy_pointer ApplyStatusCell un_apply_status (ApplyDesireStatus_DeepCopyInto lib) p h"
definition ReadDesireSpec_DeepCopy :: "addr option \<Rightarrow> heap \<Rightarrow> addr option \<times> heap" where
  "ReadDesireSpec_DeepCopy p h = copy_pointer ReadSpecCell un_read_spec ReadDesireSpec_DeepCopyInto p h"
definition ReadDesireStatus_DeepCopy :: "copy_lib \<Rightarrow> addr option \<Rightarrow> heap \<Rightarrow> addr option \<times> heap" where
  "ReadDesireStatus_DeepCopy lib p h = copy_pointer ReadStatusCell un_read_status (ReadDesireStatus_DeepCopyInto lib) p h"
definition ApplyDesireList_DeepCopy :: "copy_lib \<Rightarrow> addr option \<Rightarrow> heap \<Rightarrow> addr option \<times> heap" where
  "ApplyDesireList_DeepCopy lib p h = copy_pointer ApplyListCell un_apply_list (ApplyDesireList_DeepCopyInto lib) p h"
definition ReadDesireList_DeepCopy :: "copy_lib \<Rightarrow> addr option \<Rightarrow> heap \<Rightarrow> addr option \<times> heap" where
  "ReadDesireList_DeepCopy lib p h = copy_pointer ReadListCell un_read_list (ReadDesireList_DeepCopyInto lib) p h"

text \<open>\<open>DeepCopyObject\<close> turns a nil pointer into a nil interface.\<close>

definition ApplyDesireList_DeepCopyObject :: "copy_lib \<Rightarrow> addr option \<Rightarrow> heap \<Rightarrow> addr option \<times> heap" where
  "ApplyDesireList_DeepCopyObject lib p h =
     (case ApplyDesireList_DeepCopy lib p h of (Some c, h) \<Rightarrow> (Some c, h) | (None, h) \<Rightarrow> (None, h))"

definition ReadDesireList_DeepCopyObject :: "copy_lib \<Rightarrow> addr option \<Rightarrow> heap \<Rightarrow> addr option \<times> heap" where
  "ReadDesireList_DeepCopyObject lib p h =
     (case ReadDesireList_DeepCopy lib p h of (Some c, h) \<Rightarrow> (Some c, h) | (None, h) \<Rightarrow> (None, h))"

definition ApplyDesire_DeepCopyObject :: "copy_lib \<Rightarrow> addr option \<Rightarrow> heap \<Rightarrow> addr option \<times> heap" where
  "ApplyDesire_DeepCopyObject lib d h =
     (case ApplyDesire_DeepCopy lib d h of (Some c, h) \<Rightarrow> (Some c, h) | (None, h) \<Rightarrow> (None, h))"

definition ReadDesire_DeepCopyObject :: "copy_lib \<Rightarrow> addr option \<Rightarrow> heap \<Rightarrow> addr option \<times> heap" where
  "ReadDesire_DeepCopyObject lib d h =
     (case ReadDesire_DeepCopy lib d h of (Some c, h) \<Rightarrow> (Some c, h) | (None, h) \<Rightarrow> (None, h))"

section \<open>They are deep\<close>

lemma content_deep: "copy_lib_ok lib \<Longrightarrow> deep_copy content_val content_reach (ServerSideApplyConfig_DeepCopyInto lib)"
  unfolding ServerSideApplyConfig_DeepCopyInto_def [abs_def] copy_lib_ok_def
  by (rule deep_copy_pointer) (simp_all add: un_defs)

lemma config_deep: "copy_lib_ok lib \<Longrightarrow> deep_copy config_val content_reach (ServerSideApplyConfig_DeepCopyInto lib)"
  unfolding config_val_def [abs_def]
  by (rule deep_copy_part [OF content_deep, where get = "\<lambda>k. k" and put = "\<lambda>x k. x"]) (auto split: prod.split)

lemma apply_spec_deep: "copy_lib_ok lib \<Longrightarrow> deep_copy apply_spec_val apply_spec_reach (ApplyDesireSpec_DeepCopyInto lib)"
  unfolding apply_spec_val_def [abs_def] apply_spec_reach_def [abs_def]
  by (rule deep_copy_part [OF deep_copy_pointer [OF config_deep], where put = "\<lambda>p s. s\<lparr>amServerSideApply := p\<rparr>"
        and U1 = un_config and K1 = ConfigCell])
    (simp_all add: ApplyDesireSpec_DeepCopyInto_def un_defs)

lemma conditions_deep:
  "copy_lib_ok lib \<Longrightarrow> deep_copy conditions_val conditions_reach (copy_slice ConditionsCell un_conditions (clConditionInto lib))"
  by (rule deep_copy_slice, rule deep_copy_plain) (simp_all add: copy_lib_ok_def un_defs)

lemma apply_status_deep:
  "copy_lib_ok lib \<Longrightarrow> deep_copy apply_status_val apply_status_reach (ApplyDesireStatus_DeepCopyInto lib)"
  unfolding apply_status_val_def [abs_def] apply_status_reach_def [abs_def]
  by (rule deep_copy_part [OF conditions_deep, where put = "\<lambda>cs s. s\<lparr>amConditions := cs\<rparr>"])
    (simp_all add: ApplyDesireStatus_DeepCopyInto_def)

lemma apply_deep: "copy_lib_ok lib \<Longrightarrow> deep_copy apply_val apply_reach (ApplyDesire_DeepCopyInto lib)"
  unfolding apply_val_def [abs_def] apply_reach_def [abs_def]
  by (rule deep_copy_parts [OF apply_spec_deep apply_status_deep, where put = "\<lambda>sp st m. m\<lparr>amSpec := sp, amStatus := st\<rparr>"])
    (simp_all add: ApplyDesire_DeepCopyInto_def desire_of_def)

lemma apply_at_deep: "copy_lib_ok lib \<Longrightarrow> deep_copy apply_at apply_cells (ApplyDesire_DeepCopy lib)"
  unfolding ApplyDesire_DeepCopy_def [abs_def] by (rule deep_copy_pointer [OF apply_deep]) (simp_all add: un_defs)

lemma read_status_deep:
  "copy_lib_ok lib \<Longrightarrow> deep_copy read_status_val read_status_reach (ReadDesireStatus_DeepCopyInto lib)"
  unfolding read_status_val_def [abs_def] read_status_reach_def [abs_def]
  by (rule deep_copy_parts [OF conditions_deep content_deep,
        where put = "\<lambda>cs k s. s\<lparr>rmConditions := cs, rmKubeContent := k\<rparr>"])
    (simp_all add: ReadDesireStatus_DeepCopyInto_def ServerSideApplyConfig_DeepCopyInto_def)

lemma read_deep: "copy_lib_ok lib \<Longrightarrow> deep_copy read_val read_reach (ReadDesire_DeepCopyInto lib)"
  unfolding read_val_def [abs_def] read_reach_def [abs_def]
  by (rule deep_copy_part [OF read_status_deep, where put = "\<lambda>st m. m\<lparr>rmStatus := st\<rparr>"])
    (simp_all add: ReadDesire_DeepCopyInto_def Let_def)

lemma read_at_deep: "copy_lib_ok lib \<Longrightarrow> deep_copy read_at read_cells (ReadDesire_DeepCopy lib)"
  unfolding ReadDesire_DeepCopy_def [abs_def] by (rule deep_copy_pointer [OF read_deep]) (simp_all add: un_defs)

lemma lists_deep:
  "copy_lib_ok lib \<Longrightarrow> deep_copy (slice_val un_applies apply_val) (slice_reach un_applies apply_reach) (ApplyDesireList_Items lib)"
  "copy_lib_ok lib \<Longrightarrow> deep_copy (slice_val un_reads read_val) (slice_reach un_reads read_reach) (ReadDesireList_Items lib)"
  unfolding ApplyDesireList_Items_def [abs_def] ReadDesireList_Items_def [abs_def]
  by (rule deep_copy_slice [OF apply_deep], simp_all add: un_defs)
    (rule deep_copy_slice [OF read_deep], simp_all add: un_defs)

lemma list_types_deep:
  "copy_lib_ok lib \<Longrightarrow> deep_copy apply_list_val apply_list_reach (ApplyDesireList_DeepCopyInto lib)"
  "copy_lib_ok lib \<Longrightarrow> deep_copy read_list_val read_list_reach (ReadDesireList_DeepCopyInto lib)"
  unfolding apply_list_val_def [abs_def] read_list_val_def [abs_def]
  by (rule deep_copy_part [OF lists_deep(1), where put = "\<lambda>xs l. l\<lparr>lmItems := xs\<rparr>"];
      simp add: ApplyDesireList_DeepCopyInto_def)
    (rule deep_copy_part [OF lists_deep(2), where put = "\<lambda>xs l. l\<lparr>lmItems := xs\<rparr>"];
      simp add: ReadDesireList_DeepCopyInto_def)

lemma objects_deep:
  "copy_lib_ok lib \<Longrightarrow> deep_copy apply_at apply_cells (ApplyDesire_DeepCopyObject lib)"
  "copy_lib_ok lib \<Longrightarrow> deep_copy read_at read_cells (ReadDesire_DeepCopyObject lib)"
proof -
  have "ApplyDesire_DeepCopyObject lib = ApplyDesire_DeepCopy lib" "ReadDesire_DeepCopyObject lib = ReadDesire_DeepCopy lib"
    by (auto simp: fun_eq_iff ApplyDesire_DeepCopyObject_def ReadDesire_DeepCopyObject_def split: prod.split option.split)
  then show "copy_lib_ok lib \<Longrightarrow> deep_copy apply_at apply_cells (ApplyDesire_DeepCopyObject lib)"
    "copy_lib_ok lib \<Longrightarrow> deep_copy read_at read_cells (ReadDesire_DeepCopyObject lib)"
    by (simp_all add: apply_at_deep read_at_deep)
qed

lemma plain_parts_deep:
  "deep_copy (pointer_val un_metadata (\<lambda>h m. Some m)) (pointer_reach un_metadata (\<lambda>h m. {})) DynamoDBMetadata_DeepCopy"
  "deep_copy (pointer_val un_reference (\<lambda>h r. Some r)) (pointer_reach un_reference (\<lambda>h r. {})) ResourceReference_DeepCopy"
  "deep_copy (pointer_val un_read_spec (\<lambda>h s. Some s)) (pointer_reach un_read_spec (\<lambda>h s. {})) ReadDesireSpec_DeepCopy"
  unfolding DynamoDBMetadata_DeepCopy_def [abs_def] ResourceReference_DeepCopy_def [abs_def] ReadDesireSpec_DeepCopy_def [abs_def]
  by (rule deep_copy_pointer, rule deep_copy_plain,
      simp_all add: un_defs DynamoDBMetadata_DeepCopyInto_def ResourceReference_DeepCopyInto_def ReadDesireSpec_DeepCopyInto_def)+

lemma parts_deep:
  assumes "copy_lib_ok lib"
  shows "deep_copy (pointer_val un_config config_val) (pointer_reach un_config content_reach) (ServerSideApplyConfig_DeepCopy lib)"
    and "deep_copy (pointer_val un_apply_spec apply_spec_val) (pointer_reach un_apply_spec apply_spec_reach) (ApplyDesireSpec_DeepCopy lib)"
    and "deep_copy (pointer_val un_apply_status apply_status_val) (pointer_reach un_apply_status apply_status_reach)
      (ApplyDesireStatus_DeepCopy lib)"
    and "deep_copy (pointer_val un_read_status read_status_val) (pointer_reach un_read_status read_status_reach)
      (ReadDesireStatus_DeepCopy lib)"
    and "deep_copy (pointer_val un_apply_list apply_list_val) (pointer_reach un_apply_list apply_list_reach)
      (ApplyDesireList_DeepCopy lib)"
    and "deep_copy (pointer_val un_read_list read_list_val) (pointer_reach un_read_list read_list_reach)
      (ReadDesireList_DeepCopy lib)"
  unfolding ServerSideApplyConfig_DeepCopy_def [abs_def] ApplyDesireSpec_DeepCopy_def [abs_def] ApplyDesireStatus_DeepCopy_def [abs_def]
    ReadDesireStatus_DeepCopy_def [abs_def] ApplyDesireList_DeepCopy_def [abs_def] ReadDesireList_DeepCopy_def [abs_def]
  by (intro deep_copy_pointer config_deep apply_spec_deep apply_status_deep read_status_deep list_types_deep assms;
      simp add: un_defs)+

lemma list_objects_deep:
  "copy_lib_ok lib \<Longrightarrow> deep_copy (pointer_val un_apply_list apply_list_val) (pointer_reach un_apply_list apply_list_reach)
     (ApplyDesireList_DeepCopyObject lib)"
  "copy_lib_ok lib \<Longrightarrow> deep_copy (pointer_val un_read_list read_list_val) (pointer_reach un_read_list read_list_reach)
     (ReadDesireList_DeepCopyObject lib)"
proof -
  have "ApplyDesireList_DeepCopyObject lib = ApplyDesireList_DeepCopy lib" "ReadDesireList_DeepCopyObject lib = ReadDesireList_DeepCopy lib"
    by (auto simp: fun_eq_iff ApplyDesireList_DeepCopyObject_def ReadDesireList_DeepCopyObject_def split: prod.split option.split)
  with parts_deep(5,6) show "copy_lib_ok lib \<Longrightarrow> deep_copy (pointer_val un_apply_list apply_list_val)
      (pointer_reach un_apply_list apply_list_reach) (ApplyDesireList_DeepCopyObject lib)"
    "copy_lib_ok lib \<Longrightarrow> deep_copy (pointer_val un_read_list read_list_val) (pointer_reach un_read_list read_list_reach)
      (ReadDesireList_DeepCopyObject lib)" by simp_all
qed

text \<open>The parameters as apimachinery generates them: the bytes of a \<open>RawExtension\<close> are copied, a condition
  is assigned.\<close>

definition generated_copies :: copy_lib where
  "generated_copies = \<lparr>clRawInto = copy_slice BytesCell un_bytes (\<lambda>c h. (c, h)), clConditionInto = (\<lambda>c h. (c, h))\<rparr>"

lemma generated_copies_ok: "copy_lib_ok generated_copies"
proof -
  have bytes: "deep_copy (slice_val un_bytes (\<lambda>h c. Some c)) (slice_reach un_bytes (\<lambda>h c. {}))
      (copy_slice BytesCell un_bytes (\<lambda>c h. (c, h)))"
    by (rule deep_copy_slice, rule deep_copy_plain) (simp_all add: un_defs)
  have "deep_copy raw_val raw_reach (copy_slice BytesCell un_bytes (\<lambda>c h. (c, h)))"
    unfolding raw_val_def [abs_def] raw_reach_def
    by (rule deep_copy_part [OF bytes, where get = "\<lambda>s. s" and put = "\<lambda>x s. x"]) (auto split: prod.split)
  then show ?thesis by (simp add: copy_lib_ok_def generated_copies_def)
qed

interpretation apply_copy: deep_copy apply_at apply_cells "ApplyDesire_DeepCopy generated_copies"
  by (rule apply_at_deep [OF generated_copies_ok])

interpretation read_copy: deep_copy read_at read_cells "ReadDesire_DeepCopy generated_copies"
  by (rule read_at_deep [OF generated_copies_ok])

section \<open>Mutating a copy\<close>

text \<open>
  \<open>UpdateStatus\<close> from the fetched document on: \<open>desired := existing.DeepCopy()\<close>, \<open>mutate(desired)\<close> in place,
  and the comparison. The result is the document to replace with, or none; the comparison is of the values.
\<close>

definition mutate_copy :: "copy_lib \<Rightarrow> (addr \<Rightarrow> heap \<Rightarrow> heap) \<Rightarrow> addr \<Rightarrow> heap \<Rightarrow> addr option \<times> heap" where
  "mutate_copy lib mutate existing h =
     (case ApplyDesire_DeepCopy lib (Some existing) h of
        (None, h) \<Rightarrow> (None, h)
      | (Some desired, h) \<Rightarrow>
          (let h = mutate desired h
           in if apply_at h (Some existing) = apply_at h (Some desired) then (None, h) else (Some desired, h)))"

text \<open>What an in-place mutation does: it gives the document the value \<open>f\<close> and keeps to the cells of the document.\<close>

definition mutates :: "(addr \<Rightarrow> heap \<Rightarrow> heap) \<Rightarrow> (ApplyDesire \<Rightarrow> ApplyDesire) \<Rightarrow> addr \<Rightarrow> heap \<Rightarrow> bool" where
  "mutates mutate f q h \<longleftrightarrow>
     apply_at (mutate q h) (Some q) = map_option (map_option f) (apply_at h (Some q)) \<and>
     writes_only (apply_cells h (Some q)) h (mutate q h)"

lemma copy_is_new:
  "apply_at h (Some p) = Some (Some d) \<Longrightarrow> ApplyDesire_DeepCopy lib (Some p) h = (q, h') \<Longrightarrow> q \<noteq> None"
  by (auto simp: pointer_val_def ApplyDesire_DeepCopy_def copy_pointer_def split: option.splits prod.splits)

section \<open>Properties\<close>

text \<open>
  A deep copy is one: the copy of an ApplyDesire denotes the same desire, shares no cell with the
  original, and whatever is written to the cells of one of them, or to new cells, the other one keeps its
  value. The same holds of a nil pointer.
\<close>

theorem apply_copy_isolated:
  assumes "copy_lib_ok lib" and "apply_at h p = Some v" and "ApplyDesire_DeepCopy lib p h = (q, h')"
  shows "apply_at h' q = Some v \<and> apply_at h' p = Some v \<and> apply_cells h' q \<inter> apply_cells h' p = {} \<and>
    (\<forall>h2. writes_only (apply_cells h' q) h' h2 \<longrightarrow> apply_at h2 p = Some v) \<and>
    (\<forall>h2. writes_only (apply_cells h' p) h' h2 \<longrightarrow> apply_at h2 q = Some v)"
proof -
  note deep = apply_at_deep [OF assms(1)]
  from deep_copy.copy_ok [OF deep assms(2,3)] deep_copy.apart [OF deep assms(2,3)]
    deep_copy.isolated [OF deep assms(2,3)] show ?thesis by blast
qed

text \<open>
  C8: the value-level status writer is what the code does: on a heap, the writer replaces the document
  exactly when the value-level writer does, with the same document, and the fetched document still has its
  value when the two are compared, although \<open>mutate\<close> works in place.
\<close>

theorem status_writer_refines:
  assumes "copy_lib_ok lib" and "apply_at h (Some p) = Some (Some d)"
    and "\<And>q h1. ApplyDesire_DeepCopy lib (Some p) h = (Some q, h1) \<Longrightarrow> mutates mutate f q h1"
    and "wrFetch wr key w = (Inr (Some d), w1)"
    and "mutate_copy lib mutate p h = (r, h2)"
  shows "apply_at h2 (Some p) = Some (Some d) \<and> (r = None \<longleftrightarrow> f d = d) \<and>
    (\<forall>q. r = Some q \<longrightarrow> apply_at h2 (Some q) = Some (Some (f d))) \<and>
    UpdateStatus wr key f w = (case r of
       None \<Rightarrow> (None, w1)
     | Some q \<Rightarrow> (case wrReplace wr (f d) w1 of
         (Some err, w) \<Rightarrow> (Some (WrapError (''replace status for '' @ wrShow wr key @ '': '') err), w)
       | (None, w) \<Rightarrow> (None, w)))"
proof -
  obtain q h1 where c: "ApplyDesire_DeepCopy lib (Some p) h = (Some q, h1)"
    using copy_is_new [OF assms(2)] by (cases "ApplyDesire_DeepCopy lib (Some p) h") fastforce
  note deep = apply_at_deep [OF assms(1)] and m = assms(3) [OF c, unfolded mutates_def]
  have "apply_at h1 (Some q) = Some (Some d)" using deep_copy.copy_ok [OF deep assms(2) c] by simp
  with m have q: "apply_at (mutate q h1) (Some q) = Some (Some (f d))" by simp
  have p: "apply_at (mutate q h1) (Some p) = Some (Some d)"
    by (rule deep_copy.isolated(1) [OF deep assms(2) c]) (use m in simp)
  from assms(5) c have r: "h2 = mutate q h1" "r = (if f d = d then None else Some q)"
    by (auto simp: mutate_copy_def p q Let_def split: if_splits)
  show ?thesis using p q assms(4) by (auto simp: r UpdateStatus_def Let_def split: prod.split option.split)
qed

section \<open>Types\<close>

text \<open>A heap is well typed when every reference in it leads to cells of the type it is declared with.\<close>

definition cell_typed :: "heap \<Rightarrow> cell \<Rightarrow> bool" where
  "cell_typed h c =
     (case c of
        BytesCell s \<Rightarrow> True
      | RawCell sl \<Rightarrow> raw_val h sl \<noteq> None
      | ConfigCell k \<Rightarrow> config_val h k \<noteq> None
      | ConditionsCell cs \<Rightarrow> True
      | ApplyCell m \<Rightarrow> apply_val h m \<noteq> None
      | AppliesCell ms \<Rightarrow> vals (apply_val h) ms \<noteq> None
      | ReadCell m \<Rightarrow> read_val h m \<noteq> None
      | ReadsCell ms \<Rightarrow> vals (read_val h) ms \<noteq> None
      | MetadataCell m \<Rightarrow> True
      | ReferenceCell r \<Rightarrow> True
      | ApplySpecCell s \<Rightarrow> apply_spec_val h s \<noteq> None
      | ApplyStatusCell s \<Rightarrow> apply_status_val h s \<noteq> None
      | ApplyListCell l \<Rightarrow> apply_list_val h l \<noteq> None
      | ReadSpecCell s \<Rightarrow> True
      | ReadStatusCell s \<Rightarrow> read_status_val h s \<noteq> None
      | ReadListCell l \<Rightarrow> read_list_val h l \<noteq> None)"

definition heap_typed :: "heap \<Rightarrow> bool" where
  "heap_typed h \<longleftrightarrow> (\<forall>c \<in> set h. cell_typed h c)"

definition keeps_types :: "(heap \<Rightarrow> 's \<Rightarrow> 'v option) \<Rightarrow> ('s \<Rightarrow> heap \<Rightarrow> 's \<times> heap) \<Rightarrow> bool" where
  "keeps_types val copy \<longleftrightarrow> (\<forall>h s v s' h'. heap_typed h \<longrightarrow> val h s = Some v \<longrightarrow> copy s h = (s', h') \<longrightarrow> heap_typed h')"

lemma vals_grown: "deep_copy val reach copy \<Longrightarrow> vals (val h) xs = Some vs \<Longrightarrow> vals (val (h @ t)) xs = Some vs"
  using vals_frame [of val reach copy h xs vs "h @ t"] vals_bound [of val reach copy h xs vs] by fastforce

lemma cell_typed_grown: "cell_typed h c \<Longrightarrow> cell_typed (h @ t) c"
proof -
  have raw: "deep_copy raw_val raw_reach (clRawInto generated_copies)"
    using generated_copies_ok by (simp add: copy_lib_ok_def)
  note grown = deep_copy.grown [OF raw] deep_copy.grown [OF config_deep [OF generated_copies_ok]]
    deep_copy.grown [OF apply_deep [OF generated_copies_ok]] deep_copy.grown [OF read_deep [OF generated_copies_ok]]
    deep_copy.grown [OF apply_spec_deep [OF generated_copies_ok]] deep_copy.grown [OF apply_status_deep [OF generated_copies_ok]]
    deep_copy.grown [OF read_status_deep [OF generated_copies_ok]]
    vals_grown [OF apply_deep [OF generated_copies_ok]] vals_grown [OF read_deep [OF generated_copies_ok]]
  have lists: "apply_list_val h l \<noteq> None \<Longrightarrow> apply_list_val (h @ t) l \<noteq> None"
    "read_list_val h l \<noteq> None \<Longrightarrow> read_list_val (h @ t) l \<noteq> None" for l
    using deep_copy.grown [OF list_types_deep(1) [OF generated_copies_ok], of h l]
      deep_copy.grown [OF list_types_deep(2) [OF generated_copies_ok], of h l] by blast+
  assume c: "cell_typed h c"
  show "cell_typed (h @ t) c"
  proof (cases c)
    case (ApplyListCell l)
    with c lists(1) show ?thesis by (simp only: cell_typed_def cell.case)
  next
    case (ReadListCell l)
    with c lists(2) show ?thesis by (simp only: cell_typed_def cell.case)
  qed (use c in \<open>auto simp: cell_typed_def dest: grown [of h]\<close>)
qed

lemma heap_typed_append: "heap_typed h \<Longrightarrow> cell_typed h c \<Longrightarrow> heap_typed (h @ [c])"
  by (auto simp: heap_typed_def cell_typed_grown)

lemma types_pointer:
  assumes "deep_copy val reach into" and "keeps_types val into" and "\<And>h s v. val h s = Some v \<Longrightarrow> cell_typed h (K s)"
  shows "keeps_types (pointer_val U val) (copy_pointer K U into)"
  unfolding keeps_types_def
proof (intro allI impI)
  fix h p v q h'
  assume h: "heap_typed h" and v: "pointer_val U val h p = Some v" and c: "copy_pointer K U into p h = (q, h')"
  show "heap_typed h'"
  proof (cases p)
    case (Some a)
    with v obtain s u where s: "deref U h a = Some s" "val h s = Some u"
      by (auto simp: pointer_val_def split: option.splits)
    with c Some obtain s' h1 where p: "into s h = (s', h1)" "h' = h1 @ [K s']"
      by (auto simp: copy_pointer_def split: prod.splits)
    from deep_copy.copy_ok [OF assms(1) s(2) p(1)] assms(3) have "cell_typed h1 (K s')" by blast
    moreover have "heap_typed h1" using assms(2) h s(2) p(1) unfolding keeps_types_def by blast
    ultimately show ?thesis unfolding p(2) by (intro heap_typed_append)
  qed (use h c in \<open>simp add: copy_pointer_def\<close>)
qed

lemma types_each:
  assumes "deep_copy val reach into" and "keeps_types val into"
    and "heap_typed h" and "vals (val h) xs = Some vs" and "copy_each into xs h = (ys, h')"
  shows "heap_typed h'"
  using assms(3-5)
proof (induction xs arbitrary: h vs ys)
  case (Cons x xs)
  from Cons.prems(2) obtain u us where x: "val h x = Some u" "vals (val h) xs = Some us"
    by (auto split: option.splits)
  from Cons.prems(3) obtain y h1 zs where c: "into x h = (y, h1)" "copy_each into xs h1 = (zs, h')"
    by (auto split: prod.splits)
  from deep_copy.copy_ok [OF assms(1) x(1) c(1)] obtain t where "h1 = h @ t" by blast
  with vals_grown [OF assms(1) x(2)] have "vals (val h1) xs = Some us" by simp
  moreover have "heap_typed h1" using assms(2) Cons.prems(1) x(1) c(1) unfolding keeps_types_def by blast
  ultimately show ?case using Cons.IH c(2) by blast
qed simp

lemma types_slice:
  assumes "deep_copy val reach into" and "keeps_types val into" and "\<And>h xs vs. vals (val h) xs = Some vs \<Longrightarrow> cell_typed h (K xs)"
  shows "keeps_types (slice_val U val) (copy_slice K U into)"
  unfolding keeps_types_def
proof (intro allI impI)
  fix h sl v sl' h'
  assume h: "heap_typed h" and v: "slice_val U val h sl = Some v" and c: "copy_slice K U into sl h = (sl', h')"
  show "heap_typed h'"
  proof (cases sl)
    case (Slice a off n)
    from v obtain xs where xs: "elems U h sl = Some xs" "vals (val h) xs = Some v"
      by (auto simp: slice_val_def split: option.splits)
    with c Slice obtain ys h1 where y: "copy_each into xs h = (ys, h1)" "h' = h1 @ [K ys]"
      by (auto simp: copy_slice_def split: prod.splits)
    from copy_each_ok [OF assms(1) xs(2) y(1)] assms(3) have "cell_typed h1 (K ys)" by blast
    with types_each [OF assms(1,2) h xs(2) y(1)] show ?thesis unfolding y(2) by (intro heap_typed_append)
  qed (use h c in \<open>simp add: copy_slice_def\<close>)
qed

text \<open>Through the structs, by the order in which their parts are copied.\<close>

lemma types_plain: "(\<And>s h. copy s h = (s, h)) \<Longrightarrow> keeps_types val copy"
  by (simp add: keeps_types_def)

definition types_lib :: "copy_lib \<Rightarrow> bool" where
  "types_lib lib \<longleftrightarrow> copy_lib_ok lib \<and> keeps_types raw_val (clRawInto lib)"

lemma types_config: "types_lib lib \<Longrightarrow> keeps_types content_val (ServerSideApplyConfig_DeepCopyInto lib)"
  unfolding ServerSideApplyConfig_DeepCopyInto_def [abs_def] types_lib_def copy_lib_ok_def
  by (rule types_pointer) (auto simp: cell_typed_def)

lemma types_spec: "types_lib lib \<Longrightarrow> keeps_types apply_spec_val (ApplyDesireSpec_DeepCopyInto lib)"
proof -
  assume lib: "types_lib lib"
  then have "keeps_types config_val (ServerSideApplyConfig_DeepCopyInto lib)"
    using types_config [OF lib] by (auto simp: keeps_types_def config_val_def)
  from types_pointer [where K = ConfigCell and U = un_config, OF config_deep this] lib
  have "keeps_types (pointer_val un_config config_val) (copy_pointer ConfigCell un_config (ServerSideApplyConfig_DeepCopyInto lib))"
    by (simp add: types_lib_def cell_typed_def)
  then show ?thesis
    by (auto simp: keeps_types_def apply_spec_val_def ApplyDesireSpec_DeepCopyInto_def split: prod.splits)
qed

lemma types_conditions:
  "types_lib lib \<Longrightarrow> keeps_types conditions_val (copy_slice ConditionsCell un_conditions (clConditionInto lib))"
  by (rule types_slice, rule deep_copy_plain, simp add: types_lib_def copy_lib_ok_def, rule types_plain)
    (simp_all add: types_lib_def copy_lib_ok_def cell_typed_def)

lemma types_apply: "types_lib lib \<Longrightarrow> keeps_types apply_val (ApplyDesire_DeepCopyInto lib)"
  unfolding keeps_types_def
proof (intro allI impI)
  fix h m v m' h'
  assume lib: "types_lib lib" and h: "heap_typed h" and v: "apply_val h m = Some v"
    and c: "ApplyDesire_DeepCopyInto lib m h = (m', h')"
  from v obtain sp st where s: "apply_spec_val h (amSpec m) = Some sp" "apply_status_val h (amStatus m) = Some st"
    by (auto simp: apply_val_def split: option.splits)
  from c obtain x h1 y where p: "ApplyDesireSpec_DeepCopyInto lib (amSpec m) h = (x, h1)"
    "ApplyDesireStatus_DeepCopyInto lib (amStatus m) h1 = (y, h')"
    by (auto simp: ApplyDesire_DeepCopyInto_def split: prod.splits)
  have deep: "copy_lib_ok lib" using lib by (simp add: types_lib_def)
  from deep_copy.copy_ok [OF apply_spec_deep [OF deep] s(1) p(1)] obtain t where "h1 = h @ t" by blast
  with deep_copy.grown [OF apply_status_deep [OF deep] s(2)] have "apply_status_val h1 (amStatus m) = Some st" by simp
  then obtain cs where "conditions_val h1 (amConditions (amStatus m)) = Some cs"
    by (auto simp: apply_status_val_def)
  moreover from p(2) obtain z where
    "copy_slice ConditionsCell un_conditions (clConditionInto lib) (amConditions (amStatus m)) h1 = (z, h')"
    by (auto simp: ApplyDesireStatus_DeepCopyInto_def split: prod.splits)
  moreover have "heap_typed h1" using types_spec [OF lib] h s(1) p(1) unfolding keeps_types_def by blast
  ultimately show "heap_typed h'" using types_conditions [OF lib] unfolding keeps_types_def by blast
qed

lemma generated_copies_typed: "types_lib generated_copies"
proof -
  have "keeps_types (slice_val un_bytes (\<lambda>h c. Some c)) (copy_slice BytesCell un_bytes (\<lambda>c h. (c, h)))"
    by (rule types_slice, rule deep_copy_plain, simp, rule types_plain) (simp_all add: cell_typed_def)
  then have "keeps_types raw_val (clRawInto generated_copies)"
    by (auto simp: keeps_types_def raw_val_def generated_copies_def)
  then show ?thesis by (simp add: types_lib_def generated_copies_ok)
qed


section \<open>A document on a heap\<close>

definition old_condition :: Condition where
  "old_condition = \<lparr>cType = ''Successful'', cStatus = ''False'', cReason = ''Failed'', cMessage = '''', cLastTransitionTime = 0\<rparr>"

definition sample_mem :: apply_mem where
  "sample_mem = \<lparr>amMetadata = \<lparr>DocumentID = ''d'', Version = 1, UpdateTime = 5, CreateTime = 5\<rparr>,
     amSpec = \<lparr>amManagementCluster = '''', amClusterID = '''', amNodePoolName = '''', amType = '''',
       amTargetItem = zero_ResourceReference, amServerSideApply = Some 2\<rparr>,
     amStatus = \<lparr>amConditions = Slice 3 0 1, amObservedDesireUpdateTime = 0, amAppliedResourceGeneration = 0\<rparr>\<rparr>"

definition sample_heap :: heap where
  "sample_heap = [BytesCell ''{}'', RawCell (Slice 0 0 2), ConfigCell (Some 1), ConditionsCell [old_condition],
     ApplyCell sample_mem]"

definition sample_desire :: ApplyDesire where
  "sample_desire = \<lparr>DocumentID = ''d'', Version = 1, UpdateTime = 5, CreateTime = 5,
     adSpec = \<lparr>asManagementCluster = '''', asClusterID = '''', asNodePoolName = '''', asType = '''',
       asTargetItem = zero_ResourceReference, asServerSideApply = Some \<lparr>ssaKubeContent = Some \<lparr>Raw = ''{}''\<rparr>\<rparr>\<rparr>,
     adStatus = \<lparr>asConditions = [old_condition], asObservedDesireUpdateTime = 0, asAppliedResourceGeneration = 0\<rparr>\<rparr>"

lemmas heap_evals = pointer_val_def slice_val_def deref_def elems_def cell_at_def un_defs raw_val_def config_val_def
  apply_spec_val_def apply_status_val_def apply_val_def desire_of_def

lemma sample_at: "apply_at sample_heap (Some 4) = Some (Some sample_desire)"
  by (simp add: sample_heap_def sample_mem_def sample_desire_def heap_evals Let_def)

lemma sample_copy:
  "ApplyDesire_DeepCopy generated_copies (Some 4) sample_heap =
     (Some 9, sample_heap @ [BytesCell ''{}'', RawCell (Slice 5 0 2), ConfigCell (Some 6), ConditionsCell [old_condition],
        ApplyCell (sample_mem\<lparr>amSpec := (amSpec sample_mem)\<lparr>amServerSideApply := Some 7\<rparr>,
          amStatus := (amStatus sample_mem)\<lparr>amConditions := Slice 8 0 1\<rparr>\<rparr>)])"
  by (simp add: ApplyDesire_DeepCopy_def copy_pointer_def copy_slice_def ApplyDesire_DeepCopyInto_def
      ApplyDesireSpec_DeepCopyInto_def ApplyDesireStatus_DeepCopyInto_def ServerSideApplyConfig_DeepCopyInto_def
      generated_copies_def sample_heap_def sample_mem_def heap_evals Let_def)

lemma apply_copy_isolated_witness:
  "\<exists>q h'. ApplyDesire_DeepCopy generated_copies (Some 4) sample_heap = (q, h') \<and>
     apply_at h' q = Some (Some sample_desire) \<and> apply_cells h' q \<inter> apply_cells h' (Some 4) = {}"
  using apply_copy_isolated [OF generated_copies_ok sample_at sample_copy] sample_copy by blast


text \<open>A mutation that writes to the conditions where they are, as \<open>meta.SetStatusCondition\<close> does.\<close>

definition set_in_place :: "addr \<Rightarrow> heap \<Rightarrow> heap" where
  "set_in_place q h = (case deref un_apply h q of None \<Rightarrow> h
     | Some m \<Rightarrow> (case amConditions (amStatus m) of NilSlice \<Rightarrow> h
         | Slice a off n \<Rightarrow> h[a := ConditionsCell [old_condition\<lparr>cStatus := ''True''\<rparr>]]))"

definition set_true :: "ApplyDesire \<Rightarrow> ApplyDesire" where
  "set_true d = d\<lparr>adStatus := (adStatus d)\<lparr>asConditions := [old_condition\<lparr>cStatus := ''True''\<rparr>]\<rparr>\<rparr>"

lemma writes_only_update: "a \<in> A \<Longrightarrow> writes_only A h (h[a := c])"
  unfolding writes_only_def cell_at_def length_list_update by (metis nth_list_update_neq)

lemma sample_mutates:
  assumes "ApplyDesire_DeepCopy generated_copies (Some 4) sample_heap = (Some q, h1)"
  shows "mutates set_in_place set_true q h1"
proof -
  have q: "q = 9" and h1: "h1 = sample_heap @ [BytesCell ''{}'', RawCell (Slice 5 0 2), ConfigCell (Some 6),
      ConditionsCell [old_condition], ApplyCell (sample_mem\<lparr>amSpec := (amSpec sample_mem)\<lparr>amServerSideApply := Some 7\<rparr>,
          amStatus := (amStatus sample_mem)\<lparr>amConditions := Slice 8 0 1\<rparr>\<rparr>)]"
    using assms unfolding sample_copy by auto
  have "8 \<in> apply_cells h1 (Some q)"
    by (simp add: q h1 sample_heap_def sample_mem_def pointer_reach_def deref_def cell_at_def un_defs apply_reach_def
        apply_status_reach_def slice_reach_def)
  moreover have w: "set_in_place q h1 = h1[8 := ConditionsCell [old_condition\<lparr>cStatus := ''True''\<rparr>]]"
    by (simp add: q h1 sample_heap_def sample_mem_def set_in_place_def deref_def cell_at_def un_defs)
  moreover have "apply_at (h1[8 := ConditionsCell [old_condition\<lparr>cStatus := ''True''\<rparr>]]) (Some q) =
      map_option (map_option set_true) (apply_at h1 (Some q))"
    by (simp add: q h1 sample_heap_def sample_mem_def heap_evals set_true_def Let_def)
  ultimately show ?thesis by (simp add: mutates_def writes_only_update)
qed

lemma status_writer_refines_witness:
  "\<exists>q h2. mutate_copy generated_copies set_in_place 4 sample_heap = (Some q, h2) \<and>
     apply_at h2 (Some 4) = Some (Some sample_desire) \<and> apply_at h2 (Some q) = Some (Some (set_true sample_desire))"
proof -
  let ?wr = "\<lparr>wrShow = (\<lambda>k. k), wrZero = zero_ApplyDesire, wrFetch = (\<lambda>k w. (Inr (Some sample_desire), w)),
     wrReplace = (\<lambda>d w. (None, w)), wrCreate = (\<lambda>d w. (None, w))\<rparr> :: (unit, ApplyDesire, string) writer"
  obtain r h2 where m: "mutate_copy generated_copies set_in_place 4 sample_heap = (r, h2)" by fastforce
  have "wrFetch ?wr ''d'' () = (Inr (Some sample_desire), ())" by simp
  note thm1 = status_writer_refines [OF generated_copies_ok sample_at sample_mutates this m]
  have "set_true sample_desire \<noteq> sample_desire" by (simp add: set_true_def sample_desire_def old_condition_def)
  with thm1 m show ?thesis by (cases r) auto
qed

end
