(* ===== verification/StubCache.thy ===== *)
theory StubCache
  imports GoTime RawExtCodec
begin

text \<open>
  \<open>seaplane-dynamo/dynamodb/cache.go\<close> and the stub extraction of \<open>gsi.go\<close>. The cache maps a document
  identifier to the update time it was last seen with. Its methods hold the mutex throughout, so each
  is one step. A Go map that is ranged over is an association list (its order is that of this
  iteration); the cache itself is only looked up and compared, but \<open>ApplyRelist\<close> ranges over it, so it
  is one too.
\<close>

type_synonym stubs = "(string \<times> gtime) list"

record StubCache =
  scItems :: stubs
  scLastRelistAt :: "gtime option"

definition newCache :: StubCache where
  "newCache = \<lparr>scItems = [], scLastRelistAt = None\<rparr>"

definition FindChanged :: "StubCache \<Rightarrow> stubs \<Rightarrow> string list" where
  "FindChanged c stubs =
     map fst (filter (\<lambda>(docID, ut). case map_of (scItems c) docID of
        None \<Rightarrow> True | Some cached \<Rightarrow> cached \<noteq> ut) stubs)"

fun putAll :: "stubs \<Rightarrow> stubs \<Rightarrow> stubs" where
  "putAll [] items = items"
| "putAll ((docID, ut) # stubs) items = putAll stubs (AList.update docID ut items)"

definition ApplyStubs :: "stubs \<Rightarrow> StubCache \<Rightarrow> StubCache" where
  "ApplyStubs stubs c = c\<lparr>scItems := putAll stubs (scItems c)\<rparr>"

definition ApplyRelist ::
  "gtime \<Rightarrow> stubs \<Rightarrow> StubCache \<Rightarrow> (string list \<times> string list \<times> string list) \<times> StubCache" where
  "ApplyRelist now stubs c =
     (let added = map fst (filter (\<lambda>(docID, ut). map_of (scItems c) docID = None) stubs);
          modified = map fst (filter (\<lambda>(docID, ut). case map_of (scItems c) docID of
            None \<Rightarrow> False | Some cached \<Rightarrow> cached \<noteq> ut) stubs);
          deleted = map fst (filter (\<lambda>(docID, ut). map_of stubs docID = None) (scItems c))
      in ((added, modified, deleted),
          \<lparr>scItems = putAll stubs [], scLastRelistAt = Some now\<rparr>))"

definition EffectiveLookback :: "gtime \<Rightarrow> duration \<Rightarrow> StubCache \<Rightarrow> duration" where
  "EffectiveLookback now maxLookback c =
     (case scLastRelistAt c of
        None \<Rightarrow> maxLookback
      | Some relisted \<Rightarrow>
          (let elapsed = now - relisted in if elapsed > maxLookback then maxLookback else elapsed))"

text \<open>The document identifier and the update time of an item, where it has both and they parse.\<close>

definition extractDocumentIDAndUpdateTime :: "item \<Rightarrow> (string \<times> gtime) option" where
  "extractDocumentIDAndUpdateTime item =
     (case item ''documentID'' of
        Some (AV_S doc) \<Rightarrow>
          (case item ''updateTime'' of
             Some (AV_S ut) \<Rightarrow>
               (case parse_RFC3339 ut of None \<Rightarrow> None | Some t \<Rightarrow> Some (doc, t))
           | _ \<Rightarrow> None)
      | _ \<Rightarrow> None)"

section \<open>Facts\<close>

definition cache_ok :: "StubCache \<Rightarrow> bool" where
  "cache_ok c \<longleftrightarrow> distinct (map fst (scItems c))"

definition cached :: "StubCache \<Rightarrow> string \<Rightarrow> gtime option" where
  "cached c = map_of (scItems c)"

lemma map_of_putAll: "distinct (map fst stubs) \<Longrightarrow> map_of (putAll stubs items) = map_of items ++ map_of stubs"
proof (induction stubs items rule: putAll.induct)
  case (2 docID ut stubs items)
  then have "map_of stubs docID = None" by (simp add: map_of_None_iff)
  with 2 show ?case by (auto simp: fun_eq_iff map_add_def split: option.splits)
qed simp

lemma distinct_putAll: "distinct (map fst items) \<Longrightarrow> distinct (map fst (putAll stubs items))"
  by (induction stubs items rule: putAll.induct) auto

lemma newCache_simps [simp]: "cache_ok newCache" "cached newCache k = None"
  by (simp_all add: newCache_def cache_ok_def cached_def)

lemma ApplyStubs_ok: "cache_ok c \<Longrightarrow> cache_ok (ApplyStubs stubs c)"
  by (simp add: cache_ok_def ApplyStubs_def distinct_putAll)

lemma cached_ApplyStubs:
  "distinct (map fst stubs) \<Longrightarrow> cached (ApplyStubs stubs c) = cached c ++ map_of stubs"
  by (simp add: cached_def ApplyStubs_def map_of_putAll)

lemma mem_filtered_keys:
  "distinct (map fst xs) \<Longrightarrow>
   k \<in> fst ` {x \<in> set xs. case x of (k, v) \<Rightarrow> P k v} \<longleftrightarrow> (\<exists>v. map_of xs k = Some v \<and> P k v)"
  by (force simp: map_of_Some_iff_mem)

lemma set_FindChanged:
  "distinct (map fst stubs) \<Longrightarrow>
   docID \<in> set (FindChanged c stubs) \<longleftrightarrow> map_of stubs docID \<noteq> None \<and> map_of stubs docID \<noteq> cached c docID"
  by (cases "map_of (scItems c) docID"; cases "map_of stubs docID")
    (auto simp: FindChanged_def cached_def mem_filtered_keys)

lemma distinct_FindChanged: "distinct (map fst stubs) \<Longrightarrow> distinct (FindChanged c stubs)"
  unfolding FindChanged_def by (induction stubs) auto

text \<open>The three lists of a relist are disjoint and name exactly the documents whose state differs.\<close>

lemma ApplyRelist_effect:
  assumes "cache_ok c" and "distinct (map fst stubs)"
    and "ApplyRelist now stubs c = ((added, modified, deleted), c')"
  shows "docID \<in> set added \<longleftrightarrow> cached c docID = None \<and> map_of stubs docID \<noteq> None"
    and "docID \<in> set modified \<longleftrightarrow> cached c docID \<noteq> None \<and> map_of stubs docID \<noteq> None \<and>
           map_of stubs docID \<noteq> cached c docID"
    and "docID \<in> set deleted \<longleftrightarrow> cached c docID \<noteq> None \<and> map_of stubs docID = None"
    and "distinct (added @ modified @ deleted)" and "cached c' = map_of stubs" and "cache_ok c'"
    and "scLastRelistAt c' = Some now"
proof -
  have ap: "added = map fst (filter (\<lambda>(docID, ut). cached c docID = None) stubs)"
    "modified = map fst (filter (\<lambda>(docID, ut). case cached c docID of
            None \<Rightarrow> False | Some t \<Rightarrow> t \<noteq> ut) stubs)"
    "deleted = map fst (filter (\<lambda>(docID, ut). map_of stubs docID = None) (scItems c))"
    "c' = \<lparr>scItems = putAll stubs [], scLastRelistAt = Some now\<rparr>"
    using assms(3) by (simp_all add: ApplyRelist_def Let_def cached_def)
  show a: "docID \<in> set added \<longleftrightarrow> cached c docID = None \<and> map_of stubs docID \<noteq> None" for docID
    unfolding ap by (auto simp: mem_filtered_keys [OF assms(2)])
  show m: "docID \<in> set modified \<longleftrightarrow> cached c docID \<noteq> None \<and> map_of stubs docID \<noteq> None \<and>
           map_of stubs docID \<noteq> cached c docID" for docID
    unfolding ap by (auto simp: mem_filtered_keys [OF assms(2)] split: option.splits)
  show d: "docID \<in> set deleted \<longleftrightarrow> cached c docID \<noteq> None \<and> map_of stubs docID = None" for docID
    unfolding ap cached_def by (auto simp: mem_filtered_keys [OF assms(1) [unfolded cache_ok_def]])
  have dist: "distinct (map fst (filter P xs))" if "distinct (map fst xs)" for P and xs :: stubs
    using that by (induction xs) auto
  have "distinct added" "distinct modified" "distinct deleted"
    unfolding ap by (intro dist assms(2) assms(1) [unfolded cache_ok_def])+
  moreover have "set added \<inter> (set modified \<union> set deleted) = {}" "set modified \<inter> set deleted = {}"
    using a m d by blast+
  ultimately show "distinct (added @ modified @ deleted)" by auto
  show "cached c' = map_of stubs" "cache_ok c'" "scLastRelistAt c' = Some now"
    by (simp_all add: ap cached_def map_of_putAll [OF assms(2)] cache_ok_def distinct_putAll)
qed

lemma EffectiveLookback_bounds:
  assumes "0 \<le> maxLookback" and "\<And>relisted. scLastRelistAt c = Some relisted \<Longrightarrow> relisted \<le> now"
  shows "0 \<le> EffectiveLookback now maxLookback c" and "EffectiveLookback now maxLookback c \<le> maxLookback"
  using assms by (auto simp: EffectiveLookback_def Let_def split: option.split)

lemma EffectiveLookback_since:
  "scLastRelistAt c = Some relisted \<Longrightarrow> now - relisted \<le> maxLookback \<Longrightarrow> now - EffectiveLookback now maxLookback c = relisted"
  by (simp add: EffectiveLookback_def)

end
