(* ===== verification/DynamoPoll.thy ===== *)
theory DynamoPoll
  imports StubCache
begin

text \<open>
  The reads of the watcher, \<open>seaplane-dynamo/dynamodb/scan.go\<close> and \<open>gsi.go\<close>: the consistent scan, the
  query of the \<open>updateTime-index\<close> over all shards in parallel, and the batched reads with their retries.
  The SDK client is the record \<open>poll_client\<close>, a parameter; \<open>pcWait\<close> is the \<open>select\<close> between the
  context and the timer (\<open>Some\<close> of the context's error when it was cancelled). A map of results is an
  association list with distinct keys.
\<close>

record 'w poll_client =
  pcScan :: "string \<Rightarrow> item option \<Rightarrow> 'w \<Rightarrow> (go_error + item list \<times> item option) \<times> 'w"
  pcQuery :: "string \<Rightarrow> string \<Rightarrow> string \<Rightarrow> item option \<Rightarrow> 'w
                \<Rightarrow> (go_error + item list \<times> item option) \<times> 'w"
  pcBatchGetItem :: "(string \<times> item list) list \<Rightarrow> 'w
                \<Rightarrow> (go_error + (string \<times> item list) list \<times> (string \<times> item list) list) \<times> 'w"
  pcWait :: "duration \<Rightarrow> 'w \<Rightarrow> go_error option \<times> 'w"
  pcNow :: "'w \<Rightarrow> gtime \<times> 'w"

type_synonym items = "(string \<times> item) list"

section \<open>Scanning\<close>

fun putItems :: "item list \<Rightarrow> items \<Rightarrow> items" where
  "putItems [] results = results"
| "putItems (item # its) results =
     (case extractDocumentIDAndUpdateTime item of
        None \<Rightarrow> putItems its results
      | Some (docID, _) \<Rightarrow> putItems its (AList.update docID item results))"

partial_function (option) scanAllFrom ::
  "'w poll_client \<Rightarrow> string \<Rightarrow> item option \<Rightarrow> items \<Rightarrow> 'w \<Rightarrow> ((go_error + items) \<times> 'w) option" where
  "scanAllFrom cl tbl start results w =
     (case pcScan cl tbl start w of (out, w) \<Rightarrow>
       (case out of
          Inl err \<Rightarrow> Some (Inl (WrapError (''scan '' @ tbl @ '': '') err), w)
        | Inr pg \<Rightarrow>
            (let results = putItems (fst pg) results
             in (case snd pg of
                   None \<Rightarrow> Some (Inr results, w)
                 | Some lastKey \<Rightarrow> scanAllFrom cl tbl (Some lastKey) results w))))"

definition ScanAll :: "'w poll_client \<Rightarrow> string \<Rightarrow> 'w \<Rightarrow> ((go_error + items) \<times> 'w) option" where
  "ScanAll cl tbl w = scanAllFrom cl tbl None [] w"

section \<open>Querying the shards\<close>

fun putStubs :: "item list \<Rightarrow> stubs \<Rightarrow> stubs" where
  "putStubs [] results = results"
| "putStubs (item # its) results =
     (case extractDocumentIDAndUpdateTime item of
        None \<Rightarrow> putStubs its results
      | Some (docID, ut) \<Rightarrow> putStubs its (AList.update docID ut results))"

text \<open>One goroutine per shard: where it is in its paging loop.\<close>

datatype shard_pc = SRunning "item option" | SDone | SFailed go_error

record 'w query_state =
  qsShards :: "shard_pc list"
  qsResults :: stubs
  qsWorld :: 'w

text \<open>One turn of the loop of \<open>queryShard\<close>: a page is requested, and merged under the mutex.\<close>

definition queryShard ::
  "'w poll_client \<Rightarrow> string \<Rightarrow> string \<Rightarrow> nat \<Rightarrow> 'w query_state \<Rightarrow> 'w query_state" where
  "queryShard cl tbl sinceStr s st =
     (if length (qsShards st) \<le> s then st
      else (case qsShards st ! s of
          SRunning start \<Rightarrow>
            (case pcQuery cl tbl (show_nat s) sinceStr start (qsWorld st) of
               (Inl err, w) \<Rightarrow>
                 st\<lparr>qsShards := (qsShards st)[s := SFailed (WrapError
                      (''GSI query shard '' @ show_nat s @ '' of '' @ tbl @ '': '') err)], qsWorld := w\<rparr>
             | (Inr (page, lastKey), w) \<Rightarrow>
                 st\<lparr>qsShards := (qsShards st)[s := (case lastKey of None \<Rightarrow> SDone | Some k \<Rightarrow> SRunning (Some k))],
                    qsResults := putStubs page (qsResults st), qsWorld := w\<rparr>)
        | _ \<Rightarrow> st))"

definition shard_error :: "shard_pc \<Rightarrow> go_error option" where
  "shard_error pc = (case pc of SFailed err \<Rightarrow> Some err | _ \<Rightarrow> None)"

definition shard_ended :: "shard_pc \<Rightarrow> bool" where
  "shard_ended pc = (case pc of SRunning _ \<Rightarrow> False | _ \<Rightarrow> True)"

text \<open>
  \<open>sched\<close> is the order in which the goroutines take their turns. \<open>Wait\<close> returns once all have ended, so
  a schedule that leaves one running gives no result.
\<close>

definition QuerySince ::
  "'w poll_client \<Rightarrow> string \<Rightarrow> gtime \<Rightarrow> nat \<Rightarrow> nat list \<Rightarrow> 'w \<Rightarrow> ((go_error + stubs) \<times> 'w) option" where
  "QuerySince cl tbl since shardCount sched w =
     (let st = fold (queryShard cl tbl (format_RFC3339Nano since)) sched
            \<lparr>qsShards = replicate shardCount (SRunning None), qsResults = [], qsWorld = w\<rparr>
      in if list_all shard_ended (qsShards st)
         then (case first_some (map shard_error (qsShards st)) of
                 Some err \<Rightarrow> Some (Inl err, qsWorld st)
               | None \<Rightarrow> Some (Inr (qsResults st), qsWorld st))
         else None)"

section \<open>Batched reads\<close>

definition batchGetMax :: nat where "batchGetMax = 100"

definition document_key :: "string \<Rightarrow> item" where
  "document_key docID = [''documentID'' \<mapsto> AV_S docID]"

function batchGetChunk ::
  "'w poll_client \<Rightarrow> string \<Rightarrow> nat \<Rightarrow> duration \<Rightarrow> (string \<times> item list) list \<Rightarrow> items \<Rightarrow> 'w
     \<Rightarrow> (go_error + items) \<times> 'w" where
  "batchGetChunk cl tbl attempt backoff remaining results w =
     (if remaining = [] then (Inr results, w)
      else if 10 \<le> attempt then
        (Inl (ErrorString (''BatchGetItem '' @ tbl @ '': unprocessed keys remain after ''
           @ show_nat attempt @ '' attempts'')), w)
      else
        (case (if 0 < attempt then pcWait cl backoff w else (None, w)) of
           (Some err, w) \<Rightarrow> (Inl (WrapError (''BatchGetItem '' @ tbl @ '': '') err), w)
         | (None, w) \<Rightarrow>
             (let backoff = (if 0 < attempt \<and> backoff < 2 * second then backoff * 2 else backoff)
              in (case pcBatchGetItem cl remaining w of
                    (Inl err, w) \<Rightarrow> (Inl (WrapError (''BatchGetItem '' @ tbl @ '': '') err), w)
                  | (Inr (responses, unprocessed), w) \<Rightarrow>
                      batchGetChunk cl tbl (attempt + 1) backoff unprocessed
                        (putItems (case map_of responses tbl of None \<Rightarrow> [] | Some its \<Rightarrow> its) results) w))))"
  by pat_completeness auto
termination by (relation "measure (\<lambda>(cl, tbl, attempt, _). 10 - attempt)") auto

declare batchGetChunk.simps [simp del]

function batchGetFrom ::
  "'w poll_client \<Rightarrow> string \<Rightarrow> string list \<Rightarrow> items \<Rightarrow> 'w \<Rightarrow> (go_error + items) \<times> 'w" where
  "batchGetFrom cl tbl docIDs results w =
     (if docIDs = [] then (Inr results, w)
      else
        (case batchGetChunk cl tbl 0 (50 * millisecond)
                [(tbl, map document_key (take batchGetMax docIDs))] results w of
           (Inl err, w) \<Rightarrow> (Inl err, w)
         | (Inr results, w) \<Rightarrow> batchGetFrom cl tbl (drop batchGetMax docIDs) results w))"
  by pat_completeness auto
termination by (relation "measure (\<lambda>(cl, tbl, docIDs, _). length docIDs)") (auto simp: batchGetMax_def)

declare batchGetFrom.simps [simp del]

definition BatchGetItems ::
  "'w poll_client \<Rightarrow> string \<Rightarrow> string list \<Rightarrow> 'w \<Rightarrow> (go_error + items) \<times> 'w" where
  "BatchGetItems cl tbl docIDs w = batchGetFrom cl tbl docIDs [] w"

section \<open>What the reads return\<close>

text \<open>
  \<open>rows\<close> are the items of a table, each under its own document identifier; the code sees of them those
  that carry both attributes.
\<close>

definition keyed :: "(string \<Rightarrow> item option) \<Rightarrow> bool" where
  "keyed rows \<longleftrightarrow> (\<forall>k it. rows k = Some it \<longrightarrow> it ''documentID'' = Some (AV_S k))"

definition readable :: "(string \<Rightarrow> item option) \<Rightarrow> string \<Rightarrow> item option" where
  "readable rows k = (case rows k of None \<Rightarrow> None
     | Some it \<Rightarrow> if extractDocumentIDAndUpdateTime it = None then None else Some it)"

definition stub_of :: "item \<Rightarrow> gtime option" where
  "stub_of it = map_option snd (extractDocumentIDAndUpdateTime it)"

definition stubs_of :: "(string \<Rightarrow> item option) \<Rightarrow> string \<Rightarrow> gtime option" where
  "stubs_of rows k = (case rows k of None \<Rightarrow> None | Some it \<Rightarrow> stub_of it)"

definition items_in :: "item set \<Rightarrow> (string \<Rightarrow> item option) \<Rightarrow> string \<Rightarrow> item option" where
  "items_in A rows k = (case rows k of None \<Rightarrow> None | Some it \<Rightarrow> if it \<in> A then Some it else None)"

abbreviation among :: "item list \<Rightarrow> (string \<Rightarrow> item option) \<Rightarrow> string \<Rightarrow> item option" where
  "among its \<equiv> items_in (set its)"

lemma extract_id: "extractDocumentIDAndUpdateTime it = Some (k, t) \<Longrightarrow> it ''documentID'' = Some (AV_S k)"
  by (auto simp: extractDocumentIDAndUpdateTime_def split: option.splits AttributeValue.splits)

lemma keyed_extract:
  assumes "keyed rows" and "it \<in> ran rows" and "extractDocumentIDAndUpdateTime it = Some (k, t)"
  shows "rows k = Some it"
proof -
  from assms(2) obtain k' where k': "rows k' = Some it" by (auto simp: ran_def)
  with assms(1) have "it ''documentID'' = Some (AV_S k')" unfolding keyed_def by blast
  with extract_id [OF assms(3)] k' show ?thesis by simp
qed

lemma keyed_extract_key:
  assumes "keyed rows" and "rows k = Some it" and "extractDocumentIDAndUpdateTime it = Some (k', t)"
  shows "k' = k"
proof -
  from assms(1,2) have "it ''documentID'' = Some (AV_S k)" unfolding keyed_def by blast
  with extract_id [OF assms(3)] show ?thesis by simp
qed

lemma readable_among_Cons:
  "readable (items_in (insert it A) rows) x =
     (if rows x = Some it \<and> extractDocumentIDAndUpdateTime it \<noteq> None then Some it
      else readable (items_in A rows) x)"
  by (cases "rows x") (auto simp: readable_def items_in_def)

lemma stubs_of_readable: "stubs_of (readable rows) = stubs_of rows"
  by (auto simp: fun_eq_iff stubs_of_def readable_def stub_of_def split: option.split)

lemma putItems_append: "putItems (a @ b) res = putItems b (putItems a res)"
  by (induction a arbitrary: res) (auto split: option.split)

lemma putStubs_append: "putStubs (a @ b) res = putStubs b (putStubs a res)"
  by (induction a arbitrary: res) (auto split: option.split)

lemma distinct_putItems: "distinct (map fst res) \<Longrightarrow> distinct (map fst (putItems its res))"
  by (induction its arbitrary: res) (auto split: option.split)

lemma distinct_putStubs: "distinct (map fst res) \<Longrightarrow> distinct (map fst (putStubs its res))"
  by (induction its arbitrary: res) (auto split: option.split)

lemma map_of_putItems:
  assumes "keyed rows" and "set its \<subseteq> ran rows"
  shows "map_of (putItems its res) = map_of res ++ readable (among its rows)"
  using assms(2)
proof (induction its arbitrary: res)
  case Nil
  have "readable (among [] rows) = Map.empty"
    by (intro ext) (simp add: readable_def items_in_def split: option.split)
  then show ?case by simp
next
  case (Cons it its)
  note IH = Cons.IH [OF set_subset_Cons [THEN subset_trans [OF _ Cons.prems]]]
  show ?case
  proof (cases "extractDocumentIDAndUpdateTime it")
    case None
    then have "readable (among (it # its) rows) = readable (among its rows)"
      by (intro ext) (simp add: readable_among_Cons)
    with None IH show ?thesis by simp
  next
    case (Some p)
    then obtain k t where e: "extractDocumentIDAndUpdateTime it = Some (k, t)" by (cases p) simp
    have row: "rows k = Some it" by (rule keyed_extract [OF assms(1) _ e]) (use Cons.prems in simp)
    have "(map_of (AList.update k it res) ++ readable (among its rows)) x =
        (map_of res ++ readable (among (it # its) rows)) x" for x
    proof (cases "x = k")
      case True
      then show ?thesis using row e
        by (auto simp: map_add_def readable_among_Cons split: option.split)
          (auto simp: readable_def items_in_def split: if_splits option.splits)
    next
      case False
      have "rows x \<noteq> Some it"
        using keyed_extract_key [OF assms(1) _ e, of x] False by blast
      then have "readable (among (it # its) rows) x = readable (among its rows) x"
        by (simp add: readable_among_Cons)
      with False show ?thesis by (simp add: map_add_def split: option.split)
    qed
    then show ?thesis using IH e by (simp add: fun_eq_iff)
  qed
qed

lemma map_of_putStubs:
  assumes "keyed rows" and "set its \<subseteq> ran rows" and "map_of res = stubs_of (items_in A rows)"
  shows "map_of (putStubs its res) = stubs_of (items_in (A \<union> set its) rows)"
  using assms(2,3)
proof (induction its arbitrary: res A)
  case (Cons it its)
  have sub: "set its \<subseteq> ran rows" using Cons.prems(1) by simp
  show ?case
  proof (cases "extractDocumentIDAndUpdateTime it")
    case None
    then have "stubs_of (items_in A rows) = stubs_of (items_in (insert it A) rows)"
      by (intro ext) (auto simp: stubs_of_def items_in_def stub_of_def split: option.split)
    with None Cons.IH [OF sub, of res "insert it A"] Cons.prems(2) show ?thesis by simp
  next
    case (Some p)
    then obtain k t where e: "extractDocumentIDAndUpdateTime it = Some (k, t)" by (cases p) simp
    have row: "rows k = Some it" by (rule keyed_extract [OF assms(1) _ e]) (use Cons.prems in simp)
    have "((stubs_of (items_in A rows))(k \<mapsto> t)) x = stubs_of (items_in (insert it A) rows) x" for x
    proof (cases "x = k")
      case False
      have "rows x \<noteq> Some it" using keyed_extract_key [OF assms(1) _ e, of x] False by blast
      with False show ?thesis by (auto simp: stubs_of_def items_in_def split: option.split)
    qed (simp add: stubs_of_def items_in_def stub_of_def row e)
    then have "map_of (AList.update k t res) = stubs_of (items_in (insert it A) rows)"
      unfolding map_of_update Cons.prems(2) by (rule ext)
    from Cons.IH [OF sub this] e show ?thesis by simp
  qed
qed simp

section \<open>What DynamoDB promises\<close>

text \<open>
  A scan and a query page through what is left after the start key; a page with a last evaluated key
  is not empty. The index holds (projected) items under their document identifiers; the key condition
  selects the shard and the update times at or after the bound, compared as strings of bytes.
\<close>

definition pages_ok ::
  "(item option \<Rightarrow> 'w \<Rightarrow> (go_error + item list \<times> item option) \<times> 'w) \<Rightarrow> ('w \<Rightarrow> 'v)
     \<Rightarrow> ('w \<Rightarrow> item option \<Rightarrow> item list) \<Rightarrow> bool" where
  "pages_ok request view remaining \<longleftrightarrow>
     (\<forall>start w r w'. request start w = (r, w') \<longrightarrow> view w' = view w \<and> remaining w' = remaining w \<and>
        (\<forall>page lastKey. r = Inr (page, lastKey) \<longrightarrow>
           remaining w start = page @ (case lastKey of None \<Rightarrow> [] | Some k \<Rightarrow> remaining w (Some k)) \<and>
           (lastKey \<noteq> None \<longrightarrow> page \<noteq> [])))"

definition scan_pages_ok ::
  "'w poll_client \<Rightarrow> string \<Rightarrow> ('w \<Rightarrow> string \<Rightarrow> item option) \<Rightarrow> ('w \<Rightarrow> item option \<Rightarrow> item list) \<Rightarrow> bool" where
  "scan_pages_ok cl tbl rows remaining \<longleftrightarrow> pages_ok (pcScan cl tbl) rows remaining \<and>
     (\<forall>w. keyed (rows w) \<and> set (remaining w None) = ran (rows w))"

definition due :: "string \<Rightarrow> string \<Rightarrow> item \<Rightarrow> bool" where
  "due shard since it \<longleftrightarrow> it ''shard'' = Some (AV_S shard) \<and>
     (case it ''updateTime'' of Some (AV_S ut) \<Rightarrow> since \<le> ut | _ \<Rightarrow> False)"

definition query_ok ::
  "'w poll_client \<Rightarrow> string \<Rightarrow> ('w \<Rightarrow> string \<Rightarrow> item option)
     \<Rightarrow> (string \<Rightarrow> string \<Rightarrow> 'w \<Rightarrow> item option \<Rightarrow> item list) \<Rightarrow> bool" where
  "query_ok cl tbl index remaining \<longleftrightarrow>
     (\<forall>start shard since w r w'. pcQuery cl tbl shard since start w = (r, w') \<longrightarrow>
        index w' = index w \<and> (\<forall>s t. remaining s t w' = remaining s t w) \<and>
        (\<forall>page lastKey. r = Inr (page, lastKey) \<longrightarrow>
           remaining shard since w start = page @
             (case lastKey of None \<Rightarrow> [] | Some k \<Rightarrow> remaining shard since w (Some k)) \<and>
           (lastKey \<noteq> None \<longrightarrow> page \<noteq> []))) \<and>
     (\<forall>w. keyed (index w) \<and> (\<forall>shard since. set (remaining shard since w None) =
        {it \<in> ran (index w). due shard since it}))"

lemma query_okD:
  assumes "query_ok cl tbl index remaining" and "pcQuery cl tbl shard since start w = (r, w')"
  shows "index w' = index w" and "remaining s t w' = remaining s t w"
    and "r = Inr (page, lastKey) \<Longrightarrow> remaining shard since w start = page @
             (case lastKey of None \<Rightarrow> [] | Some k \<Rightarrow> remaining shard since w (Some k)) \<and>
           (lastKey \<noteq> None \<longrightarrow> page \<noteq> [])"
  using assms unfolding query_ok_def by blast+

text \<open>A batch request answers some of its keys with the items they have, and gives the others back.\<close>

definition batch_ok :: "'w poll_client \<Rightarrow> string \<Rightarrow> ('w \<Rightarrow> string \<Rightarrow> item option) \<Rightarrow> bool" where
  "batch_ok cl tbl rows \<longleftrightarrow>
     (\<forall>w. keyed (rows w)) \<and> (\<forall>d w. rows (snd (pcWait cl d w)) = rows w) \<and>
     (\<forall>ks w r w'. ks \<noteq> [] \<longrightarrow> length ks \<le> batchGetMax \<longrightarrow>
        pcBatchGetItem cl [(tbl, map document_key ks)] w = (r, w') \<longrightarrow> rows w' = rows w \<and>
        (\<forall>responses unprocessed. r = Inr (responses, unprocessed) \<longrightarrow>
           (\<exists>rest. set rest \<subseteq> set ks \<and> length rest \<le> length ks \<and>
              unprocessed = (if rest = [] then [] else [(tbl, map document_key rest)]) \<and>
              set (case map_of responses tbl of None \<Rightarrow> [] | Some its \<Rightarrow> its) =
                {it. \<exists>k \<in> set ks - set rest. rows w k = Some it})))"

section \<open>The reads are complete\<close>

lemma scanAllFrom_returns:
  assumes "pages_ok (pcScan cl tbl) rows remaining"
  shows "\<exists>r w'. scanAllFrom cl tbl start results w = Some (r, w') \<and> rows w' = rows w \<and>
     (\<forall>m. r = Inr m \<longrightarrow> m = putItems (remaining w start) results)"
proof (induction "length (remaining w start)" arbitrary: start results w rule: less_induct)
  case less
  obtain pr w1 where s: "pcScan cl tbl start w = (pr, w1)" by fastforce
  with assms have same: "rows w1 = rows w" "remaining w1 = remaining w"
    and pages: "\<And>page lastKey. pr = Inr (page, lastKey) \<Longrightarrow>
      remaining w start = page @ (case lastKey of None \<Rightarrow> [] | Some k \<Rightarrow> remaining w (Some k)) \<and>
      (lastKey \<noteq> None \<longrightarrow> page \<noteq> [])"
    unfolding pages_ok_def by blast+
  show ?case
  proof (cases pr)
    case (Inl e)
    with s same show ?thesis by (subst scanAllFrom.simps) simp
  next
    case (Inr pg)
    obtain page lastKey where pg: "pg = (page, lastKey)" by fastforce
    note p = pages [unfolded Inr pg, OF refl]
    show ?thesis
    proof (cases lastKey)
      case None
      with s Inr pg p same show ?thesis by (subst scanAllFrom.simps) simp
    next
      case (Some k)
      with p have rest: "remaining w start = page @ remaining w1 (Some k)" "page \<noteq> []"
        by (simp_all add: same)
      then have "length (remaining w1 (Some k)) < length (remaining w start)" by simp
      from less [OF this, of "putItems page results"] s Inr pg Some rest same
      show ?thesis by (subst scanAllFrom.simps) (auto simp: putItems_append)
    qed
  qed
qed

lemma readable_all:
  assumes "keyed rows" and "set its = ran rows"
  shows "readable (among its rows) = readable rows"
  using assms(2) by (intro ext) (auto simp: readable_def items_in_def ran_def split: option.split)

lemma ScanAll_returns:
  assumes "scan_pages_ok cl tbl rows remaining"
  shows "\<exists>r w'. ScanAll cl tbl w = Some (r, w') \<and> rows w' = rows w \<and>
     (\<forall>m. r = Inr m \<longrightarrow> distinct (map fst m) \<and> map_of m = readable (rows w))"
proof -
  from assms have ok: "pages_ok (pcScan cl tbl) rows remaining" "keyed (rows w)"
    "set (remaining w None) = ran (rows w)" by (simp_all add: scan_pages_ok_def)
  from scanAllFrom_returns [OF ok(1), of None "[]" w] obtain r w' where
    r: "ScanAll cl tbl w = Some (r, w')" "rows w' = rows w"
    and m: "\<And>m. r = Inr m \<Longrightarrow> m = putItems (remaining w None) []" by (auto simp: ScanAll_def)
  have "map_of (putItems (remaining w None) []) = readable (rows w)"
    using map_of_putItems [OF ok(2), of "remaining w None" "[]"] readable_all [OF ok(2,3)] ok(3) by simp
  with r m distinct_putItems [of "[]"] show ?thesis by auto
qed

text \<open>
  The shards: \<open>A\<close> is the set of items merged so far. Whatever the order of the turns, an item that is due
  in a shard is merged or still ahead of that shard's goroutine, until it has failed.
\<close>

definition due_in :: "(string \<Rightarrow> item option) \<Rightarrow> string \<Rightarrow> nat \<Rightarrow> item set" where
  "due_in idx since s = {it \<in> ran idx. due (show_nat s) since it}"

definition query_inv ::
  "('w \<Rightarrow> string \<Rightarrow> item option) \<Rightarrow> (string \<Rightarrow> string \<Rightarrow> 'w \<Rightarrow> item option \<Rightarrow> item list) \<Rightarrow> string \<Rightarrow> nat
     \<Rightarrow> 'w \<Rightarrow> item set \<Rightarrow> 'w query_state \<Rightarrow> bool" where
  "query_inv index remaining since n w A st \<longleftrightarrow>
     index (qsWorld st) = index w \<and> (\<forall>s t. remaining s t (qsWorld st) = remaining s t w) \<and>
     length (qsShards st) = n \<and> distinct (map fst (qsResults st)) \<and>
     map_of (qsResults st) = stubs_of (items_in A (index w)) \<and>
     A \<subseteq> (\<Union>s<n. due_in (index w) since s) \<and>
     (\<forall>s<n. case qsShards st ! s of
        SRunning start \<Rightarrow> set (remaining (show_nat s) since w start) \<subseteq> due_in (index w) since s \<and>
          due_in (index w) since s \<subseteq> A \<union> set (remaining (show_nat s) since w start)
      | SDone \<Rightarrow> due_in (index w) since s \<subseteq> A
      | SFailed e \<Rightarrow> True)"

lemma query_inv_init:
  assumes "query_ok cl tbl index remaining"
  shows "query_inv index remaining since n w {} \<lparr>qsShards = replicate n (SRunning None), qsResults = [], qsWorld = w\<rparr>"
proof -
  have "stubs_of (items_in {} rows) = Map.empty" for rows
    by (intro ext) (auto simp: stubs_of_def items_in_def split: option.split)
  moreover have "set (remaining (show_nat s) since w None) = due_in (index w) since s" for s
    using assms by (simp add: query_ok_def due_in_def)
  ultimately show ?thesis by (simp add: query_inv_def)
qed

text \<open>One turn keeps the invariant and, when the shard is running, brings it nearer to its end.\<close>

definition ahead ::
  "(string \<Rightarrow> string \<Rightarrow> 'w \<Rightarrow> item option \<Rightarrow> item list) \<Rightarrow> string \<Rightarrow> 'w \<Rightarrow> nat \<Rightarrow> shard_pc \<Rightarrow> nat" where
  "ahead remaining since w s pc =
     (case pc of SRunning start \<Rightarrow> Suc (length (remaining (show_nat s) since w start)) | _ \<Rightarrow> 0)"

lemma queryShard_step:
  assumes ok: "query_ok cl tbl index remaining" and inv: "query_inv index remaining since n w A st"
  shows "\<exists>A'. query_inv index remaining since n w A' (queryShard cl tbl since s st) \<and>
    (\<forall>i<n. i \<noteq> s \<longrightarrow> qsShards (queryShard cl tbl since s st) ! i = qsShards st ! i) \<and>
    (s < n \<longrightarrow> \<not> shard_ended (qsShards st ! s) \<longrightarrow>
       ahead remaining since w s (qsShards (queryShard cl tbl since s st) ! s) <
       ahead remaining since w s (qsShards st ! s))"
proof (cases "s < n")
  case False
  with inv show ?thesis by (intro exI [of _ A]) (simp add: queryShard_def query_inv_def)
next
  case s: True
  note inv' = inv [unfolded query_inv_def]
  show ?thesis
  proof (cases "qsShards st ! s")
    case (SRunning start)
    obtain r w1 where q: "pcQuery cl tbl (show_nat s) since start (qsWorld st) = (r, w1)" by fastforce
    note step = query_okD [OF ok q]
    with inv' have same: "index w1 = index w" "\<And>s t. remaining s t w1 = remaining s t w" by simp_all
    have pages: "remaining (show_nat s) since w start = page @
          (case lastKey of None \<Rightarrow> [] | Some k \<Rightarrow> remaining (show_nat s) since w (Some k)) \<and>
        (lastKey \<noteq> None \<longrightarrow> page \<noteq> [])" if "r = Inr (page, lastKey)" for page lastKey
      using step(3) [OF that] inv' by (simp split: option.split)
    have keyed: "keyed (index w)" using ok by (simp add: query_ok_def)
    show ?thesis
    proof (cases r)
      case (Inl e)
      with q s SRunning inv' same show ?thesis
        by (intro exI [of _ A])
          (simp add: queryShard_def query_inv_def nth_list_update ahead_def)
    next
      case (Inr pg)
      obtain page lastKey where pg: "pg = (page, lastKey)" by fastforce
      note p = pages [OF Inr [unfolded pg]]
      let ?pc = "case lastKey of None \<Rightarrow> SDone | Some k \<Rightarrow> SRunning (Some k)"
      have st': "queryShard cl tbl since s st =
          st\<lparr>qsShards := (qsShards st)[s := ?pc], qsResults := putStubs page (qsResults st), qsWorld := w1\<rparr>"
        using q s SRunning Inr pg inv' by (simp add: queryShard_def)
      have mine: "set (remaining (show_nat s) since w start) \<subseteq> due_in (index w) since s"
        "due_in (index w) since s \<subseteq> A \<union> set (remaining (show_nat s) since w start)"
        using inv' [THEN conjunct2, THEN conjunct2, THEN conjunct2, THEN conjunct2, THEN conjunct2,
            THEN conjunct2, rule_format, OF s] by (simp_all add: SRunning)
      with p have page: "set page \<subseteq> due_in (index w) since s" by auto
      then have "set page \<subseteq> ran (index w)" by (auto simp: due_in_def)
      from map_of_putStubs [OF keyed this] inv'
      have res: "map_of (putStubs page (qsResults st)) = stubs_of (items_in (A \<union> set page) (index w))" by simp
      have pcs: "case qsShards st ! i of
        SRunning start \<Rightarrow> set (remaining (show_nat i) since w start) \<subseteq> due_in (index w) since i \<and>
          due_in (index w) since i \<subseteq> A \<union> set page \<union> set (remaining (show_nat i) since w start)
        | SDone \<Rightarrow> due_in (index w) since i \<subseteq> A \<union> set page | SFailed e \<Rightarrow> True" if "i < n" for i
        using inv' [THEN conjunct2, THEN conjunct2, THEN conjunct2, THEN conjunct2, THEN conjunct2,
            THEN conjunct2, rule_format, OF that] by (cases "qsShards st ! i") auto
      have "A \<union> set page \<subseteq> (\<Union>s<n. due_in (index w) since s)" using inv' page s by blast
      moreover have "case qsShards (queryShard cl tbl since s st) ! i of
        SRunning start \<Rightarrow> set (remaining (show_nat i) since w start) \<subseteq> due_in (index w) since i \<and>
          due_in (index w) since i \<subseteq> A \<union> set page \<union> set (remaining (show_nat i) since w start)
        | SDone \<Rightarrow> due_in (index w) since i \<subseteq> A \<union> set page | SFailed e \<Rightarrow> True" if i: "i < n" for i
      proof (cases "i = s")
        case True
        with p mine s inv' show ?thesis by (cases lastKey) (auto simp: st')
      next
        case False
        with pcs [OF i] show ?thesis by (simp add: st')
      qed
      ultimately have "query_inv index remaining since n w (A \<union> set page) (queryShard cl tbl since s st)"
        using inv' same res distinct_putStubs [of "qsResults st" page] by (simp add: query_inv_def st')
      moreover have "ahead remaining since w s (qsShards (queryShard cl tbl since s st) ! s) <
          ahead remaining since w s (qsShards st ! s)"
        using p s inv' SRunning by (cases lastKey) (simp_all add: st' ahead_def)
      ultimately show ?thesis by (intro exI [of _ "A \<union> set page"]) (simp add: st')
    qed
  qed (use inv s in \<open>auto simp: queryShard_def query_inv_def shard_ended_def\<close>)
qed

lemma queryShards_inv:
  assumes "query_ok cl tbl index remaining" and "query_inv index remaining since n w A st"
  shows "\<exists>A'. query_inv index remaining since n w A' (fold (queryShard cl tbl since) sched st)"
  using assms(2)
proof (induction sched arbitrary: st A)
  case (Cons s sched)
  from queryShard_step [OF assms(1) Cons.prems, of s]
  obtain A' where "query_inv index remaining since n w A' (queryShard cl tbl since s st)" by blast
  from Cons.IH [OF this] show ?case by simp
qed auto

lemma all_nth_members: "list_all P xs \<longleftrightarrow> (\<forall>i<length xs. P (xs ! i))"
  by (simp add: list_all_length)

text \<open>A complete schedule without an error returns exactly the stubs that are due, whatever its order.\<close>

lemma QuerySince_exact:
  assumes "query_ok cl tbl index remaining" and "QuerySince cl tbl since n sched w = Some (Inr stubs, w')"
  shows "distinct (map fst stubs) \<and> index w' = index w \<and>
    map_of stubs = stubs_of (items_in (\<Union>s<n. due_in (index w) (format_RFC3339Nano since) s) (index w))"
proof -
  let ?since = "format_RFC3339Nano since"
  define st where "st = fold (queryShard cl tbl ?since) sched
      \<lparr>qsShards = replicate n (SRunning None), qsResults = [], qsWorld = w\<rparr>"
  from queryShards_inv [OF assms(1) query_inv_init [OF assms(1)], of ?since n w sched]
  obtain A where inv: "query_inv index remaining ?since n w A st" unfolding st_def by blast
  have ended: "list_all shard_ended (qsShards st)" and noerr: "first_some (map shard_error (qsShards st)) = None"
    and out: "stubs = qsResults st" "w' = qsWorld st"
    using assms(2) by (auto simp: QuerySince_def st_def [symmetric] Let_def split: if_splits option.splits)
  have fin: "qsShards st ! s = SDone" if "s < n" for s
  proof -
    have s: "s < length (qsShards st)" using inv that by (simp add: query_inv_def)
    with ended have "shard_ended (qsShards st ! s)" by (simp add: all_nth_members)
    moreover have "shard_error (qsShards st ! s) = None"
      using noerr s by (simp add: first_some_None)
    ultimately show ?thesis by (cases "qsShards st ! s") (simp_all add: shard_ended_def shard_error_def)
  qed
  from inv have sub: "A \<subseteq> (\<Union>s<n. due_in (index w) ?since s)"
    and pcs: "\<forall>s<n. case qsShards st ! s of
        SRunning start \<Rightarrow> set (remaining (show_nat s) ?since w start) \<subseteq> due_in (index w) ?since s \<and>
          due_in (index w) ?since s \<subseteq> A \<union> set (remaining (show_nat s) ?since w start)
      | SDone \<Rightarrow> due_in (index w) ?since s \<subseteq> A
      | SFailed e \<Rightarrow> True" unfolding query_inv_def by blast+
  have "due_in (index w) ?since s \<subseteq> A" if "s < n" for s
    using pcs [rule_format, OF that] fin [OF that] by simp
  with sub have "A = (\<Union>s<n. due_in (index w) ?since s)" by blast
  with inv out show ?thesis by (simp add: query_inv_def)
qed

text \<open>And there is one: as long as a shard is running, a turn of it brings the query nearer to the end.\<close>

lemma QuerySince_completes:
  assumes "query_ok cl tbl index remaining" and "query_inv index remaining since n w A st"
  shows "\<exists>sched. list_all shard_ended (qsShards (fold (queryShard cl tbl since) sched st))"
  using assms(2)
proof (induction "\<Sum>s<n. ahead remaining since w s (qsShards st ! s)" arbitrary: st A rule: less_induct)
  case less
  show ?case
  proof (cases "list_all shard_ended (qsShards st)")
    case True
    then show ?thesis by (intro exI [of _ "[]"]) simp
  next
    case False
    have len: "length (qsShards st) = n" using less.prems by (simp add: query_inv_def)
    with False obtain s where s: "s < n" "\<not> shard_ended (qsShards st ! s)" by (auto simp: all_nth_members)
    from queryShard_step [OF assms(1) less.prems, of s] s obtain A' where
      inv: "query_inv index remaining since n w A' (queryShard cl tbl since s st)"
      and same: "\<forall>i<n. i \<noteq> s \<longrightarrow> qsShards (queryShard cl tbl since s st) ! i = qsShards st ! i"
      and dec: "ahead remaining since w s (qsShards (queryShard cl tbl since s st) ! s) <
        ahead remaining since w s (qsShards st ! s)" by blast
    have "(\<Sum>i<n. ahead remaining since w i (qsShards (queryShard cl tbl since s st) ! i)) <
        (\<Sum>i<n. ahead remaining since w i (qsShards st ! i))"
    proof (rule sum_strict_mono_ex1)
      show "\<forall>i\<in>{..<n}. ahead remaining since w i (qsShards (queryShard cl tbl since s st) ! i) \<le>
          ahead remaining since w i (qsShards st ! i)"
        using same dec by (metis order.refl order_less_imp_le lessThan_iff)
      show "\<exists>i\<in>{..<n}. ahead remaining since w i (qsShards (queryShard cl tbl since s st) ! i) <
          ahead remaining since w i (qsShards st ! i)" using s dec by blast
    qed simp
    from less.hyps [OF this inv] obtain sched where
      "list_all shard_ended (qsShards (fold (queryShard cl tbl since) sched (queryShard cl tbl since s st)))" ..
    then show ?thesis by (intro exI [of _ "s # sched"]) simp
  qed
qed

lemma QuerySince_returns:
  assumes "query_ok cl tbl index remaining"
  shows "\<exists>sched r. QuerySince cl tbl since n sched w = Some r"
proof -
  from QuerySince_completes [OF assms query_inv_init [OF assms]] obtain sched where
    "list_all shard_ended (qsShards (fold (queryShard cl tbl (format_RFC3339Nano since)) sched
      \<lparr>qsShards = replicate n (SRunning None), qsResults = [], qsWorld = w\<rparr>))" ..
  then show ?thesis
    by (intro exI [of _ sched]) (simp add: QuerySince_def Let_def split: option.split)
qed

section \<open>The batched reads\<close>

lemma batch_okD:
  assumes "batch_ok cl tbl rows" and "pcBatchGetItem cl [(tbl, map document_key ks)] w = (r, w')"
    and "ks \<noteq> []" and "length ks \<le> batchGetMax"
  shows "rows w' = rows w"
    and "r = Inr (responses, unprocessed) \<Longrightarrow> \<exists>rest. set rest \<subseteq> set ks \<and> length rest \<le> length ks \<and>
      unprocessed = (if rest = [] then [] else [(tbl, map document_key rest)]) \<and>
      set (case map_of responses tbl of None \<Rightarrow> [] | Some its \<Rightarrow> its) =
        {it. \<exists>k \<in> set ks - set rest. rows w k = Some it}"
  using assms unfolding batch_ok_def by blast+

definition batch_request :: "string \<Rightarrow> string list \<Rightarrow> (string \<times> item list) list" where
  "batch_request tbl ks = (if ks = [] then [] else [(tbl, map document_key ks)])"

text \<open>
  A chunk returns: \<open>got\<close> are the keys answered so far and \<open>ks\<close> those still asked for. Without an error
  all of them have been answered.
\<close>

definition read_keys :: "string set \<Rightarrow> (string \<Rightarrow> item option) \<Rightarrow> string \<Rightarrow> item option" where
  "read_keys K rows k = (if k \<in> K then readable rows k else None)"

lemma read_keys_merge:
  assumes "keyed rows" and "map_of res = read_keys K rows"
    and "set its = {it. \<exists>k \<in> L. rows k = Some it}"
  shows "map_of (putItems its res) = read_keys (K \<union> L) rows"
proof -
  have "set its \<subseteq> ran rows" using assms(3) by (auto simp: ran_def)
  note m = map_of_putItems [OF assms(1) this, of res]
  have inj: "rows k = Some it \<Longrightarrow> rows k' = Some it \<Longrightarrow> k = k'" for k k' it
    using assms(1) unfolding keyed_def by (metis AttributeValue.inject(1) option.inject)
  have "(read_keys K rows ++ readable (among its rows)) k = read_keys (K \<union> L) rows k" for k
  proof (cases "rows k")
    case None
    then show ?thesis by (simp add: read_keys_def map_add_def readable_def items_in_def)
  next
    case (Some it)
    then have "it \<in> set its \<longleftrightarrow> k \<in> L" using inj unfolding assms(3) by blast
    with Some show ?thesis by (simp add: read_keys_def map_add_def readable_def items_in_def)
  qed
  then show ?thesis unfolding m assms(2) by (rule ext)
qed

lemma batchGetChunk_result:
  assumes "batch_ok cl tbl rows" and "length ks \<le> batchGetMax"
    and "map_of res = read_keys K (rows w)" and "distinct (map fst res)"
    and "batchGetChunk cl tbl attempt backoff (batch_request tbl ks) res w = (r, w')"
  shows "rows w' = rows w \<and> (\<forall>m. r = Inr m \<longrightarrow> distinct (map fst m) \<and>
           map_of m = read_keys (K \<union> set ks) (rows w))"
  using assms(2-5)
proof (induction "10 - attempt" arbitrary: attempt backoff ks res w K rule: less_induct)
  case less
  show ?case
  proof (cases "ks = [] \<or> 10 \<le> attempt")
    case True
    with less.prems show ?thesis
      by (auto simp: batch_request_def batchGetChunk.simps [of _ _ _ _ "[]"]
          batchGetChunk.simps [of _ _ attempt] split: if_splits)
  next
    case False
    obtain e w1 where wait: "(if 0 < attempt then pcWait cl backoff w else (None, w)) = (e, w1)" by fastforce
    have "rows (snd (pcWait cl backoff w)) = rows w" using assms(1) by (simp add: batch_ok_def)
    then have w1: "rows w1 = rows w" using wait by (auto split: if_splits)
    let ?b = "if 0 < attempt \<and> backoff < 2 * second then backoff * 2 else backoff"
    obtain br w2 where b: "pcBatchGetItem cl [(tbl, map document_key ks)] w1 = (br, w2)" by fastforce
    note res = batch_okD [OF assms(1) b _ less.prems(1)]
    note unfold = less.prems(4) [unfolded batch_request_def, simplified False, simplified,
        unfolded batchGetChunk.simps [of _ _ attempt]]
    show ?thesis
    proof (cases e)
      case (Some err)
      with unfold wait w1 False show ?thesis by auto
    next
      case None
      show ?thesis
      proof (cases br)
        case (Inl err)
        with unfold wait w1 False None b res(1) show ?thesis by auto
      next
        case (Inr p)
        obtain responses unprocessed where p: "p = (responses, unprocessed)" by fastforce
        let ?its = "case map_of responses tbl of None \<Rightarrow> [] | Some its \<Rightarrow> its"
        from res False Inr p obtain rest where rest: "set rest \<subseteq> set ks" "length rest \<le> length ks"
          "unprocessed = batch_request tbl rest"
          "set ?its = {it. \<exists>k \<in> set ks - set rest. rows w k = Some it}"
          by (auto simp: batch_request_def w1)
        have rows: "rows w2 = rows w" using res False w1 by simp
        have keyed: "keyed (rows w)" using assms(1) by (simp add: batch_ok_def)
        have rec: "batchGetChunk cl tbl (attempt + 1) ?b (batch_request tbl rest) (putItems ?its res) w2 = (r, w')"
          using unfold wait False None b Inr p rest(3) by simp
        have "map_of (putItems ?its res) = read_keys (K \<union> (set ks - set rest)) (rows w2)"
          unfolding rows by (rule read_keys_merge [OF keyed less.prems(2) rest(4)])
        moreover have "10 - (attempt + 1) < 10 - attempt" using False by linarith
        ultimately
        have "rows w' = rows w2 \<and> (\<forall>m. r = Inr m \<longrightarrow> distinct (map fst m) \<and>
           map_of m = read_keys (K \<union> (set ks - set rest) \<union> set rest) (rows w2))"
          using less.hyps [OF _ _ _ _ rec] rest(2) less.prems(1,3) by (simp add: distinct_putItems)
        moreover have "K \<union> (set ks - set rest) \<union> set rest = K \<union> set ks" using rest(1) by blast
        ultimately show ?thesis using rows by simp
      qed
    qed
  qed
qed

lemma batchGetFrom_result:
  assumes "batch_ok cl tbl rows"
    and "map_of res = read_keys K (rows w)" and "distinct (map fst res)"
    and "batchGetFrom cl tbl docIDs res w = (r, w')"
  shows "rows w' = rows w \<and> (\<forall>m. r = Inr m \<longrightarrow> distinct (map fst m) \<and>
           map_of m = read_keys (K \<union> set docIDs) (rows w))"
  using assms(2-4)
proof (induction "length docIDs" arbitrary: docIDs res w K rule: less_induct)
  case less
  show ?case
  proof (cases "docIDs = []")
    case True
    with less.prems show ?thesis by (auto simp: batchGetFrom.simps)
  next
    case False
    let ?ks = "take batchGetMax docIDs"
    have req: "[(tbl, map document_key ?ks)] = batch_request tbl ?ks"
      using False by (simp add: batch_request_def batchGetMax_def)
    obtain cr w1 where c: "batchGetChunk cl tbl 0 (50 * millisecond) (batch_request tbl ?ks) res w = (cr, w1)"
      by fastforce
    have "length ?ks \<le> batchGetMax" by simp
    note chunk = batchGetChunk_result [OF assms(1) this less.prems(1,2) c]
    show ?thesis
    proof (cases cr)
      case (Inl e)
      with less.prems(3) False c chunk show ?thesis by (auto simp: batchGetFrom.simps [of _ _ docIDs] req)
    next
      case (Inr m)
      with chunk have m: "rows w1 = rows w" "distinct (map fst m)" "map_of m = read_keys (K \<union> set ?ks) (rows w1)"
        by auto
      have rec: "batchGetFrom cl tbl (drop batchGetMax docIDs) m w1 = (r, w')"
        using less.prems(3) False c Inr by (simp add: batchGetFrom.simps [of _ _ docIDs] req)
      have "length (drop batchGetMax docIDs) < length docIDs" using False by (simp add: batchGetMax_def)
      from less.hyps [OF this m(3,2) rec] m(1) show ?thesis
        by (metis (no_types) Un_assoc append_take_drop_id set_append)
    qed
  qed
qed

text \<open>Without an error the result is what the table holds of the keys asked for, nothing left out.\<close>

lemma BatchGetItems_result:
  assumes "batch_ok cl tbl rows" and "BatchGetItems cl tbl docIDs w = (r, w')"
  shows "rows w' = rows w"
    and "r = Inr m \<Longrightarrow> distinct (map fst m) \<and> map_of m = read_keys (set docIDs) (rows w)"
proof -
  have "map_of [] = read_keys {} (rows w)" by (simp add: read_keys_def fun_eq_iff)
  from batchGetFrom_result [OF assms(1) this _ assms(2) [unfolded BatchGetItems_def]]
  show "rows w' = rows w" "r = Inr m \<Longrightarrow> distinct (map fst m) \<and> map_of m = read_keys (set docIDs) (rows w)"
    by auto
qed

text \<open>The number of requests, counted by a client that keeps a counter in its world.\<close>

definition counting :: "'w poll_client \<Rightarrow> ('w \<times> nat) poll_client" where
  "counting cl = \<lparr>pcScan = (\<lambda>t s (w, n). case pcScan cl t s w of (r, w) \<Rightarrow> (r, (w, n))),
     pcQuery = (\<lambda>t sh si s (w, n). case pcQuery cl t sh si s w of (r, w) \<Rightarrow> (r, (w, n))),
     pcBatchGetItem = (\<lambda>req (w, n). case pcBatchGetItem cl req w of (r, w) \<Rightarrow> (r, (w, Suc n))),
     pcWait = (\<lambda>d (w, n). case pcWait cl d w of (r, w) \<Rightarrow> (r, (w, n))),
     pcNow = (\<lambda>(w, n). case pcNow cl w of (t, w) \<Rightarrow> (t, (w, n)))\<rparr>"

lemma batchGetChunk_calls:
  "batchGetChunk (counting cl) tbl attempt backoff remaining res (w, n) = (r, (w', n')) \<Longrightarrow>
   n' \<le> n + (10 - attempt)"
proof (induction "10 - attempt" arbitrary: attempt backoff remaining res w n rule: less_induct)
  case less
  show ?case
  proof (cases "remaining = [] \<or> 10 \<le> attempt")
    case True
    with less.prems show ?thesis by (auto simp: batchGetChunk.simps [of _ _ attempt] split: if_splits)
  next
    case False
    obtain e w1 where wait: "(if 0 < attempt then pcWait cl backoff w else (None, w)) = (e, w1)" by fastforce
    then have wait': "(if 0 < attempt then pcWait (counting cl) backoff (w, n) else (None, (w, n))) = (e, (w1, n))"
      by (auto simp: counting_def split: prod.splits if_splits)
    obtain br w2 where b: "pcBatchGetItem cl remaining w1 = (br, w2)" by fastforce
    then have b': "pcBatchGetItem (counting cl) remaining (w1, n) = (br, (w2, Suc n))"
      by (simp add: counting_def)
    have dec: "10 - (attempt + 1) < 10 - attempt" using False by linarith
    show ?thesis
    proof (cases e)
      case (Some err)
      with less.prems False wait' have "n' = n" by (simp add: batchGetChunk.simps [of _ _ attempt])
      then show ?thesis by simp
    next
      case None
      show ?thesis
      proof (cases br)
        case (Inl err)
        with less.prems False wait' b' None have "n' = Suc n" by (simp add: batchGetChunk.simps [of _ _ attempt])
        with dec show ?thesis by simp
      next
        case (Inr p)
        define b where "b = (if 0 < attempt \<and> backoff < 2 * second then backoff * 2 else backoff)"
        from less.prems False wait' b' None Inr
        have "batchGetChunk (counting cl) tbl (attempt + 1) b (snd p)
            (putItems (case map_of (fst p) tbl of None \<Rightarrow> [] | Some its \<Rightarrow> its) res) (w2, Suc n) = (r, (w', n'))"
          by (simp add: batchGetChunk.simps [of _ _ attempt] b_def split: prod.splits split del: if_split)
        from less.hyps [OF dec this] dec show ?thesis by simp
      qed
    qed
  qed
qed

lemma batchGetFrom_calls:
  "batchGetFrom (counting cl) tbl docIDs res (w, n) = (r, (w', n')) \<Longrightarrow>
   n' \<le> n + 10 * ((length docIDs + 99) div 100)"
proof (induction "length docIDs" arbitrary: docIDs res w n rule: less_induct)
  case less
  show ?case
  proof (cases "docIDs = []")
    case True
    with less.prems show ?thesis by (simp add: batchGetFrom.simps)
  next
    case False
    obtain cr w1 n1 where c: "batchGetChunk (counting cl) tbl 0 (50 * millisecond)
        [(tbl, map document_key (take batchGetMax docIDs))] res (w, n) = (cr, (w1, n1))"
      by (metis prod.collapse)
    note n1 = batchGetChunk_calls [OF c]
    have pos: "1 \<le> (length docIDs + 99) div 100" using False by (cases docIDs) auto
    show ?thesis
    proof (cases cr)
      case (Inl e)
      with less.prems False c have "n' = n1" by (simp add: batchGetFrom.simps [of _ _ docIDs])
      with n1 pos show ?thesis by simp
    next
      case (Inr m)
      have rec: "batchGetFrom (counting cl) tbl (drop batchGetMax docIDs) m (w1, n1) = (r, (w', n'))"
        using less.prems False c Inr by (simp add: batchGetFrom.simps [of _ _ docIDs])
      have "length (drop batchGetMax docIDs) < length docIDs" using False by (simp add: batchGetMax_def)
      moreover have "(length docIDs - 100 + 99) div 100 + 1 \<le> (length docIDs + 99) div 100"
      proof (cases "length docIDs \<le> 100")
        case False
        then have "length docIDs + 99 = (length docIDs - 100 + 99) + 100" by simp
        then show ?thesis by (simp only: div_add_self2)
      qed (use pos in simp)
      ultimately show ?thesis using less.hyps [OF _ rec] n1 by (simp add: batchGetMax_def)
    qed
  qed
qed

end
