(* ===== verification/Watcher.thy ===== *)
theory Watcher
  imports DynamoPoll
begin

text \<open>
  The two-speed watcher, \<open>seaplane-dynamo/dynamodb/watcher.go\<close> with the intervals of \<open>constants.go\<close>, and
  the adapter that turns its callbacks into watch events, \<open>watch_adapter.go\<close>. A callback is a pair of a
  document identifier and the item, \<open>None\<close> for a deletion. \<open>runRelist\<close> and \<open>runFastPoll\<close> are the two
  handlers run alone; the relation \<open>watch_step\<close> interleaves them at the granularity of the cache mutex
  and of the callback mutex.
\<close>

section \<open>Options\<close>

definition DefaultPollInterval :: duration where "DefaultPollInterval = 15 * second"
definition DefaultRelistInterval :: duration where "DefaultRelistInterval = 5 * 60 * second"

record watch_options =
  PollInterval :: duration
  RelistInterval :: duration
  MaxLookbackWindow :: duration
  ShardCount :: int

definition pollInterval :: "watch_options \<Rightarrow> duration" where
  "pollInterval o' = (if PollInterval o' \<le> 0 then DefaultPollInterval else PollInterval o')"

definition relistInterval :: "watch_options \<Rightarrow> duration" where
  "relistInterval o' = (if RelistInterval o' \<le> 0 then DefaultRelistInterval else RelistInterval o')"

definition maxLookbackWindow :: "watch_options \<Rightarrow> duration" where
  "maxLookbackWindow o' =
     (let relist = relistInterval o'
      in if MaxLookbackWindow o' \<le> 0 \<or> MaxLookbackWindow o' > relist then relist
         else MaxLookbackWindow o')"

definition shardCount :: "watch_options \<Rightarrow> int" where
  "shardCount o' = (if ShardCount o' \<le> 0 then int GSIShardCount else ShardCount o')"

section \<open>The two handlers\<close>

type_synonym change = "string \<times> item option"

fun stubsOfItems :: "items \<Rightarrow> stubs" where
  "stubsOfItems [] = []"
| "stubsOfItems ((docID, item) # its) =
     (case extractDocumentIDAndUpdateTime item of
        None \<Rightarrow> stubsOfItems its
      | Some (_, ut) \<Rightarrow> (docID, ut) # stubsOfItems its)"

definition relist_changes :: "items \<Rightarrow> string list \<times> string list \<times> string list \<Rightarrow> change list" where
  "relist_changes fullItems diff =
     (case diff of (added, modified, deleted) \<Rightarrow>
        map (\<lambda>docID. (docID, map_of fullItems docID)) added @
        map (\<lambda>docID. (docID, map_of fullItems docID)) modified @
        map (\<lambda>docID. (docID, None)) deleted)"

definition runRelist ::
  "'w poll_client \<Rightarrow> string \<Rightarrow> StubCache \<Rightarrow> 'w \<Rightarrow> ((bool \<times> StubCache \<times> change list) \<times> 'w) option" where
  "runRelist cl tbl c w =
     (case ScanAll cl tbl w of
        None \<Rightarrow> None
      | Some (Inl err, w) \<Rightarrow> Some ((False, c, []), w)
      | Some (Inr fullItems, w) \<Rightarrow>
          (let (now, w) = pcNow cl w;
               (diff, c) = ApplyRelist now (stubsOfItems fullItems) c
           in Some ((True, c, relist_changes fullItems diff), w)))"

definition poll_changes :: "string list \<Rightarrow> items \<Rightarrow> change list" where
  "poll_changes changed fetched =
     concat (map (\<lambda>docID. case map_of fetched docID of None \<Rightarrow> [] | Some item \<Rightarrow> [(docID, Some item)]) changed)"

definition runFastPoll ::
  "'w poll_client \<Rightarrow> string \<Rightarrow> watch_options \<Rightarrow> nat list \<Rightarrow> StubCache \<Rightarrow> 'w
     \<Rightarrow> ((StubCache \<times> change list) \<times> 'w) option" where
  "runFastPoll cl tbl opts sched c w =
     (let (t, w) = pcNow cl w;
          lookback = EffectiveLookback t (maxLookbackWindow opts) c;
          (now, w) = pcNow cl w;
          since = now - lookback
      in (case QuerySince cl tbl since (nat (shardCount opts)) sched w of
            None \<Rightarrow> None
          | Some (Inl err, w) \<Rightarrow> Some ((c, []), w)
          | Some (Inr stubs, w) \<Rightarrow>
              (let changed = FindChanged c stubs
               in if changed = [] then Some ((c, []), w)
                  else (case BatchGetItems cl tbl changed w of
                          (Inl err, w) \<Rightarrow> Some ((c, []), w)
                        | (Inr fetched, w) \<Rightarrow>
                            Some ((ApplyStubs (stubsOfItems fetched) c, poll_changes changed fetched), w)))))"

text \<open>
  The relist loop: an eager relist, then one per tick; \<open>close(w.doneCh)\<close> is counted, since closing a
  closed channel panics.
\<close>

record relist_loop =
  rlCache :: StubCache
  rlFirst :: bool
  rlCloses :: nat

definition relist_turn ::
  "'w poll_client \<Rightarrow> string \<Rightarrow> relist_loop \<Rightarrow> 'w \<Rightarrow> ((relist_loop \<times> change list) \<times> 'w) option" where
  "relist_turn cl tbl l w =
     (case runRelist cl tbl (rlCache l) w of
        None \<Rightarrow> None
      | Some ((ok, c, evs), w) \<Rightarrow>
          (let l = l\<lparr>rlCache := c\<rparr>
           in Some ((if ok \<and> rlFirst l then l\<lparr>rlFirst := False, rlCloses := rlCloses l + 1\<rparr> else l, evs), w)))"

fun relistLoop ::
  "'w poll_client \<Rightarrow> string \<Rightarrow> nat \<Rightarrow> relist_loop \<Rightarrow> 'w \<Rightarrow> ((relist_loop \<times> change list) \<times> 'w) option" where
  "relistLoop cl tbl 0 l w = relist_turn cl tbl l w"
| "relistLoop cl tbl (Suc ticks) l w =
     (case relist_turn cl tbl l w of
        None \<Rightarrow> None
      | Some ((l, evs), w) \<Rightarrow>
          (case relistLoop cl tbl ticks l w of
             None \<Rightarrow> None
           | Some ((l, evs'), w) \<Rightarrow> Some ((l, evs @ evs'), w)))"

definition newLoop :: relist_loop where
  "newLoop = \<lparr>rlCache = newCache, rlFirst = True, rlCloses = 0\<rparr>"

section \<open>The adapter\<close>

datatype 'o watch_event = WatchModified 'o | WatchDeleted 'o

definition tombstoneObject :: "(item \<Rightarrow> go_error + 'o) \<Rightarrow> (string \<Rightarrow> 'o) \<Rightarrow> string \<Rightarrow> 'o" where
  "tombstoneObject decodeFn partial documentID =
     (case decodeFn [''documentID'' \<mapsto> AV_S documentID] of Inl err \<Rightarrow> partial documentID | Inr obj \<Rightarrow> obj)"

definition resultCap :: nat where "resultCap = 100"

text \<open>The callback, on the events that wait in the channel.\<close>

definition adapter_onChange ::
  "(item \<Rightarrow> go_error + 'o) \<Rightarrow> (string \<Rightarrow> 'o) \<Rightarrow> change \<Rightarrow> 'o watch_event list \<Rightarrow> 'o watch_event list" where
  "adapter_onChange decodeFn partial ch resultCh =
     (let send = (\<lambda>event. if length resultCh < resultCap then resultCh @ [event] else resultCh)
      in (case ch of
            (docID, None) \<Rightarrow> send (WatchDeleted (tombstoneObject decodeFn partial docID))
          | (docID, Some item) \<Rightarrow>
              (case decodeFn item of Inl err \<Rightarrow> resultCh | Inr obj \<Rightarrow> send (WatchModified obj))))"

section \<open>What the consumer has seen\<close>

definition apply_change :: "change \<Rightarrow> (string \<Rightarrow> item option) \<Rightarrow> string \<Rightarrow> item option" where
  "apply_change ch v = v(fst ch := snd ch)"

definition seen :: "change list \<Rightarrow> (string \<Rightarrow> item option) \<Rightarrow> string \<Rightarrow> item option" where
  "seen evs v = fold apply_change evs v"

text \<open>The cache holds the update time of the item that was last handed over, for every document.\<close>

definition coherent :: "StubCache \<Rightarrow> (string \<Rightarrow> item option) \<Rightarrow> bool" where
  "coherent c v \<longleftrightarrow> cached c = stubs_of v \<and> v = readable v"

lemma seen_simps [simp]: "seen [] v = v" "seen (e # evs) v = seen evs (v(fst e := snd e))"
  "seen (a @ b) v = seen b (seen a v)"
  by (simp_all add: seen_def apply_change_def)

lemma seen_at:
  "distinct (map fst evs) \<Longrightarrow> seen evs v k = (case map_of evs k of None \<Rightarrow> v k | Some it \<Rightarrow> it)"
proof (induction evs arbitrary: v)
  case (Cons e evs)
  then show ?case
    by (cases e) (auto simp: map_of_None_iff [symmetric] split: option.split)
qed simp

lemma stubsOfItems_map:
  "map_of (stubsOfItems its) k = (case map_of its k of None \<Rightarrow> None | Some it \<Rightarrow> stub_of it)"
  if "distinct (map fst its)"
  using that
proof (induction its rule: stubsOfItems.induct)
  case (2 docID item its)
  then have "map_of its docID = None" by (simp add: map_of_None_iff)
  with 2 show ?case by (auto simp: stub_of_def split: option.split)
qed simp

lemma fst_stubsOfItems: "fst ` set (stubsOfItems its) \<subseteq> fst ` set its"
proof (induction its)
  case (Cons p its)
  then show ?case by (cases p) (auto split: option.split)
qed simp

lemma distinct_stubsOfItems: "distinct (map fst its) \<Longrightarrow> distinct (map fst (stubsOfItems its))"
proof (induction its rule: stubsOfItems.induct)
  case (2 docID item its)
  with fst_stubsOfItems [of its] show ?case by (auto split: option.split)
qed simp

lemma stubs_of_None: "stubs_of rows k = None \<longleftrightarrow> readable rows k = None"
  by (auto simp: stubs_of_def readable_def stub_of_def split: option.splits)

lemma stubs_of_items:
  assumes "distinct (map fst full)" and "map_of full = readable rows"
  shows "map_of (stubsOfItems full) = stubs_of rows"
proof
  fix k
  show "map_of (stubsOfItems full) k = stubs_of rows k"
    using fun_cong [OF stubs_of_readable, of rows k]
    by (simp add: stubsOfItems_map [OF assms(1)] assms(2) stubs_of_def)
qed

section \<open>One relist\<close>

lemma relist_effect:
  assumes "cache_ok c" and "coherent c v" and "distinct (map fst full)" and "map_of full = readable rows"
    and "ApplyRelist now (stubsOfItems full) c = (diff, c')"
  shows "distinct (map fst (relist_changes full diff))"
    and "(k, x) \<in> set (relist_changes full diff) \<longleftrightarrow>
           stubs_of v k \<noteq> stubs_of rows k \<and> x = readable rows k"
    and "cached c' = stubs_of rows" and "cache_ok c'" and "scLastRelistAt c' = Some now"
    and "coherent c' (seen (relist_changes full diff) v)"
proof -
  obtain added modified deleted where diff: "diff = (added, modified, deleted)" by (cases diff) auto
  note st = stubs_of_items [OF assms(3,4)]
  from assms(2) have cv: "cached c = stubs_of v" "v = readable v" by (simp_all add: coherent_def)
  note eff = ApplyRelist_effect [OF assms(1) distinct_stubsOfItems [OF assms(3)] assms(5) [unfolded diff],
      unfolded st cv(1)]
  have keys: "map fst (relist_changes full diff) = added @ modified @ deleted"
    by (simp add: relist_changes_def diff comp_def)
  show dist: "distinct (map fst (relist_changes full diff))" unfolding keys by (rule eff(4))
  show mem: "(k, x) \<in> set (relist_changes full diff) \<longleftrightarrow>
      stubs_of v k \<noteq> stubs_of rows k \<and> x = readable rows k" for k x
  proof -
    have "(k, x) \<in> set (relist_changes full diff) \<longleftrightarrow>
        (k \<in> set added \<or> k \<in> set modified) \<and> x = readable rows k \<or> k \<in> set deleted \<and> x = None"
      by (auto simp: relist_changes_def diff assms(4))
    also have "\<dots> \<longleftrightarrow> stubs_of v k \<noteq> stubs_of rows k \<and> x = readable rows k"
      unfolding eff(1-3) using stubs_of_None [of rows k]
      by (cases "stubs_of v k"; cases "stubs_of rows k") auto
    finally show ?thesis .
  qed
  show c': "cached c' = stubs_of rows" "cache_ok c'" "scLastRelistAt c' = Some now" by (rule eff(5-7))+
  have at: "seen (relist_changes full diff) v k =
      (if stubs_of v k \<noteq> stubs_of rows k then readable rows k else v k)" for k
    using mem [of k] by (auto simp: seen_at [OF dist] map_of_Some_iff_mem [OF dist] map_of_None_iff
        split: option.split) force+
  have "stubs_of (seen (relist_changes full diff) v) k = stubs_of rows k" for k
    using fun_cong [OF stubs_of_readable, of rows k] by (auto simp: stubs_of_def [of "seen _ _"] at)
      (simp_all add: stubs_of_def)
  moreover have "seen (relist_changes full diff) v k = readable (seen (relist_changes full diff) v) k" for k
    using fun_cong [OF cv(2), of k] by (auto simp: readable_def at split: option.splits)
  ultimately show "coherent c' (seen (relist_changes full diff) v)"
    by (simp add: coherent_def c' fun_eq_iff)
qed

section \<open>One fast poll\<close>

lemma poll_effect:
  assumes "cache_ok c" and "coherent c v" and "distinct changed"
    and "distinct (map fst fetched)" and "map_of fetched = read_keys (set changed) rows"
  defines "evs \<equiv> poll_changes changed fetched" and "c' \<equiv> ApplyStubs (stubsOfItems fetched) c"
  shows "distinct (map fst evs)"
    and "(k, x) \<in> set evs \<longleftrightarrow> k \<in> set changed \<and> x = readable rows k \<and> x \<noteq> None"
    and "cache_ok c'" and "coherent c' (seen evs v)" and "scLastRelistAt c' = scLastRelistAt c"
proof -
  from assms(2) have cv: "cached c = stubs_of v" "v = readable v" by (simp_all add: coherent_def)
  have got: "map_of fetched k = (if k \<in> set changed then readable rows k else None)" for k
    using assms(5) by (simp add: read_keys_def)
  have keys: "map fst (poll_changes ks fetched) = filter (\<lambda>k. map_of fetched k \<noteq> None) ks" for ks
    unfolding poll_changes_def by (induction ks) (auto split: option.splits)
  show dist: "distinct (map fst evs)" unfolding evs_def keys using assms(3) by simp
  show mem: "(k, x) \<in> set evs \<longleftrightarrow> k \<in> set changed \<and> x = readable rows k \<and> x \<noteq> None" for k x
    unfolding evs_def poll_changes_def by (auto simp: got split: option.splits)
  show "cache_ok c'" unfolding c'_def using assms(1) by (rule ApplyStubs_ok)
  show "scLastRelistAt c' = scLastRelistAt c" by (simp add: c'_def ApplyStubs_def)
  have new: "cached c' k = (if k \<in> set changed \<and> readable rows k \<noteq> None then stubs_of rows k else stubs_of v k)" for k
  proof -
    have "map_of (stubsOfItems fetched) k = (if k \<in> set changed then stubs_of rows k else None)"
      using fun_cong [OF stubs_of_readable, of rows k]
      by (simp add: stubsOfItems_map [OF assms(4)] got stubs_of_def)
    moreover have "cached c' = cached c ++ map_of (stubsOfItems fetched)"
      unfolding c'_def by (rule cached_ApplyStubs [OF distinct_stubsOfItems [OF assms(4)]])
    ultimately show ?thesis
      using stubs_of_None [of rows k] by (cases "stubs_of rows k") (simp_all add: map_add_def cv(1))
  qed
  have at: "seen evs v k = (if k \<in> set changed \<and> readable rows k \<noteq> None then readable rows k else v k)" for k
  proof (cases "k \<in> set changed \<and> readable rows k \<noteq> None")
    case True
    with mem [of k "readable rows k"] have "map_of evs k = Some (readable rows k)"
      by (simp add: map_of_Some_iff_mem [OF dist])
    with True show ?thesis by (simp add: seen_at [OF dist])
  next
    case False
    have "map_of evs k = None" using mem [of k] False map_of_SomeD [of evs k] by fastforce
    moreover have "(if k \<in> set changed \<and> readable rows k \<noteq> None then readable rows k else v k) = v k"
      using False by (rule if_not_P)
    ultimately show ?thesis by (simp only: seen_at [OF dist] option.case)
  qed
  have "stubs_of (seen evs v) k = cached c' k" for k
    using fun_cong [OF stubs_of_readable, of rows k] by (auto simp: stubs_of_def [of "seen _ _"] at new)
      (simp_all add: stubs_of_def)
  moreover have "seen evs v k = readable (seen evs v) k" for k
    using fun_cong [OF cv(2), of k] by (auto simp: readable_def at split: option.splits)
  ultimately show "coherent c' (seen evs v)" by (simp add: coherent_def fun_eq_iff)
qed

text \<open>The handlers in terms of these effects.\<close>

lemma runRelist_returns:
  assumes "scan_pages_ok cl tbl rows remaining" and "\<And>w. rows (snd (pcNow cl w)) = rows w"
  shows "\<exists>ok c' evs w'. runRelist cl tbl c w = Some ((ok, c', evs), w') \<and> rows w' = rows w \<and>
    (if ok then \<exists>full now diff. distinct (map fst full) \<and> map_of full = readable (rows w) \<and>
        ApplyRelist now (stubsOfItems full) c = (diff, c') \<and> evs = relist_changes full diff
     else c' = c \<and> evs = [])"
proof -
  from ScanAll_returns [OF assms(1), of w] obtain r w1 where s: "ScanAll cl tbl w = Some (r, w1)"
    "rows w1 = rows w" "\<forall>m. r = Inr m \<longrightarrow> distinct (map fst m) \<and> map_of m = readable (rows w)" by blast
  show ?thesis
  proof (cases r)
    case (Inl e)
    with s have "runRelist cl tbl c w = Some ((False, c, []), w1)" by (simp add: runRelist_def)
    with s show ?thesis by (intro exI [of _ False]) auto
  next
    case (Inr full)
    obtain now w2 where now: "pcNow cl w1 = (now, w2)" by fastforce
    obtain diff c' where a: "ApplyRelist now (stubsOfItems full) c = (diff, c')" by fastforce
    from assms(2) [of w1] now have "rows w2 = rows w" by (simp add: s(2))
    moreover have "runRelist cl tbl c w = Some ((True, c', relist_changes full diff), w2)"
      using s(1) Inr now a by (simp add: runRelist_def)
    moreover have "distinct (map fst full)" "map_of full = readable (rows w)" using s(3) Inr by simp_all
    ultimately show ?thesis using a
      by (intro exI [of _ True] exI [of _ c'] exI [of _ "relist_changes full diff"] exI [of _ w2])
        (unfold if_True, blast)
  qed
qed

lemma runFastPoll_cases:
  assumes "batch_ok cl tbl rows" and "query_ok cl tbl index remaining"
    and "\<And>w. rows (snd (pcNow cl w)) = rows w" and "\<And>w. index (snd (pcNow cl w)) = index w"
    and "\<And>s i st w. rows (snd (pcQuery cl tbl s i st w)) = rows w"
    and "runFastPoll cl tbl opts sched c w = Some ((c', evs), w')"
  obtains (quiet) "c' = c" and "evs = []"
  | (found) stubs fetched where "distinct (map fst stubs)" and "distinct (map fst fetched)"
      and "map_of stubs = stubs_of (items_in (\<Union>s<nat (shardCount opts). due_in (index w)
            (format_RFC3339Nano (fst (pcNow cl (snd (pcNow cl w)))
               - EffectiveLookback (fst (pcNow cl w)) (maxLookbackWindow opts) c)) s) (index w))"
      and "map_of fetched = read_keys (set (FindChanged c stubs)) (rows w)"
      and "c' = ApplyStubs (stubsOfItems fetched) c" and "evs = poll_changes (FindChanged c stubs) fetched"
proof -
  obtain t w1 where t: "pcNow cl w = (t, w1)" by fastforce
  obtain now w2 where now: "pcNow cl w1 = (now, w2)" by fastforce
  let ?since = "now - EffectiveLookback t (maxLookbackWindow opts) c"
  let ?n = "nat (shardCount opts)"
  have rows2: "rows w2 = rows w" using assms(3) [of w] assms(3) [of w1] t now by simp
  have step: "rows (qsWorld (queryShard cl tbl s i st)) = rows (qsWorld st)" for s i st
    using assms(5) [of "show_nat i" s _ "qsWorld st"]
    by (auto simp: queryShard_def split: shard_pc.splits prod.splits sum.splits)
      (metis snd_conv)+
  have fold: "rows (qsWorld (fold (queryShard cl tbl s) sched st)) = rows (qsWorld st)" for s sched st
    by (induction sched arbitrary: st) (simp_all add: step)
  from assms(6) t now obtain qr w3 where q: "QuerySince cl tbl ?since ?n sched w2 = Some (qr, w3)"
    by (auto simp: runFastPoll_def Let_def split: option.splits)
  then have "w3 = qsWorld (fold (queryShard cl tbl (format_RFC3339Nano ?since)) sched
      \<lparr>qsShards = replicate ?n (SRunning None), qsResults = [], qsWorld = w2\<rparr>)"
    by (auto simp: QuerySince_def Let_def split: if_splits option.splits)
  then have rows3: "rows w3 = rows w" by (simp add: fold rows2)
  show ?thesis
  proof (cases qr)
    case (Inl e)
    with assms(6) t now q quiet show ?thesis by (simp add: runFastPoll_def)
  next
    case (Inr stubs)
    have "index w2 = index w" using assms(4) [of w] assms(4) [of w1] t now by simp
    with q Inr QuerySince_exact [OF assms(2)] have d: "distinct (map fst stubs)"
      and m: "map_of stubs = stubs_of (items_in (\<Union>s<?n. due_in (index w)
            (format_RFC3339Nano ?since) s) (index w))" by (metis, metis)
    show ?thesis
    proof (cases "FindChanged c stubs = []")
      case True
      with assms(6) t now q Inr quiet show ?thesis by (simp add: runFastPoll_def)
    next
      case False
      obtain br w4 where b: "BatchGetItems cl tbl (FindChanged c stubs) w3 = (br, w4)" by fastforce
      show ?thesis
      proof (cases br)
        case (Inl e)
        with assms(6) t now q Inr False b quiet show ?thesis by (simp add: runFastPoll_def)
      next
        case br: (Inr fetched)
        from BatchGetItems_result(2) [OF assms(1) b br] have "distinct (map fst fetched)"
          "map_of fetched = read_keys (set (FindChanged c stubs)) (rows w)" by (simp_all add: rows3)
        with assms(6) t now q Inr False b br found [OF d] m show ?thesis by (simp add: runFastPoll_def)
      qed
    qed
  qed
qed

section \<open>Both loops at once\<close>

text \<open>
  The state that the two goroutines share, and where each of them is. What a scan, a query or a batch
  read returns is left open (the table changes in between); it is only known that the items are filed
  under their own identifiers.
\<close>

datatype relist_pc =
    RIdle
  | RScanned items
  | REmit "change list"

datatype poll_pc =
    PIdle
  | PQueried stubs
  | PFetched "string list" items
  | PEmit "change list"

record watch_state =
  wsCache :: StubCache
  wsRelist :: relist_pc
  wsPoll :: poll_pc
  wsEmitted :: "change list"

definition start_watch :: watch_state where
  "start_watch = \<lparr>wsCache = newCache, wsRelist = RIdle, wsPoll = PIdle, wsEmitted = []\<rparr>"

definition items_ok :: "items \<Rightarrow> bool" where
  "items_ok its \<longleftrightarrow> distinct (map fst its) \<and>
     (\<forall>k it. (k, it) \<in> set its \<longrightarrow> extractDocumentIDAndUpdateTime it \<noteq> None)"

inductive watch_step :: "watch_state \<Rightarrow> watch_state \<Rightarrow> bool" where
  relist_scan: "wsRelist s = RIdle \<Longrightarrow> items_ok full \<Longrightarrow> watch_step s (s\<lparr>wsRelist := RScanned full\<rparr>)"
| relist_apply: "wsRelist s = RScanned full \<Longrightarrow>
     ApplyRelist now (stubsOfItems full) (wsCache s) = (diff, c') \<Longrightarrow>
     watch_step s (s\<lparr>wsCache := c', wsRelist := REmit (relist_changes full diff)\<rparr>)"
| relist_emit: "wsRelist s = REmit (e # es) \<Longrightarrow>
     watch_step s (s\<lparr>wsRelist := REmit es, wsEmitted := wsEmitted s @ [e]\<rparr>)"
| relist_end: "wsRelist s = REmit [] \<Longrightarrow> watch_step s (s\<lparr>wsRelist := RIdle\<rparr>)"
| poll_query: "wsPoll s = PIdle \<Longrightarrow> distinct (map fst stubs) \<Longrightarrow> watch_step s (s\<lparr>wsPoll := PQueried stubs\<rparr>)"
| poll_fetch: "wsPoll s = PQueried stubs \<Longrightarrow> changed = FindChanged (wsCache s) stubs \<Longrightarrow>
     items_ok fetched \<Longrightarrow> fst ` set fetched \<subseteq> set changed \<Longrightarrow>
     watch_step s (s\<lparr>wsPoll := PFetched changed fetched\<rparr>)"
| poll_abort: "wsPoll s = PQueried stubs \<Longrightarrow> watch_step s (s\<lparr>wsPoll := PIdle\<rparr>)"
| poll_apply: "wsPoll s = PFetched changed fetched \<Longrightarrow>
     watch_step s (s\<lparr>wsCache := ApplyStubs (stubsOfItems fetched) (wsCache s),
       wsPoll := PEmit (poll_changes changed fetched)\<rparr>)"
| poll_emit: "wsPoll s = PEmit (e # es) \<Longrightarrow>
     watch_step s (s\<lparr>wsPoll := PEmit es, wsEmitted := wsEmitted s @ [e]\<rparr>)"
| poll_end: "wsPoll s = PEmit [] \<Longrightarrow> watch_step s (s\<lparr>wsPoll := PIdle\<rparr>)"

inductive watch_reachable :: "watch_state \<Rightarrow> bool" where
  watch_start: "watch_reachable start_watch"
| watch_next: "watch_reachable s \<Longrightarrow> watch_step s t \<Longrightarrow> watch_reachable t"

definition pending :: "watch_state \<Rightarrow> change list" where
  "pending s = (case wsRelist s of REmit es \<Rightarrow> es | _ \<Rightarrow> []) @ (case wsPoll s of PEmit es \<Rightarrow> es | _ \<Rightarrow> [])"

text \<open>
  The cache never claims what was not handed over: for each entry, a callback with that document and
  that update time has been made or is about to be.
\<close>

definition announced :: "change list \<Rightarrow> string \<Rightarrow> gtime \<Rightarrow> bool" where
  "announced evs k t \<longleftrightarrow> (\<exists>it. (k, Some it) \<in> set evs \<and> stub_of it = Some t)"

definition watch_inv :: "watch_state \<Rightarrow> bool" where
  "watch_inv s \<longleftrightarrow> cache_ok (wsCache s) \<and>
     (\<forall>full. wsRelist s = RScanned full \<longrightarrow> items_ok full) \<and>
     (\<forall>stubs. wsPoll s = PQueried stubs \<longrightarrow> distinct (map fst stubs)) \<and>
     (\<forall>changed fetched. wsPoll s = PFetched changed fetched \<longrightarrow>
        items_ok fetched \<and> fst ` set fetched \<subseteq> set changed) \<and>
     (\<forall>k t. cached (wsCache s) k = Some t \<longrightarrow> announced (wsEmitted s @ pending s) k t) \<and>
     (case wsPoll s of PEmit es \<Rightarrow> (\<forall>e\<in>set es. snd e \<noteq> None) | _ \<Rightarrow> True)"

inductive_cases watch_stepE: "watch_step s t"

lemma announced_mono: "announced a k t \<Longrightarrow> set a \<subseteq> set b \<Longrightarrow> announced b k t"
  by (auto simp: announced_def)

lemma relist_announces:
  assumes "cache_ok c" and "items_ok full" and "ApplyRelist now (stubsOfItems full) c = (diff, c')"
    and "cached c' k = Some t"
  shows "cached c k = Some t \<or> announced (relist_changes full diff) k t"
proof -
  obtain added modified deleted where diff: "diff = (added, modified, deleted)" by (cases diff) auto
  have d: "distinct (map fst full)" using assms(2) by (simp add: items_ok_def)
  note eff = ApplyRelist_effect [OF assms(1) distinct_stubsOfItems [OF d] assms(3) [unfolded diff]]
  from assms(4) eff(5) obtain it where it: "map_of full k = Some it" "stub_of it = Some t"
    by (auto simp: stubsOfItems_map [OF d] split: option.splits)
  show ?thesis
  proof (cases "cached c k = Some t")
    case False
    with eff(1) [of k] eff(2) [of k] it have "k \<in> set added \<or> k \<in> set modified"
      by (auto simp: stubsOfItems_map [OF d])
    then have "(k, Some it) \<in> set (relist_changes full diff)"
      using it(1) by (auto simp: relist_changes_def diff image_iff)
    with it(2) show ?thesis unfolding announced_def by blast
  qed simp
qed

lemma poll_announces:
  assumes "items_ok fetched" and "fst ` set fetched \<subseteq> set changed"
    and "cached (ApplyStubs (stubsOfItems fetched) c) k = Some t"
  shows "cached c k = Some t \<or> announced (poll_changes changed fetched) k t"
proof -
  have d: "distinct (map fst fetched)" using assms(1) by (simp add: items_ok_def)
  from assms(3) consider "cached c k = Some t" | it where "map_of fetched k = Some it" "stub_of it = Some t"
    by (auto simp: cached_ApplyStubs [OF distinct_stubsOfItems [OF d]] map_add_def
        stubsOfItems_map [OF d] split: option.splits)
  then show ?thesis
  proof cases
    case 2
    then have "k \<in> set changed" using map_of_SomeD [OF 2(1)] assms(2) by force
    then have "(k, Some it) \<in> set (poll_changes changed fetched)"
      using 2(1) by (auto simp: poll_changes_def split: option.splits)
    with 2(2) show ?thesis unfolding announced_def by blast
  qed simp
qed

lemma watch_inv_start: "watch_inv start_watch"
  by (simp add: watch_inv_def start_watch_def)

lemma watch_inv_step:
  assumes "watch_inv s" and "watch_step s t"
  shows "watch_inv t"
proof -
  note I = assms(1) [unfolded watch_inv_def]
  have ann: "cached (wsCache s) k = Some x \<Longrightarrow> announced (wsEmitted s @ pending s) k x" for k x
    using I by blast
  have emit: "watch_inv t" if "wsCache t = wsCache s" "set (wsEmitted s @ pending s) \<subseteq> set (wsEmitted t @ pending t)"
    "\<forall>full. wsRelist t = RScanned full \<longrightarrow> items_ok full"
    "\<forall>stubs. wsPoll t = PQueried stubs \<longrightarrow> distinct (map fst stubs)"
    "\<forall>changed fetched. wsPoll t = PFetched changed fetched \<longrightarrow> items_ok fetched \<and> fst ` set fetched \<subseteq> set changed"
    "case wsPoll t of PEmit es \<Rightarrow> (\<forall>e\<in>set es. snd e \<noteq> None) | _ \<Rightarrow> True"
    using that I ann announced_mono [OF _ that(2)] unfolding watch_inv_def by simp
  from assms(2) show ?thesis
  proof (cases rule: watch_step.cases)
    case (relist_apply full now diff c')
    have full: "items_ok full" "cache_ok (wsCache s)" using I relist_apply by blast+
    then have "distinct (map fst (stubsOfItems full))" by (simp add: items_ok_def distinct_stubsOfItems)
    moreover obtain a m d where "diff = (a, m, d)" by (cases diff) auto
    ultimately have "cache_ok c'" using ApplyRelist_effect(6) [OF full(2)] relist_apply by blast
    moreover have grow: "set (wsEmitted s @ pending s) \<subseteq> set (wsEmitted t @ pending t)"
      "set (relist_changes full diff) \<subseteq> set (wsEmitted t @ pending t)"
      using relist_apply by (auto simp: pending_def)
    have "announced (wsEmitted t @ pending t) k x" if "cached c' k = Some x" for k x
      using relist_announces [OF full(2,1) relist_apply(3) that] ann [of k x]
        announced_mono [OF _ grow(1)] announced_mono [OF _ grow(2)] by blast
    ultimately show ?thesis using I relist_apply by (simp add: watch_inv_def)
  next
    case (poll_apply changed fetched)
    have f: "items_ok fetched" "fst ` set fetched \<subseteq> set changed" using I poll_apply by blast+
    have grow: "set (wsEmitted s @ pending s) \<subseteq> set (wsEmitted t @ pending t)"
      "set (poll_changes changed fetched) \<subseteq> set (wsEmitted t @ pending t)"
      using poll_apply by (auto simp: pending_def)
    have "wsCache t = ApplyStubs (stubsOfItems fetched) (wsCache s)" using poll_apply by simp
    then have "announced (wsEmitted t @ pending t) k x" if "cached (wsCache t) k = Some x" for k x
      using poll_announces [OF f, of "wsCache s" k x] that ann [of k x]
        announced_mono [OF _ grow(1)] announced_mono [OF _ grow(2)] by auto
    moreover have "\<forall>e\<in>set (poll_changes changed fetched). snd e \<noteq> None"
      by (auto simp: poll_changes_def split: option.splits)
    ultimately show ?thesis using I poll_apply by (simp add: watch_inv_def ApplyStubs_ok)
  qed (rule emit; insert I; auto simp: pending_def split: poll_pc.splits)+
qed

lemma watch_reachable_inv: "watch_reachable s \<Longrightarrow> watch_inv s"
  by (induction rule: watch_reachable.induct) (blast intro: watch_inv_start watch_inv_step)+

end
