(* ===== verification/Informers.thy ===== *)
theory Informers
  imports Watcher DbClient ApplyDesireCtl
begin

text \<open>
  \<open>internal/database/informers\<close> and \<open>internal/database/listers\<close>: how the two informers are put together from
  a list on the specs table and a watch adapter on the same table, and the typed reads of their indexers.
  A \<open>*dynamodb.Client\<close> is both views of it that the code uses, the one of the tables and the one of the
  watcher. client-go is a parameter: \<open>informer_lib\<close> is what a shared informer does to its store, and
  \<open>informer_ok\<close> states the documented effect: a list replaces the store, a Modified event stores the object
  under its key, a Deleted event removes the key. The key of a desire is the name in its object metadata.
\<close>

section \<open>List and watch\<close>

record 'w sdk_client =
  sdkTables :: "'w dynamo_client"
  sdkPoll :: "'w poll_client"

record ('w, 'd) watch_adapter =
  waClient :: "'w poll_client"
  waTable :: string
  waOptions :: watch_options
  waDecode :: "item \<Rightarrow> go_error + 'd"
  waResultCh :: "'d watch_event list"

definition NewWatchAdapter ::
  "'w sdk_client \<Rightarrow> string \<Rightarrow> watch_options \<Rightarrow> (item \<Rightarrow> go_error + 'd) \<Rightarrow> ('w, 'd) watch_adapter" where
  "NewWatchAdapter client tableName opts decodeFn =
     \<lparr>waClient = sdkPoll client, waTable = tableName, waOptions = opts, waDecode = decodeFn, waResultCh = []\<rparr>"

record ('w, 'd) desire_informer =
  diList :: "'w \<Rightarrow> ((go_error + 'd list) \<times> 'w) option"
  diWatch :: "('w, 'd) watch_adapter"
  diResyncPeriod :: duration

definition newDesireInformer ::
  "'w sdk_client \<Rightarrow> string \<Rightarrow> ('w \<Rightarrow> ((go_error + 'd list) \<times> 'w) option) \<Rightarrow> (item \<Rightarrow> go_error + 'd)
     \<Rightarrow> duration \<Rightarrow> watch_options \<Rightarrow> ('w, 'd) desire_informer" where
  "newDesireInformer dbClient tableName listFn decodeFn resyncPeriod watcherOpts =
     \<lparr>diList = listFn, diWatch = NewWatchAdapter dbClient tableName watcherOpts decodeFn,
      diResyncPeriod = resyncPeriod\<rparr>"

definition ItemToApplyDesire :: "ApplyDesire attributevalue_codec \<Rightarrow> json_lib \<Rightarrow> item \<Rightarrow> go_error + ApplyDesire" where
  "ItemToApplyDesire ac J item = itemToDesire ac J ApplyDesire_accessor item"

definition ItemToReadDesire :: "ReadDesire attributevalue_codec \<Rightarrow> json_lib \<Rightarrow> item \<Rightarrow> go_error + ReadDesire" where
  "ItemToReadDesire rc J item = itemToDesire rc J ReadDesire_accessor item"

record 'w kubeApplierInformers =
  kiApply :: "('w, ApplyDesire) desire_informer"
  kiRead :: "('w, ReadDesire) desire_informer"

definition DefaultResyncPeriod :: duration where "DefaultResyncPeriod = 30 * second"

text \<open>The list functions build a client on the specs tables for both of its slots and list its spec reader.\<close>

definition specs_db ::
  "ApplyDesire attributevalue_codec \<Rightarrow> ReadDesire attributevalue_codec \<Rightarrow> json_lib \<Rightarrow> 'w sdk_client \<Rightarrow> string
     \<Rightarrow> 'w KubeApplierDBClient" where
  "specs_db ac rc J specs prefix = dynamo_db \<lparr>specsClient = sdkTables specs, statusClient = sdkTables specs,
     specsPrefix = prefix, statusPrefix = prefix, applyCodec = ac, readCodec = rc, dbJson = J\<rparr>"

definition NewKubeApplierInformersWithOptions ::
  "ApplyDesire attributevalue_codec \<Rightarrow> ReadDesire attributevalue_codec \<Rightarrow> json_lib
     \<Rightarrow> 'w sdk_client \<Rightarrow> string \<Rightarrow> duration \<Rightarrow> watch_options \<Rightarrow> 'w kubeApplierInformers" where
  "NewKubeApplierInformersWithOptions ac rc J specs prefix resyncPeriod watcherOpts =
     (let applyTable = prefix @ TableSuffixApplyDesires; readTable = prefix @ TableSuffixReadDesires
      in \<lparr>kiApply = newDesireInformer specs applyTable (srList (dbApplySpecs (specs_db ac rc J specs prefix)))
             (ItemToApplyDesire ac J) resyncPeriod watcherOpts,
          kiRead = newDesireInformer specs readTable (srList (dbReadSpecs (specs_db ac rc J specs prefix)))
             (ItemToReadDesire rc J) resyncPeriod watcherOpts\<rparr>)"

definition zero_watch_options :: watch_options where
  "zero_watch_options = \<lparr>PollInterval = 0, RelistInterval = 0, MaxLookbackWindow = 0, ShardCount = 0\<rparr>"

definition NewKubeApplierInformersWithResyncPeriod ::
  "ApplyDesire attributevalue_codec \<Rightarrow> ReadDesire attributevalue_codec \<Rightarrow> json_lib
     \<Rightarrow> 'w sdk_client \<Rightarrow> string \<Rightarrow> duration \<Rightarrow> 'w kubeApplierInformers" where
  "NewKubeApplierInformersWithResyncPeriod ac rc J specs prefix resyncPeriod =
     NewKubeApplierInformersWithOptions ac rc J specs prefix resyncPeriod zero_watch_options"

definition NewKubeApplierInformers ::
  "ApplyDesire attributevalue_codec \<Rightarrow> ReadDesire attributevalue_codec \<Rightarrow> json_lib
     \<Rightarrow> 'w sdk_client \<Rightarrow> string \<Rightarrow> 'w kubeApplierInformers" where
  "NewKubeApplierInformers ac rc J specs prefix =
     NewKubeApplierInformersWithResyncPeriod ac rc J specs prefix DefaultResyncPeriod"

section \<open>The store\<close>

text \<open>\<open>GetObjectMeta\<close> of \<open>api/kubeapplier/types_runtime.go\<close>: a name and nothing else.\<close>

record ObjectMeta = omName :: string  omNamespace :: string

definition GetObjectMeta :: "'a DynamoDBMetadata_scheme \<Rightarrow> ObjectMeta" where
  "GetObjectMeta o' = \<lparr>omName = DocumentID o', omNamespace = ''''\<rparr>"

record ('s, 'd) informer_lib =
  ilReplace :: "'d list \<Rightarrow> 's \<Rightarrow> 's"
  ilDeliver :: "'d watch_event \<Rightarrow> 's \<Rightarrow> 's"
  ilObject :: "'s \<Rightarrow> string \<Rightarrow> 'd option"

text \<open>client-go's \<open>MetaNamespaceKeyFunc\<close> on such metadata.\<close>

definition store_key :: "ObjectMeta \<Rightarrow> string" where
  "store_key m = (if omNamespace m = '''' then omName m else omNamespace m @ ''/'' @ omName m)"

lemma store_key_desire [simp]: "store_key (GetObjectMeta d) = DocumentID d"
  by (simp add: store_key_def GetObjectMeta_def)

definition informer_ok :: "('s, 'a DynamoDBMetadata_scheme) informer_lib \<Rightarrow> bool" where
  "informer_ok il \<longleftrightarrow>
     (\<forall>ds s. distinct (map DocumentID ds) \<longrightarrow>
        ilObject il (ilReplace il ds s) = map_of (map (\<lambda>d. (store_key (GetObjectMeta d), d)) ds)) \<and>
     (\<forall>d s. ilObject il (ilDeliver il (WatchModified d) s) = (ilObject il s)(store_key (GetObjectMeta d) \<mapsto> d)) \<and>
     (\<forall>d s. ilObject il (ilDeliver il (WatchDeleted d) s) = (ilObject il s)(store_key (GetObjectMeta d) := None))"

section \<open>Listers\<close>

record 'd indexer =
  ixList :: "'d informer_obj list"
  ixGetByKey :: "string \<Rightarrow> go_error + 'd informer_obj option"

text \<open>The type assertion; \<open>want\<close> and \<open>got\<close> are the type names that \<open>%T\<close> prints.\<close>

definition typed :: "string \<Rightarrow> ('d informer_obj \<Rightarrow> string) \<Rightarrow> 'd informer_obj \<Rightarrow> go_error + 'd" where
  "typed want got item =
     (case item of TypedObj d \<Rightarrow> Inr d
      | _ \<Rightarrow> Inl (ErrorString (''expected *'' @ want @ '', got '' @ got item)))"

fun listAllFrom :: "string \<Rightarrow> ('d informer_obj \<Rightarrow> string) \<Rightarrow> 'd informer_obj list \<Rightarrow> 'd list \<Rightarrow> go_error + 'd list" where
  "listAllFrom want got [] result = Inr result"
| "listAllFrom want got (item # items) result =
     (case typed want got item of Inl err \<Rightarrow> Inl err | Inr d \<Rightarrow> listAllFrom want got items (result @ [d]))"

definition listAll :: "string \<Rightarrow> ('d informer_obj \<Rightarrow> string) \<Rightarrow> 'd indexer \<Rightarrow> go_error + 'd list" where
  "listAll want got store = listAllFrom want got (ixList store) []"

definition getByKey :: "string \<Rightarrow> ('d informer_obj \<Rightarrow> string) \<Rightarrow> 'd indexer \<Rightarrow> string \<Rightarrow> go_error + 'd" where
  "getByKey want got ix key =
     (case ixGetByKey ix key of
        Inl err \<Rightarrow> Inl err
      | Inr None \<Rightarrow> Inl ErrNotFound
      | Inr (Some item) \<Rightarrow> typed want got item)"

text \<open>The two listers; \<open>%T\<close> prints the package and the type.\<close>

definition applyDesireLister_List :: "(ApplyDesire informer_obj \<Rightarrow> string) \<Rightarrow> ApplyDesire indexer \<Rightarrow> go_error + ApplyDesire list" where
  "applyDesireLister_List got ix = listAll ''kubeapplier.ApplyDesire'' got ix"

definition applyDesireLister_Get ::
  "(ApplyDesire informer_obj \<Rightarrow> string) \<Rightarrow> ApplyDesire indexer \<Rightarrow> string \<Rightarrow> go_error + ApplyDesire" where
  "applyDesireLister_Get got ix documentID = getByKey ''kubeapplier.ApplyDesire'' got ix documentID"

definition readDesireLister_List :: "(ReadDesire informer_obj \<Rightarrow> string) \<Rightarrow> ReadDesire indexer \<Rightarrow> go_error + ReadDesire list" where
  "readDesireLister_List got ix = listAll ''kubeapplier.ReadDesire'' got ix"

definition readDesireLister_Get ::
  "(ReadDesire informer_obj \<Rightarrow> string) \<Rightarrow> ReadDesire indexer \<Rightarrow> string \<Rightarrow> go_error + ReadDesire" where
  "readDesireLister_Get got ix documentID = getByKey ''kubeapplier.ReadDesire'' got ix documentID"

lemma listAllFrom_typed: "listAllFrom want got (map TypedObj ds) result = Inr (result @ ds)"
  by (induction ds arbitrary: result) (simp_all add: typed_def)

lemma listAll_complete: "ixList ix = map TypedObj ds \<Longrightarrow> listAll want got ix = Inr ds"
  by (simp add: listAll_def listAllFrom_typed)

lemma listAll_error: "listAll want got ix = Inl err \<Longrightarrow> \<exists>item \<in> set (ixList ix). \<nexists>d. item = TypedObj d"
proof -
  have "listAllFrom want got items result = Inl err \<Longrightarrow> \<exists>item \<in> set items. \<nexists>d. item = TypedObj d" for items result
    by (induction items arbitrary: result) (auto simp: typed_def split: informer_obj.splits)
  then show "listAll want got ix = Inl err \<Longrightarrow> ?thesis" by (simp add: listAll_def)
qed

section \<open>Running\<close>

text \<open>
  \<open>RunWithContext\<close>: it starts both informers, waits for its context and then for both of them. The flags say
  which informers run and whether it has passed \<open><-ctx.Done()\<close> and returned.
\<close>

record informers_run =
  irDone :: bool
  irApply :: bool
  irRead :: bool
  irWaits :: bool
  irReturned :: bool

definition start_informers :: informers_run where
  "start_informers = \<lparr>irDone = False, irApply = True, irRead = True, irWaits = False, irReturned = False\<rparr>"

inductive informers_step :: "informers_run \<Rightarrow> informers_run \<Rightarrow> bool" where
  "informers_step s (s\<lparr>irDone := True\<rparr>)"
| "informers_step s (s\<lparr>irApply := False\<rparr>)"
| "informers_step s (s\<lparr>irRead := False\<rparr>)"
| "irDone s \<Longrightarrow> informers_step s (s\<lparr>irWaits := True\<rparr>)"
| "irWaits s \<Longrightarrow> \<not> irApply s \<Longrightarrow> \<not> irRead s \<Longrightarrow> informers_step s (s\<lparr>irReturned := True\<rparr>)"

text \<open>It does not return before its context is done and both informers are over.\<close>

lemma informers_return:
  assumes "informers_step\<^sup>*\<^sup>* start_informers s" and "irReturned s"
  shows "irDone s \<and> \<not> irApply s \<and> \<not> irRead s"
proof -
  have "(irWaits s \<longrightarrow> irDone s) \<and> (irReturned s \<longrightarrow> irWaits s \<and> \<not> irApply s \<and> \<not> irRead s)"
    using assms(1)
  proof (induction rule: rtranclp_induct)
    case base
    show ?case by (simp add: start_informers_def)
  next
    case (step t u)
    from step(2,3) show ?case by (cases rule: informers_step.cases) auto
  qed
  with assms(2) show ?thesis by blast
qed

end
