(* ===== verification/WatcherClaims.thy ===== *)
theory WatcherClaims
  imports Watcher
begin

text \<open>
  The properties of the watcher and its adapter, with a table that does not change as the sample on
  which the witnesses run.
\<close>

section \<open>A table that does not change\<close>

definition item_at :: "string \<Rightarrow> string \<Rightarrow> string \<Rightarrow> item" where
  "item_at k shard t = [''documentID'' \<mapsto> AV_S k, ''shard'' \<mapsto> AV_S shard, ''updateTime'' \<mapsto> AV_S t]"

definition requested :: "items \<Rightarrow> item \<Rightarrow> item list" where
  "requested its key = (case key ''documentID'' of
     Some (AV_S k) \<Rightarrow> (case map_of its k of None \<Rightarrow> [] | Some it \<Rightarrow> [it]) | _ \<Rightarrow> [])"

definition static_client :: "items \<Rightarrow> unit poll_client" where
  "static_client its = \<lparr>pcScan = (\<lambda>tbl start w. (Inr (map snd its, None), w)),
     pcQuery = (\<lambda>tbl shard since start w. (Inr (filter (due shard since) (map snd its), None), w)),
     pcBatchGetItem = (\<lambda>req w. (Inr (map (\<lambda>(tbl, keys). (tbl, concat (map (requested its) keys))) req, []), w)),
     pcWait = (\<lambda>d w. (None, w)), pcNow = (\<lambda>w. (63839600000 * second, w))\<rparr>"

definition static_ok :: "items \<Rightarrow> bool" where
  "static_ok its \<longleftrightarrow> distinct (map fst its) \<and> keyed (map_of its)"

lemma static_ran: "static_ok its \<Longrightarrow> ran (map_of its) = set (map snd its)"
  by (force simp: static_ok_def ran_def map_of_Some_iff_mem image_iff)

lemma static_scan_ok:
  "static_ok its \<Longrightarrow> scan_pages_ok (static_client its) tbl (\<lambda>w. map_of its) (\<lambda>w start. map snd its)"
  using static_ran [of its] by (auto simp: scan_pages_ok_def pages_ok_def static_client_def static_ok_def)

lemma static_query_ok:
  "static_ok its \<Longrightarrow> query_ok (static_client its) tbl (\<lambda>w. map_of its)
     (\<lambda>shard since w start. filter (due shard since) (map snd its))"
  using static_ran [of its] by (auto simp: query_ok_def static_client_def static_ok_def)

lemma static_batch_ok: "static_ok its \<Longrightarrow> batch_ok (static_client its) tbl (\<lambda>w. map_of its)"
  by (auto simp: batch_ok_def static_client_def static_ok_def requested_def document_key_def
      intro!: exI [of _ "[]"] split: option.splits)

definition sample_items :: items where
  "sample_items = [(''a'', item_at ''a'' ''0'' ''2024-01-01T00:00:00Z''),
     (''b'', item_at ''b'' ''1'' ''2024-01-01T00:00:01Z'')]"

lemma sample_items_ok: "static_ok sample_items"
  by (auto simp: static_ok_def sample_items_def keyed_def item_at_def split: if_splits)

lemma sample_stubs:
  "stubs_of (map_of sample_items) = [''a'' \<mapsto> 63839664000 * second, ''b'' \<mapsto> 63839664001 * second]"
proof -
  have "parse_RFC3339 ''2024-01-01T00:00:00Z'' = Some (63839664000 * second)"
    "parse_RFC3339 ''2024-01-01T00:00:01Z'' = Some (63839664001 * second)" by code_simp+
  then show ?thesis
    by (auto simp: fun_eq_iff stubs_of_def sample_items_def stub_of_def extractDocumentIDAndUpdateTime_def
        item_at_def)
qed

section \<open>The relist\<close>

text \<open>
  C18: a relist brings the consumer up to date: it always ends, and when its scan succeeds it makes
  exactly one callback for each document whose update time in the table differs from the one last
  handed over, with the item, or with nil for a document that is gone; after it the cache and the
  consumer agree with the table on every update time.
\<close>

theorem relist_syncs:
  assumes "scan_pages_ok cl tbl rows remaining" and "\<And>w. rows (snd (pcNow cl w)) = rows w"
    and "cache_ok c" and "coherent c v"
  shows "\<exists>ok c' evs w'. runRelist cl tbl c w = Some ((ok, c', evs), w') \<and>
    (if ok
     then distinct (map fst evs) \<and>
       (\<forall>k x. (k, x) \<in> set evs \<longleftrightarrow> stubs_of v k \<noteq> stubs_of (rows w) k \<and> x = readable (rows w) k) \<and>
       cached c' = stubs_of (rows w) \<and> coherent c' (seen evs v) \<and> cache_ok c'
     else c' = c \<and> evs = [])"
proof -
  from runRelist_returns [OF assms(1,2), of c w] obtain ok c' evs w' where
    r: "runRelist cl tbl c w = Some ((ok, c', evs), w')"
    and res: "if ok then \<exists>full now diff. distinct (map fst full) \<and> map_of full = readable (rows w) \<and>
        ApplyRelist now (stubsOfItems full) c = (diff, c') \<and> evs = relist_changes full diff
      else c' = c \<and> evs = []" by blast
  show ?thesis
  proof (cases ok)
    case True
    with res obtain full now diff where "distinct (map fst full)" "map_of full = readable (rows w)"
      "ApplyRelist now (stubsOfItems full) c = (diff, c')" and evs: "evs = relist_changes full diff" by auto
    note eff = relist_effect [OF assms(3,4) this(1-3)]
    show ?thesis
      by (intro exI conjI, rule r) (use True eff in \<open>auto simp: evs\<close>)
  next
    case False
    with res have "c' = c" "evs = []" by simp_all
    with r False show ?thesis
      by (intro exI [of _ ok] exI [of _ c'] exI [of _ evs] exI [of _ w']) simp
  qed
qed

lemma coherent_new: "coherent newCache Map.empty"
  by (simp add: coherent_def fun_eq_iff stubs_of_def readable_def)

lemma relist_syncs_witness:
  "\<exists>c' evs w'. runRelist (static_client sample_items) ''t'' newCache () = Some ((True, c', evs), w') \<and>
     cached c' = [''a'' \<mapsto> 63839664000 * second, ''b'' \<mapsto> 63839664001 * second] \<and> distinct (map fst evs)"
proof -
  have now: "\<And>w :: unit. (\<lambda>w. map_of sample_items) (snd (pcNow (static_client sample_items) w)) =
      (\<lambda>w. map_of sample_items) w" by simp
  have "\<exists>m w'. ScanAll (static_client sample_items) ''t'' () = Some (Inr m, w')"
    by (simp add: ScanAll_def scanAllFrom.simps static_client_def)
  then have "\<exists>c' evs w'. runRelist (static_client sample_items) ''t'' newCache () = Some ((True, c', evs), w')"
    by (auto simp: runRelist_def split: prod.split)
  with relist_syncs [OF static_scan_ok [OF sample_items_ok] now newCache_simps(1) coherent_new, of "''t''" "()"]
  show ?thesis by (auto simp: sample_stubs)
qed

text \<open>
  C38: what the adapter drops is lost: when its channel is full, all callbacks of a relist leave it as
  it is, and as long as the table does not change no later relist makes any callback, because the cache
  already holds the new update times. The relist is no safety net for dropped events.
\<close>

theorem dropped_events_lost:
  assumes "scan_pages_ok cl tbl rows remaining" and "\<And>w. rows (snd (pcNow cl w)) = rows w"
    and "cache_ok c" and "coherent c v"
    and "runRelist cl tbl c w = Some ((True, c1, evs1), w1)" and "length ch = resultCap"
    and "rows w2 = rows w" and "runRelist cl tbl c1 w2 = Some ((ok, c2, evs2), w3)"
  shows "fold (adapter_onChange decodeFn partial) evs1 ch = ch \<and> evs2 = []"
proof
  have "adapter_onChange decodeFn partial e ch = ch" for e
    using assms(6) by (auto simp: adapter_onChange_def Let_def split: option.split sum.split prod.split)
  then show "fold (adapter_onChange decodeFn partial) evs1 ch = ch"
    by (induction evs1) simp_all
  from runRelist_returns [OF assms(1,2), of c w] assms(5) obtain full now diff where
    "distinct (map fst full)" "map_of full = readable (rows w)"
    "ApplyRelist now (stubsOfItems full) c = (diff, c1)" "evs1 = relist_changes full diff" by auto
  note eff = relist_effect [OF assms(3,4) this(1-3)]
  from runRelist_returns [OF assms(1,2), of c1 w2] assms(8)
  consider "evs2 = []" | full2 now2 diff2 where "distinct (map fst full2)" "map_of full2 = readable (rows w2)"
    "ApplyRelist now2 (stubsOfItems full2) c1 = (diff2, c2)" "evs2 = relist_changes full2 diff2"
    by (cases ok) auto
  then show "evs2 = []"
  proof cases
    case 2
    have "stubs_of (seen (relist_changes full diff) v) = stubs_of (rows w2)"
      using eff(3,6) assms(7) by (simp add: coherent_def)
    then have "(k, x) \<notin> set evs2" for k x
      using relist_effect(2) [OF eff(4,6) 2(1-3), of k x] 2(4) by simp
    then show ?thesis by (cases evs2) auto
  qed
qed

lemma dropped_events_lost_witness:
  "\<exists>c1 evs1 w1. runRelist (static_client sample_items) ''t'' newCache () = Some ((True, c1, evs1), w1) \<and>
     fold (adapter_onChange (\<lambda>it. Inr it) document_key) evs1 (replicate 100 (WatchModified (item_at ''x'' ''0'' ''t'')))
       = replicate 100 (WatchModified (item_at ''x'' ''0'' ''t'')) \<and>
     (\<exists>ok c2 w2. runRelist (static_client sample_items) ''t'' c1 () = Some ((ok, c2, []), w2))"
proof -
  have now: "\<And>w :: unit. (\<lambda>w. map_of sample_items) (snd (pcNow (static_client sample_items) w)) =
      (\<lambda>w. map_of sample_items) w" by simp
  from relist_syncs_witness obtain c1 evs1 w1 where
    r1: "runRelist (static_client sample_items) ''t'' newCache () = Some ((True, c1, evs1), w1)" by blast
  from runRelist_returns [OF static_scan_ok [OF sample_items_ok] now, of "''t''" c1 "()"] obtain ok c2 evs2 w2
    where r2: "runRelist (static_client sample_items) ''t'' c1 () = Some ((ok, c2, evs2), w2)" by blast
  have "length (replicate 100 (WatchModified (item_at ''x'' ''0'' ''t''))) = resultCap"
    by (simp add: resultCap_def)
  from dropped_events_lost [OF static_scan_ok [OF sample_items_ok] now newCache_simps(1) coherent_new r1 this
      refl r2, of "\<lambda>it. Inr it" document_key] r1 r2
  show ?thesis by auto
qed

text \<open>
  The loop closes its done channel at most once, whatever the number of relists and their outcomes
  (a second close would panic), and exactly when one of them has succeeded.
\<close>

theorem done_closed_once:
  assumes "relistLoop cl tbl ticks newLoop w = Some ((l, evs), w')"
  shows "rlCloses l \<le> 1 \<and> (rlFirst l \<longleftrightarrow> rlCloses l = 0)"
proof -
  have turn: "rlCloses l' \<le> 1 \<and> (rlFirst l' \<longleftrightarrow> rlCloses l' = 0)"
    if "relist_turn cl tbl l w = Some ((l', evs), w')" "rlCloses l \<le> 1" "rlFirst l \<longleftrightarrow> rlCloses l = 0"
    for l w l' evs w'
    using that by (auto simp: relist_turn_def Let_def split: option.splits if_splits)
  have "rlCloses l' \<le> 1 \<and> (rlFirst l' \<longleftrightarrow> rlCloses l' = 0)"
    if "relistLoop cl tbl n l w = Some ((l', evs), w')" "rlCloses l \<le> 1" "rlFirst l \<longleftrightarrow> rlCloses l = 0"
    for n l w l' evs w'
    using that
  proof (induction n arbitrary: l w evs)
    case 0
    from turn [OF 0(1) [unfolded relistLoop.simps] 0(2,3)] show ?case .
  next
    case (Suc n)
    from Suc.prems(1) obtain l1 e1 w1 e2 where t: "relist_turn cl tbl l w = Some ((l1, e1), w1)"
      and r: "relistLoop cl tbl n l1 w1 = Some ((l', e2), w')"
      by (auto split: option.splits)
    note t1 = turn [OF t Suc.prems(2,3)]
    show ?case by (rule Suc.IH [OF r conjunct1 [OF t1] conjunct2 [OF t1]])
  qed
  from this [OF assms] show ?thesis by (simp add: newLoop_def)
qed

lemma done_closed_once_witness:
  "\<exists>l evs w. relistLoop (static_client sample_items) ''t'' 1 newLoop () = Some ((l, evs), w) \<and> rlCloses l \<le> 1"
proof -
  have now: "\<And>w :: unit. (\<lambda>w. map_of sample_items) (snd (pcNow (static_client sample_items) w)) =
      (\<lambda>w. map_of sample_items) w" by simp
  have turn: "\<exists>l' evs w'. relist_turn (static_client sample_items) ''t'' l () = Some ((l', evs), w')" for l
    using runRelist_returns [OF static_scan_ok [OF sample_items_ok] now, of "''t''" "rlCache l" "()"]
    by (auto simp: relist_turn_def Let_def)
  from turn [of newLoop] obtain l1 evs1 where
    t1: "relist_turn (static_client sample_items) ''t'' newLoop () = Some ((l1, evs1), ())" by auto
  from turn [of l1] obtain l2 evs2 where
    t2: "relist_turn (static_client sample_items) ''t'' l1 () = Some ((l2, evs2), ())" by auto
  from t1 t2 have "relistLoop (static_client sample_items) ''t'' 1 newLoop () = Some ((l2, evs1 @ evs2), ())"
    by (simp add: One_nat_def)
  with done_closed_once [OF this] show ?thesis by blast
qed

section \<open>The fast poll\<close>



text \<open>
  The lookback of a fast poll is never negative and never longer than the cap, which is never longer
  than the relist interval; while the last relist is within the cap, the window starts exactly at it.
\<close>

theorem lookback_window:
  assumes "\<And>relisted. scLastRelistAt c = Some relisted \<Longrightarrow> relisted \<le> now"
  shows "0 \<le> EffectiveLookback now (maxLookbackWindow opts) c \<and>
    EffectiveLookback now (maxLookbackWindow opts) c \<le> maxLookbackWindow opts \<and>
    0 < maxLookbackWindow opts \<and> maxLookbackWindow opts \<le> relistInterval opts \<and>
    (\<forall>relisted. scLastRelistAt c = Some relisted \<and> now - relisted \<le> maxLookbackWindow opts \<longrightarrow>
       now - EffectiveLookback now (maxLookbackWindow opts) c = relisted)"
proof -
  have pos: "0 < relistInterval opts" by (simp add: relistInterval_def DefaultRelistInterval_def)
  then have cap: "0 < maxLookbackWindow opts" "maxLookbackWindow opts \<le> relistInterval opts"
    by (auto simp: maxLookbackWindow_def Let_def)
  then have "0 \<le> maxLookbackWindow opts" by simp
  from EffectiveLookback_bounds [OF this assms] cap EffectiveLookback_since
  show ?thesis by blast
qed

lemma lookback_window_witness:
  "EffectiveLookback (10 * second) (maxLookbackWindow \<lparr>PollInterval = 0, RelistInterval = 0,
     MaxLookbackWindow = 0, ShardCount = 0\<rparr>) \<lparr>scItems = [], scLastRelistAt = Some (4 * second)\<rparr> = 6 * second"
  using lookback_window [of "\<lparr>scItems = [], scLastRelistAt = Some (4 * second)\<rparr>" "10 * second"
      "\<lparr>PollInterval = 0, RelistInterval = 0, MaxLookbackWindow = 0, ShardCount = 0\<rparr>"]
  by (simp add: maxLookbackWindow_def relistInterval_def DefaultRelistInterval_def)

text \<open>
  The shards may be queried in any order and interleaving: the query can always be run to its end,
  and two runs that end without an error return the same stubs.
\<close>

theorem query_any_order:
  assumes "query_ok cl tbl index remaining"
  shows "(\<exists>sched r. QuerySince cl tbl since n sched w = Some r) \<and>
    (\<forall>sched1 sched2 m1 m2 w1 w2. QuerySince cl tbl since n sched1 w = Some (Inr m1, w1) \<longrightarrow>
       QuerySince cl tbl since n sched2 w = Some (Inr m2, w2) \<longrightarrow> map_of m1 = map_of m2)"
  using QuerySince_returns [OF assms] QuerySince_exact [OF assms] by (metis (no_types))

lemma query_any_order_witness:
  "\<exists>sched r. QuerySince (static_client sample_items) ''t'' (63839600000 * second) 16 sched () = Some r"
  using query_any_order [OF static_query_ok [OF sample_items_ok], of "''t''" "63839600000 * second" 16 "()"]
  by blast



section \<open>Both loops at once\<close>

text \<open>
  C20: in every interleaving of the relist loop and the poll loop, an update time in the cache is one that
  some callback has handed over, or is about to: no document is marked as seen without its callback.
\<close>

theorem watch_announces:
  assumes "watch_reachable s" and "cached (wsCache s) k = Some t"
  shows "announced (wsEmitted s @ pending s) k t"
  using watch_reachable_inv [OF assms(1)] assms(2) unfolding watch_inv_def by blast

text \<open>
  The run in which the poll overtakes the callbacks of a relist: the relist has put an old item in the
  cache but not yet handed it over when the poll finds, applies and hands over the new one.
\<close>

definition old_item :: item where "old_item = item_at ''a'' ''0'' ''2024-01-01T00:00:00Z''"
definition new_item :: item where "new_item = item_at ''a'' ''0'' ''2024-01-01T00:00:01Z''"

lemma race_times: "extractDocumentIDAndUpdateTime old_item = Some (''a'', 63839664000 * second)"
  "extractDocumentIDAndUpdateTime new_item = Some (''a'', 63839664001 * second)"
proof -
  have "parse_RFC3339 ''2024-01-01T00:00:00Z'' = Some (63839664000 * second)"
    "parse_RFC3339 ''2024-01-01T00:00:01Z'' = Some (63839664001 * second)" by code_simp+
  then show "extractDocumentIDAndUpdateTime old_item = Some (''a'', 63839664000 * second)"
    "extractDocumentIDAndUpdateTime new_item = Some (''a'', 63839664001 * second)"
    by (simp_all add: extractDocumentIDAndUpdateTime_def old_item_def new_item_def item_at_def)
qed

definition race_state :: "stubs \<Rightarrow> relist_pc \<Rightarrow> poll_pc \<Rightarrow> change list \<Rightarrow> watch_state" where
  "race_state items r p evs = \<lparr>wsCache = \<lparr>scItems = items, scLastRelistAt = Some 0\<rparr>,
     wsRelist = r, wsPoll = p, wsEmitted = evs\<rparr>"

lemma reached: "watch_reachable s \<Longrightarrow> watch_step s t' \<Longrightarrow> t' = t \<Longrightarrow> watch_reachable t"
  by (blast intro: watch_next)

lemma race_run:
  "watch_reachable (race_state [(''a'', 63839664001 * second)] RIdle PIdle
     [(''a'', Some new_item), (''a'', Some old_item)])"
proof -
  let ?t1 = "63839664000 * second" and ?t2 = "63839664001 * second"
  let ?e1 = "(''a'', Some old_item)" and ?e2 = "(''a'', Some new_item)"
  have ok: "items_ok [(''a'', old_item)]" "items_ok [(''a'', new_item)]"
    by (simp_all add: items_ok_def race_times)
  have neq: "?t1 \<noteq> ?t2" by simp
  have 1: "watch_reachable (start_watch\<lparr>wsRelist := RScanned [(''a'', old_item)]\<rparr>)"
    by (rule watch_next [OF watch_start watch_step.relist_scan]) (simp_all add: start_watch_def ok)
  have 2: "watch_reachable (race_state [(''a'', ?t1)] (REmit [?e1]) PIdle [])"
    by (rule reached [OF 1 watch_step.relist_apply [where full = "[(''a'', old_item)]"
        and now = 0 and c' = "\<lparr>scItems = [(''a'', ?t1)], scLastRelistAt = Some 0\<rparr>" and diff = "([''a''], [], [])"]])
      (simp_all add: start_watch_def race_state_def ApplyRelist_def newCache_def race_times relist_changes_def)
  have 3: "watch_reachable (race_state [(''a'', ?t1)] (REmit [?e1]) (PQueried [(''a'', ?t2)]) [])"
    by (rule reached [OF 2 watch_step.poll_query [where stubs = "[(''a'', ?t2)]"]]) (simp_all add: race_state_def)
  have 4: "watch_reachable (race_state [(''a'', ?t1)] (REmit [?e1]) (PFetched [''a''] [(''a'', new_item)]) [])"
    by (rule reached [OF 3 watch_step.poll_fetch [where stubs = "[(''a'', ?t2)]"
        and changed = "[''a'']" and fetched = "[(''a'', new_item)]"]]) (simp_all add: race_state_def ok FindChanged_def neq)
  have 5: "watch_reachable (race_state [(''a'', ?t2)] (REmit [?e1]) (PEmit [?e2]) [])"
    by (rule reached [OF 4 watch_step.poll_apply [where changed = "[''a'']"
        and fetched = "[(''a'', new_item)]"]])
      (simp_all add: race_state_def ApplyStubs_def poll_changes_def race_times)
  have 6: "watch_reachable (race_state [(''a'', ?t2)] (REmit [?e1]) (PEmit []) [?e2])"
    by (rule reached [OF 5 watch_step.poll_emit [where e = ?e2 and es = "[]"]]) (simp_all add: race_state_def)
  have 7: "watch_reachable (race_state [(''a'', ?t2)] (REmit [?e1]) PIdle [?e2])"
    by (rule reached [OF 6 watch_step.poll_end])
      (simp_all add: race_state_def)
  have 8: "watch_reachable (race_state [(''a'', ?t2)] (REmit []) PIdle [?e2, ?e1])"
    by (rule reached [OF 7 watch_step.relist_emit [where e = ?e1 and es = "[]"]]) (simp_all add: race_state_def)
  show ?thesis
    by (rule reached [OF 8 watch_step.relist_end])
      (simp_all add: race_state_def)
qed

lemma watch_announces_witness: "announced [(''a'', Some new_item), (''a'', Some old_item)] ''a'' (63839664001 * second)"
  using watch_announces [OF race_run, of "''a''" "63839664001 * second"]
  by (simp add: race_state_def cached_def pending_def)

text \<open>
  C39: the order of callbacks does not follow the cache: the two loops can both come to rest with the
  consumer left with an older item than the cache says, although every callback was made. While the table
  keeps the newer item, no later poll or relist hands it over again.
\<close>

theorem overtaken_callback:
  "\<exists>s k item told tnew. watch_reachable s \<and> wsRelist s = RIdle \<and> wsPoll s = PIdle \<and>
     stubs_of (seen (wsEmitted s) Map.empty) k = Some told \<and> stub_of item = Some tnew \<and> told < tnew \<and>
     FindChanged (wsCache s) [(k, tnew)] = [] \<and>
     (\<forall>now. relist_changes [(k, item)] (fst (ApplyRelist now (stubsOfItems [(k, item)]) (wsCache s))) = [])"
  by (intro exI [of _ "race_state [(''a'', 63839664001 * second)] RIdle PIdle
        [(''a'', Some new_item), (''a'', Some old_item)]"] exI [of _ "''a''"] exI [of _ new_item]
      exI [of _ "63839664000 * second"] exI [of _ "63839664001 * second"] conjI race_run)
    (simp_all add: race_state_def stubs_of_def stub_of_def race_times FindChanged_def ApplyRelist_def
      relist_changes_def)

section \<open>The index orders update times as text\<close>

text \<open>
  C40: the window of the fast poll compares update times as the text of \<open>RFC3339Nano\<close>, which drops
  trailing zeros of the fraction, and that is not the order of time: an item written half a second after
  the start of the window is not returned when the window starts on a whole second.
\<close>

theorem query_misses_newer:
  "\<exists>its k since sched. query_ok (static_client its) ''t'' (\<lambda>w. map_of its)
       (\<lambda>shard since w start. filter (due shard since) (map snd its)) \<and>
     (\<exists>t. stubs_of (map_of its) k = Some t \<and> since < t) \<and>
     QuerySince (static_client its) ''t'' since (nat (shardCount \<lparr>PollInterval = 0, RelistInterval = 0,
        MaxLookbackWindow = 0, ShardCount = 1\<rparr>)) sched () = Some (Inr [], ())"
proof -
  let ?since = "63839664000 * second"
  let ?t = "?since + 500 * millisecond"
  define its where "its = [(''a'', item_at ''a'' ''0'' (format_RFC3339Nano ?t))]"
  have f: "format_RFC3339Nano ?t = ''2024-01-01T00:00:00.5Z''" "format_RFC3339Nano ?since = ''2024-01-01T00:00:00Z''"
    by code_simp+
  have p: "parse_RFC3339 ''2024-01-01T00:00:00.5Z'' = Some ?t" by code_simp
  have ok: "static_ok its" by (auto simp: static_ok_def its_def keyed_def item_at_def split: if_splits)
  have "\<not> due ''0'' ''2024-01-01T00:00:00Z'' (item_at ''a'' ''0'' ''2024-01-01T00:00:00.5Z'')" by code_simp
  moreover have "show_nat 0 = ''0''" by code_simp
  ultimately have "QuerySince (static_client its) ''t'' ?since 1 [0] () = Some (Inr [], ())"
    by (simp add: QuerySince_def Let_def queryShard_def f [simplified] its_def static_client_def shard_error_def shard_ended_def)
  moreover have "stubs_of (map_of its) ''a'' = Some ?t"
    by (simp add: stubs_of_def its_def stub_of_def extractDocumentIDAndUpdateTime_def item_at_def f [simplified] p [simplified])
  moreover have "?since < ?t" by simp
  ultimately show ?thesis using static_query_ok [OF ok]
    by (intro exI [of _ its] exI [of _ "''a''"] exI [of _ ?since] exI [of _ "[0]"])
      (simp add: shardCount_def)
qed

end
