(* ===== verification/InformerClaims.thy ===== *)
theory InformerClaims
  imports Informers WatcherClaims Samples
begin

text \<open>
  The informers as a whole: what the store of an informer holds after its list, the relists of its watcher
  and the channel of its adapter, up to the documents that fall between the list and the first relist.
\<close>

section \<open>Decoding keeps the identifier\<close>

lemma content_field:
  assumes "(case x of Some (AV_S v) \<Rightarrow> (case stringToRawExt J v of Inl err \<Rightarrow> Inl (f err) | Inr ext \<Rightarrow> Inr (put ext e))
      | _ \<Rightarrow> Inr e) = Inr e'"
    and "\<And>ext. DocumentID (put ext e) = DocumentID e"
  shows "DocumentID e' = DocumentID e"
proof (cases "\<exists>v. x = Some (AV_S v)")
  case True
  then obtain v where x: "x = Some (AV_S v)" by blast
  with assms show ?thesis by (cases "stringToRawExt J v") auto
next
  case False
  with assms(1) show ?thesis by (cases x; cases "the x") auto
qed

context desire_accessors begin

lemma read_content_id:
  assumes "kubeContentReadFromItem J acc d item = Inr d'"
  shows "DocumentID d' = DocumentID d"
proof -
  let ?spec = "case item rawExtFieldSpecKubeContent of
      Some (AV_S v) \<Rightarrow> (case stringToRawExt J v of
         Inl err \<Rightarrow> Inl (WrapError (''read '' @ rawExtFieldSpecKubeContent @ '': '') err)
       | Inr ext \<Rightarrow> Inr (SetSpecKubeContent acc ext d)) | _ \<Rightarrow> Inr d"
  from assms obtain e where e: "?spec = Inr e"
    by (cases ?spec) (simp_all add: kubeContentReadFromItem_def)
  note s = assms [unfolded kubeContentReadFromItem_def e sum.case]
  from content_field [where put = "SetStatusKubeContent acc" and e = e, OF s setStatus_meta(1)]
    content_field [where put = "SetSpecKubeContent acc" and e = d, OF e setSpec_meta(1)] show ?thesis by simp
qed

lemma decode_id:
  assumes "itemToDesire lib J acc item = Inr d" and "item attributeDocumentID = Some (AV_S k)"
  shows "DocumentID d = k"
  using assms read_content_id by (auto simp: itemToDesire_def Let_def split: sum.splits)

end

definition keeps_id :: "(item \<Rightarrow> go_error + 'a DynamoDBMetadata_scheme) \<Rightarrow> bool" where
  "keeps_id decodeFn \<longleftrightarrow> (\<forall>it d k. decodeFn it = Inr d \<longrightarrow> it attributeDocumentID = Some (AV_S k) \<longrightarrow> DocumentID d = k)"

lemma apply_keeps_id: "keeps_id (ItemToApplyDesire ac J)"
  using ad.decode_id by (auto simp: keeps_id_def ItemToApplyDesire_def)

lemma read_keeps_id: "keeps_id (ItemToReadDesire rc J)"
  using rd.decode_id by (auto simp: keeps_id_def ItemToReadDesire_def)

section \<open>Events\<close>

definition change_event ::
  "(item \<Rightarrow> go_error + 'o) \<Rightarrow> (string \<Rightarrow> 'o) \<Rightarrow> change \<Rightarrow> 'o watch_event option" where
  "change_event decodeFn partial ch =
     (case ch of
        (docID, None) \<Rightarrow> Some (WatchDeleted (tombstoneObject decodeFn partial docID))
      | (docID, Some item) \<Rightarrow> (case decodeFn item of Inl err \<Rightarrow> None | Inr obj \<Rightarrow> Some (WatchModified obj)))"

lemma onChange_event:
  "adapter_onChange decodeFn partial ch resultCh =
     (case change_event decodeFn partial ch of
        None \<Rightarrow> resultCh
      | Some event \<Rightarrow> if length resultCh < resultCap then resultCh @ [event] else resultCh)"
  by (simp add: adapter_onChange_def change_event_def Let_def split: prod.split option.split sum.split)

text \<open>While the channel has room nothing is dropped.\<close>

lemma channel_keeps:
  "length ch + length evs \<le> resultCap \<Longrightarrow>
   fold (adapter_onChange decodeFn partial) evs ch = ch @ List.map_filter (change_event decodeFn partial) evs"
proof (induction evs arbitrary: ch)
  case (Cons e evs)
  then show ?case
    by (cases "change_event decodeFn partial e") (simp_all add: onChange_event map_filter_simps)
qed (simp add: map_filter_simps)

definition event_key :: "'a DynamoDBMetadata_scheme watch_event \<Rightarrow> string" where
  "event_key e = (case e of WatchModified d \<Rightarrow> DocumentID d | WatchDeleted d \<Rightarrow> DocumentID d)"

lemma deliver_at:
  assumes "informer_ok il"
  shows "ilObject il (ilDeliver il e s) =
    (ilObject il s)(event_key e := (case e of WatchModified d \<Rightarrow> Some d | WatchDeleted d \<Rightarrow> None))"
  using assms by (cases e) (simp_all add: informer_ok_def event_key_def)

lemma deliver_other:
  assumes "informer_ok il" and "\<forall>e \<in> set ch. event_key e \<noteq> k"
  shows "ilObject il (fold (ilDeliver il) ch s) k = ilObject il s k"
  using assms(2) by (induction ch arbitrary: s) (auto simp: deliver_at [OF assms(1)])

text \<open>The changes a handler can make: an item is filed under its key and decodes, and so does a tombstone.\<close>

definition change_ok :: "(item \<Rightarrow> go_error + 'a DynamoDBMetadata_scheme) \<Rightarrow> change \<Rightarrow> bool" where
  "change_ok decodeFn ch = (case ch of
     (k, None) \<Rightarrow> (\<exists>d. decodeFn (document_key k) = Inr d)
   | (k, Some it) \<Rightarrow> it attributeDocumentID = Some (AV_S k) \<and> (\<exists>d. decodeFn it = Inr d))"

definition decoded :: "(item \<Rightarrow> go_error + 'd) \<Rightarrow> item option \<Rightarrow> 'd option" where
  "decoded decodeFn x = (case x of None \<Rightarrow> None | Some it \<Rightarrow> (case decodeFn it of Inl _ \<Rightarrow> None | Inr d \<Rightarrow> Some d))"

lemma change_event_ok:
  assumes "keeps_id decodeFn" and "change_ok decodeFn (k, x)"
  shows "\<exists>e. change_event decodeFn partial (k, x) = Some e \<and> event_key e = k \<and>
    (case e of WatchModified d \<Rightarrow> Some d | WatchDeleted d \<Rightarrow> None) = decoded decodeFn x"
proof (cases x)
  case None
  from assms(2) None obtain d where d: "decodeFn (document_key k) = Inr d" by (auto simp: change_ok_def)
  have "DocumentID d = k" using assms(1) d by (auto simp: keeps_id_def document_key_def attributeDocumentID_def)
  with d None show ?thesis
    by (simp add: change_event_def tombstoneObject_def event_key_def decoded_def document_key_def)
next
  case (Some it)
  with assms obtain d where "decodeFn it = Inr d" "DocumentID d = k" by (auto simp: change_ok_def keeps_id_def)
  with Some show ?thesis by (simp add: change_event_def event_key_def decoded_def)
qed

lemma deliver_changes:
  assumes "informer_ok il" and "keeps_id decodeFn" and "\<And>ch. ch \<in> set evs \<Longrightarrow> change_ok decodeFn ch"
    and "distinct (map fst evs)"
  shows "ilObject il (fold (ilDeliver il) (List.map_filter (change_event decodeFn partial) evs) s) k =
    (case map_of evs k of None \<Rightarrow> ilObject il s k | Some x \<Rightarrow> decoded decodeFn x)"
  using assms(3,4)
proof (induction evs arbitrary: s)
  case (Cons ch evs)
  obtain j x where ch: "ch = (j, x)" by fastforce
  from change_event_ok [OF assms(2) Cons.prems(1) [of ch, unfolded ch, simplified]] obtain e where
    e: "change_event decodeFn partial ch = Some e" "event_key e = j"
      "(case e of WatchModified d \<Rightarrow> Some d | WatchDeleted d \<Rightarrow> None) = decoded decodeFn x"
    unfolding ch by blast
  have "map_of evs j = None" using Cons.prems(2) by (simp add: ch map_of_None_iff)
  moreover have "ilObject il (fold (ilDeliver il) (List.map_filter (change_event decodeFn partial) evs) s') k =
      (case map_of evs k of None \<Rightarrow> ilObject il s' k | Some x \<Rightarrow> decoded decodeFn x)" for s'
    by (rule Cons.IH) (use Cons.prems in auto)
  ultimately show ?case
    using e by (auto simp: map_filter_simps ch deliver_at [OF assms(1)] split: option.split)
qed (simp add: map_filter_simps)

section \<open>The store after a relist\<close>

lemma relist_changes_of:
  assumes "scan_pages_ok cl tbl rows remaining" and "\<And>w. rows (snd (pcNow cl w)) = rows w"
    and "cache_ok c" and "coherent c v" and "runRelist cl tbl c w = Some ((True, c', evs), w')"
  shows "distinct (map fst evs)" and "map_of evs k = (if stubs_of v k \<noteq> stubs_of (rows w) k then Some (readable (rows w) k) else None)"
    and "coherent c' (seen evs v)" and "cached c' = stubs_of (rows w)" and "cache_ok c'"
proof -
  from runRelist_returns [OF assms(1,2), of c w] assms(5) obtain full now diff where
    "distinct (map fst full)" "map_of full = readable (rows w)"
    "ApplyRelist now (stubsOfItems full) c = (diff, c')" and evs: "evs = relist_changes full diff" by auto
  note eff = relist_effect [OF assms(3,4) this(1-3), folded evs]
  show "distinct (map fst evs)" "coherent c' (seen evs v)" "cached c' = stubs_of (rows w)" "cache_ok c'"
    by (rule eff)+
  show "map_of evs k = (if stubs_of v k \<noteq> stubs_of (rows w) k then Some (readable (rows w) k) else None)"
  proof (cases "stubs_of v k = stubs_of (rows w) k")
    case True
    with eff(2) [of k] have "k \<notin> fst ` set evs" by force
    with True show ?thesis by (simp add: map_of_None_iff)
  next
    case False
    with eff(2) [of k "readable (rows w) k"] show ?thesis by (simp add: map_of_Some_iff_mem [OF eff(1)])
  qed
qed

text \<open>
  C22: what the watcher of an informer reports reaches the store: after a relist whose callbacks fit in the
  channel, the store holds under its identifier every document of the specs table, decoded, at the update
  time of the table, and no document that was seen before and is gone. What it leaves alone are the keys
  that neither the watcher nor the table knows.
\<close>

theorem store_follows_relist:
  fixes partial
  assumes "informer_ok il"
    and ainf: "ainf = kiApply (NewKubeApplierInformersWithOptions ac rc J specs prefix period opts)"
    and scan: "scan_pages_ok (waClient (diWatch ainf)) (waTable (diWatch ainf)) rows remaining"
    and clock: "\<And>w. rows (snd (pcNow (waClient (diWatch ainf)) w)) = rows w"
    and cache: "cache_ok c" "coherent c v"
    and run: "runRelist (waClient (diWatch ainf)) (waTable (diWatch ainf)) c w = Some ((True, c', evs), w')"
    and room: "length evs \<le> resultCap"
    and decodes: "\<And>k it. rows w k = Some it \<Longrightarrow> \<exists>d. waDecode (diWatch ainf) it = Inr d"
    and tombstones: "\<And>k. \<exists>d. waDecode (diWatch ainf) (document_key k) = Inr d"
    and agree: "\<And>k it. v k = Some it \<Longrightarrow> ilObject il s k = decoded (waDecode (diWatch ainf)) (Some it)"
  defines "s' \<equiv> fold (ilDeliver il)
      (fold (adapter_onChange (waDecode (diWatch ainf)) partial) evs (waResultCh (diWatch ainf))) s"
  shows "stubs_of (seen evs v) = stubs_of (rows w) \<and>
    (\<forall>k it. seen evs v k = Some it \<longrightarrow> ilObject il s' k = decoded (waDecode (diWatch ainf)) (Some it)) \<and>
    (\<forall>k. v k \<noteq> None \<and> readable (rows w) k = None \<longrightarrow> ilObject il s' k = None) \<and>
    (\<forall>k. v k = None \<and> readable (rows w) k = None \<longrightarrow> ilObject il s' k = ilObject il s k)"
proof -
  let ?dec = "waDecode (diWatch ainf)"
  note rel = relist_changes_of [OF scan clock cache run]
  have dec: "?dec = ItemToApplyDesire ac J" and ch0: "waResultCh (diWatch ainf) = []"
    by (simp_all add: ainf NewKubeApplierInformersWithOptions_def newDesireInformer_def NewWatchAdapter_def)
  have ok: "change_ok ?dec ch" if "ch \<in> set evs" for ch
  proof -
    obtain k x where ch: "ch = (k, x)" by fastforce
    with that have "map_of evs k = Some x" by (simp add: map_of_Some_iff_mem [OF rel(1)])
    with rel(2) [of k] have x: "x = readable (rows w) k" by (simp split: if_splits)
    have "keyed (rows w)" using scan by (simp add: scan_pages_ok_def)
    with x decodes tombstones show ?thesis
      by (auto simp: ch change_ok_def keyed_def readable_def attributeDocumentID_def split: option.splits)
  qed
  have s': "ilObject il s' k = (if stubs_of v k \<noteq> stubs_of (rows w) k then decoded ?dec (readable (rows w) k)
      else ilObject il s k)" for k
    unfolding s'_def ch0 using channel_keeps [of "[]" evs ?dec partial] room
      deliver_changes [OF assms(1) _ ok rel(1), of partial s k] apply_keeps_id [of ac J]
    by (simp add: rel(2) dec)
  have seen: "seen evs v k = (if stubs_of v k \<noteq> stubs_of (rows w) k then readable (rows w) k else v k)" for k
    by (simp add: seen_at [OF rel(1)] rel(2))
  have none: "stubs_of v k = None \<longleftrightarrow> v k = None" for k
    using stubs_of_None [of v k] cache(2) by (metis coherent_def)
  show ?thesis
  proof (intro conjI allI impI)
    show "stubs_of (seen evs v) = stubs_of (rows w)" using rel(3,4) by (simp add: coherent_def)
    show "ilObject il s' k = decoded ?dec (Some it)" if "seen evs v k = Some it" for k it
      using that agree [of k it] by (auto simp: s' seen split: if_splits)
    show "ilObject il s' k = None" if "v k \<noteq> None \<and> readable (rows w) k = None" for k
      using that none [of k] stubs_of_None [of "rows w" k] by (auto simp: s' decoded_def)
    show "ilObject il s' k = ilObject il s k" if "v k = None \<and> readable (rows w) k = None" for k
      using that none [of k] stubs_of_None [of "rows w" k] by (simp add: s')
  qed
qed

definition quiet_tables :: "unit dynamo_client" where
  "quiet_tables = \<lparr>dc_GetItem = (\<lambda>tbl k w. (Inr None, w)), dc_PutItem = (\<lambda>tbl it cond w. (None, w)),
     dc_DeleteItem = (\<lambda>tbl k w. (None, w)), dc_Scan = (\<lambda>tbl start w. (Inr ([item_at ''z'' ''0'' ''t''], None), w)),
     time_Now = (\<lambda>w. (0, w))\<rparr>"

definition bare_codec :: "ApplyDesire attributevalue_codec" where
  "bare_codec = \<lparr>MarshalMap = (\<lambda>d. Inr Map.empty), UnmarshalMap = (\<lambda>it. Inr zero_ApplyDesire)\<rparr>"

definition bare_read_codec :: "ReadDesire attributevalue_codec" where
  "bare_read_codec = \<lparr>MarshalMap = (\<lambda>d. Inr Map.empty), UnmarshalMap = (\<lambda>it. Inr zero_ReadDesire)\<rparr>"

definition map_store :: "(string \<Rightarrow> ApplyDesire option, ApplyDesire) informer_lib" where
  "map_store = \<lparr>ilReplace = (\<lambda>ds s. map_of (map (\<lambda>d. (DocumentID d, d)) ds)),
     ilDeliver = (\<lambda>e s. case e of WatchModified d \<Rightarrow> s(DocumentID d \<mapsto> d) | WatchDeleted d \<Rightarrow> s(DocumentID d := None)),
     ilObject = (\<lambda>s. s)\<rparr>"

lemma map_store_ok: "informer_ok map_store"
  by (simp add: informer_ok_def map_store_def)

definition sample_sdk :: "unit sdk_client" where
  "sample_sdk = \<lparr>sdkTables = quiet_tables, sdkPoll = static_client sample_items\<rparr>"

definition sample_informer :: "(unit, ApplyDesire) desire_informer" where
  "sample_informer = kiApply (NewKubeApplierInformersWithOptions bare_codec bare_read_codec sample_json sample_sdk ''s''
     DefaultResyncPeriod zero_watch_options)"

lemma sample_informer_watch:
  "waClient (diWatch sample_informer) = static_client sample_items"
  "waTable (diWatch sample_informer) = ''s-applydesires''"
  "waDecode (diWatch sample_informer) = ItemToApplyDesire bare_codec sample_json"
  by (simp_all add: sample_informer_def NewKubeApplierInformersWithOptions_def newDesireInformer_def
      NewWatchAdapter_def sample_sdk_def TableSuffixApplyDesires_def)

lemma bare_decode:
  assumes "it rawExtFieldSpecKubeContent = None" and "it rawExtFieldStatusKubeContent = None"
  shows "\<exists>d. ItemToApplyDesire bare_codec sample_json it = Inr d"
  using assms by (simp add: ItemToApplyDesire_def itemToDesire_def bare_codec_def kubeContentReadFromItem_def Let_def)

lemma item_at_plain: "item_at k sh t rawExtFieldSpecKubeContent = None" "item_at k sh t rawExtFieldStatusKubeContent = None"
  "document_key k rawExtFieldSpecKubeContent = None" "document_key k rawExtFieldStatusKubeContent = None"
  by (simp_all add: item_at_def document_key_def attribute_names)

lemma sample_scan:
  "scan_pages_ok (waClient (diWatch sample_informer)) (waTable (diWatch sample_informer))
     (\<lambda>w. map_of sample_items) (\<lambda>w start. map snd sample_items)"
  unfolding sample_informer_watch by (rule static_scan_ok [OF sample_items_ok])

lemma sample_relist:
  "\<exists>c' evs w'. runRelist (waClient (diWatch sample_informer)) (waTable (diWatch sample_informer)) newCache () =
     Some ((True, c', evs), w') \<and> length evs \<le> resultCap"
proof -
  have clock: "\<And>w :: unit. map_of sample_items = map_of sample_items" by simp
  have "\<exists>m w'. ScanAll (static_client sample_items) ''s-applydesires'' () = Some (Inr m, w')"
    by (simp add: ScanAll_def scanAllFrom.simps static_client_def)
  then have "\<exists>c' evs w'. runRelist (waClient (diWatch sample_informer)) (waTable (diWatch sample_informer))
      newCache () = Some ((True, c', evs), w')"
    by (auto simp: runRelist_def sample_informer_watch split: prod.split)
  then obtain c' evs w' where r: "runRelist (waClient (diWatch sample_informer)) (waTable (diWatch sample_informer))
      newCache () = Some ((True, c', evs), w')" by blast
  note rel = relist_changes_of [OF sample_scan clock newCache_simps(1) coherent_new r]
  have "set (map fst evs) \<subseteq> {''a'', ''b''}"
  proof
    fix k assume "k \<in> set (map fst evs)"
    then have "map_of evs k \<noteq> None" by (simp add: map_of_None_iff)
    then show "k \<in> {''a'', ''b''}"
      by (auto simp: rel(2) sample_stubs stubs_of_def [of Map.empty] split: if_splits)
  qed
  then have "card (set (map fst evs)) \<le> card {''a'', ''b''}" by (intro card_mono) simp_all
  with distinct_card [OF rel(1)] have "length evs \<le> 2" by (simp del: set_map)
  with r show ?thesis by (auto simp: resultCap_def)
qed

lemma store_follows_relist_witness:
  "\<exists>evs d. ilObject map_store (fold (ilDeliver map_store) (fold (adapter_onChange
       (waDecode (diWatch sample_informer)) (\<lambda>k. zero_ApplyDesire)) evs (waResultCh (diWatch sample_informer)))
       Map.empty) ''a'' = Some d"
proof -
  obtain c' evs w' where r: "runRelist (waClient (diWatch sample_informer)) (waTable (diWatch sample_informer))
      newCache () = Some ((True, c', evs), w')" and len: "length evs \<le> resultCap"
    using sample_relist by blast
  have dec: "\<And>k it. map_of sample_items k = Some it \<Longrightarrow> \<exists>d. waDecode (diWatch sample_informer) it = Inr d"
    unfolding sample_informer_watch sample_items_def
    by (rule bare_decode) (auto simp: item_at_plain split: if_splits)
  have tomb: "\<And>k. \<exists>d. waDecode (diWatch sample_informer) (document_key k) = Inr d"
    unfolding sample_informer_watch by (rule bare_decode) (simp_all add: item_at_plain)
  note follows = store_follows_relist [where il = map_store and s = Map.empty and v = Map.empty
      and partial = "\<lambda>k. zero_ApplyDesire", OF map_store_ok sample_informer_def sample_scan refl newCache_simps(1)
      coherent_new r len dec tomb, simplified]
  then have "stubs_of (seen evs Map.empty) ''a'' = Some (63839664000 * second)" by (simp add: sample_stubs)
  then obtain it where it: "seen evs Map.empty ''a'' = Some it" by (auto simp: stubs_of_def split: option.splits)
  have "\<exists>d. waDecode (diWatch sample_informer) it = Inr d"
  proof (rule dec)
    note rel = relist_changes_of [where v = Map.empty, OF sample_scan refl newCache_simps(1) coherent_new r]
    from it show "map_of sample_items ''a'' = Some it"
      by (auto simp: seen_at [OF rel(1)] rel(2) readable_def split: if_splits option.splits)
  qed
  with follows it show ?thesis by (intro exI [of _ evs]) (auto simp: decoded_def)
qed

section \<open>Between the list and the first relist\<close>

text \<open>
  What a watcher reports over its life: any number of relists and fast polls, in any order and on any
  worlds that satisfy \<open>P\<close>.
\<close>

inductive watch_series ::
  "'w poll_client \<Rightarrow> string \<Rightarrow> watch_options \<Rightarrow> ('w \<Rightarrow> bool) \<Rightarrow> StubCache \<Rightarrow> change list \<Rightarrow> bool"
  for cl tbl opts P where
  series_start: "watch_series cl tbl opts P newCache []"
| series_relist: "watch_series cl tbl opts P c evs \<Longrightarrow> P w \<Longrightarrow>
     runRelist cl tbl c w = Some ((ok, c', new), w') \<Longrightarrow> watch_series cl tbl opts P c' (evs @ new)"
| series_poll: "watch_series cl tbl opts P c evs \<Longrightarrow> P w \<Longrightarrow>
     runFastPoll cl tbl opts sched c w = Some ((c', new), w') \<Longrightarrow> watch_series cl tbl opts P c' (evs @ new)"

definition filed :: "change list \<Rightarrow> bool" where
  "filed evs \<longleftrightarrow> (\<forall>k it. (k, Some it) \<in> set evs \<longrightarrow> it attributeDocumentID = Some (AV_S k))"

lemma filed_readable:
  assumes "keyed rows" and "\<And>k x. (k, x) \<in> set evs \<Longrightarrow> x = readable rows k"
  shows "filed evs"
proof (unfold filed_def, intro allI impI)
  fix k it assume "(k, Some it) \<in> set evs"
  from assms(2) [OF this] have "rows k = Some it" by (auto simp: readable_def split: option.splits if_splits)
  with assms(1) show "it attributeDocumentID = Some (AV_S k)" by (simp add: keyed_def attributeDocumentID_def)
qed

lemma series_silent:
  assumes scan: "scan_pages_ok cl tbl rows remaining" and batch: "batch_ok cl tbl rows"
    and query: "query_ok cl tbl index left"
    and clock: "\<And>w. rows (snd (pcNow cl w)) = rows w" "\<And>w. index (snd (pcNow cl w)) = index w"
    and reads: "\<And>s i st w. rows (snd (pcQuery cl tbl s i st w)) = rows w"
    and "watch_series cl tbl opts (\<lambda>w. rows w k = None) c evs"
  shows "k \<notin> fst ` set evs \<and> filed evs \<and> (\<exists>v. cache_ok c \<and> coherent c v \<and> v k = None)"
  using assms(7)
proof (induction rule: watch_series.induct)
  case series_start
  show ?case using coherent_new by (auto simp: filed_def)
next
  case (series_relist c evs w ok c' new w')
  then obtain v where v: "cache_ok c" "coherent c v" "v k = None" by blast
  show ?case
  proof (cases ok)
    case False
    with runRelist_returns [OF scan clock(1), of c w] series_relist(3) have "c' = c" "new = []" by auto
    with series_relist v show ?thesis by auto
  next
    case True
    note rel = relist_changes_of [OF scan clock(1) v(1,2) series_relist(3) [unfolded True [THEN eqTrueI]]]
    have x: "x = readable (rows w) j" if "(j, x) \<in> set new" for j x
      using that rel(2) [of j] by (auto simp: map_of_Some_iff_mem [OF rel(1), symmetric] split: if_splits)
    have "filed new" by (rule filed_readable [OF _ x]) (use scan in \<open>simp add: scan_pages_ok_def\<close>)
    moreover have n: "map_of new k = None" using series_relist(2) v(3) by (simp add: rel(2) stubs_of_def)
    moreover have "seen new v k = None" using n v(3) by (simp add: seen_at [OF rel(1)])
    ultimately show ?thesis using series_relist.IH rel(3,5)
      by (intro conjI exI [of _ "seen new v"]) (auto simp: map_of_None_iff filed_def)
  qed
next
  case (series_poll c evs w sched c' new w')
  then obtain v where v: "cache_ok c" "coherent c v" "v k = None" by blast
  from batch query clock(1,2) reads series_poll(3) show ?case
  proof (cases rule: runFastPoll_cases)
    case quiet
    with series_poll v show ?thesis by auto
  next
    case (found stubs fetched)
    note eff = poll_effect [OF v(1,2) distinct_FindChanged [OF found(1)] found(2,4), folded found(5,6)]
    have "filed new" by (rule filed_readable [of "rows w"]) (use batch eff(2) in \<open>auto simp: batch_ok_def\<close>)
    moreover have k: "k \<notin> fst ` set new" using eff(2) [of k] series_poll(2) by (auto simp: readable_def)
    moreover have "seen new v k = None" using k v(3) by (simp add: seen_at [OF eff(1)] map_of_None_iff [symmetric])
    ultimately show ?thesis using series_poll.IH eff(3,4)
      by (intro conjI exI [of _ "seen new v"]) (auto simp: filed_def)
  qed
qed

text \<open>
  C23: a document that is deleted after the informer has listed it and before the first relist of the watcher
  is never reported: the cache of the watcher starts empty and does not know it. However many relists and
  fast polls follow, and whichever of their events reach the store, the store keeps the deleted document.
\<close>

theorem deleted_document_stays:
  assumes "informer_ok il"
    and ainf: "ainf = kiApply (NewKubeApplierInformersWithOptions ac rc J specs prefix period opts)"
    and listed: "diList ainf w0 = Some (Inr ds, w1)" "distinct (map DocumentID ds)" "d \<in> set ds"
    and scan: "scan_pages_ok (waClient (diWatch ainf)) (waTable (diWatch ainf)) rows remaining"
    and batch: "batch_ok (waClient (diWatch ainf)) (waTable (diWatch ainf)) rows"
    and query: "query_ok (waClient (diWatch ainf)) (waTable (diWatch ainf)) index left"
    and clock: "\<And>w. rows (snd (pcNow (waClient (diWatch ainf)) w)) = rows w"
      "\<And>w. index (snd (pcNow (waClient (diWatch ainf)) w)) = index w"
    and reads: "\<And>s i st w. rows (snd (pcQuery (waClient (diWatch ainf)) (waTable (diWatch ainf)) s i st w)) = rows w"
    and series: "watch_series (waClient (diWatch ainf)) (waTable (diWatch ainf)) (waOptions (diWatch ainf))
      (\<lambda>w. rows w (DocumentID d) = None) c evs"
    and partial: "\<And>k. DocumentID (partial k) = k"
    and events: "set ch \<subseteq> {e. \<exists>chg \<in> set evs. change_event (waDecode (diWatch ainf)) partial chg = Some e}"
  shows "ilObject il (fold (ilDeliver il) ch (ilReplace il ds s)) (DocumentID d) = Some d"
proof -
  let ?dec = "waDecode (diWatch ainf)"
  have dec: "keeps_id ?dec"
    by (simp add: ainf NewKubeApplierInformersWithOptions_def newDesireInformer_def NewWatchAdapter_def apply_keeps_id)
  note silent = series_silent [OF scan batch query clock reads series]
  have "event_key e \<noteq> DocumentID d" if "e \<in> set ch" for e
  proof -
    from that events obtain k x where kx: "(k, x) \<in> set evs" "change_event ?dec partial (k, x) = Some e" by auto
    have "event_key e = k"
    proof (cases x)
      case None
      with kx(2) have "e = WatchDeleted (tombstoneObject ?dec partial k)" by (simp add: change_event_def)
      moreover have "DocumentID (tombstoneObject ?dec partial k) = k"
        using dec partial by (auto simp: tombstoneObject_def keeps_id_def attributeDocumentID_def split: sum.split)
      ultimately show ?thesis by (simp add: event_key_def)
    next
      case (Some it)
      with kx(1) silent have "it attributeDocumentID = Some (AV_S k)" by (auto simp: filed_def)
      with Some kx(2) dec show ?thesis by (auto simp: change_event_def event_key_def keeps_id_def split: sum.splits)
    qed
    moreover have "k \<noteq> DocumentID d" using kx(1) silent by force
    ultimately show ?thesis by simp
  qed
  then have "\<forall>e \<in> set ch. event_key e \<noteq> DocumentID d" by blast
  note kept = deliver_other [OF assms(1) this]
  have "distinct (map fst (map (\<lambda>d. (store_key (GetObjectMeta d), d)) ds))" using listed(2) by (simp add: comp_def)
  with listed(3) have "map_of (map (\<lambda>d. (store_key (GetObjectMeta d), d)) ds) (DocumentID d) = Some d"
    by (subst map_of_Some_iff_mem) auto
  with kept assms(1) listed(2) show ?thesis by (simp add: informer_ok_def)
qed

lemma sample_list:
  "\<exists>d. diList sample_informer () = Some (Inr [d], ()) \<and> DocumentID d = ''z''"
proof -
  obtain d where d: "ItemToApplyDesire bare_codec sample_json (item_at ''z'' ''0'' ''t'') = Inr d"
    using bare_decode [of "item_at ''z'' ''0'' ''t''"] by (auto simp: item_at_plain)
  have "diList sample_informer () = Some (Inr [d], ())"
    using d by (simp add: sample_informer_def NewKubeApplierInformersWithOptions_def newDesireInformer_def specs_db_def
        dynamo_db_def dyn_reader_def specReader_List_def scanPages.simps ApplyDesireSpecs_def sample_sdk_def
        quiet_tables_def ItemToApplyDesire_def)
  moreover have "DocumentID d = ''z''"
    using apply_keeps_id d by (auto simp: keeps_id_def item_at_def attributeDocumentID_def)
  ultimately show ?thesis by blast
qed

lemma deleted_document_stays_witness:
  "\<exists>d evs c. DocumentID d = ''z'' \<and> evs \<noteq> [] \<and>
     watch_series (static_client sample_items) ''s-applydesires'' zero_watch_options (\<lambda>w. True) c evs \<and>
     ilObject map_store (fold (ilDeliver map_store)
       (List.map_filter (change_event (ItemToApplyDesire bare_codec sample_json) (\<lambda>k. zero_ApplyDesire\<lparr>DocumentID := k\<rparr>)) evs)
       (ilReplace map_store [d] Map.empty)) ''z'' = Some d"
proof -
  obtain d where l: "diList sample_informer () = Some (Inr [d], ())" and z: "DocumentID d = ''z''"
    using sample_list by blast
  obtain c' evs w' where r: "runRelist (waClient (diWatch sample_informer)) (waTable (diWatch sample_informer))
      newCache () = Some ((True, c', evs), w')" using sample_relist by blast
  have gone: "map_of sample_items (DocumentID d) = None" by (simp add: z sample_items_def)
  have o': "waOptions (diWatch sample_informer) = zero_watch_options"
    by (simp add: sample_informer_def NewKubeApplierInformersWithOptions_def newDesireInformer_def NewWatchAdapter_def)
  have s: "watch_series (waClient (diWatch sample_informer)) (waTable (diWatch sample_informer))
      (waOptions (diWatch sample_informer)) (\<lambda>w. map_of sample_items (DocumentID d) = None) c' evs"
    using series_relist [OF series_start _ r, of "\<lambda>w. map_of sample_items (DocumentID d) = None"] gone by simp
  note rel = relist_changes_of [where v = Map.empty, OF sample_scan refl newCache_simps(1) coherent_new r]
  have "map_of evs ''a'' \<noteq> None" by (simp add: rel(2) sample_stubs stubs_of_def [of Map.empty])
  then have "evs \<noteq> []" by auto
  moreover have "ilObject map_store (fold (ilDeliver map_store)
       (List.map_filter (change_event (ItemToApplyDesire bare_codec sample_json) (\<lambda>k. zero_ApplyDesire\<lparr>DocumentID := k\<rparr>)) evs)
       (ilReplace map_store [d] Map.empty)) (DocumentID d) = Some d"
    by (rule deleted_document_stays [where rows = "\<lambda>w. map_of sample_items" and index = "\<lambda>w. map_of sample_items"
        and left = "\<lambda>shard since w start. filter (due shard since) (map snd sample_items)",
        OF map_store_ok sample_informer_def l _ _ sample_scan _ _ refl refl refl s])
      (auto simp: sample_informer_watch static_batch_ok [OF sample_items_ok] static_query_ok [OF sample_items_ok]
        List.map_filter_def)
  moreover have "watch_series (static_client sample_items) ''s-applydesires'' zero_watch_options (\<lambda>w. True) c' evs"
    using s gone by (simp add: sample_informer_watch o')
  ultimately show ?thesis using z by metis
qed

end
