(* ===== verification/Pipeline.thy ===== *)
theory Pipeline
  imports InformerClaims ReadManagerClaims ApplyEvents
begin

text \<open>
  From the watcher to the queues: the events that the adapter of \<open>watch_adapter.go\<close> sends reach the handlers of
  the controllers through the shared informer, whose notifications are a parameter with their documented
  behaviour: an object that was not in the store is added, one that was is updated, and a deletion hands over
  the object of the event.
\<close>

section \<open>Notifications\<close>

datatype 'd handler_call = OnAdd 'd | OnUpdate 'd 'd | OnDelete 'd

definition notify_ok ::
  "('s, 'a DynamoDBMetadata_scheme) informer_lib
     \<Rightarrow> ('s \<Rightarrow> 'a DynamoDBMetadata_scheme watch_event \<Rightarrow> 'a DynamoDBMetadata_scheme handler_call list) \<Rightarrow> bool" where
  "notify_ok il calls \<longleftrightarrow>
     (\<forall>s d. calls s (WatchModified d) = (case ilObject il s (store_key (GetObjectMeta d)) of
        None \<Rightarrow> [OnAdd d] | Some old \<Rightarrow> [OnUpdate old d])) \<and>
     (\<forall>s d. calls s (WatchDeleted d) = [OnDelete d])"

text \<open>The keys that the handlers of the apply controller add for one call, and for the events of a channel in
  turn; each event comes with the time on the clock of the cooldown gate.\<close>

definition apply_call ::
  "(ApplyDesireKey, 'c) lru_lib \<Rightarrow> gtime \<Rightarrow> ApplyDesire handler_call
     \<Rightarrow> ('w, 'c) ApplyDesireController \<Rightarrow> ApplyDesireKey list \<times> ('w, 'c) ApplyDesireController" where
  "apply_call lib now hc c =
     (case hc of
        OnAdd d \<Rightarrow> (handleAdd (TypedObj d), c)
      | OnUpdate old d \<Rightarrow> handleUpdate lib now (TypedObj old) (TypedObj d) c
      | OnDelete d \<Rightarrow> ([], c))"

fun apply_calls ::
  "(ApplyDesireKey, 'c) lru_lib \<Rightarrow> gtime \<Rightarrow> ApplyDesire handler_call list
     \<Rightarrow> ('w, 'c) ApplyDesireController \<Rightarrow> ApplyDesireKey list \<times> ('w, 'c) ApplyDesireController" where
  "apply_calls lib now [] c = ([], c)"
| "apply_calls lib now (hc # hcs) c =
     (let (ks, c) = apply_call lib now hc c; (ks', c) = apply_calls lib now hcs c in (ks @ ks', c))"

fun apply_events ::
  "(ApplyDesireKey, 'c) lru_lib \<Rightarrow> ('s, ApplyDesire) informer_lib
     \<Rightarrow> ('s \<Rightarrow> ApplyDesire watch_event \<Rightarrow> ApplyDesire handler_call list)
     \<Rightarrow> (gtime \<times> ApplyDesire watch_event) list \<Rightarrow> 's \<Rightarrow> ('w, 'c) ApplyDesireController \<Rightarrow> ApplyDesireKey list" where
  "apply_events lib il calls [] s c = []"
| "apply_events lib il calls ((now, e) # es) s c =
     (let (ks, c) = apply_calls lib now (calls s e) c in ks @ apply_events lib il calls es (ilDeliver il e s) c)"

lemma changed_is_asked:
  assumes "notify_ok il calls" and "DocumentID d \<noteq> ''''"
    and "\<And>old. ilObject il s (DocumentID d) = Some old \<Longrightarrow> UpdateTime old \<noteq> UpdateTime d"
  shows "fst (apply_calls lib now (calls s (WatchModified d)) c) = [key_of d]"
proof -
  have key: "ApplyDesireKeyFromDesire d = Inr (key_of d)"
    using assms(2) by (simp add: ApplyDesireKeyFromDesire_def key_of_def)
  show ?thesis
  proof (cases "ilObject il s (DocumentID d)")
    case None
    with assms(1) key show ?thesis
      by (simp add: notify_ok_def apply_call_def handleAdd_def enqueue_def)
  next
    case (Some old)
    with assms(1,3) key show ?thesis
      by (simp add: notify_ok_def apply_call_def handleUpdate_def enqueueWithCooldown_def)
  qed
qed

lemma events_ask:
  assumes "informer_ok il" and "notify_ok il calls" and "DocumentID d \<noteq> ''''"
    and "map snd tes = pre @ WatchModified d # post" and "\<forall>e \<in> set pre. event_key e \<noteq> DocumentID d"
    and "\<And>old. ilObject il s (DocumentID d) = Some old \<Longrightarrow> UpdateTime old \<noteq> UpdateTime d"
  shows "key_of d \<in> set (apply_events lib il calls tes s c)"
  using assms(4-6)
proof (induction tes arbitrary: pre s c)
  case (Cons te tes)
  obtain now e where te: "te = (now, e)" by fastforce
  obtain ks c1 where ks: "apply_calls lib now (calls s e) c = (ks, c1)" by fastforce
  show ?case
  proof (cases pre)
    case Nil
    with Cons.prems(1) te have "e = WatchModified d" by simp
    have "fst (apply_calls lib now (calls s (WatchModified d)) c) = [key_of d]"
      by (rule changed_is_asked [OF assms(2,3)]) (rule Cons.prems(3))
    with ks \<open>e = WatchModified d\<close> show ?thesis by (simp add: te)
  next
    case (Cons p pre')
    with Cons.prems(1,2) te have e: "map snd tes = pre' @ WatchModified d # post" "event_key e \<noteq> DocumentID d"
      "\<forall>e \<in> set pre'. event_key e \<noteq> DocumentID d" by auto
    have "ilObject il (ilDeliver il e s) (DocumentID d) = ilObject il s (DocumentID d)"
      using e(2) by (simp add: deliver_at [OF assms(1)])
    with Cons.IH [OF e(1,3), of "ilDeliver il e s" c1] Cons.prems(3) ks show ?thesis by (simp add: te)
  qed
qed simp

lemma map_filter_append: "List.map_filter f (xs @ ys) = List.map_filter f xs @ List.map_filter f ys"
  by (simp add: List.map_filter_def)

lemma mem_map_filter: "e \<in> set (List.map_filter f xs) \<longleftrightarrow> (\<exists>x \<in> set xs. f x = Some e)"
  by (force simp: List.map_filter_def)

section \<open>A change reaches the queue\<close>

lemma relist_adds_key:
  fixes partial
  assumes "informer_ok il" and "notify_ok il calls"
    and ainf: "ainf = kiApply (NewKubeApplierInformersWithOptions ac rc J specs prefix period opts)"
    and scan: "scan_pages_ok (waClient (diWatch ainf)) (waTable (diWatch ainf)) rows remaining"
    and clock: "\<And>w. rows (snd (pcNow (waClient (diWatch ainf)) w)) = rows w"
    and cache: "cache_ok c" "coherent c v"
    and run: "runRelist (waClient (diWatch ainf)) (waTable (diWatch ainf)) c w = Some ((True, c', evs), w')"
    and room: "length evs \<le> resultCap"
    and decodes: "\<And>k it. rows w k = Some it \<Longrightarrow> \<exists>d. waDecode (diWatch ainf) it = Inr d"
    and tombstones: "\<And>k. \<exists>d. waDecode (diWatch ainf) (document_key k) = Inr d"
    and sent: "map snd tes =
      fold (adapter_onChange (waDecode (diWatch ainf)) partial) evs (waResultCh (diWatch ainf))"
    and changed: "readable (rows w) k = Some it" "stubs_of v k \<noteq> stubs_of (rows w) k" "k \<noteq> ''''"
    and new: "\<And>old d. ilObject il s k = Some old \<Longrightarrow> waDecode (diWatch ainf) it = Inr d \<Longrightarrow> UpdateTime old \<noteq> UpdateTime d"
  shows "\<exists>d. waDecode (diWatch ainf) it = Inr d \<and> DocumentID d = k \<and>
    key_of d \<in> set (apply_events lib il calls tes s ctl)"
proof -
  let ?dec = "waDecode (diWatch ainf)"
  note rel = relist_changes_of [OF scan clock cache run]
  have dec: "keeps_id ?dec" and ch0: "waResultCh (diWatch ainf) = []"
    by (simp_all add: ainf NewKubeApplierInformersWithOptions_def newDesireInformer_def NewWatchAdapter_def apply_keeps_id)
  have keyed: "keyed (rows w)" using scan by (simp add: scan_pages_ok_def)
  have row: "rows w k = Some it" using changed(1) by (auto simp: readable_def split: option.splits if_splits)
  then have id: "it attributeDocumentID = Some (AV_S k)" using keyed by (simp add: keyed_def attributeDocumentID_def)
  from decodes [OF row] obtain d where d: "?dec it = Inr d" by blast
  have k: "DocumentID d = k" using dec d id by (auto simp: keeps_id_def)
  have "map_of evs k = Some (Some it)" using changed(1,2) by (simp add: rel(2))
  then have "(k, Some it) \<in> set evs" by (simp add: map_of_Some_iff_mem [OF rel(1)])
  then obtain pre post where evs: "evs = pre @ (k, Some it) # post" by (meson split_list)
  let ?ev = "change_event ?dec partial"
  have ch: "map snd tes = List.map_filter ?ev pre @ WatchModified d # List.map_filter ?ev post"
    using channel_keeps [of "[]" evs ?dec partial] room sent
    by (simp add: ch0 evs map_filter_simps map_filter_append change_event_def [of ?dec partial "(k, Some it)"] d)
  have other: "event_key e \<noteq> k" if "e \<in> set (List.map_filter ?ev pre)" for e
  proof -
    from that obtain j x where j: "(j, x) \<in> set pre" "?ev (j, x) = Some e" by (auto simp: mem_map_filter)
    have "(j, x) \<in> set evs" using j(1) by (simp add: evs)
    then have "map_of evs j = Some x" by (simp add: map_of_Some_iff_mem [OF rel(1)])
    then have "x = readable (rows w) j" by (simp add: rel(2) split: if_splits)
    with keyed decodes tombstones have "change_ok ?dec (j, x)"
      by (auto simp: change_ok_def keyed_def readable_def attributeDocumentID_def split: option.splits if_splits)
    from change_event_ok [OF dec this, of partial] j(2) have "event_key e = j" by auto
    moreover have "j \<noteq> k" using rel(1) j(1) by (force simp: evs)
    ultimately show ?thesis by simp
  qed
  have "key_of d \<in> set (apply_events lib il calls tes s ctl)"
    by (rule events_ask [OF assms(1,2) _ ch]) (use k changed(3) other new d in auto)
  with d k show ?thesis by blast
qed


section \<open>A deletion does not reach the reflector\<close>

text \<open>
  C15: the deletion of a ReadDesire does not stop its reflector. The event that the adapter makes carries an
  object decoded from the document identifier alone, so it names neither cluster nor node pool, and the
  handler looks for the running reflector under a key made from them: it removes the status document and
  leaves the reflector of every desire with a cluster or a node pool in place, to write the document again.
\<close>

theorem tombstone_leaves_reflector:
  assumes "UnmarshalMap rc (document_key k) = Inr z" and "rdSpec z = rdSpec zero_ReadDesire"
    and "manager_handleDelete (TypedObj (tombstoneObject (ItemToReadDesire rc J) partial k)) c w = ((r, c', evs), w')"
    and "rkName key = k" and "rkClusterID key \<noteq> '''' \<or> rkNodePoolName key \<noteq> ''''"
  shows "instance_at c' key = instance_at c key \<and> (\<forall>p. Canceled key p \<notin> set evs) \<and>
    w' = snd (opDelete (mgStatusCRUD c) k w)"
proof -
  let ?d = "z\<lparr>DocumentID := k\<rparr>" and ?key = "\<lparr>rkClusterID = '''', rkNodePoolName = '''', rkName = k\<rparr>"
  have "ItemToReadDesire rc J (document_key k) = Inr ?d"
    using assms(1) by (simp add: ItemToReadDesire_def itemToDesire_def kubeContentReadFromItem_def item_at_plain Let_def)
      (simp add: document_key_def attributeDocumentID_def)
  then have t: "tombstoneObject (ItemToReadDesire rc J) partial k = ?d"
    by (simp add: tombstoneObject_def document_key_def)
  have cl: "rsClusterID (rdSpec z) = ''''" using assms(2) by (simp add: zero_ReadDesire_def zero_ReadDesireSpec_def)
  have "stopByKey ?key c = (c', evs)" and w': "w' = snd (opDelete (mgStatusCRUD c) k w)"
    using assms(3) by (auto simp: t cl manager_handleDelete_def Let_def split: prod.splits)
  moreover have "key \<noteq> ?key" using assms(5) by auto
  ultimately show ?thesis
    using stopByKey_effect(4,5) [of ?key c c' evs] by (auto split: option.splits if_splits)
qed

section \<open>Runs\<close>

definition map_calls :: "(string \<Rightarrow> ApplyDesire option) \<Rightarrow> ApplyDesire watch_event \<Rightarrow> ApplyDesire handler_call list" where
  "map_calls s e = (case e of
     WatchModified d \<Rightarrow> (case s (DocumentID d) of None \<Rightarrow> [OnAdd d] | Some old \<Rightarrow> [OnUpdate old d])
   | WatchDeleted d \<Rightarrow> [OnDelete d])"

lemma map_calls_ok: "notify_ok map_store map_calls"
  by (simp add: notify_ok_def map_calls_def map_store_def)


lemma tombstone_leaves_reflector_witness:
  "instance_at (fst (snd (fst (manager_handleDelete
       (TypedObj (tombstoneObject (ItemToReadDesire bare_read_codec sample_json) (\<lambda>k. zero_ReadDesire) ''d''))
       (started_manager '''' 5) (specs_with (sample_read_desire '''' 5)))))) (pool_key '''') \<noteq> None"
proof -
  let ?t = "TypedObj (tombstoneObject (ItemToReadDesire bare_read_codec sample_json) (\<lambda>k. zero_ReadDesire) ''d'')"
  obtain r c' evs w' where h: "manager_handleDelete ?t (started_manager '''' 5) (specs_with (sample_read_desire '''' 5)) =
      ((r, c', evs), w')" by (metis prod.collapse)
  have "UnmarshalMap bare_read_codec (document_key ''d'') = Inr zero_ReadDesire" by (simp add: bare_read_codec_def)
  from tombstone_leaves_reflector [OF this refl h, of "pool_key ''''"]
  have "instance_at c' (pool_key '''') = instance_at (started_manager '''' 5) (pool_key '''')" by (simp add: pool_key_def)
  moreover have "instance_at (started_manager '''' 5) (pool_key '''') \<noteq> None"
    by (simp add: started_manager_def instance_at_def pool_key_def)
  ultimately show ?thesis by (simp only: h fst_conv snd_conv not_False_eq_True)
qed

end
