(* ===== verification/WorkQueue.thy ===== *)
theory WorkQueue
  imports ApplyDesireCtl
begin

text \<open>
  Workers on a work queue, the loop that the three controllers share: \<open>Run\<close> starts workers, each of which
  gets a key, makes a pass over it and then makes the queue calls of \<open>processNext\<close>, while handlers add
  keys. The queue of client-go is a parameter with its documented behaviour as hypothesis \<open>queue_ok\<close>, told
  over a view of it: the keys that wait, that are being processed and that are delayed by the rate limiter.
  A state keeps a log of what was asked for and what passes began and ended. What a controller has to do for
  the loop to be right is the locale \<open>worker_loop\<close>.
\<close>

section \<open>The queue\<close>

datatype ('q, 'k) get_result = Got 'k 'q | Blocks | ShuttingDown

record ('q, 'k) workqueue =
  wqNew :: 'q
  wqAdd :: "'k \<Rightarrow> 'q \<Rightarrow> 'q"
  wqAddRateLimited :: "'k \<Rightarrow> 'q \<Rightarrow> 'q"
  wqForget :: "'k \<Rightarrow> 'q \<Rightarrow> 'q"
  wqDone :: "'k \<Rightarrow> 'q \<Rightarrow> 'q"
  wqGet :: "'q \<Rightarrow> ('q, 'k) get_result"
  wqTimer :: "'k \<Rightarrow> 'q \<Rightarrow> 'q"
  wqShutDown :: "'q \<Rightarrow> 'q"

record ('q, 'k) queue_view =
  qvOk :: "'q \<Rightarrow> bool"
  qvWaiting :: "'q \<Rightarrow> 'k set"
  qvProcessing :: "'q \<Rightarrow> 'k set"
  qvDelayed :: "'q \<Rightarrow> 'k set"
  qvClosed :: "'q \<Rightarrow> bool"

text \<open>
  A key is handed out to one worker at a time, whatever is added while it is processed; it waits at most
  once; an addition during a pass is kept for afterwards; a rate-limited key waits after its delay. A closed
  queue takes nothing new.
\<close>

definition queue_ok :: "('q, 'k) workqueue \<Rightarrow> ('q, 'k) queue_view \<Rightarrow> bool" where
  "queue_ok wq v \<longleftrightarrow>
     qvOk v (wqNew wq) \<and> qvWaiting v (wqNew wq) = {} \<and> qvProcessing v (wqNew wq) = {} \<and>
     qvDelayed v (wqNew wq) = {} \<and>
     (\<forall>q k. qvOk v q \<longrightarrow> (let q' = wqAdd wq k q in qvOk v q' \<and> qvProcessing v q' = qvProcessing v q \<and>
        qvDelayed v q' = qvDelayed v q \<and> qvClosed v q' = qvClosed v q \<and>
        (\<not> qvClosed v q \<longrightarrow> qvWaiting v q' = insert k (qvWaiting v q)))) \<and>
     (\<forall>q k. qvOk v q \<longrightarrow> (let q' = wqAddRateLimited wq k q in qvOk v q' \<and> qvProcessing v q' = qvProcessing v q \<and>
        qvWaiting v q \<subseteq> qvWaiting v q' \<and> qvClosed v q' = qvClosed v q \<and>
        (\<not> qvClosed v q \<longrightarrow> qvWaiting v q' \<union> qvDelayed v q' = insert k (qvWaiting v q \<union> qvDelayed v q)))) \<and>
     (\<forall>q k. qvOk v q \<longrightarrow> (let q' = wqForget wq k q in qvOk v q' \<and> qvProcessing v q' = qvProcessing v q \<and>
        qvWaiting v q' = qvWaiting v q \<and> qvDelayed v q' = qvDelayed v q \<and> qvClosed v q' = qvClosed v q)) \<and>
     (\<forall>q k. qvOk v q \<longrightarrow> (let q' = wqDone wq k q in qvOk v q' \<and> qvProcessing v q' = qvProcessing v q - {k} \<and>
        qvWaiting v q' = qvWaiting v q \<and> qvDelayed v q' = qvDelayed v q \<and> qvClosed v q' = qvClosed v q)) \<and>
     (\<forall>q. qvOk v q \<longrightarrow> (case wqGet wq q of
        Got k q' \<Rightarrow> k \<in> qvWaiting v q \<and> k \<notin> qvProcessing v q \<and> qvOk v q' \<and>
          qvWaiting v q' = qvWaiting v q - {k} \<and> qvProcessing v q' = insert k (qvProcessing v q) \<and>
          qvDelayed v q' = qvDelayed v q \<and> qvClosed v q' = qvClosed v q
      | Blocks \<Rightarrow> qvWaiting v q \<subseteq> qvProcessing v q \<and> \<not> qvClosed v q
      | ShuttingDown \<Rightarrow> qvClosed v q)) \<and>
     (\<forall>q k. qvOk v q \<longrightarrow> (let q' = wqTimer wq k q in qvOk v q' \<and> qvProcessing v q' = qvProcessing v q \<and>
        qvClosed v q' = qvClosed v q \<and>
        (\<not> qvClosed v q \<longrightarrow> (if k \<in> qvDelayed v q
           then qvWaiting v q' = insert k (qvWaiting v q) \<and> qvDelayed v q' = qvDelayed v q - {k}
           else q' = q)))) \<and>
     (\<forall>q. qvOk v q \<longrightarrow> (let q' = wqShutDown wq q in qvOk v q' \<and> qvProcessing v q' = qvProcessing v q \<and> qvClosed v q'))"

section \<open>Workers\<close>

text \<open>A worker waits in \<open>Get\<close>, is in a pass, makes the calls that are left of \<open>processNext\<close>, or has returned.\<close>

datatype 'k worker = WIdle | WBusy 'k | WCalls 'k "'k queue_call list" | WExited

datatype 'k work_event = Asked 'k | Began 'k | Passed 'k | Failed 'k

record ('q, 'k) work_state =
  wkQueue :: 'q
  wkWorkers :: "'k worker list"
  wkCanceled :: bool
  wkLog :: "'k work_event list"

definition start_workers :: "('q, 'k) workqueue \<Rightarrow> nat \<Rightarrow> ('q, 'k) work_state" where
  "start_workers wq threadiness =
     \<lparr>wkQueue = wqNew wq, wkWorkers = replicate threadiness WIdle, wkCanceled = False, wkLog = []\<rparr>"

definition run_call :: "('q, 'k) workqueue \<Rightarrow> 'k queue_call \<Rightarrow> 'q \<Rightarrow> 'q" where
  "run_call wq qc q =
     (case qc of QAddRateLimited k \<Rightarrow> wqAddRateLimited wq k q | QForget k \<Rightarrow> wqForget wq k q | QDone k \<Rightarrow> wqDone wq k q
      | _ \<Rightarrow> q)"

definition outcome_event :: "'k \<Rightarrow> 'k queue_call list \<Rightarrow> 'k work_event" where
  "outcome_event k calls = (if QAddRateLimited k \<in> set calls then Failed k else Passed k)"

text \<open>
  \<open>asks ks\<close> says that a handler may add these keys, \<open>passes k calls\<close> that a pass over \<open>k\<close> may be followed by
  these calls. \<open>Run\<close> waits for its context and then shuts the queue down.
\<close>

inductive work_step ::
  "('q, 'k) workqueue \<Rightarrow> ('k list \<Rightarrow> bool) \<Rightarrow> ('k \<Rightarrow> 'k queue_call list \<Rightarrow> bool)
     \<Rightarrow> ('q, 'k) work_state \<Rightarrow> ('q, 'k) work_state \<Rightarrow> bool"
  for wq asks passes where
  work_handler: "asks ks \<Longrightarrow> work_step wq asks passes s
     (s\<lparr>wkQueue := fold (wqAdd wq) ks (wkQueue s), wkLog := wkLog s @ map Asked ks\<rparr>)"
| work_get: "i < length (wkWorkers s) \<Longrightarrow> wkWorkers s ! i = WIdle \<Longrightarrow> wqGet wq (wkQueue s) = Got k q \<Longrightarrow>
     work_step wq asks passes s
       (s\<lparr>wkQueue := q, wkWorkers := (wkWorkers s)[i := WBusy k], wkLog := wkLog s @ [Began k]\<rparr>)"
| work_exit: "i < length (wkWorkers s) \<Longrightarrow> wkWorkers s ! i = WIdle \<Longrightarrow> wqGet wq (wkQueue s) = ShuttingDown \<Longrightarrow>
     work_step wq asks passes s (s\<lparr>wkWorkers := (wkWorkers s)[i := WExited]\<rparr>)"
| work_pass: "i < length (wkWorkers s) \<Longrightarrow> wkWorkers s ! i = WBusy k \<Longrightarrow> passes k calls \<Longrightarrow>
     work_step wq asks passes s
       (s\<lparr>wkWorkers := (wkWorkers s)[i := WCalls k calls], wkLog := wkLog s @ [outcome_event k calls]\<rparr>)"
| work_call: "i < length (wkWorkers s) \<Longrightarrow> wkWorkers s ! i = WCalls k (qc # calls) \<Longrightarrow>
     work_step wq asks passes s
       (s\<lparr>wkQueue := run_call wq qc (wkQueue s), wkWorkers := (wkWorkers s)[i := WCalls k calls]\<rparr>)"
| work_again: "i < length (wkWorkers s) \<Longrightarrow> wkWorkers s ! i = WCalls k [] \<Longrightarrow>
     work_step wq asks passes s (s\<lparr>wkWorkers := (wkWorkers s)[i := WIdle]\<rparr>)"
| work_timer: "work_step wq asks passes s (s\<lparr>wkQueue := wqTimer wq k (wkQueue s)\<rparr>)"
| work_cancel: "work_step wq asks passes s (s\<lparr>wkCanceled := True\<rparr>)"
| work_shutdown: "wkCanceled s \<Longrightarrow> work_step wq asks passes s (s\<lparr>wkQueue := wqShutDown wq (wkQueue s)\<rparr>)"

inductive work_reachable ::
  "('q, 'k) workqueue \<Rightarrow> ('k list \<Rightarrow> bool) \<Rightarrow> ('k \<Rightarrow> 'k queue_call list \<Rightarrow> bool) \<Rightarrow> nat
     \<Rightarrow> ('q, 'k) work_state \<Rightarrow> bool"
  for wq asks passes threadiness where
  work_start: "work_reachable wq asks passes threadiness (start_workers wq threadiness)"
| work_next: "work_reachable wq asks passes threadiness s \<Longrightarrow> work_step wq asks passes s t \<Longrightarrow>
     work_reachable wq asks passes threadiness t"

section \<open>The queue's laws as lemmas\<close>

lemma queue_new:
  assumes ok: "queue_ok wq v"
  shows "qvOk v (wqNew wq)" "qvWaiting v (wqNew wq) = {}" "qvProcessing v (wqNew wq) = {}" "qvDelayed v (wqNew wq) = {}"
  using assms by (simp_all add: queue_ok_def)

lemma queue_add:
  assumes ok: "queue_ok wq v" and "qvOk v q"
  shows "qvOk v (wqAdd wq k q)" "qvProcessing v (wqAdd wq k q) = qvProcessing v q"
    "qvDelayed v (wqAdd wq k q) = qvDelayed v q" "qvClosed v (wqAdd wq k q) = qvClosed v q"
    "\<not> qvClosed v q \<Longrightarrow> qvWaiting v (wqAdd wq k q) = insert k (qvWaiting v q)"
  using assms by (simp_all add: queue_ok_def Let_def)

lemma queue_limited:
  assumes ok: "queue_ok wq v" and "qvOk v q"
  shows "qvOk v (wqAddRateLimited wq k q)" "qvProcessing v (wqAddRateLimited wq k q) = qvProcessing v q"
    "qvClosed v (wqAddRateLimited wq k q) = qvClosed v q"
    "\<not> qvClosed v q \<Longrightarrow> qvWaiting v (wqAddRateLimited wq k q) \<union> qvDelayed v (wqAddRateLimited wq k q) =
       insert k (qvWaiting v q \<union> qvDelayed v q)"
  using assms by (simp_all add: queue_ok_def Let_def)

lemma queue_forget:
  assumes ok: "queue_ok wq v" and "qvOk v q"
  shows "qvOk v (wqForget wq k q)" "qvProcessing v (wqForget wq k q) = qvProcessing v q"
    "qvWaiting v (wqForget wq k q) = qvWaiting v q" "qvDelayed v (wqForget wq k q) = qvDelayed v q"
    "qvClosed v (wqForget wq k q) = qvClosed v q"
  using assms by (simp_all add: queue_ok_def Let_def)

lemma queue_done:
  assumes ok: "queue_ok wq v" and "qvOk v q"
  shows "qvOk v (wqDone wq k q)" "qvProcessing v (wqDone wq k q) = qvProcessing v q - {k}"
    "qvWaiting v (wqDone wq k q) = qvWaiting v q" "qvDelayed v (wqDone wq k q) = qvDelayed v q"
    "qvClosed v (wqDone wq k q) = qvClosed v q"
  using assms by (simp_all add: queue_ok_def Let_def)

lemma queue_got:
  assumes ok: "queue_ok wq v" and "qvOk v q" and "wqGet wq q = Got k q'"
  shows "k \<notin> qvProcessing v q" "qvOk v q'" "qvWaiting v q' = qvWaiting v q - {k}"
    "qvProcessing v q' = insert k (qvProcessing v q)" "qvDelayed v q' = qvDelayed v q" "qvClosed v q' = qvClosed v q"
proof -
  have "case wqGet wq q of
        Got k q' \<Rightarrow> k \<in> qvWaiting v q \<and> k \<notin> qvProcessing v q \<and> qvOk v q' \<and>
          qvWaiting v q' = qvWaiting v q - {k} \<and> qvProcessing v q' = insert k (qvProcessing v q) \<and>
          qvDelayed v q' = qvDelayed v q \<and> qvClosed v q' = qvClosed v q
      | Blocks \<Rightarrow> qvWaiting v q \<subseteq> qvProcessing v q \<and> \<not> qvClosed v q
      | ShuttingDown \<Rightarrow> qvClosed v q"
    using assms(1,2) unfolding queue_ok_def by blast
  with assms(3) show "k \<notin> qvProcessing v q" "qvOk v q'" "qvWaiting v q' = qvWaiting v q - {k}"
    "qvProcessing v q' = insert k (qvProcessing v q)" "qvDelayed v q' = qvDelayed v q" "qvClosed v q' = qvClosed v q"
    by simp_all
qed

lemma queue_not_got:
  assumes ok: "queue_ok wq v" and "qvOk v q" and "\<not> qvClosed v q" and "\<And>k q'. wqGet wq q \<noteq> Got k q'"
  shows "qvWaiting v q \<subseteq> qvProcessing v q"
proof -
  have "case wqGet wq q of
        Got k q' \<Rightarrow> k \<in> qvWaiting v q \<and> k \<notin> qvProcessing v q \<and> qvOk v q' \<and>
          qvWaiting v q' = qvWaiting v q - {k} \<and> qvProcessing v q' = insert k (qvProcessing v q) \<and>
          qvDelayed v q' = qvDelayed v q \<and> qvClosed v q' = qvClosed v q
      | Blocks \<Rightarrow> qvWaiting v q \<subseteq> qvProcessing v q \<and> \<not> qvClosed v q
      | ShuttingDown \<Rightarrow> qvClosed v q"
    using assms(1,2) unfolding queue_ok_def by blast
  with assms(3,4) show ?thesis by (cases "wqGet wq q") auto
qed

lemma queue_timer:
  assumes ok: "queue_ok wq v" and "qvOk v q"
  shows "qvOk v (wqTimer wq k q)" "qvProcessing v (wqTimer wq k q) = qvProcessing v q"
    "qvClosed v (wqTimer wq k q) = qvClosed v q"
    "\<not> qvClosed v q \<Longrightarrow> qvWaiting v (wqTimer wq k q) \<union> qvDelayed v (wqTimer wq k q) = qvWaiting v q \<union> qvDelayed v q"
    "\<not> qvClosed v q \<Longrightarrow> k \<in> qvDelayed v q \<Longrightarrow> k \<in> qvWaiting v (wqTimer wq k q)"
proof -
  have "let q' = wqTimer wq k q in qvOk v q' \<and> qvProcessing v q' = qvProcessing v q \<and>
        qvClosed v q' = qvClosed v q \<and>
        (\<not> qvClosed v q \<longrightarrow> (if k \<in> qvDelayed v q
           then qvWaiting v q' = insert k (qvWaiting v q) \<and> qvDelayed v q' = qvDelayed v q - {k}
           else q' = q))"
    using assms unfolding queue_ok_def by blast
  then show "qvOk v (wqTimer wq k q)" "qvProcessing v (wqTimer wq k q) = qvProcessing v q"
    "qvClosed v (wqTimer wq k q) = qvClosed v q"
    "\<not> qvClosed v q \<Longrightarrow> qvWaiting v (wqTimer wq k q) \<union> qvDelayed v (wqTimer wq k q) = qvWaiting v q \<union> qvDelayed v q"
    "\<not> qvClosed v q \<Longrightarrow> k \<in> qvDelayed v q \<Longrightarrow> k \<in> qvWaiting v (wqTimer wq k q)"
    by (auto simp: Let_def split: if_splits)
qed

lemma queue_shut:
  assumes ok: "queue_ok wq v" and "qvOk v q"
  shows "qvOk v (wqShutDown wq q)" "qvProcessing v (wqShutDown wq q) = qvProcessing v q" "qvClosed v (wqShutDown wq q)"
  using assms by (simp_all add: queue_ok_def Let_def)

lemma queue_adds:
  assumes ok: "queue_ok wq v" and "qvOk v q"
  shows "qvOk v (fold (wqAdd wq) ks q)" "qvProcessing v (fold (wqAdd wq) ks q) = qvProcessing v q"
    "qvDelayed v (fold (wqAdd wq) ks q) = qvDelayed v q" "qvClosed v (fold (wqAdd wq) ks q) = qvClosed v q"
    "\<not> qvClosed v q \<Longrightarrow> qvWaiting v (fold (wqAdd wq) ks q) = set ks \<union> qvWaiting v q"
  using assms(2) by (induction ks arbitrary: q) (auto simp: queue_add [OF ok])

section \<open>What the log says\<close>

text \<open>A key is owed a pass when it was asked for, or its pass failed, and no pass over it began since.\<close>

fun owes_step :: "'k \<Rightarrow> 'k work_event \<Rightarrow> bool \<Rightarrow> bool" where
  "owes_step k (Asked j) b = (b \<or> j = k)"
| "owes_step k (Failed j) b = (b \<or> j = k)"
| "owes_step k (Began j) b = (b \<and> j \<noteq> k)"
| "owes_step k (Passed j) b = b"

definition owes :: "'k work_event list \<Rightarrow> 'k \<Rightarrow> bool" where
  "owes es k = fold (owes_step k) es False"

fun opened_step :: "'k \<Rightarrow> 'k work_event \<Rightarrow> bool \<Rightarrow> bool" where
  "opened_step k (Began j) b = (b \<or> j = k)"
| "opened_step k (Failed j) b = (b \<and> j \<noteq> k)"
| "opened_step k (Passed j) b = (b \<and> j \<noteq> k)"
| "opened_step k (Asked j) b = b"

definition opened :: "'k work_event list \<Rightarrow> 'k \<Rightarrow> bool" where
  "opened es k = fold (opened_step k) es False"

lemma owes_simps [simp]: "owes [] k = False" "owes (es @ [e]) k = owes_step k e (owes es k)"
  "owes (es @ map Asked ks) k \<longleftrightarrow> owes es k \<or> k \<in> set ks"
proof -
  have "fold (owes_step k) (map Asked ks) b \<longleftrightarrow> b \<or> k \<in> set ks" for b by (induction ks arbitrary: b) auto
  then show "owes (es @ map Asked ks) k \<longleftrightarrow> owes es k \<or> k \<in> set ks" by (simp add: owes_def)
qed (simp_all add: owes_def)

lemma opened_simps [simp]: "opened [] k = False" "opened (es @ [e]) k = opened_step k e (opened es k)"
  "opened (es @ map Asked ks) k = opened es k"
proof -
  have "fold (opened_step k) (map Asked ks) b = b" for b by (induction ks arbitrary: b) auto
  then show "opened (es @ map Asked ks) k = opened es k" by (simp add: opened_def)
qed (simp_all add: opened_def)

text \<open>What was asked for, is not owed and is not under way has had a pass since, and the last one succeeded.\<close>

definition reconciled :: "'k work_event list \<Rightarrow> 'k \<Rightarrow> bool" where
  "reconciled es k \<longleftrightarrow> (\<exists>pre post. es = pre @ Began k # post \<and> Asked k \<notin> set post \<and> Began k \<notin> set post \<and>
     Failed k \<notin> set post \<and> Passed k \<in> set post)"

lemma settled_log:
  "Asked k \<in> set es \<Longrightarrow> \<not> owes es k \<Longrightarrow>
   \<exists>pre post. es = pre @ Began k # post \<and> Asked k \<notin> set post \<and> Began k \<notin> set post \<and> Failed k \<notin> set post \<and>
     (opened es k \<or> Passed k \<in> set post)"
proof (induction es rule: rev_induct)
  case (snoc e es)
  show ?case
  proof (cases "e = Began k")
    case True
    then show ?thesis by (intro exI [of _ es] exI [of _ "[]"]) simp
  next
    case False
    have e: "e \<noteq> Asked k" "e \<noteq> Failed k" "\<not> owes es k" using snoc.prems(2) False by (cases e; auto)+
    with snoc obtain pre post where p: "es = pre @ Began k # post" "Asked k \<notin> set post" "Began k \<notin> set post"
      "Failed k \<notin> set post" "opened es k \<or> Passed k \<in> set post" by auto
    have "opened (es @ [e]) k \<or> Passed k \<in> set (post @ [e])"
      using p(5) e(2) by (cases e) auto
    with p e(1,2) False show ?thesis by (intro exI [of _ pre] exI [of _ "post @ [e]"]) auto
  qed
qed simp

lemma settled_reconciled:
  "Asked k \<in> set es \<Longrightarrow> \<not> owes es k \<Longrightarrow> \<not> opened es k \<Longrightarrow> reconciled es k"
  using settled_log [of k es] by (auto simp: reconciled_def)

section \<open>Who holds a key\<close>

definition holds :: "'k worker \<Rightarrow> 'k option" where
  "holds w = (case w of WBusy k \<Rightarrow> Some k | WCalls k calls \<Rightarrow> (if QDone k \<in> set calls then Some k else None) | _ \<Rightarrow> None)"

definition at_worker :: "'k worker list \<Rightarrow> nat \<Rightarrow> 'k worker \<Rightarrow> bool" where
  "at_worker ws i w \<longleftrightarrow> i < length ws \<and> ws ! i = w"

lemma nth_update_if: "xs[i := x] ! j = (if i = j \<and> i < length xs then x else xs ! j)"
  by (cases "i < length xs") (simp_all add: nth_list_update list_update_beyond)

lemma at_kept: "at_worker ws j w \<Longrightarrow> ws ! i \<noteq> w \<Longrightarrow> at_worker (ws[i := x]) j w"
  by (auto simp: at_worker_def nth_update_if)

lemma at_update: "at_worker (ws[i := x]) j w \<longleftrightarrow> (if j = i then i < length ws \<and> w = x else at_worker ws j w)"
  by (auto simp: at_worker_def nth_list_update)

definition held :: "'k worker list \<Rightarrow> 'k \<Rightarrow> nat \<Rightarrow> bool" where
  "held ws k i \<longleftrightarrow> i < length ws \<and> holds (ws ! i) = Some k"

lemma held_update: "held (ws[i := x]) k j \<longleftrightarrow> (if j = i then i < length ws \<and> holds x = Some k else held ws k j)"
  by (auto simp: held_def nth_list_update)

lemma at_held: "at_worker ws i w \<Longrightarrow> held ws k i \<longleftrightarrow> holds w = Some k"
  by (auto simp: at_worker_def held_def)

definition call_tails :: "'k \<Rightarrow> 'k queue_call list set" where
  "call_tails k = {[QAddRateLimited k, QDone k], [QForget k, QDone k], [QDone k], []}"

definition owed_to :: "('q, 'k) queue_view \<Rightarrow> ('q, 'k) work_state \<Rightarrow> 'k \<Rightarrow> bool" where
  "owed_to v s k \<longleftrightarrow> k \<in> qvWaiting v (wkQueue s) \<union> qvDelayed v (wkQueue s) \<or>
     (\<exists>i. at_worker (wkWorkers s) i (WCalls k [QAddRateLimited k, QDone k]))"

definition hold_inv :: "'k worker list \<Rightarrow> 'k set \<Rightarrow> bool" where
  "hold_inv ws P \<longleftrightarrow> (\<forall>i j k. held ws k i \<longrightarrow> held ws k j \<longrightarrow> i = j) \<and> (\<forall>k. k \<in> P \<longleftrightarrow> (\<exists>i. held ws k i))"

definition busy_inv :: "'k worker list \<Rightarrow> ('k \<Rightarrow> bool) \<Rightarrow> bool" where
  "busy_inv ws b \<longleftrightarrow> (\<forall>k. b k \<longleftrightarrow> (\<exists>i. at_worker ws i (WBusy k)))"

definition calls_inv :: "'k worker list \<Rightarrow> bool" where
  "calls_inv ws \<longleftrightarrow> (\<forall>i k calls. at_worker ws i (WCalls k calls) \<longrightarrow> calls \<in> call_tails k)"

definition work_inv :: "('q, 'k) queue_view \<Rightarrow> ('q, 'k) work_state \<Rightarrow> bool" where
  "work_inv v s \<longleftrightarrow>
     qvOk v (wkQueue s) \<and> calls_inv (wkWorkers s) \<and> hold_inv (wkWorkers s) (qvProcessing v (wkQueue s)) \<and>
     busy_inv (wkWorkers s) (opened (wkLog s)) \<and>
     (\<not> qvClosed v (wkQueue s) \<longrightarrow> (\<forall>k. owes (wkLog s) k \<longrightarrow> owed_to v s k))"

text \<open>One worker moves.\<close>

lemma holds_simps [simp]: "holds WIdle = None" "holds WExited = None" "holds (WBusy k) = Some k"
  "holds (WCalls k calls) = (if QDone k \<in> set calls then Some k else None)"
  by (simp_all add: holds_def)

lemma hold_same: "hold_inv ws P \<Longrightarrow> holds x = holds (ws ! i) \<Longrightarrow> hold_inv (ws[i := x]) P"
proof -
  assume h: "hold_inv ws P" and x: "holds x = holds (ws ! i)"
  then have "held (ws[i := x]) k j \<longleftrightarrow> held ws k j" for k j by (auto simp: held_update) (simp add: held_def)+
  with h show ?thesis by (simp add: hold_inv_def)
qed

lemma hold_take:
  assumes "hold_inv ws P" and "i < length ws" and "holds (ws ! i) = None" and "holds x = Some k" and "k \<notin> P"
  shows "hold_inv (ws[i := x]) (insert k P)"
proof -
  have "held (ws[i := x]) j l \<longleftrightarrow> held ws j l \<or> j = k \<and> l = i" for j l
    using assms(2-4) by (auto simp: held_update) (simp add: held_def)+
  with assms(1,5) show ?thesis by (auto simp: hold_inv_def)
qed

lemma hold_drop:
  assumes "hold_inv ws P" and "i < length ws" and "holds (ws ! i) = Some k" and "holds x = None"
  shows "hold_inv (ws[i := x]) (P - {k})"
proof -
  have i: "held ws k i" using assms(2,3) by (simp add: held_def)
  have "held (ws[i := x]) j l \<longleftrightarrow> held ws j l \<and> l \<noteq> i" for j l
    using assms(4) by (auto simp: held_update)
  moreover have "held ws j i \<Longrightarrow> j = k" for j using assms(3) by (simp add: held_def)
  ultimately show ?thesis using assms(1) i unfolding hold_inv_def by blast
qed

lemma busy_same: "busy_inv ws b \<Longrightarrow> (\<And>k. ws ! i \<noteq> WBusy k) \<Longrightarrow> (\<And>k. x \<noteq> WBusy k) \<Longrightarrow> busy_inv (ws[i := x]) b"
proof -
  assume b: "busy_inv ws b" and "\<And>k. ws ! i \<noteq> WBusy k" "\<And>k. x \<noteq> WBusy k"
  then have "at_worker (ws[i := x]) j (WBusy k) \<longleftrightarrow> at_worker ws j (WBusy k)" for k j
    by (auto simp: at_worker_def nth_update_if split: if_splits)
  with b show ?thesis by (simp add: busy_inv_def)
qed

lemma busy_begin:
  assumes "busy_inv ws b" and "i < length ws" and "ws ! i = WIdle"
  shows "busy_inv (ws[i := WBusy k]) (\<lambda>j. b j \<or> j = k)"
proof -
  have "at_worker (ws[i := WBusy k]) l (WBusy j) \<longleftrightarrow> at_worker ws l (WBusy j) \<or> j = k \<and> l = i" for l j
    using assms(2,3) by (auto simp: at_worker_def nth_update_if split: if_splits)
  with assms(1) show ?thesis by (auto simp: busy_inv_def)
qed

lemma busy_end:
  assumes "busy_inv ws b" and "hold_inv ws P" and "i < length ws" and "ws ! i = WBusy k" and "\<And>k. x \<noteq> WBusy k"
  shows "busy_inv (ws[i := x]) (\<lambda>j. b j \<and> j \<noteq> k)"
proof -
  have h: "held ws k i" using assms(3,4) by (simp add: held_def)
  have "at_worker ws l (WBusy k) \<Longrightarrow> l = i" for l
    using assms(2) h at_held [of ws l "WBusy k" k] by (simp add: hold_inv_def)
  moreover have "at_worker (ws[i := x]) l (WBusy j) \<longleftrightarrow> at_worker ws l (WBusy j) \<and> l \<noteq> i" for l j
    using assms(5) by (auto simp: at_update)
  moreover have "at_worker ws i (WBusy j) \<Longrightarrow> j = k" for j using assms(4) by (simp add: at_worker_def)
  moreover have "at_worker ws i (WBusy k)" using assms(3,4) by (simp add: at_worker_def)
  ultimately show ?thesis using assms(1) unfolding busy_inv_def by metis
qed

lemma calls_update: "calls_inv ws \<Longrightarrow> (\<And>k calls. x = WCalls k calls \<Longrightarrow> calls \<in> call_tails k) \<Longrightarrow> calls_inv (ws[i := x])"
  by (auto simp: calls_inv_def at_update)

lemma calls_at: "calls_inv ws \<Longrightarrow> i < length ws \<Longrightarrow> ws ! i = WCalls k calls \<Longrightarrow> calls \<in> call_tails k"
  by (auto simp: calls_inv_def at_worker_def)

lemma work_inv_start: "queue_ok wq v \<Longrightarrow> work_inv v (start_workers wq n)"
  by (auto simp: work_inv_def start_workers_def queue_new at_worker_def held_def calls_inv_def hold_inv_def busy_inv_def)

section \<open>The loop\<close>

text \<open>What the loop needs of a controller: a pass is followed by one of the two endings, for its own key.\<close>

locale worker_loop =
  fixes passes :: "'k \<Rightarrow> 'k queue_call list \<Rightarrow> bool"
  assumes pass_calls: "passes k calls \<Longrightarrow> calls = [QAddRateLimited k, QDone k] \<or> calls = [QForget k, QDone k]"
begin

lemma hold_step:
  assumes ok: "queue_ok wq v" and inv: "work_inv v s" and step: "work_step wq asks passes s t"
  shows "qvOk v (wkQueue t)" and "calls_inv (wkWorkers t)" and "hold_inv (wkWorkers t) (qvProcessing v (wkQueue t))"
proof -
  have q: "qvOk v (wkQueue s)" and c: "calls_inv (wkWorkers s)" and h: "hold_inv (wkWorkers s) (qvProcessing v (wkQueue s))"
    using inv by (simp_all add: work_inv_def)
  from step have "qvOk v (wkQueue t) \<and> calls_inv (wkWorkers t) \<and> hold_inv (wkWorkers t) (qvProcessing v (wkQueue t))"
  proof (cases rule: work_step.cases)
    case (work_get i k q')
    with queue_got [OF ok q work_get(4)] c show ?thesis
      by (auto intro!: calls_update hold_take [OF h])
  next
    case (work_exit i)
    with q c show ?thesis by (auto intro!: calls_update hold_same [OF h])
  next
    case (work_pass i k calls)
    from pass_calls [OF work_pass(4)] have "calls \<in> call_tails k" "QDone k \<in> set calls" by (auto simp: call_tails_def)
    with work_pass q c show ?thesis by (auto intro!: calls_update hold_same [OF h])
  next
    case (work_call i k qc calls)
    from calls_at [OF c work_call(2,3)] consider (mid) "qc = QAddRateLimited k \<or> qc = QForget k" "calls = [QDone k]"
      | (fin) "qc = QDone k" "calls = []" by (auto simp: call_tails_def)
    then show ?thesis
    proof cases
      case mid
      then have "calls \<in> call_tails k" by (simp add: call_tails_def)
      with mid work_call q c show ?thesis
        by (auto intro!: calls_update hold_same [OF h] simp: run_call_def queue_limited [OF ok q] queue_forget [OF ok q])
    next
      case fin
      then have "calls \<in> call_tails k" by (simp add: call_tails_def)
      with fin work_call q c show ?thesis
        by (auto intro!: calls_update hold_drop [OF h] simp: run_call_def queue_done [OF ok q])
    qed
  next
    case (work_again i k)
    with q c show ?thesis by (auto intro!: calls_update hold_same [OF h])
  qed (use q c h in \<open>simp_all add: queue_adds [OF ok] queue_timer [OF ok] queue_shut [OF ok]\<close>)
  then show "qvOk v (wkQueue t)" "calls_inv (wkWorkers t)" "hold_inv (wkWorkers t) (qvProcessing v (wkQueue t))"
    by simp_all
qed

lemma busy_step:
  assumes inv: "work_inv v s" and step: "work_step wq asks passes s t"
  shows "busy_inv (wkWorkers t) (opened (wkLog t))"
proof -
  have b: "busy_inv (wkWorkers s) (opened (wkLog s))" and h: "hold_inv (wkWorkers s) (qvProcessing v (wkQueue s))"
    using inv by (simp_all add: work_inv_def)
  from step show ?thesis
  proof (cases rule: work_step.cases)
    case (work_get i k q')
    with busy_begin [OF b work_get(2,3), of k] show ?thesis by (auto simp: busy_inv_def)
  next
    case (work_pass i k calls)
    have e: "outcome_event k calls = Passed k \<or> outcome_event k calls = Failed k" by (simp add: outcome_event_def)
    have "busy_inv ((wkWorkers s)[i := WCalls k calls]) (\<lambda>j. opened (wkLog s) j \<and> j \<noteq> k)"
      by (rule busy_end [OF b h work_pass(2,3)]) simp
    with work_pass(1) e show ?thesis by (auto simp: busy_inv_def)
  next
    case (work_handler ks)
    with b show ?thesis by (simp add: busy_inv_def)
  qed (use b in \<open>auto intro!: busy_same\<close>)
qed

lemma owed_step:
  assumes ok: "queue_ok wq v" and inv: "work_inv v s" and step: "work_step wq asks passes s t"
    and open_t: "\<not> qvClosed v (wkQueue t)" and owes: "owes (wkLog t) k"
  shows "owed_to v t k"
proof -
  have q: "qvOk v (wkQueue s)" and c: "calls_inv (wkWorkers s)"
    and o': "\<And>k. \<not> qvClosed v (wkQueue s) \<Longrightarrow> owes (wkLog s) k \<Longrightarrow> owed_to v s k"
    using inv by (simp_all add: work_inv_def)
  have keep: "owed_to v s k \<Longrightarrow> (\<And>j. wkWorkers s ! i \<noteq> WCalls j [QAddRateLimited j, QDone j]) \<Longrightarrow>
      qvWaiting v (wkQueue s) \<union> qvDelayed v (wkQueue s) \<subseteq> qvWaiting v q' \<union> qvDelayed v q' \<Longrightarrow>
      owed_to v (s\<lparr>wkQueue := q', wkWorkers := (wkWorkers s)[i := x], wkLog := l\<rparr>) k" for i x q' l k
    by (auto simp: owed_to_def) (metis at_kept)
  from step show ?thesis
  proof (cases rule: work_step.cases)
    case (work_handler ks)
    with open_t owes o' [of k] show ?thesis
      by (auto simp: owed_to_def queue_adds [OF ok q])
  next
    case (work_get i j q')
    note g = queue_got [OF ok q work_get(4)]
    from work_get(1) owes have "owes (wkLog s) k" "j \<noteq> k" by simp_all
    moreover have "\<not> qvClosed v (wkQueue s)" using work_get(1) open_t g(6) by simp
    ultimately have "owed_to v s k" by (simp add: o')
    with g(3,5) work_get(1-3) \<open>j \<noteq> k\<close> show ?thesis
      by (auto simp: owed_to_def) (metis at_kept worker.distinct)
  next
    case (work_exit i)
    then have "t = s\<lparr>wkQueue := wkQueue s, wkWorkers := (wkWorkers s)[i := WExited], wkLog := wkLog s\<rparr>" by simp
    with keep [of k i "wkQueue s" "wkLog s" WExited] work_exit o' [of k] open_t owes show ?thesis by simp
  next
    case (work_pass i j calls)
    from pass_calls [OF work_pass(4)] show ?thesis
    proof
      assume calls: "calls = [QAddRateLimited j, QDone j]"
      show ?thesis
      proof (cases "j = k")
        case True
        with work_pass calls show ?thesis by (auto simp: owed_to_def at_worker_def)
      next
        case False
        with work_pass(1) owes calls have "owes (wkLog s) k" by (simp add: outcome_event_def)
        with o' [of k] work_pass(1) open_t have "owed_to v s k" by simp
        with keep [of k i "wkQueue s" "wkLog t" "WCalls j calls"] work_pass(1,3) show ?thesis by simp
      qed
    next
      assume calls: "calls = [QForget j, QDone j]"
      with work_pass(1) owes have "owes (wkLog s) k" by (simp add: outcome_event_def)
      with o' [of k] work_pass(1) open_t have "owed_to v s k" by simp
      with keep [of k i "wkQueue s" "wkLog t" "WCalls j calls"] work_pass(1,3) show ?thesis by simp
    qed
  next
    case (work_call i j qc calls)
    have o1: "\<not> qvClosed v (wkQueue s) \<Longrightarrow> owed_to v s k" using o' [of k] work_call(1) owes by simp
    from calls_at [OF c work_call(2,3)] consider (limit) "qc = QAddRateLimited j" "calls = [QDone j]"
      | (forget) "qc = QForget j" | (fin) "qc = QDone j" by (auto simp: call_tails_def)
    then show ?thesis
    proof cases
      case limit
      then have t: "t = s\<lparr>wkQueue := wqAddRateLimited wq j (wkQueue s), wkWorkers := (wkWorkers s)[i := WCalls j [QDone j]]\<rparr>"
        using work_call(1) by (simp add: run_call_def)
      have "\<not> qvClosed v (wkQueue s)" using open_t by (simp add: t queue_limited [OF ok q])
      note a = queue_limited(4) [OF ok q this, of j] and o2 = o1 [OF this]
      show ?thesis
      proof (cases "k = j")
        case True
        with a show ?thesis by (auto simp: owed_to_def t)
      next
        case False
        with o2 a work_call(2,3) limit show ?thesis
          by (auto simp: owed_to_def t) (metis at_kept worker.inject(2))+
      qed
    next
      case forget
      with o1 open_t work_call(1,3) keep [of k i "wqForget wq j (wkQueue s)" "wkLog s" "WCalls j calls"] show ?thesis
        by (simp add: run_call_def queue_forget [OF ok q])
    next
      case fin
      with o1 open_t work_call(1,3) keep [of k i "wqDone wq j (wkQueue s)" "wkLog s" "WCalls j calls"] show ?thesis
        by (simp add: run_call_def queue_done [OF ok q])
    qed
  next
    case (work_again i j)
    then have "t = s\<lparr>wkQueue := wkQueue s, wkWorkers := (wkWorkers s)[i := WIdle], wkLog := wkLog s\<rparr>" by simp
    with keep [of k i "wkQueue s" "wkLog s" WIdle] work_again o' [of k] open_t owes show ?thesis by simp
  next
    case (work_timer j)
    with open_t owes o' [of k] show ?thesis
      using queue_timer [OF ok q] by (auto simp: owed_to_def)
  next
    case work_cancel
    with open_t owes o' [of k] show ?thesis by (simp add: owed_to_def)
  next
    case work_shutdown
    with open_t show ?thesis by (simp add: queue_shut [OF ok q])
  qed
qed

lemma work_inv_step: "queue_ok wq v \<Longrightarrow> work_inv v s \<Longrightarrow> work_step wq asks passes s t \<Longrightarrow> work_inv v t"
  using hold_step [of wq v s asks t] busy_step [of v s wq asks t] owed_step [of wq v s asks t]
  by (auto simp: work_inv_def [of v t])

lemma work_reachable_inv: "queue_ok wq v \<Longrightarrow> work_reachable wq asks passes n s \<Longrightarrow> work_inv v s"
  by (rotate_tac, induction rule: work_reachable.induct) (auto intro: work_inv_start work_inv_step)

text \<open>One worker at a time for a key, work goes on while a key waits, and at rest everything is reconciled.\<close>

lemma exclusive:
  assumes "queue_ok wq v" and "work_reachable wq asks passes n s"
    and "held (wkWorkers s) k i" and "held (wkWorkers s) k j"
  shows "i = j"
  using work_reachable_inv [OF assms(1,2)] assms(3,4) by (auto simp: work_inv_def hold_inv_def)

lemma not_stuck:
  assumes "queue_ok wq v" and "work_reachable wq asks passes n s"
    and "\<not> qvClosed v (wkQueue s)" and "\<forall>w \<in> set (wkWorkers s). w = WIdle" and "k \<in> qvWaiting v (wkQueue s)"
  shows "\<exists>j q. wqGet wq (wkQueue s) = Got j q"
proof (rule ccontr)
  note inv = work_reachable_inv [OF assms(1,2)]
  assume "\<nexists>j q. wqGet wq (wkQueue s) = Got j q"
  with queue_not_got [OF assms(1) _ assms(3)] inv assms(5) have "k \<in> qvProcessing v (wkQueue s)"
    by (auto simp: work_inv_def)
  then obtain i where "held (wkWorkers s) k i" using inv by (auto simp: work_inv_def hold_inv_def)
  with assms(4) nth_mem show False by (fastforce simp: held_def)
qed

lemma settled:
  assumes "queue_ok wq v" and "work_reachable wq asks passes n s"
    and "\<not> qvClosed v (wkQueue s)" and "\<forall>w \<in> set (wkWorkers s). w = WIdle"
    and "qvWaiting v (wkQueue s) = {}" and "qvDelayed v (wkQueue s) = {}"
  shows "\<not> owes (wkLog s) k" and "\<not> opened (wkLog s) k"
proof -
  note inv = work_reachable_inv [OF assms(1,2)]
  have idle: "\<not> at_worker (wkWorkers s) i w" if "w \<noteq> WIdle" for i w
    using assms(4) that nth_mem by (fastforce simp: at_worker_def)
  then show "\<not> opened (wkLog s) k" using inv by (auto simp: work_inv_def busy_inv_def)
  show "\<not> owes (wkLog s) k" using inv assms(3,5,6) idle by (auto simp: work_inv_def owed_to_def)
qed

lemma at_rest:
  assumes "queue_ok wq v" and "work_reachable wq asks passes n s"
    and "\<not> qvClosed v (wkQueue s)" and "\<forall>w \<in> set (wkWorkers s). w = WIdle"
    and "qvWaiting v (wkQueue s) = {}" and "qvDelayed v (wkQueue s) = {}" and "Asked k \<in> set (wkLog s)"
  shows "reconciled (wkLog s) k"
  by (rule settled_reconciled [OF assms(7) settled [OF assms(1-6)]])

end

end
