(* ===== verification/ApplyWorkers.thy ===== *)
theory ApplyWorkers
  imports ApplyEvents WorkQueue
begin

text \<open>
  The apply controller at work: \<open>Run\<close> and \<open>runWorker\<close> of \<open>pkg/controllers/apply_desire/controller.go\<close>, that
  is, several workers on one work queue while the informer calls the event handlers. The queue is
  client-go's and a parameter, with its documented behaviour as hypothesis. The first section is about the
  delete handler, which does not go through the queue, and the pass that is under way when it runs.
\<close>

section \<open>A handler during a pass\<close>

text \<open>The controller while \<open>env\<close> happens before the API server answers a server-side apply.\<close>

definition interrupted :: "('w \<Rightarrow> 'w) \<Rightarrow> ('w, 'c) ApplyDesireController \<Rightarrow> ('w, 'c) ApplyDesireController" where
  "interrupted env c = c\<lparr>acDyn := (acDyn c)\<lparr>kcApply :=
     (\<lambda>ri n ob opts w. case kcApply (acDyn c) ri n ob opts w of (r, w) \<Rightarrow> (r, env w))\<rparr>\<rparr>"

lemma interrupted_simps [simp]:
  "acSpecFetch (interrupted env c) = acSpecFetch c" "acSetCondition (interrupted env c) = acSetCondition c"
  "apply_writer (interrupted env c) = apply_writer c"
  by (simp_all add: interrupted_def apply_writer_def)

lemma applyDesired_interrupted:
  "applyDesired c d w = ((gen, None), w2) \<Longrightarrow> applyDesired (interrupted env c) d w = ((gen, None), env w2)"
  by (auto simp: applyDesired_def interrupted_def Let_def split: if_splits prod.splits sum.splits)

lemma fetch_gone:
  "acSpecFetch c key w = (Inl err, w') \<Longrightarrow> IsNotFoundError err \<Longrightarrow> ApplyDesire_SyncOnce c key w = (None, w')"
  by (simp add: ApplyDesire_SyncOnce_def)

text \<open>
  C11: a status document can outlive its spec. When the spec is removed (\<open>remove\<close>) and its delete event is
  handled while a pass over it waits for the API server, the handler removes the status document and the
  pass then creates it again; the event is over and was not queued, and every later pass finds no spec and
  leaves the table alone.
\<close>

theorem removed_spec_keeps_status:
  assumes "apply_env I docs N objs c" and "I w"
    and "acSpecFetch c key w = (Inr (Some desire), w1)" and "ssa_typed desire"
    and "applyDesired c desire w1 = ((gen, None), w2)"
    and "I (remove w2)" and "handleDelete c (TypedObj desire) (remove w2) = (None, w3)"
    and "ApplyDesire_SyncOnce (interrupted (\<lambda>w. snd (handleDelete c (TypedObj desire) (remove w))) c) key w = (None, w')"
    and "acSpecFetch c key w' = (Inl err, w'')" and "IsNotFoundError err"
  shows "docs w3 (akName key) = None \<and> docs w' (akName key) \<noteq> None \<and>
    ApplyDesire_SyncOnce c key w' = (None, w'') \<and> docs w'' = docs w'"
proof (intro conjI)
  note env = assms(1)
  have id: "DocumentID desire = akName key" by (rule apply_envD(8) [OF env assms(3)])
  note C = apply_envD(1) [OF env]
  obtain r3 u3 where d: "opDelete (acStatusCRUD c) (akName key) (remove w2) = (r3, u3)" by fastforce
  with assms(7) id have u3: "u3 = w3" "r3 = None \<or> (\<exists>e. r3 = Some e \<and> IsNotFoundError e)"
    by (auto simp: handleDelete_def split: option.splits if_splits)
  have w3: "I w3" using resource_crud.inv_ops(4) [OF C assms(6), of "akName key"] d u3(1) by simp
  let ?env = "\<lambda>w. snd (handleDelete c (TypedObj desire) (remove w))"
  let ?f = "record_outcome (acSetCondition c) None (classifyAsDegraded None) \<circ> set_generation gen"
  obtain se u where up: "UpdateStatus (apply_writer c) key (?f \<circ> observe desire) w3 = (se, u)" by fastforce
  have ap: "applyDesired (interrupted ?env c) desire w1 = ((gen, None), w3)"
    using applyDesired_interrupted [OF assms(5), of ?env] assms(7) by simp
  from assms(8) assms(3,4) ap up have r: "errors_join [None, se] = None" "w' = u"
    by (auto simp: ApplyDesire_SyncOnce_def ssa_typed_def [symmetric] Let_def)
  from r(1) have "se = None" by (cases se) (simp_all add: errors_join_def)
  note rec = update_records [OF env w3 id generation_status up]
  show "docs w' (akName key) \<noteq> None" using rec(4) [OF \<open>se = None\<close>] r(2) by auto
  show "ApplyDesire_SyncOnce c key w' = (None, w'')" by (rule fetch_gone [OF assms(9,10)])
  show "docs w'' = docs w'" using fetch_keeps(2) [OF env _ assms(9)] rec(1) r(2) by simp
  from u3(2) show "docs w3 (akName key) = None"
    using resource_crud.delete_ok [OF C assms(6)] resource_crud.delete_not_found [OF C assms(6)] d u3(1) by auto
qed

definition drop_specs :: "sample_world \<Rightarrow> sample_world" where
  "drop_specs w = w\<lparr>swSpecs := []\<rparr>"

lemma removed_spec_keeps_status_witness:
  "let d = sample_desire '''' ''data'';
       c = interrupted (\<lambda>w. snd (handleDelete sample_controller (TypedObj d) (drop_specs w))) sample_controller;
       w' = snd (ApplyDesire_SyncOnce c sample_key sample_ssa_world)
   in swSpecs w' = [] \<and> sw_docs w' ''d'' \<noteq> None"
proof -
  let ?d = "sample_desire '''' ''data''"
  let ?c = "interrupted (\<lambda>w. snd (handleDelete sample_controller (TypedObj ?d) (drop_specs w))) sample_controller"
  let ?w2 = "snd (applyDesired sample_controller ?d sample_ssa_world)"
  let ?w' = "snd (ApplyDesire_SyncOnce ?c sample_key sample_ssa_world)"
  have fetch: "acSpecFetch sample_controller sample_key sample_ssa_world = (Inr (Some ?d), sample_ssa_world)"
    and ty: "ssa_typed ?d"
    and ap: "applyDesired sample_controller ?d sample_ssa_world = ((1, None), ?w2)"
    and del: "handleDelete sample_controller (TypedObj ?d) (drop_specs ?w2) =
      (None, snd (handleDelete sample_controller (TypedObj ?d) (drop_specs ?w2)))"
    and pass: "ApplyDesire_SyncOnce ?c sample_key sample_ssa_world = (None, ?w')"
    and gone: "acSpecFetch sample_controller sample_key ?w' = (Inl ErrNotFound, ?w')"
    and specs: "swSpecs ?w' = []" and name: "akName sample_key = ''d''"
    by code_simp+
  have nf: "IsNotFoundError ErrNotFound" by code_simp
  have i0: "sw_inv sample_ssa_world" by (simp add: sample_ssa_world_def world_with_inv del: comp_apply)
  have i1: "sw_inv (drop_specs ?w2)"
    using applyDesired_keeps [OF apply_envD(5) [OF sample_env] ap] i0 by (simp add: drop_specs_def)
  from removed_spec_keeps_status [where remove = drop_specs, OF sample_env i0 fetch ty ap i1 del pass gone nf] specs name
  show ?thesis by (simp add: Let_def)
qed

section \<open>The workers\<close>

text \<open>The keys that one event adds, whatever the state of the cooldown gates, and the calls after a pass.\<close>

definition apply_asks :: "(ApplyDesireKey, 'c) lru_lib \<Rightarrow> ('w, 'c) ApplyDesireController \<Rightarrow> ApplyDesireKey list \<Rightarrow> bool" where
  "apply_asks lib c ks \<longleftrightarrow>
     (\<exists>obj. ks = handleAdd obj) \<or>
     (\<exists>now oldObj newObj cd dcd.
        ks = fst (handleUpdate lib now oldObj newObj (c\<lparr>acCooldown := cd, acDeleteCooldown := dcd\<rparr>)))"

definition apply_passes ::
  "('w, 'c) ApplyDesireController \<Rightarrow> ApplyDesireKey \<Rightarrow> ApplyDesireKey queue_call list \<Rightarrow> bool" where
  "apply_passes c k calls \<longleftrightarrow> (\<exists>w w'. apply_processNext c (Some k) w = ((True, QGet k # calls), w'))"

text \<open>\<open>Run\<close> of the apply controller, with its \<open>threadiness\<close> workers.\<close>

definition apply_run ::
  "('q, ApplyDesireKey) workqueue \<Rightarrow> (ApplyDesireKey, 'c) lru_lib \<Rightarrow> ('w, 'c) ApplyDesireController \<Rightarrow> nat
     \<Rightarrow> ('q, ApplyDesireKey) work_state \<Rightarrow> bool" where
  "apply_run wq lib c threadiness = work_reachable wq (apply_asks lib c) (apply_passes c) threadiness"

lemma apply_passes_cases:
  "apply_passes c k calls \<longleftrightarrow>
     (calls = [QForget k, QDone k] \<and> (\<exists>w w'. ApplyDesire_SyncOnce c k w = (None, w'))) \<or>
     (calls = [QAddRateLimited k, QDone k] \<and> (\<exists>w err w'. ApplyDesire_SyncOnce c k w = (Some err, w')))"
proof -
  have "apply_processNext c (Some k) w = ((True, QGet k # calls), w') \<longleftrightarrow>
      calls = [QForget k, QDone k] \<and> ApplyDesire_SyncOnce c k w = (None, w') \<or>
      calls = [QAddRateLimited k, QDone k] \<and> (\<exists>err. ApplyDesire_SyncOnce c k w = (Some err, w'))" for w w'
    by (cases "ApplyDesire_SyncOnce c k w"; cases "fst (ApplyDesire_SyncOnce c k w)")
      (auto simp: apply_processNext_def)
  then show ?thesis unfolding apply_passes_def by blast
qed

interpretation apply_loop: worker_loop "apply_passes c" for c
  by unfold_locales (auto simp: apply_passes_cases)

text \<open>
  C10: however many workers \<open>Run\<close> starts and however events, timers and passes interleave, no two workers
  make a pass over the same ApplyDesire at the same time; a key stays with its worker until \<open>Done\<close>.
\<close>

theorem one_pass_per_desire:
  assumes "queue_ok wq v" and "apply_run wq lib c n s"
    and "i < length (wkWorkers s)" and "j < length (wkWorkers s)" and "i \<noteq> j" and "wkWorkers s ! i = WBusy k"
  shows "holds (wkWorkers s ! j) \<noteq> Some k"
  using apply_loop.exclusive [OF assms(1) assms(2) [unfolded apply_run_def], of k i j] assms(3-6)
  by (auto simp: held_def)

text \<open>
  C5: nothing that was asked for is forgotten. While the queue is open, workers that are all idle have a key
  to take whenever one waits; and when none waits and none is delayed, every key that an event ever added has
  had a pass that began after the last time it was added and that returned nil: a failed pass is repeated
  and an event during a pass leads to another one.
\<close>

theorem changes_reconciled:
  assumes "queue_ok wq v" and "apply_run wq lib c n s"
    and "\<not> qvClosed v (wkQueue s)" and "\<forall>w \<in> set (wkWorkers s). w = WIdle"
  shows "(qvWaiting v (wkQueue s) \<noteq> {} \<longrightarrow> (\<exists>k q. wqGet wq (wkQueue s) = Got k q)) \<and>
    (qvWaiting v (wkQueue s) \<union> qvDelayed v (wkQueue s) = {} \<longrightarrow>
       (\<forall>k. Asked k \<in> set (wkLog s) \<longrightarrow> (\<exists>pre post. wkLog s = pre @ Began k # post \<and> Asked k \<notin> set post \<and>
          Failed k \<notin> set post \<and> Passed k \<in> set post)))"
  using apply_loop.not_stuck [OF assms(1) assms(2) [unfolded apply_run_def] assms(3,4)]
    apply_loop.at_rest [OF assms(1) assms(2) [unfolded apply_run_def] assms(3,4)]
  by (fastforce simp: reconciled_def)

section \<open>A queue and a run\<close>

text \<open>A queue as client-go keeps it: an order, the keys to be done, the keys in work, and the delayed ones.\<close>

record 'k list_queue =
  lqOrder :: "'k list"
  lqDirty :: "'k list"
  lqBusy :: "'k list"
  lqLate :: "'k list"
  lqShut :: bool

definition lq_add :: "'k \<Rightarrow> 'k list_queue \<Rightarrow> 'k list_queue" where
  "lq_add k q = (if lqShut q \<or> k \<in> set (lqDirty q) then q
     else q\<lparr>lqDirty := k # lqDirty q, lqOrder := (if k \<in> set (lqBusy q) then lqOrder q else lqOrder q @ [k])\<rparr>)"

definition list_queue :: "('k list_queue, 'k) workqueue" where
  "list_queue = \<lparr>wqNew = \<lparr>lqOrder = [], lqDirty = [], lqBusy = [], lqLate = [], lqShut = False\<rparr>,
     wqAdd = lq_add, wqAddRateLimited = (\<lambda>k q. if lqShut q then q else q\<lparr>lqLate := k # lqLate q\<rparr>),
     wqForget = (\<lambda>k q. q),
     wqDone = (\<lambda>k q. q\<lparr>lqBusy := removeAll k (lqBusy q),
       lqOrder := (if k \<in> set (lqBusy q) \<and> k \<in> set (lqDirty q) then lqOrder q @ [k] else lqOrder q)\<rparr>),
     wqGet = (\<lambda>q. case lqOrder q of [] \<Rightarrow> (if lqShut q then ShuttingDown else Blocks)
       | k # rest \<Rightarrow> Got k (q\<lparr>lqOrder := rest, lqBusy := k # lqBusy q, lqDirty := removeAll k (lqDirty q)\<rparr>)),
     wqTimer = (\<lambda>k q. if k \<in> set (lqLate q) then lq_add k (q\<lparr>lqLate := removeAll k (lqLate q)\<rparr>) else q),
     wqShutDown = (\<lambda>q. q\<lparr>lqShut := True\<rparr>)\<rparr>"

definition list_view :: "('k list_queue, 'k) queue_view" where
  "list_view = \<lparr>qvOk = (\<lambda>q. distinct (lqOrder q) \<and> set (lqOrder q) = set (lqDirty q) - set (lqBusy q)),
     qvWaiting = (\<lambda>q. set (lqDirty q)), qvProcessing = (\<lambda>q. set (lqBusy q)), qvDelayed = (\<lambda>q. set (lqLate q)),
     qvClosed = lqShut\<rparr>"

lemma list_queue_ok: "queue_ok list_queue list_view"
  unfolding queue_ok_def
proof (intro conjI allI impI)
  fix q :: "'k list_queue" assume q: "qvOk list_view q"
  then have d: "distinct (lqOrder q)" and s: "set (lqOrder q) = set (lqDirty q) - set (lqBusy q)"
    by (simp_all add: list_view_def)
  show "case wqGet list_queue q of
        Got k q' \<Rightarrow> k \<in> qvWaiting list_view q \<and> k \<notin> qvProcessing list_view q \<and> qvOk list_view q' \<and>
          qvWaiting list_view q' = qvWaiting list_view q - {k} \<and>
          qvProcessing list_view q' = insert k (qvProcessing list_view q) \<and>
          qvDelayed list_view q' = qvDelayed list_view q \<and> qvClosed list_view q' = qvClosed list_view q
      | Blocks \<Rightarrow> qvWaiting list_view q \<subseteq> qvProcessing list_view q \<and> \<not> qvClosed list_view q
      | ShuttingDown \<Rightarrow> qvClosed list_view q"
  proof (cases "lqOrder q")
    case Nil
    with s show ?thesis by (auto simp: list_queue_def list_view_def)
  next
    case (Cons k rest)
    with d s have r: "k \<notin> set rest" "distinct rest" "insert k (set rest) = set (lqDirty q) - set (lqBusy q)" by simp_all
    then have "k \<in> set (lqDirty q)" "k \<notin> set (lqBusy q)" by blast+
    moreover have "set rest = set (lqDirty q) - {k} - insert k (set (lqBusy q))" using r(1,3) by blast
    ultimately show ?thesis using r(2) by (simp add: list_queue_def list_view_def Cons)
  qed
qed (auto simp: list_queue_def list_view_def lq_add_def Let_def)

text \<open>A run: the desire is added, one of two workers makes its pass and reports to the queue.\<close>

definition run_state_of ::
  "ApplyDesireKey list \<Rightarrow> ApplyDesireKey list \<Rightarrow> ApplyDesireKey worker list \<Rightarrow> ApplyDesireKey work_event list
     \<Rightarrow> (ApplyDesireKey list_queue, ApplyDesireKey) work_state" where
  "run_state_of dirty busy ws es =
     \<lparr>wkQueue = \<lparr>lqOrder = dirty, lqDirty = dirty, lqBusy = busy, lqLate = [], lqShut = False\<rparr>,
      wkWorkers = ws, wkCanceled = False, wkLog = es\<rparr>"

definition busy_state :: "(ApplyDesireKey list_queue, ApplyDesireKey) work_state" where
  "busy_state = run_state_of [] [sample_key] [WBusy sample_key, WIdle] [Asked sample_key, Began sample_key]"

definition rest_state :: "(ApplyDesireKey list_queue, ApplyDesireKey) work_state" where
  "rest_state = run_state_of [] [] [WIdle, WIdle] [Asked sample_key, Began sample_key, Passed sample_key]"

lemma sample_asks: "apply_asks lib c [sample_key]"
  unfolding apply_asks_def
  by (rule disjI1, rule exI [of _ "TypedObj (sample_desire '''' ''data'')"])
    (simp add: handleAdd_def enqueue_def ApplyDesireKeyFromDesire_def sample_desire_def sample_key_def zero_ApplyDesireSpec_def
      zero_ApplyDesire_def)

lemma sample_passes: "apply_passes sample_controller sample_key [QForget sample_key, QDone sample_key]"
proof -
  have "fst (ApplyDesire_SyncOnce sample_controller sample_key sample_ssa_world) = None" by code_simp
  then show ?thesis unfolding apply_passes_cases by (metis prod.collapse)
qed

lemma work_go:
  "work_reachable wq asks passes n s \<Longrightarrow> work_step wq asks passes s t \<Longrightarrow> t = u \<Longrightarrow> work_reachable wq asks passes n u"
  using work_next by blast

lemma run_call_simps: "run_call wq (QForget k) q = wqForget wq k q" "run_call wq (QDone k) q = wqDone wq k q"
  by (simp_all add: run_call_def)

lemmas run_evals = list_queue_def lq_add_def start_workers_def run_call_simps outcome_event_def run_state_of_def

lemma busy_reached: "apply_run list_queue sample_lru sample_controller 2 busy_state"
proof -
  let ?asks = "apply_asks sample_lru sample_controller" and ?passes = "apply_passes sample_controller"
  let ?run = "work_reachable list_queue ?asks ?passes 2" and ?k = sample_key
  have "?run (run_state_of [?k] [] [WIdle, WIdle] [Asked ?k])"
    by (rule work_go [OF work_start work_handler [where ks = "[?k]"]])
      (simp_all add: sample_asks run_evals numeral_2_eq_2)
  then have "?run (run_state_of [] [?k] [WBusy ?k, WIdle] [Asked ?k, Began ?k])"
    by (rule work_go [OF _ work_get [where i = 0 and k = ?k]]) (simp_all add: run_evals)
  then show ?thesis by (simp add: apply_run_def busy_state_def)
qed

lemma rest_reached: "apply_run list_queue sample_lru sample_controller 2 rest_state"
proof -
  let ?asks = "apply_asks sample_lru sample_controller" and ?passes = "apply_passes sample_controller"
  let ?run = "work_reachable list_queue ?asks ?passes 2" and ?k = sample_key
  let ?log = "[Asked ?k, Began ?k, Passed ?k]"
  have "?run (run_state_of [] [?k] [WBusy ?k, WIdle] [Asked ?k, Began ?k])"
    using busy_reached by (simp add: apply_run_def busy_state_def)
  then have "?run (run_state_of [] [?k] [WCalls ?k [QForget ?k, QDone ?k], WIdle] ?log)"
    by (rule work_go [OF _ work_pass [where i = 0 and k = ?k and calls = "[QForget ?k, QDone ?k]"]])
      (simp_all add: run_evals sample_passes)
  then have "?run (run_state_of [] [?k] [WCalls ?k [QDone ?k], WIdle] ?log)"
    by (rule work_go [OF _ work_call [where i = 0 and k = ?k and qc = "QForget ?k" and calls = "[QDone ?k]"]])
      (simp_all add: run_evals)
  then have "?run (run_state_of [] [] [WCalls ?k [], WIdle] ?log)"
    by (rule work_go [OF _ work_call [where i = 0 and k = ?k and qc = "QDone ?k" and calls = "[]"]])
      (simp_all add: run_evals)
  then have "?run (run_state_of [] [] [WIdle, WIdle] ?log)"
    by (rule work_go [OF _ work_again [where i = 0 and k = ?k]]) (simp_all add: run_evals)
  then show ?thesis by (simp add: apply_run_def rest_state_def)
qed

lemma one_pass_per_desire_witness:
  "wkWorkers busy_state ! 0 = WBusy sample_key \<and> holds (wkWorkers busy_state ! 1) \<noteq> Some sample_key"
  using one_pass_per_desire [OF list_queue_ok busy_reached, of 0 1 sample_key]
  by (simp add: busy_state_def run_state_of_def)

lemma changes_reconciled_witness:
  "\<exists>pre post. wkLog rest_state = pre @ Began sample_key # post \<and> Asked sample_key \<notin> set post \<and>
     Failed sample_key \<notin> set post \<and> Passed sample_key \<in> set post"
proof -
  have s: "\<not> qvClosed list_view (wkQueue rest_state)" "\<forall>w \<in> set (wkWorkers rest_state). w = WIdle"
    "qvWaiting list_view (wkQueue rest_state) \<union> qvDelayed list_view (wkQueue rest_state) = {}"
    "Asked sample_key \<in> set (wkLog rest_state)"
    by (simp_all add: rest_state_def run_state_of_def list_view_def)
  from changes_reconciled [OF list_queue_ok rest_reached s(1,2)] s(3,4) show ?thesis by blast
qed

end
