(* ===== verification/Convergence.thy ===== *)
theory Convergence
  imports ApplyWorkers
begin

text \<open>
  The apply controller and its world together: workers make their passes on the tables and the cluster
  while others change both, the informer reports changes and deletions and the queue keeps the keys. A state
  remembers which documents were disturbed, that is, whose spec or status changed behind the back of the
  workers, and were not asked for since. A pass is one step here; what happens inside of one is the subject of
  the first section of \<open>ApplyWorkers\<close>.
\<close>

section \<open>What a pass does to the world\<close>

text \<open>The specs table is another table than the one the passes write, and \<open>Fetch\<close> reads it.\<close>

definition specs_env :: "('w \<Rightarrow> string \<Rightarrow> ApplyDesire option) \<Rightarrow> ('w, 'c) ApplyDesireController \<Rightarrow> bool" where
  "specs_env specs c \<longleftrightarrow>
     (\<forall>key w. case fst (acSpecFetch c key w) of
        Inr r \<Rightarrow> specs w (akName key) = r
      | Inl err \<Rightarrow> IsNotFoundError err \<longrightarrow> specs w (akName key) = None) \<and>
     (\<forall>key. keeps specs (acSpecFetch c key)) \<and> kube_keeps specs (acDyn c) \<and> ops_keep specs (acStatusCRUD c)"

text \<open>A status that answers a spec: of this revision of it, and applied if that is what it asks for.\<close>

definition reflected :: "ApplyDesire \<Rightarrow> ApplyDesireStatus \<Rightarrow> bool" where
  "reflected desire st \<longleftrightarrow> asObservedDesireUpdateTime st = UpdateTime desire \<and>
     (ssa_typed desire \<and> shows_outcome None st \<or>
      asType (adSpec desire) = ApplyDesireTypeDelete \<and>
        (shows_outcome None st \<or> shows_waiting st \<or> (\<exists>e. shows_outcome (Some e) st)))"

lemma pass_specs:
  assumes "specs_env specs c" and "ApplyDesire_SyncOnce c key w = (r, w')"
  shows "specs w' = specs w"
proof -
  have sp: "keeps specs (acSpecFetch c key)" "kube_keeps specs (acDyn c)"
    "keeps specs (UpdateStatus (apply_writer c) key m)" for m
    using assms(1) UpdateStatus_keeps [of specs "acStatusCRUD c"] by (simp_all add: specs_env_def apply_writer_def)
  obtain f w1 where f: "acSpecFetch c key w = (f, w1)" by fastforce
  note w1 = keepsD [OF sp(1) f]
  show ?thesis
  proof (cases "\<exists>desire. f = Inr (Some desire)")
    case False
    with assms(2) f w1 show ?thesis
      by (cases f) (auto simp: ApplyDesire_SyncOnce_def not_Some_eq split: option.splits)
  next
    case True
    then obtain desire where d: "f = Inr (Some desire)" by blast
    obtain gen err w2 where ap: "applyDesired c desire w1 = ((gen, err), w2)" by (metis prod.collapse)
    obtain m w3 where ev: "evaluateDelete c desire w1 = (m, w3)" by fastforce
    note applyDesired_keeps [OF sp(2) ap] evaluateDelete_keeps [OF sp(2) ev]
    with assms(2) f w1 d ap ev show ?thesis
      by (auto simp: ApplyDesire_SyncOnce_def Let_def split: if_splits prod.splits dest!: keepsD [OF sp(3)])
  qed
qed

lemma pass_frame:
  assumes env: "apply_env I docs N objs c" and I: "I w" and sync: "ApplyDesire_SyncOnce c key w = (r, w')"
  shows "I w'" and "k \<noteq> akName key \<Longrightarrow> docs w' k = docs w k"
proof -
  obtain f w1 where f: "acSpecFetch c key w = (f, w1)" by fastforce
  note w1 = fetch_keeps [OF env I f]
  consider (none) "w' = w1" | (some) desire where "f = Inr (Some desire)"
    using sync f by (cases f) (auto simp: ApplyDesire_SyncOnce_def split: option.splits)
  then have "I w' \<and> (\<forall>k. k \<noteq> akName key \<longrightarrow> docs w' k = docs w k)"
  proof cases
    case none
    with w1 show ?thesis by simp
  next
    case some
    note fetch = f [unfolded some]
    show ?thesis
    proof (cases "ssa_typed desire")
      case True
      from ssa_pass [OF env I fetch this sync] show ?thesis by blast
    next
      case False
      then show ?thesis
        using delete_pass(1,2) [OF env I fetch _ sync] unknown_pass(2,3) [OF env I fetch False _ sync] by blast
    qed
  qed
  then show "I w'" and "k \<noteq> akName key \<Longrightarrow> docs w' k = docs w k" by simp_all
qed

lemma pass_reflects:
  assumes env: "apply_env I docs N objs c" and sp: "specs_env specs c" and I: "I w"
    and sync: "ApplyDesire_SyncOnce c key w = (None, w')" and spec: "specs w (akName key) = Some desire"
  shows "\<exists>d. docs w' (akName key) = Some d \<and> reflected desire (adStatus d)"
proof -
  obtain f w1 where f: "acSpecFetch c key w = (f, w1)" by fastforce
  have "case f of Inr r \<Rightarrow> specs w (akName key) = r | Inl err \<Rightarrow> IsNotFoundError err \<longrightarrow> specs w (akName key) = None"
    using sp f unfolding specs_env_def by (metis fst_conv)
  with spec sync f have "f = Inr (Some desire)"
    by (cases f) (auto simp: ApplyDesire_SyncOnce_def split: if_splits)
  note fetch = f [unfolded this]
  consider (ssa) "ssa_typed desire" | (delete) "asType (adSpec desire) = ApplyDesireTypeDelete"
    | (unknown) "\<not> ssa_typed desire" "asType (adSpec desire) \<noteq> ApplyDesireTypeDelete" by blast
  then show ?thesis
  proof cases
    case ssa
    from ssa_pass [OF env I fetch ssa sync] ssa show ?thesis
      by (auto simp: reflected_def eq_commute [of None])
  next
    case delete
    from delete_pass(4) [OF env I fetch delete sync] delete show ?thesis by (auto simp: reflected_def)
  next
    case unknown
    from unknown_pass(1) [OF env I fetch unknown sync] show ?thesis by (auto simp: eq_commute [of None])
  qed
qed

lemma handleDelete_inv:
  assumes "apply_env I docs N objs c" and "I w" and "handleDelete c obj w = (e, w')"
  shows "I w'"
  using assms(2,3) resource_crud.inv_ops(4) [OF apply_envD(1) [OF assms(1)], of w]
  by (auto simp: handleDelete_def split: option.splits prod.splits if_splits informer_obj.splits) (metis snd_conv)+

section \<open>Runs\<close>

record ('w, 'q) reconciler =
  rcWorld :: 'w
  rcWork :: "('q, ApplyDesireKey) work_state"
  rcPending :: "string set"

definition disturbed ::
  "('w \<Rightarrow> string \<Rightarrow> ApplyDesire option) \<Rightarrow> ('w \<Rightarrow> string \<Rightarrow> ApplyDesire option) \<Rightarrow> 'w \<Rightarrow> 'w \<Rightarrow> string set" where
  "disturbed specs docs w w' = {n. specs w' n \<noteq> specs w n \<or> docs w' n \<noteq> docs w n}"

text \<open>At the start every spec that is there has yet to be asked for.\<close>

definition start_reconciler ::
  "('q, ApplyDesireKey) workqueue \<Rightarrow> nat \<Rightarrow> ('w \<Rightarrow> string \<Rightarrow> ApplyDesire option) \<Rightarrow> 'w \<Rightarrow> ('w, 'q) reconciler" where
  "start_reconciler wq threadiness specs w =
     \<lparr>rcWorld = w, rcWork = start_workers wq threadiness, rcPending = {n. specs w n \<noteq> None}\<rparr>"

text \<open>
  Others change the world; the informer hands over a deletion or an event that adds keys; a worker makes the
  pass of \<open>processNext\<close>; and the queue and the workers make a step of \<open>work_step\<close> that is none of these.
\<close>

inductive reconcile_step ::
  "('q, ApplyDesireKey) workqueue \<Rightarrow> (ApplyDesireKey, 'c) lru_lib \<Rightarrow> ('w, 'c) ApplyDesireController
     \<Rightarrow> ('w \<Rightarrow> string \<Rightarrow> ApplyDesire option) \<Rightarrow> ('w \<Rightarrow> string \<Rightarrow> ApplyDesire option) \<Rightarrow> ('w \<Rightarrow> 'w \<Rightarrow> bool)
     \<Rightarrow> ('w, 'q) reconciler \<Rightarrow> ('w, 'q) reconciler \<Rightarrow> bool"
  for wq lib c specs docs others where
  rc_others: "others (rcWorld s) w' \<Longrightarrow> reconcile_step wq lib c specs docs others s
     (s\<lparr>rcWorld := w', rcPending := rcPending s \<union> disturbed specs docs (rcWorld s) w'\<rparr>)"
| rc_deleted: "handleDelete c obj (rcWorld s) = (e, w') \<Longrightarrow> reconcile_step wq lib c specs docs others s
     (s\<lparr>rcWorld := w', rcPending := rcPending s \<union> disturbed specs docs (rcWorld s) w'\<rparr>)"
| rc_event: "apply_asks lib c ks \<Longrightarrow> reconcile_step wq lib c specs docs others s
     (s\<lparr>rcWork := (rcWork s)\<lparr>wkQueue := fold (wqAdd wq) ks (wkQueue (rcWork s)),
          wkLog := wkLog (rcWork s) @ map Asked ks\<rparr>,
        rcPending := rcPending s - akName ` set ks\<rparr>)"
| rc_pass: "i < length (wkWorkers (rcWork s)) \<Longrightarrow> wkWorkers (rcWork s) ! i = WBusy k \<Longrightarrow>
     apply_processNext c (Some k) (rcWorld s) = ((True, QGet k # calls), w') \<Longrightarrow>
     reconcile_step wq lib c specs docs others s
       (s\<lparr>rcWorld := w', rcWork := (rcWork s)\<lparr>wkWorkers := (wkWorkers (rcWork s))[i := WCalls k calls],
            wkLog := wkLog (rcWork s) @ [outcome_event k calls]\<rparr>\<rparr>)"
| rc_queue: "work_step wq (\<lambda>ks. False) (\<lambda>k calls. False) (rcWork s) t \<Longrightarrow>
     reconcile_step wq lib c specs docs others s (s\<lparr>rcWork := t\<rparr>)"

lemma work_step_mono:
  assumes "work_step wq a p s t" and "\<And>ks. a ks \<Longrightarrow> a' ks" and "\<And>k calls. p k calls \<Longrightarrow> p' k calls"
  shows "work_step wq a' p' s t"
  using assms(1) by cases (auto intro: work_step.intros assms(2,3))

lemma quiet_step:
  assumes "work_step wq (\<lambda>ks. False) (\<lambda>k calls. False) s t"
  shows "wkLog t = wkLog s \<or> (\<exists>k. wkLog t = wkLog s @ [Began k])"
  using assms by cases auto

lemma reconciler_works:
  assumes "(reconcile_step wq lib c specs docs others)\<^sup>*\<^sup>* (start_reconciler wq n specs w0) s"
  shows "apply_run wq lib c n (rcWork s)"
  using assms unfolding apply_run_def
proof (induction rule: rtranclp_induct)
  case base
  then show ?case by (simp add: start_reconciler_def work_start)
next
  case (step s t)
  have "rcWork t = rcWork s \<or> work_step wq (apply_asks lib c) (apply_passes c) (rcWork s) (rcWork t)"
    using step(2)
  proof cases
    case (rc_event ks)
    then show ?thesis by (simp add: work_handler)
  next
    case (rc_pass i k calls w')
    from rc_pass(4) have "apply_passes c k calls" unfolding apply_passes_def by blast
    with rc_pass show ?thesis by (simp add: work_pass)
  next
    case (rc_queue u)
    then show ?thesis by (auto intro: work_step_mono)
  qed simp_all
  with step(3) show ?case by (metis work_next)
qed

section \<open>Convergence\<close>

text \<open>Every document is disturbed, owed a pass, in one, or answered.\<close>

definition answered ::
  "('w \<Rightarrow> string \<Rightarrow> ApplyDesire option) \<Rightarrow> ('w \<Rightarrow> string \<Rightarrow> ApplyDesire option) \<Rightarrow> 'w \<Rightarrow> string \<Rightarrow> bool" where
  "answered specs docs w name \<longleftrightarrow>
     (\<forall>desire. specs w name = Some desire \<longrightarrow> (\<exists>d. docs w name = Some d \<and> reflected desire (adStatus d)))"

definition under_way :: "ApplyDesireKey work_event list \<Rightarrow> string \<Rightarrow> bool" where
  "under_way es name \<longleftrightarrow> (\<exists>k. akName k = name \<and> (owes es k \<or> opened es k))"

lemma answered_same:
  "answered specs docs w name \<Longrightarrow> name \<notin> disturbed specs docs w w' \<Longrightarrow> answered specs docs w' name"
  by (simp add: answered_def disturbed_def)

lemma under_way_simps:
  "under_way (es @ map Asked ks) name \<longleftrightarrow> under_way es name \<or> name \<in> akName ` set ks"
  "under_way es name \<Longrightarrow> under_way (es @ [Began k]) name"
  "under_way (es @ [Failed k]) name \<longleftrightarrow> under_way es name \<or> name = akName k"
  "under_way es name \<Longrightarrow> under_way (es @ [Passed k]) name \<or> name = akName k"
  by (auto simp: under_way_def)

definition converges_inv ::
  "('w \<Rightarrow> bool) \<Rightarrow> ('w \<Rightarrow> string \<Rightarrow> ApplyDesire option) \<Rightarrow> ('w \<Rightarrow> string \<Rightarrow> ApplyDesire option)
     \<Rightarrow> ('w, 'q) reconciler \<Rightarrow> bool" where
  "converges_inv I specs docs s \<longleftrightarrow> I (rcWorld s) \<and>
     (\<forall>name. name \<in> rcPending s \<or> under_way (wkLog (rcWork s)) name \<or> answered specs docs (rcWorld s) name)"

lemma pass_answers:
  assumes env: "apply_env I docs N objs c" and sp: "specs_env specs c" and I: "I w"
    and pass: "apply_processNext c (Some k) w = ((True, QGet k # calls), w')"
    and inv: "under_way es name \<or> answered specs docs w name"
  shows "under_way (es @ [outcome_event k calls]) name \<or> answered specs docs w' name"
proof -
  obtain r where sync: "ApplyDesire_SyncOnce c k w = (r, w')"
    and out: "outcome_event k calls = (if r = None then Passed k else Failed k)"
    using pass by (cases "ApplyDesire_SyncOnce c k w"; cases "fst (ApplyDesire_SyncOnce c k w)")
      (auto simp: apply_processNext_def outcome_event_def)
  note same = pass_specs [OF sp sync] pass_frame(2) [OF env I sync]
  show ?thesis
  proof (cases "name = akName k")
    case True
    show ?thesis
    proof (cases r)
      case None
      with sync have "ApplyDesire_SyncOnce c k w = (None, w')" by simp
      from pass_reflects [OF env sp I this] same(1) True show ?thesis by (simp add: answered_def)
    next
      case (Some e)
      with out True show ?thesis by (simp add: under_way_simps)
    qed
  next
    case False
    with same have "answered specs docs w name \<Longrightarrow> answered specs docs w' name" by (simp add: answered_def)
    with inv out False under_way_simps(3) [of es _ name] under_way_simps(4) [of es name] show ?thesis by (auto split: if_splits)
  qed
qed

lemma converges_step:
  assumes env: "apply_env I docs N objs c" and sp: "specs_env specs c"
    and oth: "\<And>w w'. I w \<Longrightarrow> others w w' \<Longrightarrow> I w'"
    and inv: "converges_inv I specs docs s" and step: "reconcile_step wq lib c specs docs others s t"
  shows "converges_inv I specs docs t"
proof -
  have I: "I (rcWorld s)"
    and each: "name \<in> rcPending s \<or> under_way (wkLog (rcWork s)) name \<or> answered specs docs (rcWorld s) name" for name
    using inv by (simp_all add: converges_inv_def)
  have disturb: "(name \<in> rcPending s \<or> name \<in> disturbed specs docs (rcWorld s) w') \<or>
      under_way (wkLog (rcWork s)) name \<or> answered specs docs w' name" for name w'
    using each [of name] answered_same [of specs docs "rcWorld s" name w'] by blast
  from step show ?thesis
  proof cases
    case (rc_others w')
    with oth [OF I] disturb show ?thesis by (simp add: converges_inv_def)
  next
    case (rc_deleted obj e w')
    with handleDelete_inv [OF env I rc_deleted(2)] disturb show ?thesis by (simp add: converges_inv_def)
  next
    case (rc_event ks)
    with I each show ?thesis by (auto simp: converges_inv_def under_way_simps)
  next
    case (rc_pass i k calls w')
    from rc_pass(4) have "\<exists>r. ApplyDesire_SyncOnce c k (rcWorld s) = (r, w')"
      by (cases "ApplyDesire_SyncOnce c k (rcWorld s)"; cases "fst (ApplyDesire_SyncOnce c k (rcWorld s))")
        (auto simp: apply_processNext_def)
    then have "I w'" using pass_frame(1) [OF env I] by blast
    with each pass_answers [OF env sp I rc_pass(4)] rc_pass(1) show ?thesis by (simp add: converges_inv_def) blast
  next
    case (rc_queue u)
    from quiet_step [OF rc_queue(2)] have "under_way (wkLog (rcWork s)) name \<Longrightarrow> under_way (wkLog u) name" for name
      using under_way_simps(2) by auto
    with I each rc_queue(1) show ?thesis by (simp add: converges_inv_def) blast
  qed
qed

text \<open>
  C4: the controller converges. However workers, events, deletions and other writers of the tables and of the
  cluster interleave: once every worker is idle and no key waits or is delayed, each document of the specs table
  that was asked for since it was last disturbed has a status that shows the update time of that very revision,
  and that it was applied without error if that is what it asks for; a spec of an unknown type never lets the
  controller come to rest. Asking is what the informer does for every change (\<open>Pipeline\<close>).
\<close>

theorem desires_converge:
  assumes "apply_env I docs N objs c" and "specs_env specs c" and "queue_ok wq v"
    and "\<And>w w'. I w \<Longrightarrow> others w w' \<Longrightarrow> I w'" and "I w0"
    and "(reconcile_step wq lib c specs docs others)\<^sup>*\<^sup>* (start_reconciler wq threadiness specs w0) s"
    and "\<not> qvClosed v (wkQueue (rcWork s))" and "\<forall>w \<in> set (wkWorkers (rcWork s)). w = WIdle"
    and "qvWaiting v (wkQueue (rcWork s)) = {}" and "qvDelayed v (wkQueue (rcWork s)) = {}"
    and "specs (rcWorld s) name = Some desire" and "name \<notin> rcPending s"
  shows "\<exists>d. docs (rcWorld s) name = Some d \<and>
    asObservedDesireUpdateTime (adStatus d) = UpdateTime desire \<and>
    (ssa_typed desire \<and> successful_is (asConditions (adStatus d)) ConditionTrue ConditionReasonNoErrors \<and>
       degraded_is (asConditions (adStatus d)) ConditionFalse ConditionReasonNoErrors \<or>
     asType (adSpec desire) = ApplyDesireTypeDelete \<and>
       (shows_outcome None (adStatus d) \<or> shows_waiting (adStatus d) \<or> (\<exists>e. shows_outcome (Some e) (adStatus d))))"
proof -
  have "converges_inv I specs docs s"
    using assms(6)
  proof (induction rule: rtranclp_induct)
    case base
    from assms(5) show ?case by (auto simp: converges_inv_def start_reconciler_def answered_def)
  next
    case (step t u)
    show ?case by (rule converges_step [OF assms(1,2,4) step(3,2)])
  qed
  moreover have "\<not> under_way (wkLog (rcWork s)) name"
    using apply_loop.settled [OF assms(3) reconciler_works [OF assms(6), unfolded apply_run_def] assms(7-10)]
    by (auto simp: under_way_def)
  ultimately have "answered specs docs (rcWorld s) name"
    using assms(12) unfolding converges_inv_def by blast
  with assms(11) show ?thesis
    by (auto simp: answered_def reflected_def shows_outcome_def classifyAsDegraded_def)
qed

section \<open>A run\<close>

definition sw_specs :: "sample_world \<Rightarrow> string \<Rightarrow> ApplyDesire option" where
  "sw_specs w n = map_option (\<lambda>d. d\<lparr>DocumentID := n\<rparr>) (map_of (swSpecs w) n)"

lemma sample_specs_env: "specs_env sw_specs sample_controller"
  unfolding specs_env_def
proof (intro conjI allI)
  show "case fst (acSpecFetch sample_controller key w) of
      Inl err \<Rightarrow> IsNotFoundError err \<longrightarrow> sw_specs w (akName key) = None
    | Inr r \<Rightarrow> sw_specs w (akName key) = r" for key w
    by (simp add: sample_controller_def specFetcher_def sample_specs_get_def sw_specs_def split: option.split)
  show "keeps sw_specs (acSpecFetch sample_controller key)" for key
    by (simp add: sample_controller_def keeps_def specFetcher_def sample_specs_get_def sw_specs_def split: option.split)
  show "kube_keeps sw_specs (acDyn sample_controller)"
    by (auto simp: sample_controller_def kube_keeps_def keeps_def sample_kube_def sw_specs_def Let_def fun_eq_iff
        split: option.splits)
  show "ops_keep sw_specs (acStatusCRUD sample_controller)"
    by (simp add: sample_controller_def ops_keep_def keeps_def zoom_ops_def zoom_def sw_specs_def fun_eq_iff split: prod.split)
qed

text \<open>One desire: it is asked for, one of two workers makes its pass, and both rest.\<close>

abbreviation sample_reconcile ::
  "(sample_world, ApplyDesireKey list_queue) reconciler \<Rightarrow> (sample_world, ApplyDesireKey list_queue) reconciler \<Rightarrow> bool" where
  "sample_reconcile \<equiv>
     reconcile_step list_queue sample_lru sample_controller sw_specs sw_docs (\<lambda>w w'. swStatus w' = swStatus w)"

definition sample_after :: sample_world where
  "sample_after = snd (apply_processNext sample_controller (Some sample_key) sample_ssa_world)"

definition sample_rest :: "(sample_world, ApplyDesireKey list_queue) reconciler" where
  "sample_rest = \<lparr>rcWorld = sample_after, rcWork = rest_state, rcPending = {}\<rparr>"

lemma reconcile_go: "R\<^sup>*\<^sup>* s t \<Longrightarrow> R t t' \<Longrightarrow> t' = u \<Longrightarrow> R\<^sup>*\<^sup>* s u"
  by (simp add: rtranclp.rtrancl_into_rtrancl)

lemma sample_pending: "{n. sw_specs sample_ssa_world n \<noteq> None} = {''d''}"
  by (auto simp: sw_specs_def sample_ssa_world_def world_with_def sample_desire_def split: if_splits)

lemma rest_run:
  "sample_reconcile\<^sup>*\<^sup>* (start_reconciler list_queue 2 sw_specs sample_ssa_world) sample_rest"
proof -
  let ?run = "sample_reconcile\<^sup>*\<^sup>* (start_reconciler list_queue 2 sw_specs sample_ssa_world)"
  let ?k = sample_key and ?w' = sample_after
  let ?log = "[Asked ?k, Began ?k, Passed ?k]"
  have k: "akName ?k = ''d''" by (simp add: sample_key_def)
  have pass: "apply_processNext sample_controller (Some ?k) sample_ssa_world = ((True, [QGet ?k, QForget ?k, QDone ?k]), ?w')"
  proof -
    have "fst (apply_processNext sample_controller (Some ?k) sample_ssa_world) = (True, [QGet ?k, QForget ?k, QDone ?k])"
      by code_simp
    then show ?thesis unfolding sample_after_def by (metis prod.collapse)
  qed
  have "?run \<lparr>rcWorld = sample_ssa_world, rcWork = run_state_of [?k] [] [WIdle, WIdle] [Asked ?k], rcPending = {}\<rparr>"
    by (rule reconcile_go [where R = sample_reconcile, OF rtranclp.rtrancl_refl rc_event [where ks = "[?k]"]])
      (simp_all add: start_reconciler_def sample_pending [simplified] sample_asks k run_evals numeral_2_eq_2)
  then have "?run \<lparr>rcWorld = sample_ssa_world, rcWork = run_state_of [] [?k] [WBusy ?k, WIdle] [Asked ?k, Began ?k],
      rcPending = {}\<rparr>"
    by (rule reconcile_go [where R = sample_reconcile, OF _ rc_queue [OF work_get [where i = 0 and k = ?k]]]) (simp_all add: run_evals)
  then have "?run \<lparr>rcWorld = ?w', rcWork = run_state_of [] [?k] [WCalls ?k [QForget ?k, QDone ?k], WIdle] ?log,
      rcPending = {}\<rparr>"
    by (rule reconcile_go [where R = sample_reconcile, OF _ rc_pass [where i = 0 and k = ?k and calls = "[QForget ?k, QDone ?k]" and w' = ?w']])
      (simp_all add: run_evals pass)
  then have "?run \<lparr>rcWorld = ?w', rcWork = run_state_of [] [?k] [WCalls ?k [QDone ?k], WIdle] ?log, rcPending = {}\<rparr>"
    by (rule reconcile_go [where R = sample_reconcile, OF _ rc_queue [OF work_call [where i = 0 and k = ?k and qc = "QForget ?k" and calls = "[QDone ?k]"]]])
      (simp_all add: run_evals)
  then have "?run \<lparr>rcWorld = ?w', rcWork = run_state_of [] [] [WCalls ?k [], WIdle] ?log, rcPending = {}\<rparr>"
    by (rule reconcile_go [where R = sample_reconcile, OF _ rc_queue [OF work_call [where i = 0 and k = ?k and qc = "QDone ?k" and calls = "[]"]]])
      (simp_all add: run_evals)
  then show ?thesis
    by (rule reconcile_go [where R = sample_reconcile, OF _ rc_queue [OF work_again [where i = 0 and k = ?k]]])
      (simp_all add: run_evals sample_rest_def rest_state_def)
qed

lemma desires_converge_witness:
  "\<exists>d. sw_docs (rcWorld sample_rest) ''d'' = Some d \<and> asObservedDesireUpdateTime (adStatus d) = 5 \<and>
    successful_is (asConditions (adStatus d)) ConditionTrue ConditionReasonNoErrors"
proof -
  have s: "\<not> qvClosed list_view (wkQueue (rcWork sample_rest))" "\<forall>w \<in> set (wkWorkers (rcWork sample_rest)). w = WIdle"
    "qvWaiting list_view (wkQueue (rcWork sample_rest)) = {}" "qvDelayed list_view (wkQueue (rcWork sample_rest)) = {}"
    "''d'' \<notin> rcPending sample_rest"
    by (simp_all add: sample_rest_def rest_state_def run_state_of_def list_view_def)
  have inv: "sw_inv sample_ssa_world" by (simp add: sample_ssa_world_def world_with_inv del: comp_apply)
  have spec: "sw_specs (rcWorld sample_rest) ''d'' = Some (sample_desire '''' ''data'')" by code_simp
  have "UpdateTime (sample_desire '''' ''data'') = 5" "asType (adSpec (sample_desire '''' ''data'')) \<noteq> ApplyDesireTypeDelete"
    by code_simp+
  moreover have "\<exists>d. sw_docs (rcWorld sample_rest) ''d'' = Some d \<and>
      asObservedDesireUpdateTime (adStatus d) = UpdateTime (sample_desire '''' ''data'') \<and>
      (ssa_typed (sample_desire '''' ''data'') \<and>
         successful_is (asConditions (adStatus d)) ConditionTrue ConditionReasonNoErrors \<and>
         degraded_is (asConditions (adStatus d)) ConditionFalse ConditionReasonNoErrors \<or>
       asType (adSpec (sample_desire '''' ''data'')) = ApplyDesireTypeDelete \<and>
         (shows_outcome None (adStatus d) \<or> shows_waiting (adStatus d) \<or> (\<exists>e. shows_outcome (Some e) (adStatus d))))"
    by (rule desires_converge [OF sample_env sample_specs_env list_queue_ok _ inv rest_run s(1-4) spec s(5)]) simp
  ultimately show ?thesis by auto
qed

end
