(* ===== verification/ReadWorkers.thy ===== *)
theory ReadWorkers
  imports ReadManagerClaims WorkQueue
begin

text \<open>
  The other two controllers on the worker loop of theory \<open>WorkQueue\<close>: \<open>Run\<close> of the read manager, which has at
  least one worker, and \<open>Run\<close> of a reflector, which adds its one key when its informer has synced, at every
  event of the informer and at every tick, and has a single worker. Without a synced cache a reflector
  returns at once.
\<close>

section \<open>The manager\<close>

definition manager_asks ::
  "(ReadDesireKey, 'c) lru_lib \<Rightarrow> ('w, 'p, 'c) ReadDesireManager \<Rightarrow> ReadDesireKey list \<Rightarrow> bool" where
  "manager_asks lib c ks \<longleftrightarrow>
     (\<exists>obj. ks = manager_handleAdd obj) \<or>
     (\<exists>now oldObj newObj cd. ks = fst (manager_handleUpdate lib now oldObj newObj (c\<lparr>mgCooldown := cd\<rparr>)))"

text \<open>A pass of the manager may find any set of running instances.\<close>

definition manager_passes ::
  "('w, 'p, 'c) ReadDesireManager \<Rightarrow> ReadDesireKey \<Rightarrow> ReadDesireKey queue_call list \<Rightarrow> bool" where
  "manager_passes c k calls \<longleftrightarrow>
     (\<exists>running w c' evs w'. manager_processNext (c\<lparr>mgRunning := running\<rparr>) (Some k) w = ((True, QGet k # calls, c', evs), w'))"

definition manager_workers :: "int \<Rightarrow> nat" where
  "manager_workers threadiness = nat (if threadiness < 1 then 1 else threadiness)"

definition manager_loop ::
  "('q, ReadDesireKey) workqueue \<Rightarrow> (ReadDesireKey, 'c) lru_lib \<Rightarrow> ('w, 'p, 'c) ReadDesireManager \<Rightarrow> int
     \<Rightarrow> ('q, ReadDesireKey) work_state \<Rightarrow> bool" where
  "manager_loop wq lib c threadiness =
     work_reachable wq (manager_asks lib c) (manager_passes c) (manager_workers threadiness)"

lemma manager_next_calls:
  assumes "manager_processNext c (Some k) w = ((True, QGet k # calls, c', evs), w')"
  shows "calls = [QAddRateLimited k, QDone k] \<or> calls = [QForget k, QDone k]"
proof -
  obtain r c1 es w1 where "Manager_SyncOnce c k w = ((r, c1, es), w1)" by (metis prod.collapse)
  with assms show ?thesis by (cases r) (auto simp: manager_processNext_def)
qed

interpretation manager_worker_loop: worker_loop "manager_passes c" for c
  by unfold_locales (auto simp: manager_passes_def dest: manager_next_calls)

lemma manager_has_worker: "0 < manager_workers threadiness"
  by (simp add: manager_workers_def)

lemma manager_at_rest:
  assumes "queue_ok wq v" and "manager_loop wq lib c n s"
    and "\<not> qvClosed v (wkQueue s)" and "\<forall>w \<in> set (wkWorkers s). w = WIdle"
    and "qvWaiting v (wkQueue s) = {}" and "qvDelayed v (wkQueue s) = {}" and "Asked k \<in> set (wkLog s)"
  shows "reconciled (wkLog s) k"
  by (rule manager_worker_loop.at_rest [OF assms(1) assms(2) [unfolded manager_loop_def] assms(3-7)])

section \<open>A reflector\<close>

definition reflector_asks :: "'w ReadDesireKubernetesController \<Rightarrow> ReadDesireKey list \<Rightarrow> bool" where
  "reflector_asks c ks \<longleftrightarrow> ks = reflector_event c"

definition reflector_passes ::
  "'w ReadDesireKubernetesController \<Rightarrow> ReadDesireKey \<Rightarrow> ReadDesireKey queue_call list \<Rightarrow> bool" where
  "reflector_passes c k calls \<longleftrightarrow> (\<exists>w w'. reflector_processNext c (Some k) w = ((True, QGet k # calls), w'))"

definition reflector_run ::
  "('q, ReadDesireKey) workqueue \<Rightarrow> 'w ReadDesireKubernetesController \<Rightarrow> bool
     \<Rightarrow> ('q, ReadDesireKey) work_state \<Rightarrow> bool" where
  "reflector_run wq c synced s \<longleftrightarrow>
     (if synced
      then work_reachable wq (reflector_asks c) (reflector_passes c) 1 s \<and> Asked (rkcKey c) \<in> set (wkLog s)
      else s = (start_workers wq 0)\<lparr>wkQueue := wqShutDown wq (wqNew wq)\<rparr>)"

lemma reflector_passes_cases:
  "reflector_passes c k calls \<longleftrightarrow>
     calls = [QForget k, QDone k] \<and> (\<exists>w w'. ReadDesire_SyncOnce c w = (None, w')) \<or>
     calls = [QAddRateLimited k, QDone k] \<and> (\<exists>w err w'. ReadDesire_SyncOnce c w = (Some err, w'))"
proof -
  have "reflector_processNext c (Some k) w = ((True, QGet k # calls), w') \<longleftrightarrow>
      calls = [QForget k, QDone k] \<and> ReadDesire_SyncOnce c w = (None, w') \<or>
      calls = [QAddRateLimited k, QDone k] \<and> (\<exists>err. ReadDesire_SyncOnce c w = (Some err, w'))" for w w'
    by (cases "ReadDesire_SyncOnce c w"; cases "fst (ReadDesire_SyncOnce c w)")
      (auto simp: reflector_processNext_def)
  then show ?thesis unfolding reflector_passes_def by blast
qed

interpretation reflector_loop: worker_loop "reflector_passes c" for c
  by unfold_locales (auto simp: reflector_passes_cases)

text \<open>A reflector that is at rest has passed over its object since its last event, whatever the event was.\<close>

lemma reflector_at_rest:
  assumes "queue_ok wq v" and "reflector_run wq c True s"
    and "\<not> qvClosed v (wkQueue s)" and "\<forall>w \<in> set (wkWorkers s). w = WIdle"
    and "qvWaiting v (wkQueue s) = {}" and "qvDelayed v (wkQueue s) = {}"
  shows "reconciled (wkLog s) (rkcKey c)"
  using assms(2) reflector_loop.at_rest [OF assms(1) _ assms(3-6), of "reflector_asks c" c 1 "rkcKey c"]
  by (simp add: reflector_run_def)

text \<open>Without the sync the queue is closed and nothing has been asked for.\<close>

lemma reflector_unsynced:
  "queue_ok wq v \<Longrightarrow> reflector_run wq c False s \<Longrightarrow> qvClosed v (wkQueue s) \<and> wkWorkers s = [] \<and> wkLog s = []"
  by (simp add: reflector_run_def start_workers_def queue_shut queue_new)

end
