(* ===== verification/WatchLife.thy ===== *)
theory WatchLife
  imports Watcher
begin

text \<open>
  The life of a watcher and its adapter: \<open>New\<close>, \<open>Run\<close>, \<open>Stop\<close>, \<open>emit\<close> and the two loops of \<open>watcher.go\<close>, and the
  goroutine and channel of \<open>watch_adapter.go\<close>. What a handler computes is the matter of theory \<open>Watcher\<close>; here
  a handler makes some number of callbacks and the question is which goroutine may still run, what is closed
  when, and whether something panics: Go panics when a closed channel is closed or sent to. A \<open>select\<close> with
  several cases ready takes any of them, so a tick can win against a stop.
\<close>

section \<open>State\<close>

text \<open>A loop is in its handler, in its callbacks with some left, at its \<open>select\<close>, or has returned.\<close>

datatype loop_phase = LHandler | LEmits nat | LSelect | LReturned

record watch_life =
  wlCtx :: bool
  wlStop :: bool
  wlRelist :: loop_phase
  wlPoll :: loop_phase
  wlFirst :: bool
  wlDone :: bool
  wlResult :: bool
  wlPanic :: bool

text \<open>\<open>NewWatchAdapter\<close> makes the watcher and starts \<open>Run\<close>, which starts both loops; the relist loop starts with
  its eager relist. The two flags of a channel say that it is closed.\<close>

definition start_life :: watch_life where
  "start_life = \<lparr>wlCtx = False, wlStop = False, wlRelist = LHandler, wlPoll = LSelect, wlFirst = True,
     wlDone = False, wlResult = False, wlPanic = False\<rparr>"

section \<open>Operations\<close>

definition Stop :: "watch_life \<Rightarrow> watch_life" where
  "Stop s = (if wlStop s then s\<lparr>wlPanic := True\<rparr> else s\<lparr>wlStop := True\<rparr>)"

text \<open>A callback of the adapter: it sends without blocking, unless the channel is closed.\<close>

definition emit :: "watch_life \<Rightarrow> watch_life" where
  "emit s = (if wlResult s then s\<lparr>wlPanic := True\<rparr> else s)"

text \<open>After a relist that succeeded: \<open>close(w.doneCh)\<close> the first time.\<close>

definition relist_succeeded :: "watch_life \<Rightarrow> watch_life" where
  "relist_succeeded s =
     (if wlFirst s then (if wlDone s then s\<lparr>wlPanic := True\<rparr> else s\<lparr>wlFirst := False, wlDone := True\<rparr>) else s)"

definition close_result :: "watch_life \<Rightarrow> watch_life" where
  "close_result s = (if wlResult s then s\<lparr>wlPanic := True\<rparr> else s\<lparr>wlResult := True\<rparr>)"

definition ended :: "watch_life \<Rightarrow> bool" where
  "ended s \<longleftrightarrow> wlCtx s \<or> wlStop s"

section \<open>Steps\<close>

datatype life_label = Cancels | Stops | RelistTicks | PollTicks | Moves

text \<open>\<open>relistLoop\<close>: the eager relist and those on ticks.\<close>

inductive relist_loop_step :: "watch_life \<Rightarrow> life_label \<Rightarrow> watch_life \<Rightarrow> bool" where
  relist_tick: "wlRelist s = LSelect \<Longrightarrow> relist_loop_step s RelistTicks (s\<lparr>wlRelist := LHandler\<rparr>)"
| relist_fails: "wlRelist s = LHandler \<Longrightarrow> relist_loop_step s Moves (s\<lparr>wlRelist := LSelect\<rparr>)"
| relist_found: "wlRelist s = LHandler \<Longrightarrow> relist_loop_step s Moves (s\<lparr>wlRelist := LEmits n\<rparr>)"
| relist_emit: "wlRelist s = LEmits (Suc n) \<Longrightarrow> relist_loop_step s Moves (emit (s\<lparr>wlRelist := LEmits n\<rparr>))"
| relist_end: "wlRelist s = LEmits 0 \<Longrightarrow> relist_loop_step s Moves (relist_succeeded (s\<lparr>wlRelist := LSelect\<rparr>))"
| relist_return: "wlRelist s = LSelect \<Longrightarrow> ended s \<Longrightarrow> relist_loop_step s Moves (s\<lparr>wlRelist := LReturned\<rparr>)"

text \<open>\<open>fastPollLoop\<close>: a poll that finds nothing or fails makes no callbacks.\<close>

inductive poll_loop_step :: "watch_life \<Rightarrow> life_label \<Rightarrow> watch_life \<Rightarrow> bool" where
  poll_tick: "wlPoll s = LSelect \<Longrightarrow> poll_loop_step s PollTicks (s\<lparr>wlPoll := LHandler\<rparr>)"
| poll_found: "wlPoll s = LHandler \<Longrightarrow> poll_loop_step s Moves (s\<lparr>wlPoll := LEmits n\<rparr>)"
| poll_emit: "wlPoll s = LEmits (Suc n) \<Longrightarrow> poll_loop_step s Moves (emit (s\<lparr>wlPoll := LEmits n\<rparr>))"
| poll_end: "wlPoll s = LEmits 0 \<Longrightarrow> poll_loop_step s Moves (s\<lparr>wlPoll := LSelect\<rparr>)"
| poll_return: "wlPoll s = LSelect \<Longrightarrow> ended s \<Longrightarrow> poll_loop_step s Moves (s\<lparr>wlPoll := LReturned\<rparr>)"

text \<open>All goroutines; the one of the adapter waits in \<open>Run\<close> for both loops. After a panic the process is gone.\<close>

inductive life_step :: "watch_life \<Rightarrow> life_label \<Rightarrow> watch_life \<Rightarrow> bool" where
  life_cancel: "\<not> wlPanic s \<Longrightarrow> life_step s Cancels (s\<lparr>wlCtx := True\<rparr>)"
| life_stop: "\<not> wlPanic s \<Longrightarrow> life_step s Stops (Stop s)"
| life_relist: "\<not> wlPanic s \<Longrightarrow> relist_loop_step s l t \<Longrightarrow> life_step s l t"
| life_poll: "\<not> wlPanic s \<Longrightarrow> poll_loop_step s l t \<Longrightarrow> life_step s l t"
| run_returns: "\<not> wlPanic s \<Longrightarrow> wlRelist s = LReturned \<Longrightarrow> wlPoll s = LReturned \<Longrightarrow> \<not> wlResult s \<Longrightarrow>
     life_step s Moves (close_result s)"

inductive life_trace :: "life_label list \<Rightarrow> watch_life \<Rightarrow> bool" where
  life_start: "life_trace [] start_life"
| life_next: "life_trace ls s \<Longrightarrow> life_step s l t \<Longrightarrow> life_trace (ls @ [l]) t"

inductive_cases life_stepE: "life_step s l t"
inductive_cases relist_loop_stepE: "relist_loop_step s l t"
inductive_cases poll_loop_stepE: "poll_loop_step s l t"

lemmas life_defs = Stop_def emit_def relist_succeeded_def close_result_def

section \<open>Invariant\<close>

definition stops :: "life_label list \<Rightarrow> nat" where
  "stops ls = length (filter (\<lambda>l. l = Stops) ls)"

definition life_inv :: "life_label list \<Rightarrow> watch_life \<Rightarrow> bool" where
  "life_inv ls s \<longleftrightarrow>
     (wlStop s \<longleftrightarrow> 0 < stops ls) \<and> (wlDone s \<longleftrightarrow> \<not> wlFirst s) \<and>
     (wlResult s \<longrightarrow> wlRelist s = LReturned \<and> wlPoll s = LReturned) \<and>
     (wlRelist s = LReturned \<or> wlPoll s = LReturned \<longrightarrow> ended s) \<and>
     (wlPanic s \<longleftrightarrow> 1 < stops ls)"

lemma stops_simps [simp]: "stops [] = 0" "stops (ls @ [l]) = (if l = Stops then Suc (stops ls) else stops ls)"
  by (simp_all add: stops_def)

lemma life_inv_step:
  assumes "life_inv ls s" and "life_step s l t"
  shows "life_inv (ls @ [l]) t"
  using assms(2)
proof (cases rule: life_step.cases)
  case life_relist
  from life_relist(2) assms(1) life_relist(1) show ?thesis
    by (cases rule: relist_loop_step.cases) (auto simp: life_inv_def life_defs ended_def)
next
  case life_poll
  from life_poll(2) assms(1) life_poll(1) show ?thesis
    by (cases rule: poll_loop_step.cases) (auto simp: life_inv_def life_defs ended_def)
qed (use assms(1) in \<open>auto simp: life_inv_def life_defs ended_def\<close>)

lemma life_trace_inv: "life_trace ls s \<Longrightarrow> life_inv ls s"
proof (induction rule: life_trace.induct)
  case life_start
  show ?case by (simp add: life_inv_def start_life_def)
qed (rule life_inv_step)

section \<open>Properties\<close>

text \<open>
  C24: the watcher and its adapter never send on a closed channel and never close one twice, whatever the two
  loops, the cancellation and the adapter do and in whatever order, provided \<open>Stop\<close> is called at most once;
  the result channel is closed only when both loops have returned. The proviso is needed: a second \<open>Stop\<close>
  always panics.
\<close>

theorem watch_panics_exactly:
  assumes "life_trace ls s"
  shows "(wlPanic s \<longleftrightarrow> 1 < stops ls) \<and> (wlResult s \<longrightarrow> wlRelist s = LReturned \<and> wlPoll s = LReturned \<and> ended s)"
  using life_trace_inv [OF assms] by (auto simp: life_inv_def)

text \<open>Moves that nothing outside triggers come to an end: each brings one goroutine nearer to its own.\<close>

fun phase_rank :: "loop_phase \<Rightarrow> nat \<times> nat" where
  "phase_rank LHandler = (3, 0)"
| "phase_rank (LEmits n) = (2, n)"
| "phase_rank LSelect = (1, 0)"
| "phase_rank LReturned = (0, 0)"

definition life_order :: "(watch_life \<times> watch_life) set" where
  "life_order = inv_image ((less_than <*lex*> less_than) <*lex*> (less_than <*lex*> less_than) <*lex*> less_than)
     (\<lambda>s. (phase_rank (wlRelist s), phase_rank (wlPoll s), if wlResult s then 0 else 1))"

lemma moves_decrease:
  assumes "life_step s Moves t"
  shows "(t, s) \<in> life_order"
  using assms
proof (cases rule: life_step.cases)
  case life_relist
  from life_relist(2) show ?thesis
    by (cases rule: relist_loop_step.cases) (auto simp: life_order_def life_defs)
next
  case life_poll
  from life_poll(2) show ?thesis
    by (cases rule: poll_loop_step.cases) (auto simp: life_order_def life_defs)
qed (auto simp: life_order_def life_defs)

text \<open>
  C25: once the context is canceled or \<open>Stop\<close> was called, the adapter closes its channel and the reflector gets
  to know: until the channel is closed some goroutine can move, and without a further tick no run of such
  moves goes on for ever. A tick needs a goroutine at its \<open>select\<close> that could have returned as well.
\<close>

theorem watch_ends:
  assumes "life_trace ls s" and "ended s" and "stops ls \<le> 1"
  shows "(\<not> wlResult s \<longrightarrow> (\<exists>t. life_step s Moves t)) \<and> wf {(t, s). life_step s Moves t} \<and>
    (\<forall>l t. life_step s l t \<longrightarrow> l \<in> {RelistTicks, PollTicks} \<longrightarrow> (\<exists>u. life_step s Moves u \<and>
       (wlRelist u = LReturned \<or> wlPoll u = LReturned)))"
proof (intro conjI allI impI)
  have np: "\<not> wlPanic s" using life_trace_inv [OF assms(1)] assms(3) by (simp add: life_inv_def)
  note relist = life_relist [OF np] and poll = life_poll [OF np]
  have "wf life_order" unfolding life_order_def by (intro wf_inv_image wf_lex_prod wf_less_than)
  then show "wf {(t, s). life_step s Moves t}" by (rule wf_subset) (auto intro: moves_decrease)
  show "\<exists>t. life_step s Moves t" if "\<not> wlResult s"
  proof (cases "wlRelist s = LReturned \<and> wlPoll s = LReturned")
    case True
    with run_returns [OF np] that show ?thesis by blast
  next
    case False
    then show ?thesis
    proof (cases "wlRelist s = LReturned")
      case True
      with False show ?thesis
        using poll [OF poll_found] poll [OF poll_emit] poll [OF poll_end] poll [OF poll_return [OF _ assms(2)]]
        by (cases "wlPoll s") (auto, metis not0_implies_Suc)
    next
      case False
      then show ?thesis
        using relist [OF relist_fails] relist [OF relist_emit] relist [OF relist_end]
          relist [OF relist_return [OF _ assms(2)]]
        by (cases "wlRelist s") (auto, metis not0_implies_Suc)
    qed
  qed
  fix l t assume "life_step s l t" "l \<in> {RelistTicks, PollTicks}"
  then have "wlRelist s = LSelect \<or> wlPoll s = LSelect"
    by (auto elim!: life_stepE relist_loop_stepE poll_loop_stepE)
  then show "\<exists>u. life_step s Moves u \<and> (wlRelist u = LReturned \<or> wlPoll u = LReturned)"
    using relist [OF relist_return [OF _ assms(2)]] poll [OF poll_return [OF _ assms(2)]] by fastforce
qed

section \<open>Runs\<close>

text \<open>A relist with one callback is under way when \<open>Stop\<close> is called: \<open>Stop\<close> is back before the callback.\<close>

definition stopped_early :: watch_life where
  "stopped_early = start_life\<lparr>wlRelist := LEmits 1, wlStop := True\<rparr>"

lemma life_go: "life_trace ls s \<Longrightarrow> life_step s l t \<Longrightarrow> t = u \<Longrightarrow> life_trace (ls @ [l]) u"
  using life_next by blast

lemma early_trace: "life_trace [Moves, Stops] stopped_early"
proof -
  have "life_trace ([] @ [Moves]) (start_life\<lparr>wlRelist := LEmits 1\<rparr>)"
    by (rule life_go [OF life_start life_relist [OF _ relist_found [where n = 1]]]) (simp_all add: start_life_def)
  then have "life_trace (([] @ [Moves]) @ [Stops]) stopped_early"
    by (rule life_go [OF _ life_stop]) (simp_all add: start_life_def stopped_early_def Stop_def)
  then show ?thesis by simp
qed

text \<open>\<open>Stop\<close> does not wait: a callback can follow it.\<close>

lemma stop_does_not_wait:
  "\<exists>ls s t. life_trace ls s \<and> Stops \<in> set ls \<and> life_step s Moves t \<and> wlRelist s = LEmits 1 \<and> wlRelist t = LEmits 0"
  using early_trace life_relist [OF _ relist_emit [of stopped_early 0]]
  by (intro exI [of _ "[Moves, Stops]"] exI [of _ stopped_early] exI [of _ "emit (stopped_early\<lparr>wlRelist := LEmits 0\<rparr>)"])
    (simp add: stopped_early_def start_life_def emit_def)

lemma watch_panics_exactly_witness: "\<not> wlPanic stopped_early \<and> wlPanic (Stop stopped_early)"
proof -
  have s: "life_step stopped_early Stops (Stop stopped_early)"
    by (rule life_stop) (simp add: stopped_early_def start_life_def)
  from watch_panics_exactly [OF early_trace] watch_panics_exactly [OF life_next [OF early_trace s]] show ?thesis
    by (simp add: stops_def)
qed

lemma watch_ends_witness: "\<exists>t. life_step stopped_early Moves t"
proof -
  have "ended stopped_early" "stops [Moves, Stops] \<le> 1" "\<not> wlResult stopped_early"
    by (simp_all add: stopped_early_def start_life_def ended_def stops_def)
  with watch_ends [OF early_trace] show ?thesis by blast
qed

end
