(* ===== verification/Cobra.thy ===== *)
theory Cobra
  imports CliOutput
begin

text \<open>
  Command lines as the three programs declare them: what a \<open>cobra.Command\<close> is given (its place in the tree,
  flags with defaults, required flags, the rule on positional arguments) and what \<open>RunE\<close> then reads. Cobra
  itself is the parameter \<open>resolve\<close>, which chooses a command and parses its flags or refuses; what it
  documents of both is the hypothesis \<open>cobra_ok\<close>.
\<close>

section \<open>Declarations\<close>

datatype flag_value =
    FString string
  | FStrings "string list"
  | FInt int
  | FBool bool
  | FFloat real
  | FDuration duration

record flag_decl =
  fdName :: string
  fdShort :: string
  fdDefault :: flag_value

datatype args_rule = AnyArgs | NoArgs | ExactArgs nat | RangeArgs nat nat

text \<open>\<open>cdPath\<close> is the list of names that leads to the command, the first words of each \<open>Use\<close>.\<close>

record command_decl =
  cdPath :: "string list"
  cdFlags :: "flag_decl list"
  cdRequired :: "string list"
  cdArgs :: args_rule

record 'r cobra_command =
  cmDecl :: command_decl
  cmRun :: 'r

definition StringVar :: "string \<Rightarrow> string \<Rightarrow> flag_decl" where
  "StringVar name d = \<lparr>fdName = name, fdShort = '''', fdDefault = FString d\<rparr>"

definition StringVarP :: "string \<Rightarrow> string \<Rightarrow> string \<Rightarrow> flag_decl" where
  "StringVarP name short d = \<lparr>fdName = name, fdShort = short, fdDefault = FString d\<rparr>"

definition StringArrayVarP :: "string \<Rightarrow> string \<Rightarrow> flag_decl" where
  "StringArrayVarP name short = \<lparr>fdName = name, fdShort = short, fdDefault = FStrings []\<rparr>"

definition plain_flag :: "string \<Rightarrow> flag_value \<Rightarrow> flag_decl" where
  "plain_flag name d = \<lparr>fdName = name, fdShort = '''', fdDefault = d\<rparr>"

text \<open>The flags in force for a command: its own, and the persistent ones of its root that they do not shadow.\<close>

definition flags_of :: "flag_decl list \<Rightarrow> command_decl \<Rightarrow> flag_decl list" where
  "flags_of persistent c =
     cdFlags c @ filter (\<lambda>f. fdName f \<notin> set (map fdName (cdFlags c))) persistent"

text \<open>pflag panics when a flag set gets a name or a shorthand twice, and \<open>MarkFlagRequired\<close> fails for a flag
  that was not declared.\<close>

definition shorthands :: "flag_decl list \<Rightarrow> string list" where
  "shorthands fs = filter (\<lambda>s. s \<noteq> '''') (map fdShort fs)"

definition well_declared :: "flag_decl list \<Rightarrow> command_decl \<Rightarrow> bool" where
  "well_declared persistent c \<longleftrightarrow>
     distinct (map fdName (cdFlags c)) \<and> distinct (map fdName persistent) \<and>
     distinct (shorthands (flags_of persistent c)) \<and>
     list_all (\<lambda>n. n \<in> set (map fdName (cdFlags c))) (cdRequired c)"

section \<open>Parsing\<close>

record parsed =
  pvValue :: "string \<Rightarrow> flag_value option"
  pvChanged :: "string \<Rightarrow> bool"
  pvArgs :: "string list"

fun same_kind :: "flag_value \<Rightarrow> flag_value \<Rightarrow> bool" where
  "same_kind (FString _) (FString _) = True"
| "same_kind (FStrings _) (FStrings _) = True"
| "same_kind (FInt _) (FInt _) = True"
| "same_kind (FBool _) (FBool _) = True"
| "same_kind (FFloat _) (FFloat _) = True"
| "same_kind (FDuration _) (FDuration _) = True"
| "same_kind _ _ = False"

fun args_ok :: "args_rule \<Rightarrow> nat \<Rightarrow> bool" where
  "args_ok AnyArgs n = True"
| "args_ok NoArgs n = (n = 0)"
| "args_ok (ExactArgs m) n = (n = m)"
| "args_ok (RangeArgs m k) n = (m \<le> n \<and> n \<le> k)"

type_synonym resolver = "flag_decl list \<Rightarrow> command_decl list \<Rightarrow> string list \<Rightarrow> go_error + nat \<times> parsed"

text \<open>
  A command that cobra runs is one of those it was given, its arguments keep the rule, its required flags were
  set, and a flag has its default unless it was set and a value of its type always.
\<close>

definition cobra_ok :: "resolver \<Rightarrow> bool" where
  "cobra_ok resolve \<longleftrightarrow>
     (\<forall>persistent cmds argv i p. resolve persistent cmds argv = Inr (i, p) \<longrightarrow>
        i < length cmds \<and> args_ok (cdArgs (cmds ! i)) (length (pvArgs p)) \<and>
        (\<forall>n \<in> set (cdRequired (cmds ! i)). pvChanged p n) \<and>
        (\<forall>f \<in> set (flags_of persistent (cmds ! i)).
           \<exists>v. pvValue p (fdName f) = Some v \<and> same_kind v (fdDefault f) \<and>
             (\<not> pvChanged p (fdName f) \<longrightarrow> v = fdDefault f)))"

definition str_flag :: "parsed \<Rightarrow> string \<Rightarrow> string" where
  "str_flag p n = (case pvValue p n of Some (FString s) \<Rightarrow> s | _ \<Rightarrow> '''')"

definition strs_flag :: "parsed \<Rightarrow> string \<Rightarrow> string list" where
  "strs_flag p n = (case pvValue p n of Some (FStrings ss) \<Rightarrow> ss | _ \<Rightarrow> [])"

text \<open>The value of a flag where \<open>Flags().Changed\<close> holds.\<close>

definition set_flag :: "parsed \<Rightarrow> string \<Rightarrow> string option" where
  "set_flag p n = (if pvChanged p n then Some (str_flag p n) else None)"

text \<open>\<open>Execute\<close>: an error of cobra's, or what the command does.\<close>

definition execute ::
  "resolver \<Rightarrow> flag_decl list \<Rightarrow> (parsed \<Rightarrow> 'r) cobra_command list \<Rightarrow> string list \<Rightarrow> go_error + 'r" where
  "execute resolve persistent cmds argv =
     (case resolve persistent (map cmDecl cmds) argv of
        Inl err \<Rightarrow> Inl err
      | Inr (i, p) \<Rightarrow> Inr (cmRun (cmds ! i) p))"

lemma cobraD:
  assumes "cobra_ok resolve" and "resolve persistent cmds argv = Inr (i, p)"
  shows "i < length cmds" "args_ok (cdArgs (cmds ! i)) (length (pvArgs p))"
    "n \<in> set (cdRequired (cmds ! i)) \<Longrightarrow> pvChanged p n"
    "f \<in> set (flags_of persistent (cmds ! i)) \<Longrightarrow> \<exists>v. pvValue p (fdName f) = Some v \<and> same_kind v (fdDefault f) \<and>
       (\<not> pvChanged p (fdName f) \<longrightarrow> v = fdDefault f)"
  using assms unfolding cobra_ok_def by blast+

lemma str_flag_default:
  assumes "cobra_ok resolve" and "resolve persistent cmds argv = Inr (i, p)"
    and "StringVar n s \<in> set (flags_of persistent (cmds ! i))" and "\<not> pvChanged p n"
  shows "str_flag p n = s"
  using cobraD(4) [OF assms(1-3)] assms(4) by (auto simp: str_flag_def StringVar_def)

lemma execute_cases:
  assumes "cobra_ok resolve" and "execute resolve persistent cmds argv = Inr r"
  obtains i p where "resolve persistent (map cmDecl cmds) argv = Inr (i, p)" "i < length cmds" "r = cmRun (cmds ! i) p"
  using assms(2) cobraD(1) [OF assms(1), of persistent "map cmDecl cmds" argv]
  by (auto simp: execute_def split: sum.splits)

text \<open>A parser to run the models with: it looks up the first words, and takes every flag as \<open>--name=value\<close>.\<close>

fun strip_prefix :: "string list \<Rightarrow> string list \<Rightarrow> string list option" where
  "strip_prefix [] ws = Some ws"
| "strip_prefix (p # ps) (w # ws) = (if p = w then strip_prefix ps ws else None)"
| "strip_prefix (p # ps) [] = None"

definition given_flag :: "string list \<Rightarrow> string \<Rightarrow> string option" where
  "given_flag ws n =
     map_option (\<lambda>w. drop (length n + 3) w) (find (\<lambda>w. take (length n + 3) w = ''--'' @ n @ ''='') ws)"

definition simple_value :: "flag_value \<Rightarrow> string \<Rightarrow> flag_value" where
  "simple_value d s = (case d of FString _ \<Rightarrow> FString s | FStrings _ \<Rightarrow> FStrings [s] | FBool _ \<Rightarrow> FBool (s = ''true'') | d \<Rightarrow> d)"

definition simple_parse :: "flag_decl list \<Rightarrow> string list \<Rightarrow> parsed" where
  "simple_parse fs ws = \<lparr>pvValue = (\<lambda>n. map_option (\<lambda>f. case given_flag ws n of
        None \<Rightarrow> fdDefault f | Some s \<Rightarrow> simple_value (fdDefault f) s) (find (\<lambda>f. fdName f = n) fs)),
     pvChanged = (\<lambda>n. given_flag ws n \<noteq> None), pvArgs = filter (\<lambda>w. take 2 w \<noteq> ''--'') ws\<rparr>"

fun find_command :: "command_decl list \<Rightarrow> string list \<Rightarrow> (nat \<times> string list) option" where
  "find_command [] argv = None"
| "find_command (c # cs) argv =
     (case strip_prefix (cdPath c) argv of
        Some ws \<Rightarrow> Some (0, ws)
      | None \<Rightarrow> map_option (\<lambda>(i, ws). (Suc i, ws)) (find_command cs argv))"

definition simple_resolve :: resolver where
  "simple_resolve persistent cmds argv =
     (case find_command cmds argv of
        None \<Rightarrow> Inl (ErrorString ''unknown command'')
      | Some (i, ws) \<Rightarrow>
          (let c = cmds ! i; fs = flags_of persistent c; p = simple_parse fs ws
           in if distinct (map fdName fs) \<and> args_ok (cdArgs c) (length (pvArgs p)) \<and>
                 list_all (pvChanged p) (cdRequired c)
              then Inr (i, p) else Inl (ErrorString ''usage'')))"

lemma find_command_bound: "find_command cmds argv = Some (i, ws) \<Longrightarrow> i < length cmds"
  by (induction cmds argv arbitrary: i ws rule: find_command.induct) (auto split: option.splits)

lemma find_named: "distinct (map fdName fs) \<Longrightarrow> f \<in> set fs \<Longrightarrow> find (\<lambda>g. fdName g = fdName f) fs = Some f"
  by (induction fs) auto

lemma simple_cobra: "cobra_ok simple_resolve"
proof -
  have kind: "same_kind (simple_value d s) d" "same_kind d d" for d s
    by (cases d; simp add: simple_value_def)+
  show ?thesis
    unfolding cobra_ok_def simple_resolve_def
  proof (intro allI impI conjI ballI, goal_cases)
    case (1 persistent cmds argv i p)
    then show ?case using find_command_bound by (auto simp: Let_def split: option.splits if_splits)
  next
    case (4 persistent cmds argv i p f)
    then have "distinct (map fdName (flags_of persistent (cmds ! i)))"
      "\<exists>ws. p = simple_parse (flags_of persistent (cmds ! i)) ws"
      by (auto simp: Let_def split: option.splits if_splits)
    with find_named [OF this(1) 4(2)] kind show ?case
      by (auto simp: simple_parse_def split: option.splits)
  qed (auto simp: Let_def list_all_iff split: option.splits if_splits)
qed

end
