(* ===== verification/CtlCommands.thy ===== *)
theory CtlCommands
  imports CliDesires Cobra
begin

text \<open>
  The commands of \<open>cmd/desirectl\<close> as they are declared: \<open>root.go\<close>, \<open>version.go\<close>, the \<open>RunE\<close> of
  \<open>apply.go\<close>, \<open>get.go\<close> and \<open>delete.go\<close> from the configuration file to the bodies of theory \<open>CliDesires\<close>,
  and the command tree of \<open>config_cmd.go\<close>. An outcome is the error, standard output and standard error;
  \<open>None\<close> is a command that never ends. \<open>time.ParseDuration\<close> is a parameter.
\<close>

record 'w ctl_env =
  ceFiles :: "'w file_system"
  ceYaml :: yaml_lib
  ceJson :: json_lib
  cePrint :: print_lib
  ceYamlToJSON :: "string \<Rightarrow> go_error + string"
  ceTabs :: "string \<Rightarrow> string"
  ceUuid :: "string \<Rightarrow> string \<Rightarrow> string"
  ceHomeDir :: "go_error + string"
  ceJoin :: "string list \<Rightarrow> string"
  ceDir :: "string \<Rightarrow> string"
  ceParseDuration :: "string \<Rightarrow> go_error + duration"
  ceClock :: "'w wall_clock"
  ceLoadAWS :: "aws_option list \<Rightarrow> go_error + 'w dynamo_client"
  ceApplyCodec :: "ApplyDesire attributevalue_codec"
  ceReadCodec :: "ReadDesire attributevalue_codec"

type_synonym ctl_outcome = "go_error option \<times> string \<times> string"
type_synonym 'w ctl_run = "parsed \<Rightarrow> 'w \<Rightarrow> (ctl_outcome \<times> 'w) option"

section \<open>Flags and configuration\<close>

definition ctl_flags :: "flag_decl list" where
  "ctl_flags = [StringVar ''context'' '''', StringVarP ''namespace'' ''n'' '''', StringVarP ''output'' ''o'' ''table'',
     StringVar ''timeout'' ''30s'']"

definition DefaultConfigPath :: "'w ctl_env \<Rightarrow> string" where
  "DefaultConfigPath env =
     (case ceHomeDir env of
        Inl err \<Rightarrow> ceJoin env [''.'', ''.desirectl'', ''config'']
      | Inr home \<Rightarrow> ceJoin env [home, ''.desirectl'', ''config''])"

definition fails :: "go_error \<Rightarrow> 'w \<Rightarrow> (ctl_outcome \<times> 'w) option" where
  "fails err w = Some ((Some err, '''', ''''), w)"

text \<open>The steps that \<open>apply\<close>, \<open>get\<close> and \<open>delete\<close> share: the configuration, the active context and the clients.\<close>

definition with_context ::
  "'w ctl_env \<Rightarrow> parsed \<Rightarrow> (CliContext \<Rightarrow> 'w \<Rightarrow> (ctl_outcome \<times> 'w) option) \<Rightarrow> 'w \<Rightarrow> (ctl_outcome \<times> 'w) option" where
  "with_context env p body w =
     (case LoadConfig (ceFiles env) (ceYaml env) (DefaultConfigPath env) w of
        (Inl err, w) \<Rightarrow> fails err w
      | (Inr cfg, w) \<Rightarrow>
          (case ResolveActiveContext cfg (str_flag p ''context'') of
             Inl err \<Rightarrow> fails err w
           | Inr activeCtx \<Rightarrow> body activeCtx w))"

definition with_pair ::
  "'w ctl_env \<Rightarrow> CliContext \<Rightarrow> ('w clientPair \<Rightarrow> 'w \<Rightarrow> (ctl_outcome \<times> 'w) option) \<Rightarrow> 'w
     \<Rightarrow> (ctl_outcome \<times> 'w) option" where
  "with_pair env activeCtx body w =
     (case newClientPair (ceLoadAWS env) (ceApplyCodec env) (ceReadCodec env) (ceJson env) activeCtx of
        Inl err \<Rightarrow> fails err w
      | Inr clients \<Rightarrow> body clients w)"

abbreviation plain_out :: "(go_error option \<times> string) \<times> 'w \<Rightarrow> ctl_outcome \<times> 'w" where
  "plain_out r \<equiv> (case r of ((e, out), w) \<Rightarrow> ((e, out, ''''), w))"

section \<open>The commands\<close>

definition newApplyCmd :: "'w ctl_env \<Rightarrow> 'w ctl_run cobra_command" where
  "newApplyCmd env = \<lparr>cmDecl = \<lparr>cdPath = [''apply''], cdFlags = [StringArrayVarP ''filename'' ''f''],
       cdRequired = [], cdArgs = AnyArgs\<rparr>,
     cmRun = (\<lambda>p w. let files = strs_flag p ''filename'' in
       if files = [] then fails (ErrorString ''must specify -f (file or directory)'') w
       else with_context env p (\<lambda>activeCtx. with_pair env activeCtx (\<lambda>clients w.
         Some (runApply (ceFiles env) (ceJson env) (ceUuid env) (ceYamlToJSON env) clients activeCtx files w))) w)\<rparr>"

definition newGetCmd :: "'w ctl_env \<Rightarrow> 'w ctl_run cobra_command" where
  "newGetCmd env = \<lparr>cmDecl = \<lparr>cdPath = [''get''], cdFlags = [], cdRequired = [], cdArgs = RangeArgs 1 2\<rparr>,
     cmRun = (\<lambda>p w. case resolveResourceType (pvArgs p ! 0) of
         Inl err \<Rightarrow> fails err w
       | Inr resInfo \<Rightarrow> with_context env p (\<lambda>activeCtx w.
           (case ceParseDuration env (str_flag p ''timeout'') of
              Inl err \<Rightarrow> fails (WrapError ''invalid timeout: '' err) w
            | Inr timeout \<Rightarrow> with_pair env activeCtx (\<lambda>clients w.
                (let format = parseOutputFormat (str_flag p ''output'');
                     namespace = EffectiveNamespace activeCtx (str_flag p ''namespace'')
                 in if length (pvArgs p) = 2
                    then map_option plain_out (runGetNamed (ceJson env) (cePrint env) (ceUuid env) (ceClock env)
                      clients activeCtx resInfo (pvArgs p ! 1) namespace timeout format w)
                    else runGetList (ceJson env) (cePrint env) (ceUuid env) (ceClock env) clients activeCtx
                      resInfo namespace timeout format w)) w)) w)\<rparr>"

definition newDeleteCmd :: "'w ctl_env \<Rightarrow> 'w ctl_run cobra_command" where
  "newDeleteCmd env = \<lparr>cmDecl = \<lparr>cdPath = [''delete''], cdFlags = [StringArrayVarP ''filename'' ''f''],
       cdRequired = [], cdArgs = AnyArgs\<rparr>,
     cmRun = (\<lambda>p. with_context env p (\<lambda>activeCtx. with_pair env activeCtx (\<lambda>clients w.
       (let files = strs_flag p ''filename''; args = pvArgs p in
        if files \<noteq> []
        then Some (runDeleteFromFile (ceFiles env) (ceJson env) (ceUuid env) (ceYamlToJSON env) clients activeCtx
          (str_flag p ''namespace'') files w)
        else if length args < 2 then fails (ErrorString ''must specify TYPE NAME or -f FILENAME'') w
        else (case resolveResourceType (args ! 0) of
                Inl err \<Rightarrow> fails err w
              | Inr resInfo \<Rightarrow> Some (plain_out (runDelete (ceUuid env) clients activeCtx resInfo (args ! 1)
                  (EffectiveNamespace activeCtx (str_flag p ''namespace'')) w)))))))\<rparr>"

definition newVersionCmd :: "'w ctl_env \<Rightarrow> 'w ctl_run cobra_command" where
  "newVersionCmd env = \<lparr>cmDecl = \<lparr>cdPath = [''version''], cdFlags = [], cdRequired = [], cdArgs = NoArgs\<rparr>,
     cmRun = (\<lambda>p w. Some ((None, ''desirectl version dev'' @ newline, ''''), w))\<rparr>"

text \<open>\<open>config\<close> and its five commands.\<close>

definition newSetContextCmd :: "'w ctl_env \<Rightarrow> 'w ctl_run cobra_command" where
  "newSetContextCmd env = \<lparr>cmDecl = \<lparr>cdPath = [''config'', ''set-context''],
       cdFlags = [StringVar ''aws-region'' '''', StringVar ''endpoint-url'' '''', StringVar ''management-cluster'' '''',
         StringVar ''cluster-id'' '''', StringVar ''node-pool'' '''', StringVar ''namespace'' '''',
         StringVar ''specs-table'' '''', StringVar ''status-table'' ''''],
       cdRequired = [], cdArgs = ExactArgs 1\<rparr>,
     cmRun = (\<lambda>p w. let path = DefaultConfigPath env in
       Some (plain_out (setContextCmd (ceFiles env) (ceYaml env) (ceDir env path) path (pvArgs p ! 0)
         \<lparr>cfAWSRegion = set_flag p ''aws-region'', cfEndpointURL = set_flag p ''endpoint-url'',
          cfManagementCluster = set_flag p ''management-cluster'', cfClusterID = set_flag p ''cluster-id'',
          cfNodePool = set_flag p ''node-pool'', cfNamespace = set_flag p ''namespace'',
          cfSpecsTable = set_flag p ''specs-table'', cfStatusTable = set_flag p ''status-table''\<rparr> w)))\<rparr>"

definition newUseContextCmd :: "'w ctl_env \<Rightarrow> 'w ctl_run cobra_command" where
  "newUseContextCmd env = \<lparr>cmDecl = \<lparr>cdPath = [''config'', ''use-context''], cdFlags = [], cdRequired = [],
       cdArgs = ExactArgs 1\<rparr>,
     cmRun = (\<lambda>p w. let path = DefaultConfigPath env in
       Some (plain_out (useContextCmd (ceFiles env) (ceYaml env) (ceDir env path) path (pvArgs p ! 0) w)))\<rparr>"

definition newGetContextsCmd :: "'w ctl_env \<Rightarrow> 'w ctl_run cobra_command" where
  "newGetContextsCmd env = \<lparr>cmDecl = \<lparr>cdPath = [''config'', ''get-contexts''], cdFlags = [], cdRequired = [],
       cdArgs = NoArgs\<rparr>,
     cmRun = (\<lambda>p w. Some (plain_out (getContextsCmd (ceFiles env) (ceYaml env) (ceTabs env) (DefaultConfigPath env) w)))\<rparr>"

definition newCurrentContextCmd :: "'w ctl_env \<Rightarrow> 'w ctl_run cobra_command" where
  "newCurrentContextCmd env = \<lparr>cmDecl = \<lparr>cdPath = [''config'', ''current-context''], cdFlags = [], cdRequired = [],
       cdArgs = NoArgs\<rparr>,
     cmRun = (\<lambda>p w. Some (plain_out (currentContextCmd (ceFiles env) (ceYaml env) (DefaultConfigPath env) w)))\<rparr>"

definition newDeleteContextCmd :: "'w ctl_env \<Rightarrow> 'w ctl_run cobra_command" where
  "newDeleteContextCmd env = \<lparr>cmDecl = \<lparr>cdPath = [''config'', ''delete-context''], cdFlags = [], cdRequired = [],
       cdArgs = ExactArgs 1\<rparr>,
     cmRun = (\<lambda>p w. let path = DefaultConfigPath env in
       Some (plain_out (deleteContextCmd (ceFiles env) (ceYaml env) (ceDir env path) path (pvArgs p ! 0) w)))\<rparr>"

definition newConfigCmd :: "'w ctl_env \<Rightarrow> 'w ctl_run cobra_command list" where
  "newConfigCmd env = [newSetContextCmd env, newUseContextCmd env, newGetContextsCmd env, newCurrentContextCmd env,
     newDeleteContextCmd env]"

section \<open>The program\<close>

definition NewRootCmd :: "'w ctl_env \<Rightarrow> 'w ctl_run cobra_command list" where
  "NewRootCmd env = [newApplyCmd env, newGetCmd env, newDeleteCmd env] @ newConfigCmd env @ [newVersionCmd env]"

text \<open>\<open>main\<close>: an error is printed and makes the exit status 1.\<close>

definition ctl_main ::
  "resolver \<Rightarrow> 'w ctl_env \<Rightarrow> string list \<Rightarrow> 'w \<Rightarrow> ((int \<times> string \<times> string) \<times> 'w) option" where
  "ctl_main resolve env argv w =
     map_option (\<lambda>((e, out, errout), w). (case e of
         None \<Rightarrow> ((0, out, errout), w)
       | Some err \<Rightarrow> ((1, out, errout @ ''error: '' @ error_text err @ newline), w)))
     (case execute resolve ctl_flags (NewRootCmd env) argv of
        Inl err \<Rightarrow> Some ((Some err, '''', ''''), w)
      | Inr run \<Rightarrow> run w)"

lemmas ctl_command_defs = newApplyCmd_def newGetCmd_def newDeleteCmd_def newConfigCmd_def newSetContextCmd_def
  newUseContextCmd_def newGetContextsCmd_def newCurrentContextCmd_def newDeleteContextCmd_def newVersionCmd_def

lemma ctl_well_declared:
  "list_all (well_declared ctl_flags) (map cmDecl (NewRootCmd env))"
  "distinct (map (cdPath \<circ> cmDecl) (NewRootCmd env))"
  by (simp_all add: NewRootCmd_def ctl_command_defs well_declared_def flags_of_def shorthands_def ctl_flags_def
      StringVar_def StringVarP_def StringArrayVarP_def)

end
