(* ===== verification/AppRun.thy ===== *)
theory AppRun
  imports GoErrors
begin

text \<open>
  The life of the process, \<open>Options.Run\<close> of \<open>pkg/app/kube_applier.go\<close>: the goroutines it starts, the
  channel they report on, and the order in which it waits for them and shuts the HTTP servers down. A
  state holds where each goroutine is; \<open>run_step\<close> is one move of one of them, labelled, so that a run is a
  list of labels and what the environment did is part of the statement. A send on the channel and the
  deferred \<open>wg.Done\<close> after it are one move, since nothing looks at the channel before the group is empty.
\<close>

section \<open>Options and state\<close>

datatype http_server = Healthz | Metrics

record run_options =
  MetricsServerListenAddress :: string
  HealthzServerListenAddress :: string

text \<open>The goroutine of the controllers: under election, after \<open>cancel\<close> with the error still to be sent, over.\<close>

datatype election_phase = Electing | Canceling "go_error option" | Elected

text \<open>Run's own goroutine: at \<open><-ctx.Done()\<close>, at \<open>wg.Wait()\<close>, in the deferred shutdown with the servers that
  are left and the result, returned.\<close>

datatype run_phase = AwaitDone | AwaitGroup | Stopping "http_server list" "go_error option"
  | Returned "go_error option"

record run_state =
  rnDone :: bool
  rnServing :: "http_server list"
  rnShutdown :: "http_server list"
  rnElection :: election_phase
  rnGroup :: nat
  rnErrCh :: "go_error option list"
  rnPhase :: run_phase

definition errChCap :: nat where "errChCap = 3"

definition run_servers :: "run_options \<Rightarrow> http_server list" where
  "run_servers o' = (if HealthzServerListenAddress o' \<noteq> '''' then [Healthz] else []) @
     (if MetricsServerListenAddress o' \<noteq> '''' then [Metrics] else [])"

definition start_run :: "run_options \<Rightarrow> run_state" where
  "start_run o' = \<lparr>rnDone = False, rnServing = run_servers o', rnShutdown = [], rnElection = Electing,
     rnGroup = length (run_servers o') + 1, rnErrCh = [], rnPhase = AwaitDone\<rparr>"

section \<open>Steps\<close>

definition runErrors :: "go_error option list \<Rightarrow> go_error option" where
  "runErrors errCh =
     errors_join (filter (\<lambda>e. case e of None \<Rightarrow> False | Some err \<Rightarrow> \<not> errors_is err ErrServerClosed) errCh)"

definition report :: "go_error option \<Rightarrow> run_state \<Rightarrow> run_state" where
  "report err s = s\<lparr>rnErrCh := rnErrCh s @ [err], rnGroup := rnGroup s - 1\<rparr>"

datatype run_label =
    CtxDone
  | ServeFails http_server go_error
  | ServeCloses http_server
  | ElectionEnds "go_error option"
  | ElectionReports
  | RunMoves

text \<open>
  \<open>ListenAndServe\<close> returns an error of its own at any time, and \<open>ErrServerClosed\<close> once \<open>Shutdown\<close> has been
  called. The election ends at any time, with the error of the wiring or with none when the lease is lost
  or the context canceled.
\<close>

inductive run_step :: "run_state \<Rightarrow> run_label \<Rightarrow> run_state \<Rightarrow> bool" where
  ctx_done: "run_step s CtxDone (s\<lparr>rnDone := True\<rparr>)"
| serve_fails: "srv \<in> set (rnServing s) \<Longrightarrow> err \<noteq> ErrServerClosed \<Longrightarrow> length (rnErrCh s) < errChCap \<Longrightarrow>
     run_step s (ServeFails srv err) (report (Some err) (s\<lparr>rnServing := remove1 srv (rnServing s)\<rparr>))"
| serve_closes: "srv \<in> set (rnServing s) \<Longrightarrow> srv \<in> set (rnShutdown s) \<Longrightarrow> length (rnErrCh s) < errChCap \<Longrightarrow>
     run_step s (ServeCloses srv) (report (Some ErrServerClosed) (s\<lparr>rnServing := remove1 srv (rnServing s)\<rparr>))"
| election_ends: "rnElection s = Electing \<Longrightarrow>
     run_step s (ElectionEnds err) (s\<lparr>rnDone := True, rnElection := Canceling err\<rparr>)"
| election_reports: "rnElection s = Canceling err \<Longrightarrow> length (rnErrCh s) < errChCap \<Longrightarrow>
     run_step s ElectionReports (report err (s\<lparr>rnElection := Elected\<rparr>))"
| run_done: "rnPhase s = AwaitDone \<Longrightarrow> rnDone s \<Longrightarrow> run_step s RunMoves (s\<lparr>rnPhase := AwaitGroup\<rparr>)"
| run_collects: "rnPhase s = AwaitGroup \<Longrightarrow> rnGroup s = 0 \<Longrightarrow>
     run_step s RunMoves (s\<lparr>rnPhase := Stopping [Metrics, Healthz] (runErrors (rnErrCh s))\<rparr>)"
| run_shuts: "rnPhase s = Stopping (srv # rest) res \<Longrightarrow>
     run_step s RunMoves (s\<lparr>rnShutdown := rnShutdown s @ [srv], rnPhase := Stopping rest res\<rparr>)"
| run_returns: "rnPhase s = Stopping [] res \<Longrightarrow> run_step s RunMoves (s\<lparr>rnDone := True, rnPhase := Returned res\<rparr>)"

inductive run_trace :: "run_state \<Rightarrow> run_label list \<Rightarrow> run_state \<Rightarrow> bool" for s0 where
  trace_start: "run_trace s0 [] s0"
| trace_next: "run_trace s0 ls s \<Longrightarrow> run_step s l t \<Longrightarrow> run_trace s0 (ls @ [l]) t"

inductive_cases run_stepE: "run_step s l t"
inductive_simps run_moves_iff: "run_step s RunMoves t"

text \<open>The handler of \<open>/healthz\<close>: status, body, and the value that it sets the gauge to.\<close>

definition healthz :: "go_error option \<Rightarrow> int \<times> string \<times> int" where
  "healthz check = (case check of Some err \<Rightarrow> (503, ''lease not renewed'' @ [CHR 0x0A], 0) | None \<Rightarrow> (200, '''', 1))"

text \<open>One deferred shutdown; a server that was never made is nil.\<close>

definition shutdownHTTPServer :: "('s \<Rightarrow> go_error option) \<Rightarrow> 's option \<Rightarrow> go_error option" where
  "shutdownHTTPServer shutdown server = (case server of None \<Rightarrow> None | Some srv \<Rightarrow> shutdown srv)"

section \<open>The controllers under the lease\<close>

text \<open>
  What the goroutine of the controllers returns: the error of the first constructor that fails, or none
  once \<open>le.Run\<close> has returned; and what it starts when the lease is acquired.
\<close>

definition threadsApply :: nat where "threadsApply = 4"
definition threadsReadManager :: nat where "threadsReadManager = 1"

definition runControllersUnderLeaderElection ::
  "go_error + 'a \<Rightarrow> go_error + 'm \<Rightarrow> go_error + 'e \<Rightarrow> go_error option" where
  "runControllersUnderLeaderElection applyCtl readMgr le =
     (case applyCtl of
        Inl err \<Rightarrow> Some (WrapError ''apply controller: '' err)
      | Inr _ \<Rightarrow>
          (case readMgr of
             Inl err \<Rightarrow> Some (WrapError ''read manager: '' err)
           | Inr _ \<Rightarrow> (case le of Inl err \<Rightarrow> Some err | Inr _ \<Rightarrow> None)))"

datatype leading_event = StartInformers | StartApply nat | StartReadManager nat

definition onStartedLeading :: "bool \<Rightarrow> leading_event list" where
  "onStartedLeading synced =
     StartInformers # (if \<not> synced then [] else [StartApply threadsApply, StartReadManager threadsReadManager])"

section \<open>The invariant\<close>

definition run_inv :: "run_options \<Rightarrow> run_state \<Rightarrow> bool" where
  "run_inv o' s \<longleftrightarrow>
     rnGroup s = length (rnServing s) + (if rnElection s = Elected then 0 else 1) \<and>
     length (rnErrCh s) + rnGroup s = length (run_servers o') + 1 \<and>
     (case rnPhase s of
        AwaitDone \<Rightarrow> rnShutdown s = []
      | AwaitGroup \<Rightarrow> rnShutdown s = [] \<and> rnDone s
      | Stopping left res \<Rightarrow> rnGroup s = 0 \<and> res = runErrors (rnErrCh s)
      | Returned res \<Rightarrow> rnGroup s = 0 \<and> res = runErrors (rnErrCh s)) \<and>
     (rnElection s \<noteq> Electing \<longrightarrow> rnDone s)"

lemma run_servers_le: "length (run_servers o') \<le> 2"
  by (simp add: run_servers_def)

lemma run_inv_start: "run_inv o' (start_run o')"
  by (simp add: run_inv_def start_run_def)

lemma length_remove1_mem: "x \<in> set xs \<Longrightarrow> length xs = Suc (length (remove1 x xs))"
  by (simp add: length_remove1) (metis Suc_pred length_pos_if_in_set)

lemma run_inv_step:
  assumes "run_inv o' s" and "run_step s l t"
  shows "run_inv o' t"
  using assms(2,1)
proof (cases rule: run_step.cases)
  case (serve_fails srv err)
  with assms(1) length_remove1_mem [OF serve_fails(3)] show ?thesis
    by (auto simp: run_inv_def report_def split: run_phase.splits)
next
  case (serve_closes srv)
  with assms(1) length_remove1_mem [OF serve_closes(3)] show ?thesis
    by (auto simp: run_inv_def report_def split: run_phase.splits)
qed (auto simp: run_inv_def report_def split: run_phase.splits if_splits)

lemma run_trace_inv: "run_trace (start_run o') ls s \<Longrightarrow> run_inv o' s"
  by (induction rule: run_trace.induct) (auto intro: run_inv_start run_inv_step)

text \<open>The channel has room for every send, and no server is ever seen to close.\<close>

lemma run_room: "run_inv o' s \<Longrightarrow> 0 < rnGroup s \<Longrightarrow> length (rnErrCh s) < errChCap"
proof -
  assume "run_inv o' s" and "0 < rnGroup s"
  then have "length (rnErrCh s) + rnGroup s = length (run_servers o') + 1" by (simp add: run_inv_def)
  with \<open>0 < rnGroup s\<close> run_servers_le [of o'] show "length (rnErrCh s) < errChCap" by (simp add: errChCap_def)
qed

lemma run_no_close: "run_inv o' s \<Longrightarrow> \<not> run_step s (ServeCloses srv) t"
  by (auto simp: run_inv_def elim!: run_step.cases split: run_phase.splits)

text \<open>What is in the channel is what the run reported.\<close>

definition reported :: "run_label list \<Rightarrow> run_state \<Rightarrow> bool" where
  "reported ls s \<longleftrightarrow>
     (\<forall>e. e \<in> set (rnErrCh s) \<longleftrightarrow>
        (\<exists>srv err. e = Some err \<and> ServeFails srv err \<in> set ls) \<or> rnElection s = Elected \<and> ElectionEnds e \<in> set ls) \<and>
     (case rnElection s of
        Electing \<Rightarrow> \<forall>e. ElectionEnds e \<notin> set ls
      | Canceling err \<Rightarrow> \<forall>e. ElectionEnds e \<in> set ls \<longleftrightarrow> e = err
      | Elected \<Rightarrow> \<exists>err. \<forall>e. ElectionEnds e \<in> set ls \<longleftrightarrow> e = err)"

lemma reported_trace: "run_trace (start_run o') ls s \<Longrightarrow> reported ls s"
proof (induction rule: run_trace.induct)
  case trace_start
  show ?case by (simp add: reported_def start_run_def)
next
  case (trace_next ls s l t)
  note inv = run_trace_inv [OF trace_next(1)]
  from trace_next(2) show ?case
  proof (cases rule: run_step.cases)
    case (serve_closes srv)
    with run_no_close [OF inv] trace_next(2) show ?thesis by blast
  qed (use trace_next(3) in \<open>auto simp: reported_def report_def split: election_phase.splits\<close>)
qed

lemma serving_trace:
  assumes "run_trace (start_run o') ls s" and "srv \<in> set (run_servers o')"
    and "\<And>err. ServeFails srv err \<notin> set ls"
  shows "srv \<in> set (rnServing s)"
  using assms(1,3)
proof (induction rule: run_trace.induct)
  case trace_start
  with assms(2) show ?case by (simp add: start_run_def)
next
  case (trace_next ls s l t)
  note inv = run_trace_inv [OF trace_next(1)]
  have srv: "srv \<in> set (rnServing s)" using trace_next by simp
  from trace_next(2) show ?case
  proof (cases rule: run_step.cases)
    case (serve_fails other err)
    with trace_next(4) [of err] have "other \<noteq> srv" by auto
    with srv serve_fails show ?thesis by (simp add: report_def)
  next
    case (serve_closes other)
    with run_no_close [OF inv] trace_next(2) show ?thesis by blast
  qed (use srv in \<open>simp_all add: report_def\<close>)
qed

section \<open>Runs that go on\<close>

lemma run_trace_trans: "run_trace s ls t \<Longrightarrow> run_trace t ms u \<Longrightarrow> run_trace s (ls @ ms) u"
proof (rotate_tac, induction rule: run_trace.induct)
  case (trace_next ms u l v)
  from run_trace.trace_next [OF trace_next(3) [OF trace_next(4)] trace_next(2)] show ?case by simp
qed simp

lemma run_trace_one: "run_step s l t \<Longrightarrow> run_trace s [l] t"
  using run_trace.trace_next [OF run_trace.trace_start, of s l t] by simp

lemma run_trace_cons: "run_step s l t \<Longrightarrow> run_trace t ls u \<Longrightarrow> run_trace s (l # ls) u"
  using run_trace_trans [OF run_trace_one] by fastforce

definition reaches_return :: "run_state \<Rightarrow> bool" where
  "reaches_return s \<longleftrightarrow> (\<exists>ls t res. run_trace s ls t \<and> (\<forall>srv err. ServeFails srv err \<notin> set ls) \<and> rnPhase t = Returned res)"

lemma reaches_step:
  assumes "run_step s l t" and "\<And>srv err. l \<noteq> ServeFails srv err" and "reaches_return t"
  shows "reaches_return s"
proof -
  from assms(3) obtain ls u res where "run_trace t ls u" "\<forall>srv err. ServeFails srv err \<notin> set ls"
    "rnPhase u = Returned res" by (auto simp: reaches_return_def)
  with run_trace_trans [OF run_trace_one [OF assms(1)]] assms(2) show ?thesis
    unfolding reaches_return_def by (intro exI [of _ "[l] @ ls"] exI [of _ u] exI [of _ res]) auto
qed

lemma returned_returns: "rnPhase s = Returned res \<Longrightarrow> reaches_return s"
  unfolding reaches_return_def by (intro exI [of _ "[]"] exI [of _ s] exI [of _ res]) (simp add: run_trace.trace_start)

lemma stopping_returns: "rnPhase s = Stopping left res \<Longrightarrow> reaches_return s"
proof (induction left arbitrary: s)
  case Nil
  show ?case by (rule reaches_step [OF run_returns [OF Nil]]) (simp_all add: returned_returns)
next
  case (Cons srv left)
  show ?case by (rule reaches_step [OF run_shuts [OF Cons(2)]]) (simp_all add: Cons.IH)
qed

lemma elected_returns:
  assumes "run_inv o' s" and "rnServing s = []" and "rnElection s = Elected"
  shows "reaches_return s"
proof -
  have g: "rnGroup s = 0" and d: "rnDone s" using assms by (simp_all add: run_inv_def)
  have collect: "rnPhase t = AwaitGroup \<Longrightarrow> rnGroup t = 0 \<Longrightarrow> reaches_return t" for t
    by (rule reaches_step [OF run_collects]) (simp_all add: stopping_returns)
  show ?thesis
  proof (cases "rnPhase s")
    case AwaitDone
    show ?thesis by (rule reaches_step [OF run_done [OF AwaitDone d]]) (simp_all add: collect g)
  next
  qed (simp_all add: collect g stopping_returns returned_returns)
qed

lemma idle_returns:
  assumes "run_inv o' s" and "rnServing s = []"
  shows "reaches_return s"
proof -
  have cancel: "reaches_return t" if "rnElection t = Canceling err" "run_inv o' t" "rnServing t = []" for t err
  proof -
    have "0 < rnGroup t" using that by (simp add: run_inv_def)
    note step = election_reports [OF that(1) run_room [OF that(2) this]]
    show ?thesis
      by (rule reaches_step [OF step], simp, rule elected_returns [OF run_inv_step [OF that(2) step]])
        (simp_all add: report_def that(3))
  qed
  show ?thesis
  proof (cases "rnElection s")
    case Electing
    note step = election_ends [OF Electing, of None]
    show ?thesis
      by (rule reaches_step [OF step], simp, rule cancel [OF _ run_inv_step [OF assms(1) step]])
        (simp_all add: assms(2))
  qed (use assms cancel elected_returns in auto)
qed

section \<open>Properties\<close>

lemma errors_is_refl [simp]: "errors_is e e"
  by (cases e) (simp_all add: errors_is_def)

lemma errors_join_eq_None: "errors_join es = None \<longleftrightarrow> (\<forall>err. Some err \<notin> set es)"
  by (induction es) (auto simp: errors_join_def split: option.splits list.splits)

lemma runErrors_None: "runErrors ch = None \<longleftrightarrow> (\<forall>err. Some err \<in> set ch \<longrightarrow> errors_is err ErrServerClosed)"
  by (auto simp: runErrors_def errors_join_eq_None)

lemma runErrors_member:
  assumes "Some err \<in> set ch" and "\<not> errors_is err ErrServerClosed"
  shows "\<exists>res. runErrors ch = Some res \<and> errors_is res err"
proof -
  from assms runErrors_None [of ch] obtain res where res: "runErrors ch = Some res" by auto
  from errors_is_joined [OF this [unfolded runErrors_def]] assms have "errors_is res err" by simp
  with res show ?thesis by blast
qed

text \<open>
  C12: once a server listens, \<open>Run\<close> does not return: it waits for the goroutines of the servers before the
  deferred shutdown that would end them. Whatever the signals and the election do, as long as that server
  does not fail by itself, \<open>Run\<close> stands at one of its two waits, nothing has been shut down and no later
  moves without such a failure make it return.
\<close>

theorem run_never_returns:
  assumes "run_trace (start_run o') ls s" and "srv \<in> set (run_servers o')"
    and "\<And>err. ServeFails srv err \<notin> set ls"
  shows "rnPhase s \<in> {AwaitDone, AwaitGroup} \<and> rnShutdown s = [] \<and> srv \<in> set (rnServing s) \<and>
    (rnPhase s = AwaitGroup \<longrightarrow> (\<forall>t. \<not> run_step s RunMoves t)) \<and> \<not> reaches_return s"
proof -
  have inv: "run_inv o' s" and srv: "srv \<in> set (rnServing s)"
    using run_trace_inv [OF assms(1)] serving_trace [OF assms] by auto
  then have g: "rnGroup s \<noteq> 0" by (auto simp: run_inv_def)
  have no: "\<not> (\<exists>res. rnPhase t = Returned res)" if "run_trace s ms t" "\<forall>srv err. ServeFails srv err \<notin> set ms" for ms t
  proof -
    from run_trace_trans [OF assms(1) that(1)] have tr: "run_trace (start_run o') (ls @ ms) t" .
    from serving_trace [OF tr assms(2)] assms(3) that(2) have "srv \<in> set (rnServing t)" by simp
    with run_trace_inv [OF tr] show ?thesis by (auto simp: run_inv_def)
  qed
  with inv srv g show ?thesis
    by (auto simp: run_inv_def reaches_return_def run_moves_iff split: run_phase.splits)
qed

definition default_addresses :: run_options where
  "default_addresses = \<lparr>MetricsServerListenAddress = '':8081'', HealthzServerListenAddress = '':8083''\<rparr>"

definition hung :: run_state where
  "hung = \<lparr>rnDone = True, rnServing = [Healthz, Metrics], rnShutdown = [], rnElection = Elected, rnGroup = 2,
     rnErrCh = [None], rnPhase = AwaitGroup\<rparr>"

lemma hung_trace: "run_trace (start_run default_addresses) [CtxDone, ElectionEnds None, ElectionReports, RunMoves] hung"
  by (rule run_trace_cons [OF ctx_done], rule run_trace_cons [OF election_ends],
      simp add: start_run_def default_addresses_def, rule run_trace_cons [OF election_reports],
      simp, simp add: start_run_def errChCap_def, rule run_trace_cons [OF run_done])
    (simp_all add: start_run_def report_def hung_def default_addresses_def run_servers_def run_trace.trace_start
      numeral_2_eq_2)

lemma run_never_returns_witness: "rnDone hung \<and> rnElection hung = Elected \<and> \<not> reaches_return hung"
proof -
  have "Healthz \<in> set (run_servers default_addresses)" by (simp add: run_servers_def default_addresses_def)
  with run_never_returns [OF hung_trace this] show ?thesis by (simp add: hung_def)
qed


definition no_servers :: run_options where
  "no_servers = \<lparr>MetricsServerListenAddress = '''', HealthzServerListenAddress = ''''\<rparr>"

lemma return_trace:
  "run_trace (start_run no_servers) [ElectionEnds (Some err), ElectionReports, RunMoves, RunMoves, RunMoves, RunMoves, RunMoves]
     \<lparr>rnDone = True, rnServing = [], rnShutdown = [Metrics, Healthz], rnElection = Elected, rnGroup = 0,
      rnErrCh = [Some err], rnPhase = Returned (runErrors [Some err])\<rparr>"
proof -
  note D = start_run_def report_def no_servers_def run_servers_def errChCap_def
  show ?thesis
    by (rule run_trace_cons [OF election_ends], simp add: D, rule run_trace_cons [OF election_reports],
        simp, simp add: D, rule run_trace_cons [OF run_done], simp add: D, simp add: D,
        rule run_trace_cons [OF run_collects], simp, simp add: D, rule run_trace_cons [OF run_shuts], simp,
        rule run_trace_cons [OF run_shuts], simp, rule run_trace_cons [OF run_returns], simp)
      (simp add: D run_trace.trace_start)
qed


end
