(* ===== verification/RootCmd.thy ===== *)
theory RootCmd
  imports AppRun Informers CliDesires
begin

text \<open>
  \<open>cmd/root.go\<close> and the wiring of \<open>pkg/app\<close>: the flags of the binary, their validation and defaults, and how
  they become the database client, the informers and the options of \<open>Options.Run\<close> (theory \<open>AppRun\<close>).
  Parameters are what the libraries construct: the client configuration of client-go, its resource lock and
  dynamic client, and the SDK client that a list of options gives (\<open>loadAWS\<close>). The flags are
  what theory \<open>RootCommand\<close> has parsed; signals are the cancellation of \<open>AppRun\<close>.
\<close>

section \<open>Flags\<close>

record KubeApplierRootCmdFlags =
  rfKubeconfig :: string
  rfKubeNamespace :: string
  rfManagementCluster :: string
  rfAWSRegion :: string
  rfAWSEndpointURL :: string
  rfSpecsTablePrefix :: string
  rfStatusTablePrefix :: string
  rfMetricsServerListenAddress :: string
  rfHealthzServerListenAddress :: string
  rfLeaderElectionID :: string
  rfLogVerbosity :: int
  rfExitOnPanic :: bool
  rfKubeQPS :: real
  rfKubeBurst :: int
  rfWatcherPollInterval :: duration
  rfWatcherRelistInterval :: duration
  rfWatcherMaxLookback :: duration

definition NewKubeApplierRootCmdFlags :: KubeApplierRootCmdFlags where
  "NewKubeApplierRootCmdFlags = \<lparr>rfKubeconfig = '''', rfKubeNamespace = '''', rfManagementCluster = '''',
     rfAWSRegion = '''', rfAWSEndpointURL = '''', rfSpecsTablePrefix = '''', rfStatusTablePrefix = '''',
     rfMetricsServerListenAddress = '':8081'', rfHealthzServerListenAddress = '':8083'',
     rfLeaderElectionID = ''kube-applier'', rfLogVerbosity = 0, rfExitOnPanic = True, rfKubeQPS = 250,
     rfKubeBurst = 500, rfWatcherPollInterval = 0, rfWatcherRelistInterval = 0, rfWatcherMaxLookback = 0\<rparr>"

definition validate_flags :: "KubeApplierRootCmdFlags \<Rightarrow> go_error option" where
  "validate_flags f =
     (if length (rfManagementCluster f) = 0 then Some (ErrorString ''--management-cluster must not be empty'')
      else if length (rfAWSRegion f) = 0 then Some (ErrorString ''--aws-region must not be empty'')
      else if length (rfKubeNamespace f) = 0 then Some (ErrorString ''--namespace must not be empty'')
      else if length (rfLeaderElectionID f) = 0 then Some (ErrorString ''--leader-election-id must not be empty'')
      else if rfLogVerbosity f < 0 then Some (ErrorString ''--log-verbosity must be >= 0'')
      else None)"

section \<open>Wiring\<close>

definition NewDynamoDBConfig :: "(aws_option list \<Rightarrow> go_error + 'c) \<Rightarrow> string \<Rightarrow> string \<Rightarrow> go_error + 'c" where
  "NewDynamoDBConfig loadAWS region endpointURL =
     (case loadAWS (WithRegion region # (if endpointURL \<noteq> '''' then [WithBaseEndpoint endpointURL] else [])) of
        Inl err \<Rightarrow> Inl (WrapError ''failed to load AWS config: '' err)
      | Inr cfg \<Rightarrow> Inr cfg)"

text \<open>\<open>clientConfig\<close> is \<open>ClientConfig\<close> of the default loading rules, with an explicit path or without.\<close>

definition NewKubeconfig :: "(string option \<Rightarrow> go_error + 'k) \<Rightarrow> string \<Rightarrow> go_error + 'k" where
  "NewKubeconfig clientConfig kubeconfigPath =
     clientConfig (if kubeconfigPath \<noteq> '''' then Some kubeconfigPath else None)"

record 'k rest_config =
  rcBase :: 'k
  rcQPS :: real
  rcBurst :: int

definition NewDynamicClient :: "('k rest_config \<Rightarrow> go_error + 'y) \<Rightarrow> 'k \<Rightarrow> real \<Rightarrow> int \<Rightarrow> go_error + 'y" where
  "NewDynamicClient newForConfig cfg qps burst = newForConfig \<lparr>rcBase = cfg, rcQPS = qps, rcBurst = burst\<rparr>"

definition leaderElectionLeaseDuration :: duration where "leaderElectionLeaseDuration = 15 * second"
definition leaderElectionRenewDeadline :: duration where "leaderElectionRenewDeadline = 10 * second"
definition leaderElectionRetryPeriod :: duration where "leaderElectionRetryPeriod = 2 * second"

definition NewLeaderElectionLock ::
  "(string \<Rightarrow> string \<Rightarrow> string \<Rightarrow> string \<Rightarrow> 'k rest_config \<Rightarrow> duration \<Rightarrow> go_error + 'l)
     \<Rightarrow> string \<Rightarrow> 'k \<Rightarrow> string \<Rightarrow> string \<Rightarrow> go_error + 'l" where
  "NewLeaderElectionLock newFromKubeconfig leaseHolderIdentity kubeconfig kubeNamespace leaseName =
     (case newFromKubeconfig ''leases'' kubeNamespace leaseName leaseHolderIdentity
             \<lparr>rcBase = kubeconfig, rcQPS = 20, rcBurst = 40\<rparr> leaderElectionRenewDeadline of
        Inl err \<Rightarrow> Inl (WrapError ''failed to create leader election lock: '' err)
      | Inr lock \<Rightarrow> Inr lock)"

text \<open>What the binary finds outside: \<open>envNewClient\<close> is \<open>dynamodb.NewFromConfig\<close>.\<close>

record ('w, 'c, 'k, 'l, 'y) environment =
  envClientConfig :: "string option \<Rightarrow> go_error + 'k"
  envHostname :: "go_error + string"
  envNewLock :: "string \<Rightarrow> string \<Rightarrow> string \<Rightarrow> string \<Rightarrow> 'k rest_config \<Rightarrow> duration \<Rightarrow> go_error + 'l"
  envLoadAWS :: "aws_option list \<Rightarrow> go_error + 'c"
  envNewClient :: "'c \<Rightarrow> 'w sdk_client"
  envNewForConfig :: "'k rest_config \<Rightarrow> go_error + 'y"
  envApplyCodec :: "ApplyDesire attributevalue_codec"
  envReadCodec :: "ReadDesire attributevalue_codec"
  envJson :: json_lib

record ('w, 'l, 'y) app_options =
  aoManagementCluster :: string
  aoLeaderElectionLock :: 'l
  aoKubeApplierDBClient :: "'w dynamoDBKubeApplierDBClient"
  aoInformers :: "'w kubeApplierInformers"
  aoDynamicClient :: 'y
  aoRun :: run_options
  aoExitOnPanic :: bool

definition table_prefix :: "string \<Rightarrow> string \<Rightarrow> string \<Rightarrow> string" where
  "table_prefix given cluster suffix = (if given = '''' then ''mc-'' @ cluster @ suffix else given)"

definition ToKubeApplierOptions ::
  "('w, 'c, 'k, 'l, 'y) environment \<Rightarrow> KubeApplierRootCmdFlags \<Rightarrow> go_error + ('w, 'l, 'y) app_options" where
  "ToKubeApplierOptions env f =
     (case NewKubeconfig (envClientConfig env) (rfKubeconfig f) of
        Inl err \<Rightarrow> Inl (WrapError ''failed to create Kubernetes configuration: '' err)
      | Inr kubeconfig \<Rightarrow>
     (case envHostname env of
        Inl err \<Rightarrow> Inl (WrapError ''failed to get hostname: '' err)
      | Inr hostname \<Rightarrow>
     (case NewLeaderElectionLock (envNewLock env) hostname kubeconfig (rfKubeNamespace f) (rfLeaderElectionID f) of
        Inl err \<Rightarrow> Inl (WrapError ''failed to create leader election lock: '' err)
      | Inr lock \<Rightarrow>
          (let specs = table_prefix (rfSpecsTablePrefix f) (rfManagementCluster f) ''-specs'';
               status = table_prefix (rfStatusTablePrefix f) (rfManagementCluster f) ''-status''
           in (case NewDynamoDBConfig (envLoadAWS env) (rfAWSRegion f) (rfAWSEndpointURL f) of
                 Inl err \<Rightarrow> Inl (WrapError ''failed to load AWS config: '' err)
               | Inr awsCfg \<Rightarrow>
                   (let client = envNewClient env awsCfg;
                        dbClient = \<lparr>specsClient = sdkTables client, statusClient = sdkTables client,
                          specsPrefix = specs, statusPrefix = status, applyCodec = envApplyCodec env,
                          readCodec = envReadCodec env, dbJson = envJson env\<rparr>;
                        dynamoDBInformers = NewKubeApplierInformersWithOptions (envApplyCodec env) (envReadCodec env)
                          (envJson env) client specs DefaultResyncPeriod
                          \<lparr>PollInterval = rfWatcherPollInterval f, RelistInterval = rfWatcherRelistInterval f,
                           MaxLookbackWindow = rfWatcherMaxLookback f, ShardCount = 0\<rparr>
                    in (case NewDynamicClient (envNewForConfig env) kubeconfig (rfKubeQPS f) (rfKubeBurst f) of
                          Inl err \<Rightarrow> Inl (WrapError ''failed to create dynamic client: '' err)
                        | Inr dyn \<Rightarrow>
                            Inr \<lparr>aoManagementCluster = rfManagementCluster f, aoLeaderElectionLock = lock,
                              aoKubeApplierDBClient = dbClient, aoInformers = dynamoDBInformers,
                              aoDynamicClient = dyn,
                              aoRun = \<lparr>MetricsServerListenAddress = rfMetricsServerListenAddress f,
                                HealthzServerListenAddress = rfHealthzServerListenAddress f\<rparr>,
                              aoExitOnPanic = rfExitOnPanic f\<rparr>)))))))"

text \<open>\<open>RunRootCmd\<close>; \<open>setV\<close> is \<open>flag.Set("v", ...)\<close> and \<open>run\<close> what \<open>Options.Run\<close> returns.\<close>

definition RunRootCmd ::
  "(string \<Rightarrow> go_error option) \<Rightarrow> ('w, 'c, 'k, 'l, 'y) environment \<Rightarrow> (('w, 'l, 'y) app_options \<Rightarrow> go_error option)
     \<Rightarrow> KubeApplierRootCmdFlags \<Rightarrow> go_error option" where
  "RunRootCmd setV env run flags =
     (case validate_flags flags of
        Some err \<Rightarrow> Some (WrapError ''flags validation failed: '' err)
      | None \<Rightarrow>
          (case setV (show_int (rfLogVerbosity flags)) of
             Some err \<Rightarrow> Some (WrapError ''failed to set klog verbosity: '' err)
           | None \<Rightarrow>
               (case ToKubeApplierOptions env flags of
                  Inl err \<Rightarrow> Some (WrapError ''failed to convert flags to options: '' err)
                | Inr options \<Rightarrow>
                    (case run options of
                       Some err \<Rightarrow> Some (WrapError ''failed to run kube-applier: '' err)
                     | None \<Rightarrow> None))))"

section \<open>Properties\<close>


definition sample_env :: "(unit, unit, unit, unit, unit) environment" where
  "sample_env = \<lparr>envClientConfig = (\<lambda>path. Inr ()), envHostname = Inr ''host'',
     envNewLock = (\<lambda>kind ns name identity cfg deadline. Inr ()), envLoadAWS = (\<lambda>opts. Inr ()),
     envNewClient = (\<lambda>cfg. \<lparr>sdkTables = \<lparr>dc_GetItem = (\<lambda>tbl k w. (Inr None, w)),
         dc_PutItem = (\<lambda>tbl it cond w. (None, w)), dc_DeleteItem = (\<lambda>tbl k w. (None, w)),
         dc_Scan = (\<lambda>tbl start w. (Inr ([], None), w)), time_Now = (\<lambda>w. (0, w))\<rparr>,
       sdkPoll = \<lparr>pcScan = (\<lambda>tbl start w. (Inr ([], None), w)),
         pcQuery = (\<lambda>tbl shard since start w. (Inr ([], None), w)), pcBatchGetItem = (\<lambda>req w. (Inr ([], []), w)),
         pcWait = (\<lambda>d w. (None, w)), pcNow = (\<lambda>w. (0, w))\<rparr>\<rparr>),
     envNewForConfig = (\<lambda>cfg. Inr ()),
     envApplyCodec = \<lparr>MarshalMap = (\<lambda>d. Inr Map.empty), UnmarshalMap = (\<lambda>it. Inr zero_ApplyDesire)\<rparr>,
     envReadCodec = \<lparr>MarshalMap = (\<lambda>d. Inr Map.empty), UnmarshalMap = (\<lambda>it. Inr zero_ReadDesire)\<rparr>,
     envJson = \<lparr>json_Unmarshal = (\<lambda>s. Inr JNull), json_Marshal = (\<lambda>v. Inr ''null''), json_Valid = (\<lambda>s. True)\<rparr>\<rparr>"

definition sample_flags :: KubeApplierRootCmdFlags where
  "sample_flags = NewKubeApplierRootCmdFlags\<lparr>rfManagementCluster := ''m'', rfAWSRegion := ''r'', rfKubeNamespace := ''n''\<rparr>"

lemma sample_options: "\<exists>o'. ToKubeApplierOptions sample_env sample_flags = Inr o' \<and>
    run_servers (aoRun o') = [Healthz, Metrics]"
  by (simp add: ToKubeApplierOptions_def sample_env_def NewKubeconfig_def NewLeaderElectionLock_def
      NewDynamoDBConfig_def NewDynamicClient_def Let_def run_servers_def sample_flags_def NewKubeApplierRootCmdFlags_def)


text \<open>Nothing is constructed and nothing runs on flags that are not valid.\<close>

lemma invalid_flags_run_nothing:
  "validate_flags f = Some err \<Longrightarrow> RunRootCmd setV env run f = RunRootCmd setV' env' run' f"
  by (simp add: RunRootCmd_def)

end
