(* ===== verification/RootCommand.thy ===== *)
theory RootCommand
  imports RootCmd Cobra
begin

text \<open>
  The command line of the binary: \<open>AddFlags\<close> and \<open>NewCmdRoot\<close> of \<open>cmd/root.go\<close> and \<open>main.go\<close>. The flags of
  theory \<open>RootCmd\<close> are what cobra parsed, with the defaults of \<open>NewKubeApplierRootCmdFlags\<close>.
\<close>

definition AppShortDescriptionName :: string where
  "AppShortDescriptionName = ''AWS HCP kube-applier''"

definition AddFlags :: "KubeApplierRootCmdFlags \<Rightarrow> flag_decl list" where
  "AddFlags f = [StringVar ''kubeconfig'' (rfKubeconfig f), StringVar ''namespace'' (rfKubeNamespace f),
     StringVar ''management-cluster'' (rfManagementCluster f), StringVar ''aws-region'' (rfAWSRegion f),
     StringVar ''aws-endpoint-url'' (rfAWSEndpointURL f), StringVar ''specs-table'' (rfSpecsTablePrefix f),
     StringVar ''status-table'' (rfStatusTablePrefix f),
     StringVar ''metrics-listen-address'' (rfMetricsServerListenAddress f),
     StringVar ''healthz-listen-address'' (rfHealthzServerListenAddress f),
     StringVar ''leader-election-id'' (rfLeaderElectionID f),
     plain_flag ''log-verbosity'' (FInt (rfLogVerbosity f)), plain_flag ''exit-on-panic'' (FBool (rfExitOnPanic f)),
     plain_flag ''kube-qps'' (FFloat (rfKubeQPS f)), plain_flag ''kube-burst'' (FInt (rfKubeBurst f)),
     plain_flag ''dynamo-poll-interval'' (FDuration (rfWatcherPollInterval f)),
     plain_flag ''dynamo-relist-interval'' (FDuration (rfWatcherRelistInterval f)),
     plain_flag ''dynamo-max-lookback'' (FDuration (rfWatcherMaxLookback f))]"

definition required_flags :: "string list" where
  "required_flags = [''namespace'', ''management-cluster'', ''aws-region'']"

definition int_flag :: "parsed \<Rightarrow> string \<Rightarrow> int" where
  "int_flag p n = (case pvValue p n of Some (FInt i) \<Rightarrow> i | _ \<Rightarrow> 0)"
definition bool_flag :: "parsed \<Rightarrow> string \<Rightarrow> bool" where
  "bool_flag p n = (case pvValue p n of Some (FBool b) \<Rightarrow> b | _ \<Rightarrow> False)"
definition float_flag :: "parsed \<Rightarrow> string \<Rightarrow> real" where
  "float_flag p n = (case pvValue p n of Some (FFloat x) \<Rightarrow> x | _ \<Rightarrow> 0)"
definition duration_flag :: "parsed \<Rightarrow> string \<Rightarrow> duration" where
  "duration_flag p n = (case pvValue p n of Some (FDuration d) \<Rightarrow> d | _ \<Rightarrow> 0)"

text \<open>The struct that the flags were bound to, after parsing.\<close>

definition parsed_flags :: "parsed \<Rightarrow> KubeApplierRootCmdFlags" where
  "parsed_flags p = \<lparr>rfKubeconfig = str_flag p ''kubeconfig'', rfKubeNamespace = str_flag p ''namespace'',
     rfManagementCluster = str_flag p ''management-cluster'', rfAWSRegion = str_flag p ''aws-region'',
     rfAWSEndpointURL = str_flag p ''aws-endpoint-url'', rfSpecsTablePrefix = str_flag p ''specs-table'',
     rfStatusTablePrefix = str_flag p ''status-table'',
     rfMetricsServerListenAddress = str_flag p ''metrics-listen-address'',
     rfHealthzServerListenAddress = str_flag p ''healthz-listen-address'',
     rfLeaderElectionID = str_flag p ''leader-election-id'', rfLogVerbosity = int_flag p ''log-verbosity'',
     rfExitOnPanic = bool_flag p ''exit-on-panic'', rfKubeQPS = float_flag p ''kube-qps'',
     rfKubeBurst = int_flag p ''kube-burst'', rfWatcherPollInterval = duration_flag p ''dynamo-poll-interval'',
     rfWatcherRelistInterval = duration_flag p ''dynamo-relist-interval'',
     rfWatcherMaxLookback = duration_flag p ''dynamo-max-lookback''\<rparr>"

definition NewCmdRoot ::
  "(string \<Rightarrow> go_error option) \<Rightarrow> ('w, 'c, 'k, 'l, 'y) environment \<Rightarrow> (('w, 'l, 'y) app_options \<Rightarrow> go_error option)
     \<Rightarrow> (parsed \<Rightarrow> go_error option) cobra_command" where
  "NewCmdRoot setV env run =
     \<lparr>cmDecl = \<lparr>cdPath = [], cdFlags = AddFlags NewKubeApplierRootCmdFlags, cdRequired = required_flags,
        cdArgs = NoArgs\<rparr>,
      cmRun = (\<lambda>p. RunRootCmd setV env run (parsed_flags p))\<rparr>"

text \<open>\<open>main\<close>: the exit status and standard error.\<close>

definition kube_applier_main ::
  "resolver \<Rightarrow> (string \<Rightarrow> go_error option) \<Rightarrow> ('w, 'c, 'k, 'l, 'y) environment
     \<Rightarrow> (('w, 'l, 'y) app_options \<Rightarrow> go_error option) \<Rightarrow> string list \<Rightarrow> int \<times> string" where
  "kube_applier_main resolve setV env run argv =
     (case (case execute resolve [] [NewCmdRoot setV env run] argv of Inl err \<Rightarrow> Some err | Inr r \<Rightarrow> r) of
        None \<Rightarrow> (0, '''')
      | Some err \<Rightarrow> (1, AppShortDescriptionName @ '' error: '' @ error_text err @ newline))"

section \<open>What the flags become\<close>

text \<open>No name twice, and each required flag is declared: \<open>AddFlags\<close> does not panic.\<close>

lemma root_well_declared: "well_declared [] (cmDecl (NewCmdRoot setV env run))"
  by (simp add: NewCmdRoot_def well_declared_def flags_of_def shorthands_def AddFlags_def required_flags_def
      StringVar_def plain_flag_def)

lemma root_flag:
  assumes "cobra_ok resolve" and "resolve [] [cmDecl (NewCmdRoot setV env run)] argv = Inr (i, p)"
    and "f \<in> set (AddFlags NewKubeApplierRootCmdFlags)" and "\<not> pvChanged p (fdName f)"
  shows "pvValue p (fdName f) = Some (fdDefault f)"
proof -
  have i: "i = 0" using cobraD(1) [OF assms(1,2)] by simp
  have "f \<in> set (flags_of [] ([cmDecl (NewCmdRoot setV env run)] ! i))"
    using assms(3) by (simp add: i flags_of_def NewCmdRoot_def)
  from cobraD(4) [OF assms(1,2) this] assms(4) show ?thesis by auto
qed

text \<open>With the required flags alone, everything else is as \<open>NewKubeApplierRootCmdFlags\<close> says.\<close>

lemma parsed_defaults:
  assumes "cobra_ok resolve" and "resolve [] [cmDecl (NewCmdRoot setV env run)] argv = Inr (i, p)"
    and "\<And>n. pvChanged p n \<Longrightarrow> n \<in> set required_flags"
  shows "parsed_flags p = NewKubeApplierRootCmdFlags\<lparr>rfKubeNamespace := str_flag p ''namespace'',
    rfManagementCluster := str_flag p ''management-cluster'', rfAWSRegion := str_flag p ''aws-region''\<rparr>"
proof -
  have "\<forall>f \<in> set (AddFlags NewKubeApplierRootCmdFlags). fdName f \<notin> set required_flags \<longrightarrow>
      pvValue p (fdName f) = Some (fdDefault f)"
    using root_flag [OF assms(1,2)] assms(3) by blast
  then show ?thesis
    by (simp add: AddFlags_def StringVar_def plain_flag_def required_flags_def parsed_flags_def str_flag_def int_flag_def
        bool_flag_def float_flag_def duration_flag_def NewKubeApplierRootCmdFlags_def)
qed

text \<open>A flag that was not given has the value that \<open>NewKubeApplierRootCmdFlags\<close> gives it.\<close>

lemma parsed_tables:
  assumes "cobra_ok resolve" and "resolve [] [cmDecl (NewCmdRoot setV env run)] argv = Inr (i, p)"
  shows "\<not> pvChanged p ''specs-table'' \<Longrightarrow> rfSpecsTablePrefix (parsed_flags p) = ''''"
    and "\<not> pvChanged p ''status-table'' \<Longrightarrow> rfStatusTablePrefix (parsed_flags p) = ''''"
proof -
  note f = root_flag [OF assms, of "StringVar n ''''" for n]
  show "\<not> pvChanged p ''specs-table'' \<Longrightarrow> rfSpecsTablePrefix (parsed_flags p) = ''''"
    using f [of "''specs-table''"] by (simp add: AddFlags_def StringVar_def plain_flag_def parsed_flags_def str_flag_def
        NewKubeApplierRootCmdFlags_def)
  show "\<not> pvChanged p ''status-table'' \<Longrightarrow> rfStatusTablePrefix (parsed_flags p) = ''''"
    using f [of "''status-table''"] by (simp add: AddFlags_def StringVar_def plain_flag_def parsed_flags_def str_flag_def
        NewKubeApplierRootCmdFlags_def)
qed

end
