(* ===== verification/ToolCommands.thy ===== *)
theory ToolCommands
  imports DesireTool Cobra
begin

text \<open>
  The commands of \<open>cmd/desire-tool/main.go\<close> as they are declared: their flags, and how each \<open>RunE\<close> gets from
  them to the bodies of theory \<open>DesireTool\<close>. \<open>None\<close> is a listing that never ends; the process may also end
  inside of \<open>newDynamoDBClient\<close>.
\<close>

section \<open>Clients\<close>

record 'w tool_env =
  teFiles :: "'w file_system"
  teJson :: json_lib
  teYamlToJSON :: "string \<Rightarrow> go_error + string"
  teUuid :: "string \<Rightarrow> string \<Rightarrow> string"
  teMarshalPrefix :: "string \<Rightarrow> json \<Rightarrow> go_error + string"
  teGetenv :: "string \<Rightarrow> string"
  teLoadAWS :: "aws_option list \<Rightarrow> go_error + 'w dynamo_client"
  teApplyCodec :: "ApplyDesire attributevalue_codec"
  teReadCodec :: "ReadDesire attributevalue_codec"

datatype tool_outcome = Returned "go_error option" string | Exited string

text \<open>Persistent flags of the root command.\<close>

definition tool_flags :: "flag_decl list" where
  "tool_flags = [StringVar ''aws-region'' ''us-east-1'', StringVar ''aws-endpoint-url'' '''',
     StringVar ''specs-table'' ''mc-dev-local-specs'', StringVar ''status-table'' ''mc-dev-local-status'']"

definition newDynamoDBClient :: "'w tool_env \<Rightarrow> parsed \<Rightarrow> string + 'w dynamo_client" where
  "newDynamoDBClient env p =
     (let endpoint = str_flag p ''aws-endpoint-url'';
          opts = [WithRegion (str_flag p ''aws-region'')] @
            (if endpoint \<noteq> '''' then [WithBaseEndpoint endpoint] else []) @
            (if teGetenv env ''AWS_ACCESS_KEY_ID'' = '''' \<and> endpoint \<noteq> ''''
             then [WithStaticCredentials ''test'' ''test''] else [])
      in (case teLoadAWS env opts of
            Inl err \<Rightarrow> Inl (''Error: failed to load AWS config: '' @ error_text err @ newline)
          | Inr client \<Rightarrow> Inr client))"

definition tool_db :: "'w tool_env \<Rightarrow> 'w dynamo_client \<Rightarrow> string \<Rightarrow> 'w dynamoDBKubeApplierDBClient" where
  "tool_db env client prefix = \<lparr>specsClient = client, statusClient = client, specsPrefix = prefix,
     statusPrefix = prefix, applyCodec = teApplyCodec env, readCodec = teReadCodec env, dbJson = teJson env\<rparr>"

definition twoDBClients :: "'w tool_env \<Rightarrow> parsed \<Rightarrow> string + 'w clientPair" where
  "twoDBClients env p =
     (case newDynamoDBClient env p of
        Inl msg \<Rightarrow> Inl msg
      | Inr client \<Rightarrow> Inr \<lparr>cpSpecs = dynamo_db (tool_db env client (str_flag p ''specs-table'')),
          cpStatus = dynamo_db (tool_db env client (str_flag p ''status-table''))\<rparr>)"

section \<open>The commands\<close>

type_synonym 'w tool_run = "parsed \<Rightarrow> 'w \<Rightarrow> (tool_outcome \<times> 'w) option"

definition with_clients ::
  "'w tool_env \<Rightarrow> parsed \<Rightarrow> ('w clientPair \<Rightarrow> 'w \<Rightarrow> ((go_error option \<times> string) \<times> 'w) option) \<Rightarrow> 'w
     \<Rightarrow> (tool_outcome \<times> 'w) option" where
  "with_clients env p body w =
     (case twoDBClients env p of
        Inl msg \<Rightarrow> Some (Exited msg, w)
      | Inr clients \<Rightarrow> map_option (\<lambda>((e, out), w). (Returned e out, w)) (body clients w))"

definition flag_target :: "parsed \<Rightarrow> string \<Rightarrow> ResourceReference" where
  "flag_target p pre = \<lparr>rrGroup = str_flag p (pre @ ''group''), rrVersion = str_flag p (pre @ ''version''),
     rrResource = str_flag p (pre @ ''resource''), rrNamespace = str_flag p (pre @ ''namespace''),
     rrName = str_flag p (pre @ ''resource-name'')\<rparr>"

definition newCreateApplyCmd :: "'w tool_env \<Rightarrow> 'w tool_run cobra_command" where
  "newCreateApplyCmd env = \<lparr>cmDecl = \<lparr>cdPath = [''create-apply''],
       cdFlags = [StringVar ''task-key'' '''', StringVar ''cluster-id'' '''', StringVar ''node-pool'' '''',
         StringVar ''file'' ''''],
       cdRequired = [''task-key'', ''cluster-id'', ''file''], cdArgs = AnyArgs\<rparr>,
     cmRun = (\<lambda>p. with_clients env p (\<lambda>clients w. Some (createApply (teFiles env) (teJson env) (teYamlToJSON env)
       (teUuid env) (cpSpecs clients) (str_flag p ''task-key'') (str_flag p ''cluster-id'')
       (str_flag p ''node-pool'') (str_flag p ''file'') w)))\<rparr>"

text \<open>What \<open>create-delete\<close> and \<open>create-read\<close> declare alike.\<close>

definition target_flags :: "flag_decl list" where
  "target_flags = [StringVar ''task-key'' '''', StringVar ''cluster-id'' '''', StringVar ''node-pool'' '''',
     StringVar ''group'' '''', StringVar ''version'' '''', StringVar ''resource'' '''',
     StringVar ''namespace'' '''', StringVar ''resource-name'' '''']"

definition target_required :: "string list" where
  "target_required = [''task-key'', ''cluster-id'', ''version'', ''resource'', ''resource-name'']"

definition newCreateDeleteCmd :: "'w tool_env \<Rightarrow> 'w tool_run cobra_command" where
  "newCreateDeleteCmd env = \<lparr>cmDecl = \<lparr>cdPath = [''create-delete''], cdFlags = target_flags,
       cdRequired = target_required, cdArgs = AnyArgs\<rparr>,
     cmRun = (\<lambda>p. with_clients env p (\<lambda>clients w. Some (createDelete (teUuid env) (cpSpecs clients)
       (str_flag p ''task-key'') (str_flag p ''cluster-id'') (str_flag p ''node-pool'') (flag_target p '''') w)))\<rparr>"

definition newCreateReadCmd :: "'w tool_env \<Rightarrow> 'w tool_run cobra_command" where
  "newCreateReadCmd env = \<lparr>cmDecl = \<lparr>cdPath = [''create-read''], cdFlags = target_flags,
       cdRequired = target_required, cdArgs = AnyArgs\<rparr>,
     cmRun = (\<lambda>p. with_clients env p (\<lambda>clients w. Some (createRead (teUuid env) (cpSpecs clients)
       (str_flag p ''task-key'') (str_flag p ''cluster-id'') (str_flag p ''node-pool'') (flag_target p '''') w)))\<rparr>"

text \<open>\<open>addFlags\<close> and the values it leaves in \<open>docIDFlags\<close>.\<close>

definition doc_flags :: "flag_decl list" where
  "doc_flags = [StringVar ''doc-id'' '''', StringVar ''task-key'' '''', StringVar ''group'' '''',
     StringVar ''version'' '''', StringVar ''resource'' '''', StringVar ''namespace'' '''',
     StringVar ''resource-name'' '''']"

definition doc_id_flags :: "parsed \<Rightarrow> docIDFlags" where
  "doc_id_flags p = \<lparr>dfDocID = str_flag p ''doc-id'', dfTaskKey = str_flag p ''task-key'',
     dfGroup = str_flag p ''group'', dfVersion = str_flag p ''version'', dfResource = str_flag p ''resource'',
     dfNamespace = str_flag p ''namespace'', dfResourceName = str_flag p ''resource-name''\<rparr>"

text \<open>A command that resolves its document before it makes the clients.\<close>

definition with_document ::
  "'w tool_env \<Rightarrow> parsed \<Rightarrow> (string \<Rightarrow> 'w clientPair \<Rightarrow> 'w \<Rightarrow> ((go_error option \<times> string) \<times> 'w) option) \<Rightarrow> 'w
     \<Rightarrow> (tool_outcome \<times> 'w) option" where
  "with_document env p body w =
     (case resolve_doc (teUuid env) (doc_id_flags p) of
        Inl err \<Rightarrow> Some (Returned (Some err) '''', w)
      | Inr docID \<Rightarrow> with_clients env p (body docID) w)"

definition newUpdateApplyCmd :: "'w tool_env \<Rightarrow> 'w tool_run cobra_command" where
  "newUpdateApplyCmd env = \<lparr>cmDecl = \<lparr>cdPath = [''update-apply''], cdFlags = doc_flags @ [StringVar ''file'' ''''],
       cdRequired = [''file''], cdArgs = AnyArgs\<rparr>,
     cmRun = (\<lambda>p. with_document env p (\<lambda>docID clients w. Some (updateApply (teFiles env) (teJson env) (teYamlToJSON env)
       (teUuid env) (cpSpecs clients) (doc_id_flags p) (str_flag p ''file'') w)))\<rparr>"

definition newUpdateReadCmd :: "'w tool_env \<Rightarrow> 'w tool_run cobra_command" where
  "newUpdateReadCmd env = \<lparr>cmDecl = \<lparr>cdPath = [''update-read''],
       cdFlags = doc_flags @ [StringVar ''new-group'' '''', StringVar ''new-version'' '''',
         StringVar ''new-resource'' '''', StringVar ''new-namespace'' '''', StringVar ''new-resource-name'' ''''],
       cdRequired = [''new-version'', ''new-resource'', ''new-resource-name''], cdArgs = AnyArgs\<rparr>,
     cmRun = (\<lambda>p. with_document env p (\<lambda>docID clients w. Some (updateRead (teUuid env) (cpSpecs clients)
       (doc_id_flags p) (flag_target p ''new-'') w)))\<rparr>"

definition doc_command ::
  "string \<Rightarrow> 'w tool_env \<Rightarrow> (parsed \<Rightarrow> string \<Rightarrow> 'w clientPair \<Rightarrow> 'w \<Rightarrow> ((go_error option \<times> string) \<times> 'w) option)
     \<Rightarrow> 'w tool_run cobra_command" where
  "doc_command name env body =
     \<lparr>cmDecl = \<lparr>cdPath = [name], cdFlags = doc_flags, cdRequired = [], cdArgs = AnyArgs\<rparr>,
      cmRun = (\<lambda>p. with_document env p (body p))\<rparr>"

definition newGetApplyCmd :: "'w tool_env \<Rightarrow> 'w tool_run cobra_command" where
  "newGetApplyCmd env = doc_command ''get-apply'' env
     (\<lambda>p docID clients w. Some (getApply (teJson env) (teMarshalPrefix env) clients docID w))"

definition newGetDeleteCmd :: "'w tool_env \<Rightarrow> 'w tool_run cobra_command" where
  "newGetDeleteCmd env = doc_command ''get-delete'' env (\<lambda>p docID clients w. Some (getDelete clients docID w))"

definition newGetReadCmd :: "'w tool_env \<Rightarrow> 'w tool_run cobra_command" where
  "newGetReadCmd env = doc_command ''get-read'' env
     (\<lambda>p docID clients w. Some (getRead (teJson env) (teMarshalPrefix env) clients docID w))"

definition newDeleteApplyCmd :: "'w tool_env \<Rightarrow> 'w tool_run cobra_command" where
  "newDeleteApplyCmd env = doc_command ''delete-apply'' env
     (\<lambda>p docID clients w. Some (deleteApply (teUuid env) clients (doc_id_flags p) w))"

definition newDeleteDeleteCmd :: "'w tool_env \<Rightarrow> 'w tool_run cobra_command" where
  "newDeleteDeleteCmd env = doc_command ''delete-delete'' env
     (\<lambda>p docID clients w. Some (deleteDelete (teUuid env) clients (doc_id_flags p) w))"

definition newDeleteReadCmd :: "'w tool_env \<Rightarrow> 'w tool_run cobra_command" where
  "newDeleteReadCmd env = doc_command ''delete-read'' env
     (\<lambda>p docID clients w. Some (deleteRead (teUuid env) clients (doc_id_flags p) w))"

definition list_command ::
  "string \<Rightarrow> 'w tool_env \<Rightarrow> ('w KubeApplierDBClient \<Rightarrow> 'w \<Rightarrow> ((go_error option \<times> string) \<times> 'w) option)
     \<Rightarrow> 'w tool_run cobra_command" where
  "list_command name env body =
     \<lparr>cmDecl = \<lparr>cdPath = [name], cdFlags = [], cdRequired = [], cdArgs = AnyArgs\<rparr>,
      cmRun = (\<lambda>p. with_clients env p (\<lambda>clients. body (cpSpecs clients)))\<rparr>"

definition newListApplyCmd :: "'w tool_env \<Rightarrow> 'w tool_run cobra_command" where
  "newListApplyCmd env = list_command ''list-apply'' env listApply"

definition newListDeleteCmd :: "'w tool_env \<Rightarrow> 'w tool_run cobra_command" where
  "newListDeleteCmd env = list_command ''list-delete'' env listDelete"

definition newListReadCmd :: "'w tool_env \<Rightarrow> 'w tool_run cobra_command" where
  "newListReadCmd env = list_command ''list-read'' env listRead"

section \<open>The program\<close>

definition tool_commands :: "'w tool_env \<Rightarrow> 'w tool_run cobra_command list" where
  "tool_commands env = [newCreateApplyCmd env, newCreateDeleteCmd env, newCreateReadCmd env, newUpdateApplyCmd env,
     newUpdateReadCmd env, newGetApplyCmd env, newGetDeleteCmd env, newGetReadCmd env, newListApplyCmd env,
     newListDeleteCmd env, newListReadCmd env, newDeleteApplyCmd env, newDeleteDeleteCmd env, newDeleteReadCmd env]"

text \<open>\<open>main\<close>: what the command did, and the exit status.\<close>

definition exit_status :: "tool_outcome \<Rightarrow> int" where
  "exit_status r = (case r of Returned None out \<Rightarrow> 0 | _ \<Rightarrow> 1)"

definition tool_main :: "resolver \<Rightarrow> 'w tool_env \<Rightarrow> string list \<Rightarrow> 'w \<Rightarrow> (tool_outcome \<times> 'w) option" where
  "tool_main resolve env argv w =
     (case execute resolve tool_flags (tool_commands env) argv of
        Inl err \<Rightarrow> Some (Returned (Some err) '''', w)
      | Inr run \<Rightarrow> run w)"

text \<open>The tree is sound: no name or shorthand is declared twice, required flags exist, and no two commands share
  a path, so that neither pflag panics nor \<open>MarkFlagRequired\<close> fails, whose error the code ignores.\<close>

lemmas tool_command_defs = newCreateApplyCmd_def newCreateDeleteCmd_def newCreateReadCmd_def newUpdateApplyCmd_def
  newUpdateReadCmd_def newGetApplyCmd_def newGetDeleteCmd_def newGetReadCmd_def newListApplyCmd_def
  newListDeleteCmd_def newListReadCmd_def newDeleteApplyCmd_def newDeleteDeleteCmd_def newDeleteReadCmd_def
  doc_command_def list_command_def

lemmas flag_defs = StringVar_def StringVarP_def StringArrayVarP_def plain_flag_def target_flags_def target_required_def
  doc_flags_def

lemma tool_well_declared:
  "list_all (well_declared tool_flags) (map cmDecl (tool_commands env))"
  "distinct (map (cdPath \<circ> cmDecl) (tool_commands env))"
  by (simp_all add: tool_commands_def tool_command_defs well_declared_def flags_of_def shorthands_def tool_flags_def flag_defs)

end
