(* ===== verification/TimeRoundtrip.thy ===== *)
theory TimeRoundtrip
  imports GoTime
begin

text \<open>
  What \<open>Format\<close> with \<open>time.RFC3339Nano\<close> writes of an instant of the years 1 to 9999, \<open>time.Parse\<close> reads back as
  the same instant: the calendar is inverted, and so is the fraction whose trailing zeros are cut.
\<close>

section \<open>Digits\<close>

lemma of_char_digit: "n < 10 \<Longrightarrow> of_char (digit_char n) = (48 + int n :: int)"
  using arg_cong [OF of_digit_char, of n int] by (simp add: of_nat_of_char)

lemma is_digit_char: "n < 10 \<Longrightarrow> is_digit (digit_char n)"
  by (simp add: is_digit_def of_digit_char)

lemma length_fixed_digits [simp]: "length (fixed_digits n i) = n"
  by (induction n arbitrary: i) simp_all

lemma fixed_digits_all: "list_all is_digit (fixed_digits n i)"
  by (induction n arbitrary: i) (simp_all add: is_digit_char nat_less_iff)

lemma digits_int_snoc: "digits_int (s @ [c]) = 10 * digits_int s + (of_char c - 48)"
  by (simp add: digits_int_def)

lemma digits_fixed: "0 \<le> i \<Longrightarrow> i < 10 ^ n \<Longrightarrow> digits_int (fixed_digits n i) = i"
proof (induction n arbitrary: i)
  case (Suc n)
  then have "digits_int (fixed_digits n (i div 10)) = i div 10" by (simp add: div_less_iff_less_mult)
  then show ?case by (simp add: digits_int_snoc of_char_digit nat_less_iff)
qed (simp add: digits_int_def)

lemma pad_fixed: "0 \<le> i \<Longrightarrow> i < 10 ^ n \<Longrightarrow> pad_int n i = fixed_digits n i"
  by (simp add: pad_int_def)

lemma take_digits_pad: "0 \<le> i \<Longrightarrow> i < 10 ^ n \<Longrightarrow> take_digits n (pad_int n i @ s) = Some (i, s)"
  by (simp add: take_digits_def pad_fixed fixed_digits_all digits_fixed)

section \<open>The calendar\<close>

text \<open>The last of \<open>k + 1\<close> cycles of \<open>n\<close> days may be a day longer.\<close>

lemma cycle_rest:
  fixes n k r :: int
  assumes "0 < n" and "0 \<le> k" and "0 \<le> r" and "r \<le> n * (k + 1)"
  defines "b \<equiv> min k (r div n)"
  shows "0 \<le> b" "b \<le> k" "0 \<le> r - n * b" "r - n * b \<le> n" "r - n * b = n \<Longrightarrow> b = k"
proof -
  have q: "n * (r div n) + r mod n = r" "0 \<le> r mod n" "r mod n < n" using assms(1) by simp_all
  have "0 \<le> r div n" using assms(1,3) by (simp add: pos_imp_zdiv_nonneg_iff)
  with assms(2) show "0 \<le> b" "b \<le> k" by (simp_all add: b_def)
  have "0 \<le> r - n * b \<and> r - n * b \<le> n \<and> (r - n * b = n \<longrightarrow> b = k)"
  proof (cases "r div n \<le> k")
    case True
    then have "b = r div n" by (simp add: b_def)
    with q(1) have "r - n * b = r mod n" by (metis add_diff_cancel_left')
    with q(2,3) show ?thesis by simp
  next
    case False
    then have "b = k" by (simp add: b_def)
    moreover have "n * k \<le> n * (r div n)" using False assms(1) by simp
    with q(1,2) have "n * k \<le> r" by linarith
    ultimately show ?thesis using assms(4) by (simp add: algebra_simps)
  qed
  then show "0 \<le> r - n * b" "r - n * b \<le> n" "r - n * b = n \<Longrightarrow> b = k" by simp_all
qed

lemma year_of_days_inverse:
  assumes "year_of_days d = (y, yd)"
  shows "days_before_year y + yd = d" "0 \<le> yd" "yd < (if leap y then 366 else 365)" "0 \<le> d \<Longrightarrow> 1 \<le> y"
proof -
  define a r where "a = d div 146097" and "r = d mod 146097"
  define b where "b = min 3 (r div 36524)"
  define r2 where "r2 = r - 36524 * b"
  define c r3 where "c = r2 div 1461" and "r3 = r2 mod 1461"
  define e where "e = min 3 (r3 div 365)"
  have y: "y = 400 * a + 100 * b + 4 * c + e + 1" and yd: "yd = r3 - 365 * e"
    using assms [unfolded year_of_days_def Let_def, folded a_def r_def, folded b_def, folded r2_def, folded c_def r3_def,
      folded e_def] by simp_all
  have d: "d = 146097 * a + r" "0 \<le> r" "r < 146097" by (simp_all add: a_def r_def)
  have n: "(0::int) < 36524" "(0::int) < 365" "(0::int) \<le> 3" "r \<le> 36524 * (3 + 1)" using d(3) by simp_all
  note b = cycle_rest [OF n(1,3) d(2) n(4), folded b_def, folded r2_def]
  have c: "r2 = 1461 * c + r3" "0 \<le> r3" "r3 < 1461" by (simp_all add: c_def r3_def)
  have c24: "0 \<le> c" "c \<le> 24" using b(3,4) c by linarith+
  have r3: "r3 \<le> 365 * (3 + 1)" using c(3) by simp
  note e = cycle_rest [OF n(2,3) c(2) r3, folded e_def, folded yd]
  have q: "(y - 1) div 4 = 100 * a + 25 * b + c" "(y - 1) div 100 = 4 * a + b" "(y - 1) div 400 = a"
    using b(1,2) c24 e(1,2) by (intro int_div_pos_eq [where r = e] int_div_pos_eq [where r = "4 * c + e"]
        int_div_pos_eq [where r = "100 * b + 4 * c + e"]; simp add: y)+
  show "days_before_year y + yd = d"
    by (simp add: days_before_year_def q) (use d(1) c(1) in \<open>simp add: y yd r2_def\<close>)
  show "0 \<le> yd" by (rule e(3))
  have "leap y" if "yd = 365"
  proof -
    have e3: "e = 3" by (rule e(5) [OF that])
    with that yd have r3: "r3 = 1460" by simp
    show ?thesis
    proof (cases "c = 24")
      case True
      with c(1) r3 b(5) have "b = 3" by simp
      with True e3 have "y = 400 * (a + 1)" by (simp add: y)
      then show ?thesis by (simp add: leap_def)
    next
      case False
      with c24 have "c < 24" by simp
      have "y = 4 * (100 * a + 25 * b + c + 1)" by (simp add: y e3)
      then have "y mod 4 = 0" by simp
      moreover have "y mod 100 = 4 * c + 4"
      proof -
        have "y = (4 * c + 4) + (4 * a + b) * 100" by (simp add: y e3)
        then have "y mod 100 = (4 * c + 4) mod 100" by (simp only: mod_mult_self1)
        with c24 \<open>c < 24\<close> show ?thesis by simp
      qed
      ultimately show ?thesis using c24 by (simp add: leap_def)
    qed
  qed
  with e(4) show "yd < (if leap y then 366 else 365)" by (cases "yd = 365") auto
  assume "0 \<le> d"
  then have "0 \<le> a" by (simp add: a_def pos_imp_zdiv_nonneg_iff)
  with b(1) c24(1) e(1) show "1 \<le> y" by (simp add: y)
qed

lemma year_in_range:
  assumes "year_of_days d = (y, yd)" and "0 \<le> d" and "d < 3652059"
  shows "1 \<le> y" "y \<le> 9999"
proof -
  note inv = year_of_days_inverse [OF assms(1)]
  show "1 \<le> y" by (rule inv(4) [OF assms(2)])
  show "y \<le> 9999"
  proof (rule ccontr)
    assume "\<not> y \<le> 9999"
    then have "9999 \<le> y - 1" by simp
    with inv(1,2) assms(3) show False by (simp add: days_before_year_def)
  qed
qed

lemma month_of_day_inverse:
  "month_of_day ns m d = (m', d') \<Longrightarrow> 0 \<le> d \<Longrightarrow> d < sum_list ns \<Longrightarrow>
   m \<le> m' \<and> m' < m + int (length ns) \<and> 1 \<le> d' \<and> d' \<le> ns ! nat (m' - m) \<and>
   sum_list (take (nat (m' - m)) ns) + d' - 1 = d"
proof (induction ns m d rule: month_of_day.induct)
  case (2 n ns m d)
  show ?case
  proof (cases "d < n")
    case True
    with 2 show ?thesis by auto
  next
    case False
    with 2 have IH: "m + 1 \<le> m' \<and> m' < m + 1 + int (length ns) \<and> 1 \<le> d' \<and> d' \<le> ns ! nat (m' - (m + 1)) \<and>
        sum_list (take (nat (m' - (m + 1))) ns) + d' - 1 = d - n" by simp
    then have "nat (m' - m) = Suc (nat (m' - (m + 1)))" by arith
    with IH show ?thesis by simp
  qed
qed simp

section \<open>The fraction\<close>

lemma trim_zeros_pad: "trim_zeros s @ replicate (length s - length (trim_zeros s)) (CHR ''0'') = s"
proof -
  let ?z = "\<lambda>c. c = CHR ''0''"
  have "takeWhile ?z (rev s) = replicate (length (takeWhile ?z (rev s))) (CHR ''0'')"
    by (rule replicate_eqI) (auto dest: set_takeWhileD)
  moreover have "length (takeWhile ?z (rev s)) + length (dropWhile ?z (rev s)) = length s"
    by (metis length_append length_rev takeWhile_dropWhile_id)
  then have "length (takeWhile ?z (rev s)) = length s - length (trim_zeros s)"
    by (simp add: trim_zeros_def)
  moreover have "s = trim_zeros s @ rev (takeWhile ?z (rev s))"
    unfolding trim_zeros_def by (metis rev_append rev_rev_ident takeWhile_dropWhile_id)
  ultimately show ?thesis by (metis rev_replicate)
qed

lemma trim_zeros_digits: "list_all is_digit s \<Longrightarrow> list_all is_digit (trim_zeros s)" "length (trim_zeros s) \<le> length s"
proof -
  show "list_all is_digit s \<Longrightarrow> list_all is_digit (trim_zeros s)"
    by (metis list_all_append trim_zeros_pad)
  show "length (trim_zeros s) \<le> length s"
    using length_dropWhile_le [of "\<lambda>c. c = CHR ''0''" "rev s"] by (simp add: trim_zeros_def)
qed

lemma digits_zeros: "digits_int (replicate n (CHR ''0'')) = 0"
proof (induction n)
  case (Suc n)
  then show ?case by (simp add: replicate_append_same [symmetric] digits_int_snoc)
qed (simp add: digits_int_def)

lemma take_fraction_trim:
  assumes "0 \<le> f" and "f < second"
  defines "s \<equiv> trim_zeros (pad_int 9 f)"
  shows "take_fraction ((if s = '''' then '''' else CHR ''.'' # s) @ ''Z'') = (f, ''Z'')"
proof -
  let ?p = "fixed_digits 9 f"
  have p: "pad_int 9 f = ?p" using assms(1,2) by (intro pad_fixed) simp_all
  have f: "digits_int ?p = f" using assms(1,2) by (intro digits_fixed) simp_all
  have s_eq: "s = trim_zeros ?p" by (simp add: s_def p)
  have s: "s @ replicate (9 - length s) (CHR ''0'') = ?p" "list_all is_digit s" "length s \<le> 9"
    using trim_zeros_pad [of ?p] trim_zeros_digits [of ?p] by (simp_all add: s_eq fixed_digits_all)
  show ?thesis
  proof (cases s)
    case Nil
    with s(1) have "?p = replicate 9 (CHR ''0'')" by simp
    with f digits_zeros [of 9] have "f = 0" by metis
    with Nil show ?thesis by (simp add: take_fraction_def)
  next
    case (Cons d ds)
    have all: "list_all is_digit (d # ds)" using s(2) Cons by (simp add: fixed_digits_all)
    have z: "\<not> is_digit (CHR ''Z'')" by (simp add: is_digit_def)
    have tw: "takeWhile is_digit (d # ds @ ''Z'') = d # ds" "dropWhile is_digit (d # ds @ ''Z'') = ''Z''"
      using all z by (simp_all add: list_all_iff takeWhile_append dropWhile_append del: append_Cons)
    have len: "length (d # ds) \<le> 9" using s(3) Cons by simp
    have "take_fraction (CHR ''.'' # d # ds @ ''Z'') = (digits_int ((d # ds) @ replicate (9 - length (d # ds)) (CHR ''0'')), ''Z'')"
      using all tw len by (simp add: take_fraction_def Let_def)
    then show ?thesis using s(1) f Cons by simp
  qed
qed

section \<open>The round trip\<close>

lemma month_days_list: "length (month_days y) = 12" "sum_list (month_days y) = (if leap y then 366 else 365)"
  "x \<in> set (month_days y) \<Longrightarrow> x \<le> 31"
  by (auto simp: month_days_def)

text \<open>Parsing of what the pieces were written as.\<close>

lemma parse_pieces:
  assumes "take_fraction fr = (f, ''Z'')"
    and "0 \<le> y" "y \<le> 9999" and "1 \<le> m" "m \<le> 12" and "1 \<le> d" "d \<le> month_days y ! nat (m - 1)"
    and "0 \<le> H" "H < 24" and "0 \<le> M" "M < 60" and "0 \<le> S" "S < 60"
  shows "parse_RFC3339 (pad_int 4 y @ ''-'' @ pad_int 2 m @ ''-'' @ pad_int 2 d @ ''T'' @
      pad_int 2 H @ '':'' @ pad_int 2 M @ '':'' @ pad_int 2 S @ fr) =
    Some (second * (86400 * (days_before_year y + sum_list (take (nat (m - 1)) (month_days y)) + d - 1) +
      3600 * H + 60 * M + S) + f)"
proof -
  have "month_days y ! nat (m - 1) \<in> set (month_days y)" using assms(4,5) by (intro nth_mem) (simp add: month_days_list)
  then have d31: "d \<le> 31" using assms(7) month_days_list(3) by fastforce
  have t: "take_digits 4 (pad_int 4 y @ s) = Some (y, s)" "take_digits 2 (pad_int 2 m @ s) = Some (m, s)"
    "take_digits 2 (pad_int 2 d @ s) = Some (d, s)" "take_digits 2 (pad_int 2 H @ s) = Some (H, s)"
    "take_digits 2 (pad_int 2 M @ s) = Some (M, s)" "take_digits 2 (pad_int 2 S @ s) = Some (S, s)" for s
    using assms d31 by (auto intro: take_digits_pad)
  show ?thesis
    using assms by (simp add: parse_RFC3339_def t take_hour_def take_zone_def)
qed

lemma format_parse:
  assumes "0 \<le> t" and "t < 3652059 * 86400 * second"
  shows "parse_RFC3339 (format_RFC3339Nano t) = Some t"
proof -
  define s where "s = t div second"
  define f where "f = t mod second"
  have t: "t = second * s + f" by (simp add: s_def f_def)
  define day sod where "day = s div 86400" and "sod = s mod 86400"
  define H M S where "H = sod div 3600" and "M = sod div 60 mod 60" and "S = sod mod 60"
  obtain y yd where y: "year_of_days day = (y, yd)" by fastforce
  obtain m d where m: "month_of_day (month_days y) 1 yd = (m, d)" by fastforce
  have day: "0 \<le> day" "day < 3652059" using assms by (simp_all add: day_def s_def)
  note inv = year_of_days_inverse [OF y] and yr = year_in_range [OF y day]
  have mi: "1 \<le> m" "m \<le> 12" "1 \<le> d" "d \<le> month_days y ! nat (m - 1)"
    "sum_list (take (nat (m - 1)) (month_days y)) + d - 1 = yd"
    using month_of_day_inverse [OF m] inv(2,3) by (simp_all add: month_days_list)
  have sod: "0 \<le> H" "H < 24" "0 \<le> M" "M < 60" "0 \<le> S" "S < 60"
    by (simp_all add: H_def M_def S_def sod_def)
  have "H = sod div 60 div 60" by (simp add: H_def zdiv_zmult2_eq)
  then have "60 * H + M = sod div 60" by (simp add: M_def)
  moreover have "60 * (sod div 60) + S = sod" by (simp add: S_def)
  ultimately have "3600 * H + 60 * M + S = sod" by linarith
  moreover have "86400 * day + sod = s" by (simp add: day_def sod_def)
  ultimately have val: "86400 * day + 3600 * H + 60 * M + S = s" by simp
  have D: "days_before_year y + sum_list (take (nat (m - 1)) (month_days y)) + d - 1 = day"
    using inv(1) mi(5) by simp
  let ?fr = "(if trim_zeros (pad_int 9 f) = '''' then '''' else CHR ''.'' # trim_zeros (pad_int 9 f)) @ ''Z''"
  have frac: "take_fraction ?fr = (f, ''Z'')" by (rule take_fraction_trim) (simp_all add: f_def)
  have "format_RFC3339Nano t = pad_int 4 y @ ''-'' @ pad_int 2 m @ ''-'' @ pad_int 2 d @ ''T'' @
      pad_int 2 H @ '':'' @ pad_int 2 M @ '':'' @ pad_int 2 S @ ?fr"
    unfolding format_RFC3339Nano_def format_seconds_def Let_def s_def [symmetric] f_def [symmetric]
      day_def [symmetric] sod_def [symmetric] y m prod.case H_def M_def S_def by (simp only: append_assoc)
  with parse_pieces [OF frac _ yr(2) mi(1-4) sod] yr(1) show ?thesis
    by (simp only: D val t)
qed

end
