(* ===== verification/EndToEnd.thy ===== *)
theory EndToEnd
  imports Pipeline StorageClaims CliClaims RootCommand ToolCommands TimeRoundtrip
begin

text \<open>
  The programs together: what \<open>desire-tool\<close> creates with the flags it has by default is in the table that a
  kube-applier watches whose flags name the management cluster \<open>dev-local\<close>, its row reads as the watcher needs
  it, and the next relist asks for its key. What both sides use of the same libraries is the same parameter.
\<close>

section \<open>Rows and stubs\<close>

text \<open>The attributevalue marshaller writes a \<open>time.Time\<close> as a string in RFC 3339 with nanoseconds.\<close>

definition marshals_times :: "'a DynamoDBMetadata_scheme attributevalue_codec \<Rightarrow> bool" where
  "marshals_times lib \<longleftrightarrow>
     (\<forall>d it. MarshalMap lib d = Inr it \<longrightarrow> it ''updateTime'' = Some (AV_S (format_RFC3339Nano (UpdateTime d))))"

abbreviation (input) end_of_9999 :: gtime where "end_of_9999 \<equiv> 3652059 * 86400 * second"

lemma row_stub:
  assumes "codec_ok untagged lib" and "marshals_times lib" and "desireToItem lib J acc d = Inr it"
    and "0 \<le> UpdateTime d" and "UpdateTime d < end_of_9999"
  shows "extractDocumentIDAndUpdateTime it = Some (DocumentID d, UpdateTime d)"
proof -
  from assms(1,3) obtain base m where base: "MarshalMap lib d = Inr base"
    and m: "kubeContentAttributeValues J acc d = Inr m"
    and it: "it = base(attributeDocumentID \<mapsto> AV_S (DocumentID d),
                   ''shard'' \<mapsto> AV_S (ComputeShardDefault (DocumentID d))) ++ m"
    and id: "it attributeDocumentID = Some (AV_S (DocumentID d))" by (rule desireToItem_Inr)
  have "m ''updateTime'' = None"
    using m by (rule kubeContentAttributeValues_Inr) (auto simp: attribute_names)
  then have "it ''updateTime'' = base ''updateTime''"
    by (simp add: it map_add_def attributeDocumentID_def)
  also have "\<dots> = Some (AV_S (format_RFC3339Nano (UpdateTime d)))"
    using assms(2) base by (simp add: marshals_times_def)
  finally show ?thesis
    using id format_parse [OF assms(4,5)]
    by (simp add: extractDocumentIDAndUpdateTime_def attributeDocumentID_def)
qed

lemma dyn_Create_time:
  "dyn_Create c d w = (Inr d', w') \<Longrightarrow> UpdateTime d' = fst (time_Now (crClient c) w)"
  by (auto simp: dyn_Create_def Let_def split: prod.splits sum.splits option.splits if_splits)

section \<open>The same tables\<close>

lemma tool_writes_specs:
  assumes "ToKubeApplierOptions env f = Inr o'" and "rfSpecsTablePrefix f = ''''" and "rfManagementCluster f = ''dev-local''"
    and "client = specsClient (aoKubeApplierDBClient o')" and "teApplyCodec tenv = envApplyCodec env"
    and "teJson tenv = envJson env"
  shows "ApplyDesireStatusTable (tool_db tenv client ''mc-dev-local-specs'') = ApplyDesireSpecs (aoKubeApplierDBClient o')"
  using assms by (auto simp: ToKubeApplierOptions_def tool_db_def db_client_defs table_prefix_def Let_def split: sum.splits)

lemma options_informer:
  assumes "ToKubeApplierOptions env f = Inr o'"
  obtains sdk opts where
    "kiApply (aoInformers o') = kiApply (NewKubeApplierInformersWithOptions (envApplyCodec env) (envReadCodec env)
       (envJson env) sdk (specsPrefix (aoKubeApplierDBClient o')) DefaultResyncPeriod opts)"
  using assms by (auto simp: ToKubeApplierOptions_def Let_def split: sum.splits)

lemma options_decode:
  assumes "ToKubeApplierOptions env f = Inr o'"
  defines "A \<equiv> ApplyDesireSpecs (aoKubeApplierDBClient o')"
  shows "waDecode (diWatch (kiApply (aoInformers o'))) = itemToDesire (crCodec A) (crJson A) (crAcc A)"
    and "crAcc A = ApplyDesire_accessor"
  using assms by (auto simp: ToKubeApplierOptions_def Let_def NewKubeApplierInformersWithOptions_def newDesireInformer_def
      NewWatchAdapter_def ItemToApplyDesire_def db_client_defs split: sum.splits)

section \<open>The command\<close>

lemma create_apply_run:
  assumes "resolve tool_flags (map cmDecl (tool_commands env)) argv = Inr (0, p)"
    and "tool_main resolve env argv w = Some (Returned None out, w')"
  obtains opts client raw ref w0 stored where "teLoadAWS env opts = Inr client"
    and "load_manifest (teFiles env) (teJson env) (teYamlToJSON env) (str_flag p ''file'') w = (Inr (raw, ref), w0)"
    and "dyn_Create (ApplyDesireStatusTable (tool_db env client (str_flag p ''specs-table'')))
       (tool_apply_desire (str_flag p ''cluster-id'') (str_flag p ''node-pool'') ref raw
         (tool_document (teUuid env) (str_flag p ''task-key'') ref)) w0 = (Inr stored, w')"
proof -
  from assms obtain clients where cl: "twoDBClients env p = Inr clients"
    and run: "createApply (teFiles env) (teJson env) (teYamlToJSON env) (teUuid env) (cpSpecs clients)
      (str_flag p ''task-key'') (str_flag p ''cluster-id'') (str_flag p ''node-pool'') (str_flag p ''file'') w =
      ((None, out), w')"
    by (auto simp: tool_main_def execute_def tool_commands_def newCreateApplyCmd_def with_clients_def
        split: sum.splits prod.splits)
  from cl obtain opts client where aws: "teLoadAWS env opts = Inr client"
    and specs: "dbApplyStatus (cpSpecs clients) = dyn_ops (ApplyDesireStatusTable (tool_db env client (str_flag p ''specs-table'')))"
    by (auto simp: twoDBClients_def newDynamoDBClient_def Let_def dynamo_db_def split: sum.splits)
  from run obtain raw ref w0 where man: "load_manifest (teFiles env) (teJson env) (teYamlToJSON env) (str_flag p ''file'') w =
      (Inr (raw, ref), w0)"
    by (auto simp: createApply_def split: prod.splits sum.splits)
  from run man specs obtain stored where "dyn_Create (ApplyDesireStatusTable (tool_db env client (str_flag p ''specs-table'')))
       (tool_apply_desire (str_flag p ''cluster-id'') (str_flag p ''node-pool'') ref raw
         (tool_document (teUuid env) (str_flag p ''task-key'') ref)) w0 = (Inr stored, w')"
    by (auto simp: createApply_def dyn_ops_def split: prod.splits sum.splits)
  with that aws man show ?thesis by blast
qed

section \<open>From the command to the queue\<close>

lemma all_decode:
  assumes "table_ok ApplyDesire_untagged A rows" and "crAcc A = ApplyDesire_accessor" and "dyn_inv A rows w"
    and "rows w k = Some it"
  shows "\<exists>d. itemToDesire (crCodec A) (crJson A) (crAcc A) it = Inr d"
  using ad.dyn_docs_row [OF assms] by blast

text \<open>What a successful \<open>Create\<close> on an empty place leaves there: a row that decodes to what was to be stored, with
  the time of the clock, which the watcher reads.\<close>

lemma created_row:
  assumes "table_ok ApplyDesire_untagged A rows" and "crAcc A = ApplyDesire_accessor" and "dyn_inv A rows w"
    and "marshals_times (crCodec A)"
    and clock: "\<And>v. 0 \<le> fst (time_Now (crClient A) v) \<and> fst (time_Now (crClient A) v) < end_of_9999"
    and "dyn_Create A d w = (Inr d', w')"
  obtains it e where "rows w' = (rows w)(DocumentID d \<mapsto> it)" and "rows w (DocumentID d) = None" and "DocumentID d \<noteq> ''''"
    and "dyn_inv A rows w'" and "itemToDesire (crCodec A) (crJson A) (crAcc A) it = Inr e" and "DocumentID e = DocumentID d"
    and "(adSpec e)\<lparr>asServerSideApply := None\<rparr> = (adSpec d)\<lparr>asServerSideApply := None\<rparr>"
    and "ApplyDesire_GetSpecKubeContent e = norm_content (crJson A) (ApplyDesire_GetSpecKubeContent d)"
    and "extractDocumentIDAndUpdateTime it = Some (DocumentID d, UpdateTime e)"
  using assms(1,6)
proof (cases rule: dyn_Create_cases)
  case (unwritten err)
  then show thesis by simp
next
  case (written d'' it)
  then have d': "d'' = d'" by simp
  note item = written(4) [unfolded d']
  have id: "DocumentID d' = DocumentID d" using written(3) d' by simp
  let ?e = "ad.dyn_norm A d'"
  have dec: "itemToDesire (crCodec A) (crJson A) (crAcc A) it = Inr ?e"
    by (rule ad.dyn_docs_decode [OF assms(1,2) item])
  have fresh: "rows w (DocumentID d) = None"
  proof (cases "rows w (DocumentID d)")
    case (Some old)
    from ad.dyn_docs_row [OF assms(1-3) Some] have "old attributeDocumentID \<noteq> None" by fastforce
    with written(5) Some show ?thesis by simp
  qed
  have inv: "dyn_inv A rows w'"
    using dyn_inv_put [OF assms(3) item] written(6) id by simp
  from written(3) d' obtain t where "d' = d\<lparr>Version := 1, UpdateTime := t, CreateTime := t\<rparr>" unfolding created_def by blast
  then have spec: "adSpec d' = adSpec d" by simp
  have stub: "extractDocumentIDAndUpdateTime it = Some (DocumentID d, UpdateTime ?e)"
    using row_stub [OF table_okD(1) [OF assms(1)] assms(4) item] clock [of w] dyn_Create_time [OF assms(6)]
    by (simp add: id)
  note view = ad_stored_view [of "norm_content (crJson A)", OF norm_content_None, of d']
  have "ApplyDesire_GetSpecKubeContent ?e = norm_content (crJson A) (ApplyDesire_GetSpecKubeContent d')"
    by (simp add: view ApplyDesire_GetSpecKubeContent_def split: option.split)
  moreover have "ApplyDesire_GetSpecKubeContent d' = ApplyDesire_GetSpecKubeContent d"
    by (simp add: ApplyDesire_GetSpecKubeContent_def spec)
  moreover have "(adSpec ?e)\<lparr>asServerSideApply := None\<rparr> = (adSpec d)\<lparr>asServerSideApply := None\<rparr>"
    by (simp add: view spec)
  ultimately show thesis
    using that [OF written(6) fresh written(2) inv dec _ _ _ stub] id by simp
qed


lemma spec_but_content:
  assumes "a\<lparr>asServerSideApply := None\<rparr> = b\<lparr>asServerSideApply := None\<rparr>"
  shows "asTargetItem a = asTargetItem b" "asType a = asType b" "asManagementCluster a = asManagementCluster b"
    "asClusterID a = asClusterID b" "asNodePoolName a = asNodePoolName b"
  using assms by (cases a; cases b; simp)+

text \<open>The row that \<open>create-apply\<close> leaves in the table of the binary.\<close>

lemma create_apply_row:
  assumes cobra: "cobra_ok resolve"
    and tool: "resolve tool_flags (map cmDecl (tool_commands tenv)) targv = Inr (0, p)" "\<not> pvChanged p ''specs-table''"
    and created: "tool_main resolve tenv targv w = Some (Returned None out, w1)"
    and binary: "resolve [] [cmDecl (NewCmdRoot setV kenv run)] kargv = Inr (j, q)" "\<not> pvChanged q ''specs-table''"
      "str_flag q ''management-cluster'' = ''dev-local''"
    and options: "ToKubeApplierOptions kenv (parsed_flags q) = Inr o'"
    and A_def: "A = ApplyDesireSpecs (aoKubeApplierDBClient o')"
    and same: "\<And>opts cl. teLoadAWS tenv opts = Inr cl \<Longrightarrow> cl = specsClient (aoKubeApplierDBClient o')"
      "teApplyCodec tenv = envApplyCodec kenv" "teJson tenv = envJson kenv"
    and table: "table_ok ApplyDesire_untagged A rows" "dyn_inv A rows w"
    and files: "\<And>path v. rows (snd (fsReadFile (teFiles tenv) path v)) = rows v"
    and times: "marshals_times (crCodec A)"
      "\<And>v. 0 \<le> fst (time_Now (crClient A) v) \<and> fst (time_Now (crClient A) v) < end_of_9999"
  obtains raw ref d it e where "tool_resourceRefFromManifest (teJson tenv) raw = Inr ref"
    and "d = tool_apply_desire (str_flag p ''cluster-id'') (str_flag p ''node-pool'') ref raw
      (tool_document (teUuid tenv) (str_flag p ''task-key'') ref)"
    and "rows w1 = (rows w)(DocumentID d \<mapsto> it)" and "rows w (DocumentID d) = None" and "DocumentID d \<noteq> ''''"
    and "dyn_inv A rows w1" and "itemToDesire (crCodec A) (crJson A) (crAcc A) it = Inr e" and "DocumentID e = DocumentID d"
    and "(adSpec e)\<lparr>asServerSideApply := None\<rparr> = (adSpec d)\<lparr>asServerSideApply := None\<rparr>"
    and "ApplyDesire_GetSpecKubeContent e = norm_content (teJson tenv) (Some \<lparr>Raw = raw\<rparr>)"
    and "extractDocumentIDAndUpdateTime it = Some (DocumentID d, UpdateTime e)"
proof -
  have "StringVar ''specs-table'' ''mc-dev-local-specs'' \<in>
      set (flags_of tool_flags (map cmDecl (tool_commands tenv) ! 0))"
    by (simp add: flags_of_def tool_flags_def tool_commands_def newCreateApplyCmd_def StringVar_def)
  from str_flag_default [OF cobra tool(1) this tool(2)]
  have specs: "str_flag p ''specs-table'' = ''mc-dev-local-specs''" .
  obtain opts client raw ref w0 stored where aws: "teLoadAWS tenv opts = Inr client"
    and man: "load_manifest (teFiles tenv) (teJson tenv) (teYamlToJSON tenv) (str_flag p ''file'') w = (Inr (raw, ref), w0)"
    and create: "dyn_Create (ApplyDesireStatusTable (tool_db tenv client (str_flag p ''specs-table'')))
       (tool_apply_desire (str_flag p ''cluster-id'') (str_flag p ''node-pool'') ref raw
         (tool_document (teUuid tenv) (str_flag p ''task-key'') ref)) w0 = (Inr stored, w1)"
    using create_apply_run [OF tool(1) created] by blast
  have A: "ApplyDesireStatusTable (tool_db tenv client (str_flag p ''specs-table'')) = A"
    unfolding A_def specs
    by (rule tool_writes_specs [OF options parsed_tables(1) [OF cobra binary(1,2)] _ same(1) [OF aws] same(2,3)])
      (simp add: parsed_flags_def binary(3))
  have acc: "crAcc A = ApplyDesire_accessor" unfolding A_def by (rule options_decode(2) [OF options])
  have J: "crJson A = teJson tenv"
    using options same(3) by (auto simp: A_def ToKubeApplierOptions_def db_client_defs Let_def split: sum.splits)
  have rows0: "rows w0 = rows w" using man files [of "str_flag p ''file''" w]
    by (auto simp: load_manifest_def split: prod.splits sum.splits)
  then have inv0: "dyn_inv A rows w0" using table(2) by (simp add: dyn_inv_def)
  have ref: "tool_resourceRefFromManifest (teJson tenv) raw = Inr ref"
    using man by (auto simp: load_manifest_def split: prod.splits sum.splits)
  define d where "d = tool_apply_desire (str_flag p ''cluster-id'') (str_flag p ''node-pool'') ref raw
    (tool_document (teUuid tenv) (str_flag p ''task-key'') ref)"
  have "ApplyDesire_GetSpecKubeContent d = Some \<lparr>Raw = raw\<rparr>"
    by (simp add: d_def tool_apply_desire_def ApplyDesire_GetSpecKubeContent_def)
  with created_row [OF table(1) acc inv0 times create [unfolded A, folded d_def]] that [OF ref d_def] show thesis
    unfolding rows0 J by metis
qed


section \<open>A run\<close>

text \<open>A database in which each table holds one row, a marshaller that writes times as strings, and a manifest.\<close>

type_synonym onedb = "string \<Rightarrow> item option"

definition one_row :: "string \<Rightarrow> onedb \<Rightarrow> string \<Rightarrow> item option" where
  "one_row tbl w k = (case w tbl of None \<Rightarrow> None
     | Some it \<Rightarrow> if it attributeDocumentID = Some (AV_S k) then Some it else None)"

definition one_page :: "string \<Rightarrow> onedb \<Rightarrow> item list" where
  "one_page tbl w = (case w tbl of None \<Rightarrow> []
     | Some it \<Rightarrow> (case it attributeDocumentID of Some (AV_S k) \<Rightarrow> [it] | _ \<Rightarrow> []))"

definition one_tables :: "onedb dynamo_client" where
  "one_tables = \<lparr>dc_GetItem = (\<lambda>tbl k w. (Inr (one_row tbl w k), w)),
     dc_PutItem = (\<lambda>tbl it c w. (case it attributeDocumentID of
         Some (AV_S k) \<Rightarrow>
           (if \<not> put_allowed c (one_row tbl w k)
            then (Some (ConditionalCheckFailedException ''The conditional request failed''), w)
            else if w tbl = None \<or> one_row tbl w k \<noteq> None then (None, w(tbl := Some it))
            else (Some (ErrorString ''full''), w))
       | _ \<Rightarrow> (Some (ErrorString ''ValidationException''), w))),
     dc_DeleteItem = (\<lambda>tbl k w. (None, if one_row tbl w k = None then w else w(tbl := None))),
     dc_Scan = (\<lambda>tbl start w. (Inr (one_page tbl w, None), w)),
     time_Now = (\<lambda>w. (63839664000 * second, w))\<rparr>"

definition one_poll :: "onedb poll_client" where
  "one_poll = \<lparr>pcScan = (\<lambda>tbl start w. (Inr (one_page tbl w, None), w)),
     pcQuery = (\<lambda>tbl shard since start w. (Inr ([], None), w)), pcBatchGetItem = (\<lambda>req w. (Inr ([], []), w)),
     pcWait = (\<lambda>d w. (None, w)), pcNow = (\<lambda>w. (63839664000 * second, w))\<rparr>"

lemma one_row_writes:
  "it attributeDocumentID = Some (AV_S k) \<Longrightarrow> w tbl = None \<or> one_row tbl w k \<noteq> None \<Longrightarrow>
   one_row tbl (w(tbl := Some it)) = (one_row tbl w)(k \<mapsto> it)"
  "one_row tbl w k \<noteq> None \<Longrightarrow> one_row tbl (w(tbl := None)) = (one_row tbl w)(k := None)"
  "one_row tbl w k = None \<Longrightarrow> (one_row tbl w)(k := None) = one_row tbl w"
  by (auto simp: one_row_def fun_eq_iff split: option.splits if_splits)

lemma one_tables_ok: "dynamo_table one_tables tbl (one_row tbl)"
  unfolding dynamo_table_def
  by (auto simp: one_tables_def one_row_writes library_error_def db_error_defs isConditionalCheckFailed_def
      split: option.splits AttributeValue.splits if_splits)

lemma one_page_rows: "set (one_page tbl w) = ran (one_row tbl w)"
proof (cases "w tbl")
  case (Some it)
  then show ?thesis
  proof (cases "\<exists>k. it attributeDocumentID = Some (AV_S k)")
    case False
    then have "\<And>k. Some (AV_S k) \<noteq> it attributeDocumentID" by metis
    with Some False show ?thesis by (auto simp: one_page_def one_row_def ran_def split: option.split AttributeValue.split)
  qed (auto simp: one_page_def one_row_def ran_def)
qed (simp add: one_page_def one_row_def ran_def)

lemma one_poll_ok: "scan_pages_ok one_poll tbl (one_row tbl) (\<lambda>w start. one_page tbl w)"
proof -
  have "keyed (one_row tbl w)" for w
    by (auto simp: keyed_def one_row_def attributeDocumentID_def split: option.splits if_splits)
  then show ?thesis by (simp add: scan_pages_ok_def pages_ok_def one_poll_def one_page_rows)
qed

definition time_codec :: "ApplyDesire attributevalue_codec" where
  "time_codec = \<lparr>MarshalMap = (\<lambda>d. case sample_marshal d of Inl e \<Rightarrow> Inl e
       | Inr it \<Rightarrow> Inr (it(''updateTime'' \<mapsto> AV_S (format_RFC3339Nano (UpdateTime d)), ''exact'' \<mapsto> av_int (UpdateTime d)))),
     UnmarshalMap = (\<lambda>it. case sample_unmarshal (it(''updateTime'' := it ''exact'')) of
         Inl e \<Rightarrow> Inr zero_ApplyDesire | Inr d \<Rightarrow> Inr d)\<rparr>"

lemma time_codec_marshals: "marshals_times time_codec"
  by (auto simp: marshals_times_def time_codec_def split: sum.splits)

lemma time_codec_ok: "codec_ok ApplyDesire_untagged time_codec"
proof -
  have "UnmarshalMap time_codec (it ++ extra) = Inr (ApplyDesire_untagged d)"
    if m: "MarshalMap time_codec d = Inr it" and extra: "dom extra \<subseteq> added_attributes" for d it extra
  proof -
    have "extra k = None" if "k \<notin> added_attributes" for k using extra that by auto
    then have none: "extra ''version'' = None" "extra ''updateTime'' = None"
      "extra ''createTime'' = None" "extra ''spec'' = None" "extra ''status'' = None" "extra ''exact'' = None"
      by (simp_all add: added_attributes_def attribute_names)
    from m have it: "it ''version'' = Some (av_int (sint (Version d)))" "it ''exact'' = Some (av_int (UpdateTime d))"
      "it ''createTime'' = Some (av_int (CreateTime d))" "it ''spec'' = Some (av_apply_spec (adSpec d))"
      "it ''status'' = Some (av_apply_status (adStatus d))"
      by (auto simp: time_codec_def sample_marshal_def)
    with none show ?thesis
      by (simp add: time_codec_def sample_unmarshal_def map_add_def ApplyDesire_untagged_def
          av_get_apply_spec_def av_apply_spec_def numeral_eq_Suc)
  qed
  moreover have "dom it \<inter> added_attributes = {} \<and> it ''version'' = Some (AV_N (show_int (sint (Version d))))"
    if "MarshalMap time_codec d = Inr it" for d it
    using that by (auto simp: time_codec_def sample_marshal_def added_attributes_def attribute_names av_int_def)
  ultimately show ?thesis
    by (simp add: codec_ok_def) (simp add: time_codec_def sample_marshal_def)
qed

definition one_json :: json_lib where
  "one_json = \<lparr>json_Unmarshal = (\<lambda>s. Inr (sample_manifest s)),
     json_Marshal = (\<lambda>v. if v = sample_manifest ''n'' then Inr ''n'' else Inl (ErrorString ''marshal'')),
     json_Valid = (\<lambda>s. True)\<rparr>"

lemma one_json_ok: "json_ok one_json"
  by (simp add: json_ok_def one_json_def)

definition one_sdk :: "onedb sdk_client" where "one_sdk = \<lparr>sdkTables = one_tables, sdkPoll = one_poll\<rparr>"

definition one_files :: "onedb file_system" where
  "one_files = \<lparr>fsStat = (\<lambda>path w. (Inr False, w)), fsWalk = (\<lambda>path w. ([], w)), fsReadFile = (\<lambda>path w. (Inr ''n'', w)),
     fsMkdirAll = (\<lambda>path w. (None, w)), fsWriteFile = (\<lambda>path data w. (None, w)), osIsNotExist = (\<lambda>e. False)\<rparr>"

definition one_tool :: "onedb tool_env" where
  "one_tool = \<lparr>teFiles = one_files, teJson = one_json, teYamlToJSON = (\<lambda>s. Inr s), teUuid = plain_uuid,
     teMarshalPrefix = (\<lambda>s v. Inr ''''), teGetenv = (\<lambda>s. ''''), teLoadAWS = (\<lambda>opts. Inr one_tables),
     teApplyCodec = time_codec, teReadCodec = bare_read_codec\<rparr>"

definition one_env :: "(onedb, unit, unit, unit, unit) environment" where
  "one_env = \<lparr>envClientConfig = (\<lambda>path. Inr ()), envHostname = Inr ''host'',
     envNewLock = (\<lambda>kind ns name identity cfg deadline. Inr ()), envLoadAWS = (\<lambda>opts. Inr ()),
     envNewClient = (\<lambda>cfg. one_sdk), envNewForConfig = (\<lambda>cfg. Inr ()), envApplyCodec = time_codec,
     envReadCodec = bare_read_codec, envJson = one_json\<rparr>"

definition tool_args :: "string list" where
  "tool_args = [''create-apply'', ''--task-key=t'', ''--cluster-id=c'', ''--file=f'']"

definition binary_args :: "string list" where
  "binary_args = [''--namespace=n'', ''--management-cluster=dev-local'', ''--aws-region=r'']"

lemma tool_args_parse:
  "\<exists>p. simple_resolve tool_flags (map cmDecl (tool_commands env)) tool_args = Inr (0, p) \<and>
     \<not> pvChanged p ''specs-table'' \<and> str_flag p ''specs-table'' = ''mc-dev-local-specs''"
  by (simp add: simple_resolve_def tool_args_def tool_commands_def tool_command_defs Let_def simple_parse_def
      given_flag_def flags_of_def tool_flags_def flag_defs str_flag_def simple_value_def)

lemma binary_args_parse:
  "\<exists>q. simple_resolve [] [cmDecl (NewCmdRoot setV env run)] binary_args = Inr (0, q) \<and>
     \<not> pvChanged q ''specs-table'' \<and> str_flag q ''management-cluster'' = ''dev-local''"
  by (simp add: simple_resolve_def binary_args_def NewCmdRoot_def AddFlags_def required_flags_def Let_def simple_parse_def
      given_flag_def flags_of_def flag_defs str_flag_def simple_value_def)

lemma one_options:
  assumes "rfSpecsTablePrefix f = ''''" and "rfManagementCluster f = ''dev-local''"
  obtains o' where "ToKubeApplierOptions one_env f = Inr o'"
    and "ApplyDesireSpecs (aoKubeApplierDBClient o') = \<lparr>crClient = one_tables,
      crTable = ''mc-dev-local-specs-applydesires'', crCodec = time_codec, crJson = one_json, crAcc = ApplyDesire_accessor\<rparr>"
    and "specsClient (aoKubeApplierDBClient o') = one_tables"
    and "waClient (diWatch (kiApply (aoInformers o'))) = one_poll"
    and "waTable (diWatch (kiApply (aoInformers o'))) = ''mc-dev-local-specs-applydesires''"
    and "waDecode (diWatch (kiApply (aoInformers o'))) = ItemToApplyDesire time_codec one_json"
    and "waResultCh (diWatch (kiApply (aoInformers o'))) = []"
  using assms by (simp add: ToKubeApplierOptions_def one_env_def one_sdk_def NewKubeconfig_def NewLeaderElectionLock_def
      NewDynamoDBConfig_def NewDynamicClient_def Let_def table_prefix_def db_client_defs
      NewKubeApplierInformersWithOptions_def newDesireInformer_def NewWatchAdapter_def)

lemma one_ref: "tool_resourceRefFromManifest one_json s = Inr (sample_ref s)"
  by (simp add: one_json_def tool_resourceRefFromManifest_def unmarshal_object_def sample_manifest_def field_string_def
      field_map_def field_object_def sample_ref_def split_api_version_def guessResource_def Let_def)

lemma one_load: "load_manifest one_files one_json (\<lambda>s. Inr s) path w = (Inr (''n'', sample_ref ''n''), w)"
  by (simp add: load_manifest_def one_files_def one_ref)

lemma one_item: "\<exists>it. desireToItem time_codec one_json ApplyDesire_accessor
    (tool_apply_desire c n r ''n'' k\<lparr>Version := v, UpdateTime := t, CreateTime := t\<rparr>) = Inr it \<and>
    it attributeDocumentID = Some (AV_S k)"
proof -
  let ?d = "tool_apply_desire c n r ''n'' k\<lparr>Version := v, UpdateTime := t, CreateTime := t\<rparr>"
  have "\<exists>it. desireToItem time_codec one_json ApplyDesire_accessor ?d = Inr it"
    by (simp add: desireToItem_def time_codec_def sample_marshal_def kubeContentAttributeValues_def one_json_def
        rawExtToString_def ApplyDesire_accessor_def tool_apply_desire_def accessor_defs zero_ApplyDesire_def Let_def)
  then obtain it where it: "desireToItem time_codec one_json ApplyDesire_accessor ?d = Inr it" by blast
  have "it attributeDocumentID = Some (AV_S (DocumentID ?d))"
    by (rule desireToItem_Inr [OF time_codec_ok it])
  moreover have "DocumentID ?d = k" by (simp add: tool_apply_desire_def)
  ultimately show ?thesis using it by simp
qed


lemma one_create: "k \<noteq> '''' \<Longrightarrow> \<exists>d w'. dyn_Create (ApplyDesireStatusTable (tool_db one_tool one_tables tbl))
    (tool_apply_desire c n r ''n'' k) Map.empty = (Inr d, w')"
  using one_item [where c = c and n = n and r = r and k = k and v = 1 and t = "63839664000 * second"]
  by (auto simp: dyn_Create_def db_client_defs tool_db_def one_tool_def one_tables_def one_row_def tool_apply_desire_def Let_def)

lemma one_run: "\<exists>out w1. tool_main simple_resolve one_tool tool_args Map.empty = Some (Returned None out, w1)"
proof -
  obtain p where p: "simple_resolve tool_flags (map cmDecl (tool_commands one_tool)) tool_args = Inr (0, p)"
    using tool_args_parse by blast
  let ?k = "tool_document plain_uuid (str_flag p ''task-key'') (sample_ref ''n'')"
  have "?k \<noteq> ''''" by (simp add: tool_document_def NewDocumentID_def documentIDInput_def)
  from one_create [OF this] obtain d w' where
    create: "dyn_Create (ApplyDesireStatusTable (tool_db one_tool one_tables (str_flag p ''specs-table'')))
      (tool_apply_desire (str_flag p ''cluster-id'') (str_flag p ''node-pool'') (sample_ref ''n'') ''n'' ?k) Map.empty = (Inr d, w')"
    by blast
  have env: "teFiles one_tool = one_files" "teJson one_tool = one_json" "teYamlToJSON one_tool = (\<lambda>s. Inr s)"
    "teUuid one_tool = plain_uuid" "\<And>opts. teLoadAWS one_tool opts = Inr one_tables" by (simp_all add: one_tool_def)
  have "twoDBClients one_tool p = Inr \<lparr>cpSpecs = dynamo_db (tool_db one_tool one_tables (str_flag p ''specs-table'')),
      cpStatus = dynamo_db (tool_db one_tool one_tables (str_flag p ''status-table''))\<rparr>"
    by (simp add: twoDBClients_def newDynamoDBClient_def Let_def env)
  moreover have "execute simple_resolve tool_flags (tool_commands one_tool) tool_args =
      Inr (cmRun (newCreateApplyCmd one_tool) p)"
    by (simp add: execute_def p) (simp add: tool_commands_def)
  ultimately show ?thesis
    by (simp add: tool_main_def newCreateApplyCmd_def with_clients_def createApply_def env one_load dynamo_db_def dyn_ops_def create)
qed

lemma one_relist: "\<exists>c' evs w2. runRelist one_poll tbl newCache w = Some ((True, c', evs), w2) \<and> length evs \<le> resultCap"
proof -
  have "\<exists>m. ScanAll one_poll tbl w = Some (Inr m, w)"
    by (simp add: ScanAll_def scanAllFrom.simps one_poll_def)
  moreover have "pcNow one_poll w = (63839664000 * second, w)" by (simp add: one_poll_def)
  ultimately have "\<exists>c' evs w2. runRelist one_poll tbl newCache w = Some ((True, c', evs), w2)"
    by (auto simp: runRelist_def split: prod.split)
  then obtain c' evs w2 where r: "runRelist one_poll tbl newCache w = Some ((True, c', evs), w2)" by blast
  have clock: "one_row tbl (snd (pcNow one_poll v)) = one_row tbl v" for v by (simp add: one_poll_def)
  note rel = relist_changes_of [OF one_poll_ok clock newCache_simps(1) coherent_new r]
  have "\<exists>k. set (map fst evs) \<subseteq> {k}"
  proof (cases "w tbl")
    case None
    then have "map_of evs k = None" for k by (simp add: rel(2) stubs_of_def one_row_def)
    then show ?thesis by (auto simp: map_of_eq_None_iff)
  next
    case (Some it)
    have key: "it attributeDocumentID = Some (AV_S k)" if "k \<in> set (map fst evs)" for k
    proof -
      from that have "map_of evs k \<noteq> None" by (simp add: map_of_eq_None_iff)
      then have "stubs_of Map.empty k \<noteq> stubs_of (one_row tbl w) k" by (simp add: rel(2) split: if_splits)
      then have "one_row tbl w k \<noteq> None" by (cases "one_row tbl w k") (simp_all add: stubs_of_def)
      with Some show ?thesis by (auto simp: one_row_def split: if_splits)
    qed
    show ?thesis
    proof (cases evs)
      case (Cons ev evs')
      have "set (map fst evs) \<subseteq> {fst ev}"
      proof
        fix k assume "k \<in> set (map fst evs)"
        with key [OF this] key [of "fst ev"] show "k \<in> {fst ev}" by (simp add: Cons)
      qed
      then show ?thesis by blast
    qed simp
  qed
  then obtain k where "set (map fst evs) \<subseteq> {k}" by blast
  from card_mono [OF _ this] have "length evs \<le> 1" using distinct_card [OF rel(1)] by simp
  with r show ?thesis by (auto simp: resultCap_def)
qed



section \<open>Update times as text\<close>

text \<open>
  C33: the watcher reads of a row exactly what the store wrote: a document that was encoded for its table has, for
  the watcher, the identifier and the update time it was stored with, to the nanosecond, although the time is kept as
  text and parsed again, for all times of the years 1 to 9999; so two revisions have the same stub only if they have
  the same update time.
\<close>

theorem stub_roundtrip:
  assumes "codec_ok untagged lib" and "marshals_times lib"
    and "desireToItem lib J acc d = Inr it" and "desireToItem lib J acc e = Inr it'"
    and "0 \<le> UpdateTime d" "UpdateTime d < end_of_9999" and "0 \<le> UpdateTime e" "UpdateTime e < end_of_9999"
  shows "extractDocumentIDAndUpdateTime it = Some (DocumentID d, UpdateTime d) \<and>
    (stub_of it = stub_of it' \<longleftrightarrow> UpdateTime d = UpdateTime e)"
  using row_stub [OF assms(1-3,5,6)] row_stub [OF assms(1,2,4,7,8)] by (simp add: stub_of_def)

lemma stub_roundtrip_witness:
  "\<exists>it. desireToItem time_codec one_json ApplyDesire_accessor (tool_apply_desire ''c'' ''p'' (sample_ref ''n'') ''n'' ''k''\<lparr>Version := 1,
     UpdateTime := 63839664000123456789, CreateTime := 63839664000123456789\<rparr>) = Inr it \<and>
   extractDocumentIDAndUpdateTime it = Some (''k'', 63839664000123456789)"
proof -
  let ?d = "tool_apply_desire ''c'' ''p'' (sample_ref ''n'') ''n'' ''k''\<lparr>Version := 1, UpdateTime := 63839664000123456789,
     CreateTime := 63839664000123456789\<rparr>"
  obtain it where it: "desireToItem time_codec one_json ApplyDesire_accessor ?d = Inr it" using one_item by blast
  have "DocumentID ?d = ''k''" by (simp add: tool_apply_desire_def)
  with stub_roundtrip [OF time_codec_ok time_codec_marshals it it] it show ?thesis by simp
qed

end
